(* ===== verification/Vrsp_Prelude.thy ===== *)
theory Vrsp_Prelude
  imports Main "HOL-Library.Word" "HOL-Library.Sublist"
begin

text \<open>
  Shared vocabulary of the development: byte strings, the exceptions of the Python program, the
  result type of code that may raise, the state-and-exception computations of code that also
  mutates an object, and the parts of Python's standard library (slices, \<open>rstrip\<close>,
  \<open>split\<close>, \<open>int.from_bytes\<close>, \<open>int.to_bytes\<close>) that several components use.
  The generic lemmas are simp rules or members of the collections \<open>py_simps\<close> (definitions of
  the Python operations) and \<open>res_splits\<close> (case splits of results), so that the component
  proofs stay short.
\<close>

named_theorems py_simps \<open>unfolding rules of the Python operations\<close>

section \<open>Bytes, results, exceptions\<close>

type_synonym byte = "8 word"
type_synonym bytes = "8 word list"

text \<open>The status code an \<open>ApiError\<close> of the SM-DP+ carries: subject code, reason code, the
  optional subject identifier and the optional message (\<open>build_status_code\<close>).\<close>

record status_code =
  subjectCode :: string
  reasonCode :: string
  subjectIdentifier :: "string option"
  status_message :: "string option"

text \<open>One constructor per exception class the modelled code raises or lets through.
  \<open>NonTermination\<close> is no exception of Python: a model of a loop returns it where the
  source would run forever, so that a claim of success also says that the loop ends.\<close>

datatype py_error =
    ValueError
  | KeyError
  | IndexError
  | AssertionError
  | AttributeError
  | TypeError
  | OverflowError
  | NotImplementedError
  | RuntimeError
  | OSError
  | GenericException
  | InvalidSignature
  | ExtensionNotFound
  | VerifyError
  | ApiError status_code
  | ProfileError
  | ProtocolError
  | SwMatchError string
  | OtaCheckError
  | NonTermination

type_synonym 'a result = "py_error + 'a"

text \<open>A computation on a mutable object or on the server: it returns a value or raises, and in
  both cases leaves the object in some state.\<close>

type_synonym ('s, 'a) comp = "'s \<Rightarrow> 'a result \<times> 's"

definition bindR :: "'a result \<Rightarrow> ('a \<Rightarrow> 'b result) \<Rightarrow> 'b result" where
  "bindR m f = (case m of Inl e \<Rightarrow> Inl e | Inr x \<Rightarrow> f x)"

definition assertR :: "bool \<Rightarrow> 'a result \<Rightarrow> 'a result" where
  "assertR b r = (if b then r else Inl AssertionError)"

definition catchR :: "'a result \<Rightarrow> (py_error \<Rightarrow> 'a result) \<Rightarrow> 'a result" where
  "catchR m h = (case m of Inl e \<Rightarrow> h e | Inr x \<Rightarrow> Inr x)"

fun mapR :: "('a \<Rightarrow> 'b result) \<Rightarrow> 'a list \<Rightarrow> 'b list result" where
  "mapR f [] = Inr []"
| "mapR f (x # xs) = bindR (f x) (\<lambda>y. bindR (mapR f xs) (\<lambda>ys. Inr (y # ys)))"

definition retS :: "'a \<Rightarrow> ('s, 'a) comp" where
  "retS x s = (Inr x, s)"

definition raiseS :: "py_error \<Rightarrow> ('s, 'a) comp" where
  "raiseS e s = (Inl e, s)"

definition liftS :: "'a result \<Rightarrow> ('s, 'a) comp" where
  "liftS r s = (r, s)"

definition bindS :: "('s, 'a) comp \<Rightarrow> ('a \<Rightarrow> ('s, 'b) comp) \<Rightarrow> ('s, 'b) comp" where
  "bindS m f s = (case m s of (Inl e, s') \<Rightarrow> (Inl e, s') | (Inr x, s') \<Rightarrow> f x s')"

fun mapS :: "('a \<Rightarrow> ('s, 'b) comp) \<Rightarrow> 'a list \<Rightarrow> ('s, 'b list) comp" where
  "mapS f [] = retS []"
| "mapS f (x # xs) = bindS (f x) (\<lambda>y. bindS (mapS f xs) (\<lambda>ys. retS (y # ys)))"

lemma bindR_simps [simp]:
  "bindR (Inl e) f = Inl e"
  "bindR (Inr x) f = f x"
  by (simp_all add: bindR_def)

lemma bindR_eq_Inr [simp]: "bindR m f = Inr y \<longleftrightarrow> (\<exists>x. m = Inr x \<and> f x = Inr y)"
  by (cases m) simp_all

lemma bindR_eq_Inl: "bindR m f = Inl e \<longleftrightarrow> m = Inl e \<or> (\<exists>x. m = Inr x \<and> f x = Inl e)"
  by (cases m) simp_all

lemma bindR_assoc: "bindR (bindR m f) g = bindR m (\<lambda>x. bindR (f x) g)"
  by (cases m) simp_all

lemma bindR_cong [fundef_cong]:
  "m = m' \<Longrightarrow> (\<And>x. m' = Inr x \<Longrightarrow> f x = g x) \<Longrightarrow> bindR m f = bindR m' g"
  by (cases m') simp_all

lemma assertR_simps [simp]:
  "assertR True r = r"
  "assertR False r = Inl AssertionError"
  by (simp_all add: assertR_def)

lemma assertR_eq_Inr [simp]: "assertR b r = Inr y \<longleftrightarrow> b \<and> r = Inr y"
  by (cases b) simp_all

lemma catchR_simps [simp]:
  "catchR (Inl e) h = h e"
  "catchR (Inr x) h = Inr x"
  by (simp_all add: catchR_def)

lemma mapR_eq_Inr: "mapR f xs = Inr ys \<longleftrightarrow> list_all2 (\<lambda>x y. f x = Inr y) xs ys"
  by (induction xs arbitrary: ys) (auto simp: list_all2_Cons1)

lemma mapR_total: "(\<And>x. x \<in> set xs \<Longrightarrow> f x = Inr (g x)) \<Longrightarrow> mapR f xs = Inr (map g xs)"
  by (induction xs) simp_all

lemma retS_apply [simp]: "retS x s = (Inr x, s)"
  by (simp add: retS_def)

lemma raiseS_apply [simp]: "raiseS e s = (Inl e, s)"
  by (simp add: raiseS_def)

lemma liftS_apply [simp]: "liftS r s = (r, s)"
  by (simp add: liftS_def)

lemma bindS_Inr [simp]: "m s = (Inr x, s') \<Longrightarrow> bindS m f s = f x s'"
  by (simp add: bindS_def)

lemma bindS_Inl [simp]: "m s = (Inl e, s') \<Longrightarrow> bindS m f s = (Inl e, s')"
  by (simp add: bindS_def)

lemma bindS_eq_Inr:
  "bindS m f s = (Inr y, s'') \<longleftrightarrow> (\<exists>x s'. m s = (Inr x, s') \<and> f x s' = (Inr y, s''))"
  by (auto simp: bindS_def split: prod.splits sum.splits)

lemma bindS_split:
  "P (bindS m f s) \<longleftrightarrow>
     (\<forall>e s'. m s = (Inl e, s') \<longrightarrow> P (Inl e, s')) \<and>
     (\<forall>x s'. m s = (Inr x, s') \<longrightarrow> P (f x s'))"
  by (auto simp: bindS_def split: prod.splits sum.splits)

lemma bindS_retS [simp]: "bindS (retS x) f = f x"
  by (rule ext) simp

lemma bindS_assoc: "bindS (bindS m f) g = bindS m (\<lambda>x. bindS (f x) g)"
  by (rule ext) (simp add: bindS_def split: prod.splits sum.splits)

lemma bindS_retS_right [simp]: "bindS m retS = m"
  by (rule ext) (simp add: bindS_def split: prod.splits sum.splits)

lemma bindS_cong [fundef_cong]:
  "m s = m' s' \<Longrightarrow> (\<And>x t. m' s' = (Inr x, t) \<Longrightarrow> f x t = g x t) \<Longrightarrow> s = s' \<Longrightarrow>
   bindS m f s = bindS m' g s'"
  by (auto simp: bindS_def split: prod.splits sum.splits)

lemma mapS_append:
  "mapS f (xs @ ys) s = bindS (mapS f xs) (\<lambda>as. bindS (mapS f ys) (\<lambda>bs. retS (as @ bs))) s"
  by (induction xs arbitrary: s) (auto simp: bindS_def split: prod.splits sum.splits)

section \<open>Python's operations on sequences, strings and integers\<close>

text \<open>\<open>xs[a:b]\<close> for bounds that are not negative, \<open>xs[:-n]\<close> and \<open>xs[-n:]\<close> for
  \<open>n > 0\<close>.\<close>

definition slice :: "nat \<Rightarrow> nat \<Rightarrow> 'a list \<Rightarrow> 'a list" where
  "slice a b xs = take (b - a) (drop a xs)"

definition but_last_n :: "nat \<Rightarrow> 'a list \<Rightarrow> 'a list" where
  "but_last_n n xs = take (length xs - n) xs"

definition last_n :: "nat \<Rightarrow> 'a list \<Rightarrow> 'a list" where
  "last_n n xs = drop (length xs - n) xs"

lemma but_last_n_append [simp]: "length ys = n \<Longrightarrow> but_last_n n (xs @ ys) = xs"
  by (simp add: but_last_n_def)

lemma last_n_append [simp]: "length ys = n \<Longrightarrow> last_n n (xs @ ys) = ys"
  by (simp add: last_n_def)

lemma but_last_n_last_n [simp]: "but_last_n n xs @ last_n n xs = xs"
  by (simp add: but_last_n_def last_n_def)

text \<open>\<open>xs[i]\<close> for an index that is not negative, raising \<open>IndexError\<close> out of range.\<close>

definition nthR :: "'a list \<Rightarrow> nat \<Rightarrow> 'a result" where
  "nthR xs i = (if i < length xs then Inr (xs ! i) else Inl IndexError)"

text \<open>\<open>bs.rstrip(b'\0')\<close>.\<close>

definition rstrip_zero :: "bytes \<Rightarrow> bytes" where
  "rstrip_zero bs = rev (dropWhile (\<lambda>b. b = 0) (rev bs))"

lemma rstrip_zero_replicate: "b \<noteq> 0 \<Longrightarrow> rstrip_zero (xs @ b # replicate n 0) = xs @ [b]"
  by (simp add: rstrip_zero_def dropWhile_append3)

text \<open>\<open>s.split(c)\<close> with a one-character separator: never empty, keeps empty fields.\<close>

fun split_on :: "'a \<Rightarrow> 'a list \<Rightarrow> 'a list list" where
  "split_on c [] = [[]]"
| "split_on c (x # xs) =
     (if x = c then [] # split_on c xs
      else (case split_on c xs of [] \<Rightarrow> [[x]] | f # fs \<Rightarrow> (x # f) # fs))"

text \<open>\<open>c.join(fields)\<close>.\<close>

fun join_with :: "'a list \<Rightarrow> 'a list list \<Rightarrow> 'a list" where
  "join_with s [] = []"
| "join_with s [f] = f"
| "join_with s (f # fs) = f @ s @ join_with s fs"

lemma split_on_nonempty [simp]: "split_on c xs \<noteq> []"
  by (induction xs) (auto split: list.splits)

lemma split_on_no_sep: "c \<notin> set xs \<Longrightarrow> split_on c xs = [xs]"
  by (induction xs) auto

lemma split_on_append_sep:
  "c \<notin> set xs \<Longrightarrow> split_on c (xs @ c # ys) = xs # split_on c ys"
  by (induction xs) auto

lemma join_split_on: "join_with [c] (split_on c xs) = xs"
proof (induction xs)
  case Nil
  then show ?case by simp
next
  case (Cons x xs)
  obtain f fs where "split_on c xs = f # fs"
    by (meson neq_Nil_conv split_on_nonempty)
  with Cons show ?case by (cases fs) auto
qed

lemma split_on_fields: "f \<in> set (split_on c xs) \<Longrightarrow> c \<notin> set f"
  by (induction xs arbitrary: f) (auto split: list.splits if_splits)

lemma unat_byte_lt [simp]: "unat (b :: byte) < 256"
  using unsigned_less [of b] by simp

text \<open>\<open>int.from_bytes(bs, 'big')\<close> and \<open>n.to_bytes(len, 'big')\<close>.\<close>

fun from_bytes_be :: "bytes \<Rightarrow> nat" where
  "from_bytes_be [] = 0"
| "from_bytes_be (b # bs) = unat b * 256 ^ length bs + from_bytes_be bs"

fun to_bytes_raw :: "nat \<Rightarrow> nat \<Rightarrow> bytes" where
  "to_bytes_raw 0 n = []"
| "to_bytes_raw (Suc l) n = to_bytes_raw l (n div 256) @ [of_nat (n mod 256)]"

definition to_bytes_be :: "nat \<Rightarrow> nat \<Rightarrow> bytes result" where
  "to_bytes_be l n = (if n < 256 ^ l then Inr (to_bytes_raw l n) else Inl OverflowError)"

lemma length_to_bytes_raw [simp]: "length (to_bytes_raw l n) = l"
  by (induction l arbitrary: n) simp_all

lemma from_bytes_be_append:
  "from_bytes_be (xs @ ys) = from_bytes_be xs * 256 ^ length ys + from_bytes_be ys"
  by (induction xs) (simp_all add: power_add algebra_simps)

lemma from_bytes_be_bound: "from_bytes_be bs < 256 ^ length bs"
proof (induction bs)
  case Nil
  then show ?case by simp
next
  case (Cons b bs)
  have "unat b \<le> 255" using unat_byte_lt [of b] by linarith
  then have "unat b * 256 ^ length bs \<le> 255 * 256 ^ length bs" by (rule mult_le_mono1)
  with Cons have "unat b * 256 ^ length bs + from_bytes_be bs < 256 * 256 ^ length bs" by linarith
  then show ?case by simp
qed

lemma from_to_bytes_raw: "n < 256 ^ l \<Longrightarrow> from_bytes_be (to_bytes_raw l n) = n"
proof (induction l arbitrary: n)
  case 0
  then show ?case by simp
next
  case (Suc l)
  then have "n div 256 < 256 ^ l" by (simp add: less_mult_imp_div_less mult.commute)
  moreover have "unat (of_nat (n mod 256) :: byte) = n mod 256"
    by (simp add: unat_of_nat)
  ultimately show ?case using Suc.IH [of "n div 256"] by (simp add: from_bytes_be_append)
qed

lemma to_from_bytes_raw: "to_bytes_raw (length bs) (from_bytes_be bs) = bs"
proof (induction bs rule: rev_induct)
  case Nil
  then show ?case by simp
next
  case (snoc b bs)
  have "unat b < 256" by (rule unat_byte_lt)
  then show ?case using snoc by (simp add: from_bytes_be_append)
qed

lemma to_bytes_be_eq_Inr [simp]: "to_bytes_be l n = Inr bs \<longleftrightarrow> n < 256 ^ l \<and> bs = to_bytes_raw l n"
  by (auto simp: to_bytes_be_def)

section \<open>The contract of an encoder and its decoder\<close>

text \<open>Many classes of the program come as a pair: a method that serialises a value and one that
  parses it back. The locale states the contract once; each pair is an interpretation, and gets
  injectivity and the round trip of lists from it.\<close>

locale codec =
  fixes enc :: "'a \<Rightarrow> 'b result"
    and dec :: "'b \<Rightarrow> 'a result"
    and ok :: "'a \<Rightarrow> bool"
  assumes enc_total: "ok x \<Longrightarrow> \<exists>y. enc x = Inr y"
    and dec_enc: "ok x \<Longrightarrow> enc x = Inr y \<Longrightarrow> dec y = Inr x"
begin

lemma enc_inj: "ok x \<Longrightarrow> ok x' \<Longrightarrow> enc x = enc x' \<Longrightarrow> x = x'"
  using enc_total dec_enc by (metis Inr_inject)

lemma roundtrip: "ok x \<Longrightarrow> bindR (enc x) dec = Inr x"
  using enc_total dec_enc by fastforce

lemma list_total: "list_all ok xs \<Longrightarrow> \<exists>ys. mapR enc xs = Inr ys"
  by (induction xs) (use enc_total in fastforce)+

lemma list_roundtrip: "list_all ok xs \<Longrightarrow> mapR enc xs = Inr ys \<Longrightarrow> mapR dec ys = Inr xs"
  by (induction xs arbitrary: ys) (auto simp: dec_enc)

end

section \<open>The contract of a stateful sender and its receiver\<close>

text \<open>A secure channel protects one message at a time and moves a counter and a chaining value on.
  The receiver starts in the sender's state and sees \<open>view x\<close> of a message; \<open>inv n s\<close> says that the state is
  well-formed and good for at least \<open>n\<close> more messages, \<open>wire\<close> what is known of the protected
  form. The contract for one message gives that of a sequence of messages, with both
  sides in step at the end.\<close>

locale viewed_channel =
  fixes send :: "'a \<Rightarrow> ('s, 'b) comp"
    and recv :: "'b \<Rightarrow> ('s, 'v) comp"
    and view :: "'a \<Rightarrow> 'v"
    and inv :: "nat \<Rightarrow> 's \<Rightarrow> bool"
    and ok :: "'a \<Rightarrow> bool"
    and wire :: "'b \<Rightarrow> bool"
  assumes seen: "inv (Suc n) s \<Longrightarrow> ok x \<Longrightarrow>
    \<exists>c s'. send x s = (Inr c, s') \<and> recv c s = (Inr (view x), s') \<and> inv n s' \<and> wire c"
begin

lemma seen_many:
  "inv (length xs + k) s \<Longrightarrow> list_all ok xs \<Longrightarrow>
   \<exists>cs s'. mapS send xs s = (Inr cs, s') \<and> mapS recv cs s = (Inr (map view xs), s') \<and> inv k s' \<and>
     length cs = length xs \<and> list_all wire cs"
proof (induction xs arbitrary: s)
  case Nil
  then show ?case by simp
next
  case (Cons x xs)
  then obtain c s' where 1: "send x s = (Inr c, s')" "recv c s = (Inr (view x), s')" "inv (length xs + k) s'"
    "wire c"
    using seen [of "length xs + k" s x] by auto
  with Cons obtain cs s'' where
    "mapS send xs s' = (Inr cs, s'')" "mapS recv cs s' = (Inr (map view xs), s'')" "inv k s''"
    "length cs = length xs" "list_all wire cs"
    by fastforce
  with 1 show ?case by (intro exI [of _ "c # cs"] exI [of _ s'']) simp
qed

end

text \<open>A channel whose receiver gets the message itself.\<close>

locale channel =
  fixes send :: "'a \<Rightarrow> ('s, 'b) comp"
    and recv :: "'b \<Rightarrow> ('s, 'a) comp"
    and inv :: "nat \<Rightarrow> 's \<Rightarrow> bool"
    and ok :: "'a \<Rightarrow> bool"
    and wire :: "'b \<Rightarrow> bool"
  assumes one: "inv (Suc n) s \<Longrightarrow> ok x \<Longrightarrow>
    \<exists>c s'. send x s = (Inr c, s') \<and> recv c s = (Inr x, s') \<and> inv n s' \<and> wire c"

sublocale channel \<subseteq> viewed_channel send recv "\<lambda>x. x" inv ok wire
  by unfold_locales (rule one)

context channel
begin

lemma many:
  "inv (length xs + k) s \<Longrightarrow> list_all ok xs \<Longrightarrow>
   \<exists>cs s'. mapS send xs s = (Inr cs, s') \<and> mapS recv cs s = (Inr xs, s') \<and> inv k s' \<and>
     length cs = length xs \<and> list_all wire cs"
  using seen_many [of xs k s] by simp

end

end
