(* ===== verification/Ext_Libs.thy ===== *)
theory Ext_Libs
  imports Vrsp_Prelude
begin

text \<open>
  The third-party packages the program calls, as parameters of the model: one record per package,
  one field per function the program uses, and for each record the predicate that states the
  documented behaviour the program relies on. The packages are pyosmocom (\<open>osmocom.tlv\<close>,
  \<open>osmocom.utils\<close>), pycryptodomex (AES-CBC, CMAC) and cryptography (X9.63 KDF). Their code is
  not part of the repository, so no definition below says how they compute.

  The last section gives one concrete instance of each record. It stands for no code; it shows that
  the hypotheses can hold and is what the witnesses of the theorems are evaluated on.
\<close>

section \<open>osmocom.tlv\<close>

text \<open>The decoded tag \<open>bertlv_parse_one\<close> returns (only ever logged by the program).\<close>

record tag_dict =
  td_class :: nat
  td_constructed :: bool
  td_tag :: nat

record tlv_lib =
  bertlv_encode_tag :: "nat \<Rightarrow> bytes"
  bertlv_encode_len :: "nat \<Rightarrow> bytes"
  bertlv_parse_one :: "bytes \<Rightarrow> (tag_dict \<times> nat \<times> bytes \<times> bytes) result"
  bertlv_parse_one_rawtag :: "bytes \<Rightarrow> (nat \<times> nat \<times> bytes \<times> bytes) result"
  bertlv_return_one_rawtlv :: "bytes \<Rightarrow> (nat \<times> nat \<times> bytes \<times> bytes) result"

text \<open>Raw tags of one byte (tag number below 31) and of two bytes, as in X.690.\<close>

definition tag1_ok :: "nat \<Rightarrow> bool" where
  "tag1_ok t \<longleftrightarrow> t < 256 \<and> t mod 32 \<noteq> 31"

definition tag_ok :: "nat \<Rightarrow> bool" where
  "tag_ok t \<longleftrightarrow> tag1_ok t \<or> (256 \<le> t \<and> t < 65536 \<and> (t div 256) mod 32 = 31 \<and> t mod 256 < 128)"

text \<open>The length field: one byte below 128, otherwise a count of length octets and the octets. The
  parsers return the value cut at the length found, and the rest; if the data is shorter than the
  length, the value is what there is.\<close>

abbreviation len_bound :: nat where
  "len_bound \<equiv> 256 ^ 4"

definition tlv_laws :: "tlv_lib \<Rightarrow> bool" where
  "tlv_laws T \<longleftrightarrow>
     (\<forall>n < len_bound. length (bertlv_encode_len T n) =
        (if n < 128 then 1 else if n < 256 then 2 else if n < 256 ^ 2 then 3 else
         if n < 256 ^ 3 then 4 else 5)) \<and>
     (\<forall>t n v. tag1_ok t \<longrightarrow> n < len_bound \<longrightarrow>
        (\<exists>td. bertlv_parse_one T (of_nat t # bertlv_encode_len T n @ v) =
           Inr (td, n, take n v, drop n v))) \<and>
     (\<forall>t n v. tag_ok t \<longrightarrow> n < len_bound \<longrightarrow>
        bertlv_parse_one_rawtag T (bertlv_encode_tag T t @ bertlv_encode_len T n @ v) =
           Inr (t, n, take n v, drop n v)) \<and>
     (\<forall>t. tag1_ok t \<longrightarrow> bertlv_encode_tag T t = [of_nat t]) \<and>
     (\<forall>t v r. tag_ok t \<longrightarrow> length v < len_bound \<longrightarrow>
        bertlv_return_one_rawtlv T (bertlv_encode_tag T t @ bertlv_encode_len T (length v) @ v @ r) =
           Inr (t, length v, bertlv_encode_tag T t @ bertlv_encode_len T (length v) @ v, r))"

section \<open>Cryptodome and cryptography\<close>

text \<open>\<open>AES.new(key, AES.MODE_CBC, iv).encrypt(data)\<close> and \<open>decrypt\<close>, both of which raise on a
  key, an initial vector or data of a wrong length; \<open>CMAC.new(key, ciphermod=AES)\<close> updated
  with the message and digested; \<open>X963KDF(SHA256, length, sharedinfo).derive(secret)\<close>.\<close>

record crypto_lib =
  aes_cbc_encrypt :: "bytes \<Rightarrow> bytes \<Rightarrow> bytes \<Rightarrow> bytes result"
  aes_cbc_decrypt :: "bytes \<Rightarrow> bytes \<Rightarrow> bytes \<Rightarrow> bytes result"
  cmac_aes :: "bytes \<Rightarrow> bytes \<Rightarrow> bytes result"
  x963kdf :: "nat \<Rightarrow> bytes \<Rightarrow> bytes \<Rightarrow> bytes"

definition crypto_laws :: "crypto_lib \<Rightarrow> bool" where
  "crypto_laws C \<longleftrightarrow>
     (\<forall>k iv p. length k = 16 \<longrightarrow> length iv = 16 \<longrightarrow> 16 dvd length p \<longrightarrow>
        (\<exists>c. aes_cbc_encrypt C k iv p = Inr c \<and> length c = length p \<and>
             aes_cbc_decrypt C k iv c = Inr p)) \<and>
     (\<forall>k m. length k = 16 \<longrightarrow> (\<exists>d. cmac_aes C k m = Inr d \<and> length d = 16)) \<and>
     (\<forall>l si z. length (x963kdf C l si z) = l)"

section \<open>Consequences of the laws\<close>

lemma tlv_parse_one:
  "tlv_laws T \<Longrightarrow> tag1_ok t \<Longrightarrow> n < len_bound \<Longrightarrow>
   \<exists>td. bertlv_parse_one T (of_nat t # bertlv_encode_len T n @ v) = Inr (td, n, take n v, drop n v)"
  unfolding tlv_laws_def by blast

lemma tlv_parse_rawtag:
  "tlv_laws T \<Longrightarrow> tag_ok t \<Longrightarrow> n < len_bound \<Longrightarrow>
   bertlv_parse_one_rawtag T (bertlv_encode_tag T t @ bertlv_encode_len T n @ v) =
     Inr (t, n, take n v, drop n v)"
  unfolding tlv_laws_def by blast

lemma tlv_return_rawtlv:
  "tlv_laws T \<Longrightarrow> tag_ok t \<Longrightarrow> length v < len_bound \<Longrightarrow>
   bertlv_return_one_rawtlv T (bertlv_encode_tag T t @ bertlv_encode_len T (length v) @ v @ r) =
     Inr (t, length v, bertlv_encode_tag T t @ bertlv_encode_len T (length v) @ v, r)"
  unfolding tlv_laws_def by blast

text \<open>A TLV around a value, to state what the parsers find.\<close>

definition nested_tlv :: "tlv_lib \<Rightarrow> nat \<Rightarrow> bytes \<Rightarrow> bytes" where
  "nested_tlv T tag v = bertlv_encode_tag T tag @ bertlv_encode_len T (length v) @ v"

lemma nested_tlv_parse:
  "tlv_laws T \<Longrightarrow> tag_ok t \<Longrightarrow> length v < len_bound \<Longrightarrow>
   bertlv_parse_one_rawtag T (nested_tlv T t v @ r) = Inr (t, length v, v, r)"
  using tlv_parse_rawtag [of T t "length v" "v @ r"] by (simp add: nested_tlv_def)

lemma nested_tlv_return:
  "tlv_laws T \<Longrightarrow> tag_ok t \<Longrightarrow> length v < len_bound \<Longrightarrow>
   bertlv_return_one_rawtlv T (nested_tlv T t v @ r) = Inr (t, length v, nested_tlv T t v, r)"
  using tlv_return_rawtlv [of T t v r] by (simp add: nested_tlv_def)

lemma tlv_encode_tag1: "tlv_laws T \<Longrightarrow> tag1_ok t \<Longrightarrow> bertlv_encode_tag T t = [of_nat t]"
  unfolding tlv_laws_def by blast

lemma tlv_encode_len_length:
  "tlv_laws T \<Longrightarrow> n < len_bound \<Longrightarrow>
   length (bertlv_encode_len T n) =
     (if n < 128 then 1 else if n < 256 then 2 else if n < 256 ^ 2 then 3 else
      if n < 256 ^ 3 then 4 else 5)"
  unfolding tlv_laws_def by blast

lemma aes_cbc_inverse:
  "crypto_laws C \<Longrightarrow> length k = 16 \<Longrightarrow> length iv = 16 \<Longrightarrow> 16 dvd length p \<Longrightarrow>
   \<exists>c. aes_cbc_encrypt C k iv p = Inr c \<and> length c = length p \<and> aes_cbc_decrypt C k iv c = Inr p"
  unfolding crypto_laws_def by blast

lemma cmac_total:
  "crypto_laws C \<Longrightarrow> length k = 16 \<Longrightarrow> \<exists>d. cmac_aes C k m = Inr d \<and> length d = 16"
  unfolding crypto_laws_def by blast

lemma x963kdf_length: "crypto_laws C \<Longrightarrow> length (x963kdf C l si z) = l"
  unfolding crypto_laws_def by blast

lemma tag_ok_values:
  "tag_ok 0x30" "tag_ok 0x80" "tag_ok 0x81" "tag_ok 0x82" "tag_ok 0x84" "tag_ok 0xA0" "tag_ok 0xA1"
  "tag_ok 0xA2" "tag_ok 0xA3" "tag_ok 0xA6" "tag_ok 0x5F49" "tag_ok 0xBF21" "tag_ok 0xBF23"
  "tag_ok 0xBF36" "tag_ok 0xBF38"
  by (simp_all add: tag_ok_def tag1_ok_def)

lemma tag1_ok_values: "tag1_ok 0x86" "tag1_ok 0x87" "tag1_ok 0x88"
  by (simp_all add: tag1_ok_def)

section \<open>Concrete instances for the witnesses\<close>

definition demo_encode_tag :: "nat \<Rightarrow> bytes" where
  "demo_encode_tag t = (if t < 256 then [of_nat t] else [of_nat (t div 256), of_nat (t mod 256)])"

definition demo_encode_len :: "nat \<Rightarrow> bytes" where
  "demo_encode_len n =
     (if n < 128 then [of_nat n]
      else if n < 256 then 0x81 # to_bytes_raw 1 n
      else if n < 256 ^ 2 then 0x82 # to_bytes_raw 2 n
      else if n < 256 ^ 3 then 0x83 # to_bytes_raw 3 n
      else 0x84 # to_bytes_raw 4 n)"

fun demo_parse_len :: "bytes \<Rightarrow> (nat \<times> bytes) result" where
  "demo_parse_len [] = Inl IndexError"
| "demo_parse_len (b # bs) =
     (if unat b < 128 then Inr (unat b, bs)
      else Inr (from_bytes_be (take (unat b - 128) bs), drop (unat b - 128) bs))"

fun demo_parse_tag :: "bytes \<Rightarrow> (nat \<times> bytes) result" where
  "demo_parse_tag [] = Inl IndexError"
| "demo_parse_tag (b # bs) =
     (if unat b mod 32 \<noteq> 31 then Inr (unat b, bs)
      else (case bs of [] \<Rightarrow> Inl IndexError | c # cs \<Rightarrow> Inr (unat b * 256 + unat c, cs)))"

definition demo_parse :: "bytes \<Rightarrow> (nat \<times> nat \<times> bytes \<times> bytes) result" where
  "demo_parse bs =
     bindR (demo_parse_tag bs) (\<lambda>(t, r).
     bindR (demo_parse_len r) (\<lambda>(n, v). Inr (t, n, take n v, drop n v)))"

definition demo_tlv :: tlv_lib where
  "demo_tlv = \<lparr>
     bertlv_encode_tag = demo_encode_tag,
     bertlv_encode_len = demo_encode_len,
     bertlv_parse_one = (\<lambda>bs. bindR (demo_parse bs) (\<lambda>(t, n, v, r).
        Inr (\<lparr>td_class = t div 64, td_constructed = odd (t div 32), td_tag = t mod 32\<rparr>, n, v, r))),
     bertlv_parse_one_rawtag = demo_parse,
     bertlv_return_one_rawtlv = (\<lambda>bs. bindR (demo_parse bs) (\<lambda>(t, n, v, r).
        Inr (t, n, take (length bs - length r) bs, r)))\<rparr>"

definition demo_crypto :: crypto_lib where
  "demo_crypto = \<lparr>
     aes_cbc_encrypt = (\<lambda>k iv p. if length k = 16 \<and> length iv = 16 \<and> 16 dvd length p
        then Inr (map (\<lambda>b. b + hd k) p) else Inl ValueError),
     aes_cbc_decrypt = (\<lambda>k iv p. if length k = 16 \<and> length iv = 16 \<and> 16 dvd length p
        then Inr (map (\<lambda>b. b - hd k) p) else Inl ValueError),
     cmac_aes = (\<lambda>k m. if length k = 16 then Inr (take 16 (rev m @ k)) else Inl ValueError),
     x963kdf = (\<lambda>l si z. take l (z @ si @ replicate l 0))\<rparr>"

lemma demo_parse_len_encode:
  assumes "n < len_bound"
  shows "demo_parse_len (demo_encode_len n @ v) = Inr (n, v)"
proof -
  have 1: "unat (of_nat n :: byte) = n" if "n < 128" for n
    using that by (simp add: unat_of_nat)
  show ?thesis
    using assms from_to_bytes_raw [of n 1] from_to_bytes_raw [of n 2] from_to_bytes_raw [of n 3]
      from_to_bytes_raw [of n 4]
    by (auto simp: demo_encode_len_def 1 simp del: to_bytes_raw.simps)
qed

lemma demo_parse_tag_encode: "tag_ok t \<Longrightarrow> demo_parse_tag (demo_encode_tag t @ r) = Inr (t, r)"
  by (auto simp: tag_ok_def tag1_ok_def demo_encode_tag_def unat_of_nat mult.commute)

lemma demo_parse_encode:
  "tag_ok t \<Longrightarrow> n < len_bound \<Longrightarrow>
   demo_parse (demo_encode_tag t @ demo_encode_len n @ v) = Inr (t, n, take n v, drop n v)"
  by (simp add: demo_parse_def demo_parse_tag_encode demo_parse_len_encode)

lemma demo_tlv_laws: "tlv_laws demo_tlv"
proof -
  have 1: "demo_encode_tag t = [of_nat t]" if "tag1_ok t" for t
    using that by (simp add: tag1_ok_def demo_encode_tag_def)
  have 2: "demo_parse (of_nat t # demo_encode_len n @ v) = Inr (t, n, take n v, drop n v)"
    if "tag1_ok t" "n < len_bound" for t n v
    using demo_parse_encode [of t n v] that 1 [of t] by (simp add: tag_ok_def)
  have 3: "length (demo_encode_len n) =
      (if n < 128 then 1 else if n < 256 then 2 else if n < 256 ^ 2 then 3 else
       if n < 256 ^ 3 then 4 else 5)" for n
    by (simp add: demo_encode_len_def del: to_bytes_raw.simps)
  show ?thesis
    unfolding tlv_laws_def demo_tlv_def by (simp add: 1 2 3 demo_parse_encode)
qed

lemma demo_crypto_laws: "crypto_laws demo_crypto"
  by (auto simp: crypto_laws_def demo_crypto_def comp_def)

end
