(* ===== verification/Bsp.thy ===== *)
theory Bsp
  imports Ext_Libs
begin

text \<open>
  \<^verbatim>\<open>pysim/pySim/esim/bsp.py\<close>: the BPP protection protocol. Objects are records:
  \<open>BspAlgoCryptAES128\<close> is its key and block counter, \<open>BspAlgoMacAES128\<close> its key and
  MAC chaining value, \<open>BspInstance\<close> the two together with the maximal payload size. Methods
  that change the object are computations on the record; log output is left out. Tags and lengths
  are natural numbers, as every caller passes literals or lengths.
\<close>

section \<open>Padding and encryption\<close>

definition MAX_SEGMENT_SIZE :: nat where
  "MAX_SEGMENT_SIZE = 1020"

definition BspAlgo_get_padding :: "nat \<Rightarrow> nat \<Rightarrow> byte \<Rightarrow> bytes" where
  "BspAlgo_get_padding in_len multiple padding =
     (if in_len mod multiple = 0 then []
      else let pad_cnt = multiple - in_len mod multiple in replicate pad_cnt padding)"

definition aes128_blocksize :: nat where
  "aes128_blocksize = 16"

definition aes128_get_padding :: "nat \<Rightarrow> nat \<Rightarrow> byte \<Rightarrow> bytes" where
  "aes128_get_padding in_len multiple padding =
     0x80 # BspAlgo_get_padding (in_len + 1) multiple padding"

definition pad_to_multiple :: "(nat \<Rightarrow> nat \<Rightarrow> byte \<Rightarrow> bytes) \<Rightarrow> bytes \<Rightarrow> nat \<Rightarrow> byte \<Rightarrow> bytes" where
  "pad_to_multiple get_padding indat multiple padding =
     indat @ get_padding (length indat) multiple padding"

definition aes128_unpad :: "bytes \<Rightarrow> bytes result" where
  "aes128_unpad padded =
     (let stripped = rstrip_zero padded
      in if stripped = [] then Inl IndexError
         else assertR (last stripped = 0x80) (Inr (butlast stripped)))"

record bsp_crypt =
  s_enc :: bytes
  block_nr :: nat

definition BspAlgoCrypt_init :: "bytes \<Rightarrow> bsp_crypt" where
  "BspAlgoCrypt_init key = \<lparr>s_enc = key, block_nr = 1\<rparr>"

definition aes128_get_icv :: "crypto_lib \<Rightarrow> (bsp_crypt, bytes) comp" where
  "aes128_get_icv C c =
     (case to_bytes_be aes128_blocksize (block_nr c) of
        Inl e \<Rightarrow> (Inl e, c)
      | Inr data \<Rightarrow>
          (case aes_cbc_encrypt C (s_enc c) (replicate aes128_blocksize 0) data of
             Inl e \<Rightarrow> (Inl e, c)
           | Inr icv \<Rightarrow> (Inr icv, c\<lparr>block_nr := block_nr c + 1\<rparr>)))"

definition aes128_encrypt :: "crypto_lib \<Rightarrow> bytes \<Rightarrow> (bsp_crypt, bytes) comp" where
  "aes128_encrypt C data =
     bindS (aes128_get_icv C) (\<lambda>icv c. liftS (aes_cbc_encrypt C (s_enc c) icv data) c)"

definition aes128_decrypt :: "crypto_lib \<Rightarrow> bytes \<Rightarrow> (bsp_crypt, bytes) comp" where
  "aes128_decrypt C data =
     bindS (aes128_get_icv C) (\<lambda>icv c. liftS (aes_cbc_decrypt C (s_enc c) icv data) c)"

definition BspAlgoCrypt_encrypt :: "crypto_lib \<Rightarrow> bytes \<Rightarrow> (bsp_crypt, bytes) comp" where
  "BspAlgoCrypt_encrypt C data =
     aes128_encrypt C (pad_to_multiple aes128_get_padding data aes128_blocksize 0)"

definition BspAlgoCrypt_decrypt :: "crypto_lib \<Rightarrow> bytes \<Rightarrow> (bsp_crypt, bytes) comp" where
  "BspAlgoCrypt_decrypt C data = bindS (aes128_decrypt C data) (\<lambda>p. liftS (aes128_unpad p))"

section \<open>Authentication\<close>

record bsp_mac =
  s_mac :: bytes
  mac_chain :: bytes

definition l_mac :: nat where
  "l_mac = 8"

definition BspAlgoMac_init :: "bytes \<Rightarrow> bytes \<Rightarrow> bsp_mac" where
  "BspAlgoMac_init key initial_mac_chaining_value =
     \<lparr>s_mac = key, mac_chain = initial_mac_chaining_value\<rparr>"

text \<open>\<open>_auth\<close>: the full CMAC becomes the next chaining value, its first 8 bytes are returned.\<close>

definition aes128_auth :: "crypto_lib \<Rightarrow> bytes \<Rightarrow> (bsp_mac, bytes) comp" where
  "aes128_auth C temp_data m =
     (case cmac_aes C (s_mac m) temp_data of
        Inl e \<Rightarrow> (Inl e, m)
      | Inr full_c_mac \<Rightarrow> (Inr (slice 0 8 full_c_mac), m\<lparr>mac_chain := full_c_mac\<rparr>))"

definition BspAlgoMac_auth :: "crypto_lib \<Rightarrow> tlv_lib \<Rightarrow> nat \<Rightarrow> bytes \<Rightarrow> (bsp_mac, bytes) comp" where
  "BspAlgoMac_auth C T tag data m =
     (if \<not> tag < 256 then raiseS AssertionError m
      else let lcc = length data + l_mac;
               tag_and_length = of_nat tag # bertlv_encode_len T lcc;
               temp_data = mac_chain m @ tag_and_length @ data
           in bindS (aes128_auth C temp_data) (\<lambda>c_mac. retS (tag_and_length @ data @ c_mac)) m)"

definition BspAlgoMac_verify :: "crypto_lib \<Rightarrow> bytes \<Rightarrow> (bsp_mac, bytes) comp" where
  "BspAlgoMac_verify C ciphertext m =
     (let mac_stripped = but_last_n l_mac ciphertext;
          mac_received = last_n l_mac ciphertext;
          temp_data = mac_chain m @ mac_stripped
      in bindS (aes128_auth C temp_data) (\<lambda>mac_computed.
           if mac_received \<noteq> mac_computed then raiseS ValueError else retS mac_stripped) m)"

section \<open>Key derivation\<close>

definition bsp_key_derivation ::
  "crypto_lib \<Rightarrow> tlv_lib \<Rightarrow> bytes \<Rightarrow> nat \<Rightarrow> nat \<Rightarrow> bytes \<Rightarrow> bytes \<Rightarrow> nat \<Rightarrow> (bytes \<times> bytes \<times> bytes) result" where
  "bsp_key_derivation C T shared_secret key_type key_length host_id eid l =
     assertR (key_type \<le> 255) (assertR (key_length \<le> 255)
       (let host_id_lv = bertlv_encode_len T (length host_id) @ host_id;
            eid_lv = bertlv_encode_len T (length eid) @ eid;
            shared_info = [of_nat key_type, of_nat key_length] @ host_id_lv @ eid_lv;
            out = x963kdf C (l * 3) shared_info shared_secret;
            initial_mac_chaining_value = slice 0 l out;
            enc_key = slice l (2 * l) out;
            mac_key = slice (l * 2) (3 * l) out
        in Inr (enc_key, mac_key, initial_mac_chaining_value)))"

section \<open>BspInstance\<close>

record bsp_instance =
  c_algo :: bsp_crypt
  m_algo :: bsp_mac
  max_payload_size :: nat

text \<open>The size computed by the constructor is a difference of Python integers. Under the law on the
  length field it is 1008, so the truncation of the subtraction on natural numbers never shows.\<close>

definition BspInstance_init :: "tlv_lib \<Rightarrow> bytes \<Rightarrow> bytes \<Rightarrow> bytes \<Rightarrow> bsp_instance" where
  "BspInstance_init T enc_key mac_key initial_mcv =
     (let TAG_LEN = 1;
          length_len = length (bertlv_encode_len T MAX_SEGMENT_SIZE)
      in \<lparr>c_algo = BspAlgoCrypt_init enc_key,
          m_algo = BspAlgoMac_init mac_key initial_mcv,
          max_payload_size = MAX_SEGMENT_SIZE - TAG_LEN - length_len - l_mac\<rparr>)"

definition BspInstance_from_kdf ::
  "crypto_lib \<Rightarrow> tlv_lib \<Rightarrow> bytes \<Rightarrow> nat \<Rightarrow> nat \<Rightarrow> bytes \<Rightarrow> bytes \<Rightarrow> bsp_instance result" where
  "BspInstance_from_kdf C T shared_secret key_type key_length host_id eid =
     bindR (bsp_key_derivation C T shared_secret key_type key_length host_id eid 16)
       (\<lambda>(enc_key, mac_key, initial_mcv). Inr (BspInstance_init T enc_key mac_key initial_mcv))"

text \<open>A method of \<open>self.c_algo\<close> or \<open>self.m_algo\<close>, run inside the instance.\<close>

definition on_c_algo :: "(bsp_crypt, 'a) comp \<Rightarrow> (bsp_instance, 'a) comp" where
  "on_c_algo f b = (case f (c_algo b) of (r, c) \<Rightarrow> (r, b\<lparr>c_algo := c\<rparr>))"

definition on_m_algo :: "(bsp_mac, 'a) comp \<Rightarrow> (bsp_instance, 'a) comp" where
  "on_m_algo f b = (case f (m_algo b) of (r, m) \<Rightarrow> (r, b\<lparr>m_algo := m\<rparr>))"

definition inc_block_nr :: "(bsp_instance, unit) comp" where
  "inc_block_nr b = (Inr (), b\<lparr>c_algo := (c_algo b)\<lparr>block_nr := block_nr (c_algo b) + 1\<rparr>\<rparr>)"

definition encrypt_and_mac_one ::
  "crypto_lib \<Rightarrow> tlv_lib \<Rightarrow> nat \<Rightarrow> bytes \<Rightarrow> (bsp_instance, bytes) comp" where
  "encrypt_and_mac_one C T tag plaintext b =
     (if \<not> tag \<le> 255 then raiseS AssertionError b
      else if \<not> length plaintext \<le> max_payload_size b then raiseS AssertionError b
      else bindS (on_c_algo (BspAlgoCrypt_encrypt C plaintext)) (\<lambda>ciphered.
             on_m_algo (BspAlgoMac_auth C T tag ciphered)) b)"

definition mac_only_one ::
  "crypto_lib \<Rightarrow> tlv_lib \<Rightarrow> nat \<Rightarrow> bytes \<Rightarrow> (bsp_instance, bytes) comp" where
  "mac_only_one C T tag plaintext b =
     (if \<not> tag \<le> 255 then raiseS AssertionError b
      else if \<not> length plaintext \<le> max_payload_size b then raiseS AssertionError b
      else bindS (on_m_algo (BspAlgoMac_auth C T tag plaintext)) (\<lambda>maced.
             bindS inc_block_nr (\<lambda>_. retS maced)) b)"

text \<open>The loop of \<open>encrypt_and_mac\<close> and of \<open>mac_only\<close>, which are the same but for the
  method called on each segment. With a maximal payload size of 0 it would never end.\<close>

function bsp_segment_loop ::
  "(bytes \<Rightarrow> ('s, bytes) comp) \<Rightarrow> nat \<Rightarrow> bytes \<Rightarrow> bytes list \<Rightarrow> ('s, bytes list) comp" where
  "bsp_segment_loop one mx remainder res b =
     (if remainder = [] then retS res b
      else if length remainder < mx then
        bindS (one remainder) (\<lambda>c. bsp_segment_loop one mx [] (res @ [c])) b
      else if mx = 0 then raiseS NonTermination b
      else bindS (one (slice 0 mx remainder))
             (\<lambda>c. bsp_segment_loop one mx (drop mx remainder) (res @ [c])) b)"
  by pat_completeness auto
termination
  by (relation "measure (\<lambda>(one, mx, remainder, res, b). length remainder)") auto

definition encrypt_and_mac ::
  "crypto_lib \<Rightarrow> tlv_lib \<Rightarrow> nat \<Rightarrow> bytes \<Rightarrow> (bsp_instance, bytes list) comp" where
  "encrypt_and_mac C T tag plaintext b =
     bsp_segment_loop (encrypt_and_mac_one C T tag) (max_payload_size b) plaintext [] b"

definition mac_only ::
  "crypto_lib \<Rightarrow> tlv_lib \<Rightarrow> nat \<Rightarrow> bytes \<Rightarrow> (bsp_instance, bytes list) comp" where
  "mac_only C T tag plaintext b =
     bsp_segment_loop (mac_only_one C T tag) (max_payload_size b) plaintext [] b"

definition demac_and_decrypt_one ::
  "crypto_lib \<Rightarrow> tlv_lib \<Rightarrow> bytes \<Rightarrow> (bsp_instance, bytes) comp" where
  "demac_and_decrypt_one C T ciphertext =
     bindS (on_m_algo (BspAlgoMac_verify C ciphertext)) (\<lambda>payload.
     bindS (liftS (bertlv_parse_one T payload)) (\<lambda>(tdict, l, val, remain).
       on_c_algo (BspAlgoCrypt_decrypt C val)))"

definition demac_and_decrypt ::
  "crypto_lib \<Rightarrow> tlv_lib \<Rightarrow> bytes list \<Rightarrow> (bsp_instance, bytes) comp" where
  "demac_and_decrypt C T ciphertext_list =
     bindS (mapS (demac_and_decrypt_one C T) ciphertext_list) (\<lambda>ps. retS (concat ps))"

definition demac_only_one ::
  "crypto_lib \<Rightarrow> tlv_lib \<Rightarrow> bytes \<Rightarrow> (bsp_instance, bytes) comp" where
  "demac_only_one C T ciphertext =
     bindS (on_m_algo (BspAlgoMac_verify C ciphertext)) (\<lambda>payload.
     bindS (liftS (bertlv_parse_one T payload)) (\<lambda>(tdict, l, val, remain).
     bindS inc_block_nr (\<lambda>_. retS val)))"

definition demac_only ::
  "crypto_lib \<Rightarrow> tlv_lib \<Rightarrow> bytes list \<Rightarrow> (bsp_instance, bytes) comp" where
  "demac_only C T ciphertext_list =
     bindS (mapS (demac_only_one C T) ciphertext_list) (\<lambda>ps. retS (concat ps))"

section \<open>Padding: lemmas\<close>

lemma aes128_padded:
  "pad_to_multiple aes128_get_padding d aes128_blocksize 0 =
     d @ 0x80 # replicate ((16 - (length d + 1) mod 16) mod 16) 0"
  by (simp add: pad_to_multiple_def aes128_get_padding_def BspAlgo_get_padding_def
      aes128_blocksize_def Let_def)

lemma length_aes128_padded:
  "length (pad_to_multiple aes128_get_padding d aes128_blocksize 0) = (length d div 16 + 1) * 16"
proof -
  define q r where "q = length d div 16" and "r = length d mod 16"
  have d: "length d = 16 * q + r" "r < 16"
    by (simp_all add: q_def r_def)
  have "(16 - (length d + 1) mod 16) mod 16 = 15 - r"
  proof (cases "r = 15")
    case True
    with d show ?thesis by (simp add: mod_simps)
  next
    case False
    with d have "(length d + 1) mod 16 = r + 1" by (simp add: mod_simps)
    with False d(2) show ?thesis by simp
  qed
  with d show ?thesis unfolding aes128_padded by simp
qed

lemma aes128_unpad_pad:
  "aes128_unpad (pad_to_multiple aes128_get_padding d aes128_blocksize 0) = Inr d"
proof -
  have "rstrip_zero (d @ 0x80 # replicate n 0) = d @ [0x80]" for n
    by (rule rstrip_zero_replicate) simp
  then show ?thesis by (simp add: aes128_padded aes128_unpad_def Let_def)
qed

interpretation aes_padding: codec
  "\<lambda>d. Inr (pad_to_multiple aes128_get_padding d aes128_blocksize 0)" aes128_unpad "\<lambda>_. True"
  by unfold_locales (auto simp: aes128_unpad_pad)

section \<open>One segment: lemmas\<close>

definition crypt_ready :: "crypto_lib \<Rightarrow> nat \<Rightarrow> bsp_crypt \<Rightarrow> bool" where
  "crypt_ready C n c \<longleftrightarrow> crypto_laws C \<and> length (s_enc c) = 16 \<and> block_nr c + n \<le> 256 ^ 16"

lemma get_icv_ready:
  assumes "crypt_ready C (Suc n) c"
  shows "\<exists>icv. aes128_get_icv C c = (Inr icv, c\<lparr>block_nr := block_nr c + 1\<rparr>) \<and> length icv = 16"
proof -
  from assms have "length (s_enc c) = 16" "crypto_laws C" "block_nr c < 256 ^ 16"
    by (auto simp: crypt_ready_def)
  then show ?thesis
    using aes_cbc_inverse [of C "s_enc c" "replicate 16 0" "to_bytes_raw 16 (block_nr c)"]
    by (auto simp: aes128_get_icv_def to_bytes_be_def aes128_blocksize_def)
qed

lemma crypt_one:
  assumes "crypt_ready C (Suc n) c"
  shows "\<exists>ct. BspAlgoCrypt_encrypt C p c = (Inr ct, c\<lparr>block_nr := block_nr c + 1\<rparr>) \<and>
    BspAlgoCrypt_decrypt C ct c = (Inr p, c\<lparr>block_nr := block_nr c + 1\<rparr>) \<and>
    length ct = (length p div 16 + 1) * 16"
proof -
  let ?c = "c\<lparr>block_nr := block_nr c + 1\<rparr>"
  let ?p = "pad_to_multiple aes128_get_padding p aes128_blocksize 0"
  obtain icv where icv: "aes128_get_icv C c = (Inr icv, ?c)" "length icv = 16"
    using get_icv_ready [OF assms] by blast
  have k: "crypto_laws C" "length (s_enc ?c) = 16"
    using assms by (auto simp: crypt_ready_def)
  have "16 dvd length ?p" by (simp add: length_aes128_padded)
  then obtain ct where "aes_cbc_encrypt C (s_enc ?c) icv ?p = Inr ct" "length ct = length ?p"
    "aes_cbc_decrypt C (s_enc ?c) icv ct = Inr ?p"
    using aes_cbc_inverse [OF k(1) k(2) icv(2)] by blast
  with icv(1) show ?thesis
    by (intro exI [of _ ct])
      (simp add: BspAlgoCrypt_encrypt_def BspAlgoCrypt_decrypt_def aes128_encrypt_def
        aes128_decrypt_def bindS_def aes128_unpad_pad length_aes128_padded)
qed

definition mac_ready :: "crypto_lib \<Rightarrow> bsp_mac \<Rightarrow> bool" where
  "mac_ready C m \<longleftrightarrow> crypto_laws C \<and> length (s_mac m) = 16"

lemma mac_one:
  assumes "mac_ready C m" "tag < 256"
  shows "\<exists>mac m'. BspAlgoMac_auth C T tag d m =
      (Inr (of_nat tag # bertlv_encode_len T (length d + 8) @ d @ mac), m') \<and>
    BspAlgoMac_verify C (of_nat tag # bertlv_encode_len T (length d + 8) @ d @ mac) m =
      (Inr (of_nat tag # bertlv_encode_len T (length d + 8) @ d), m') \<and>
    length mac = 8 \<and> mac_ready C m'"
proof -
  let ?tl = "of_nat tag # bertlv_encode_len T (length d + 8)"
  obtain f where f: "cmac_aes C (s_mac m) (mac_chain m @ ?tl @ d) = Inr f" "length f = 16"
    using assms cmac_total [of C "s_mac m"] by (auto simp: mac_ready_def)
  let ?mac = "slice 0 8 f"
  have mac8: "length ?mac = 8" using f(2) by (simp add: slice_def)
  have auth: "aes128_auth C (mac_chain m @ ?tl @ d) m = (Inr ?mac, m\<lparr>mac_chain := f\<rparr>)"
    using f by (simp add: aes128_auth_def)
  have "BspAlgoMac_auth C T tag d m = (Inr (?tl @ d @ ?mac), m\<lparr>mac_chain := f\<rparr>)"
    using assms(2) auth by (simp add: BspAlgoMac_auth_def Let_def l_mac_def)
  moreover have "BspAlgoMac_verify C ((?tl @ d) @ ?mac) m = (Inr (?tl @ d), m\<lparr>mac_chain := f\<rparr>)"
    using auth mac8 by (simp add: BspAlgoMac_verify_def Let_def l_mac_def del: append_Cons append_assoc)
  ultimately show ?thesis
    using assms mac8 by (intro exI [of _ ?mac] exI [of _ "m\<lparr>mac_chain := f\<rparr>"]) (simp add: mac_ready_def)
qed

text \<open>The state of an instance that is good for \<open>n\<close> more segments.\<close>

definition bsp_ready :: "crypto_lib \<Rightarrow> tlv_lib \<Rightarrow> nat \<Rightarrow> bsp_instance \<Rightarrow> bool" where
  "bsp_ready C T n b \<longleftrightarrow>
     tlv_laws T \<and> crypt_ready C n (c_algo b) \<and> mac_ready C (m_algo b) \<and> max_payload_size b = 1008"

text \<open>A protected segment is one TLV with the given tag and at most \<open>n\<close> bytes of value.\<close>

definition bsp_wire :: "tlv_lib \<Rightarrow> nat \<Rightarrow> nat \<Rightarrow> bytes \<Rightarrow> bool" where
  "bsp_wire T tag n c \<longleftrightarrow> tlv_laws T \<and> tag1_ok tag \<and> (\<exists>v. c = nested_tlv T tag v \<and> length v \<le> n)"

lemma bsp_wireI:
  "tlv_laws T \<Longrightarrow> tag1_ok tag \<Longrightarrow> length v \<le> n \<Longrightarrow>
   bsp_wire T tag n (of_nat tag # bertlv_encode_len T (length v) @ v)"
  by (auto simp: bsp_wire_def nested_tlv_def tlv_encode_tag1)

lemma bsp_ready_mono: "bsp_ready C T n b \<Longrightarrow> k \<le> n \<Longrightarrow> bsp_ready C T k b"
  by (auto simp: bsp_ready_def crypt_ready_def)

lemma bsp_payload_parse:
  assumes "tlv_laws T" "tag1_ok tag" "length d \<le> 2048"
  shows "\<exists>td l r. bertlv_parse_one T (of_nat tag # bertlv_encode_len T (length d + 8) @ d) =
    Inr (td, l, d, r)"
  using tlv_parse_one [OF assms(1,2), of "length d + 8" d] assms(3) by auto

lemma encrypt_and_mac_one_ready:
  assumes "bsp_ready C T (Suc n) b" "tag1_ok tag" "length p \<le> 1008"
  shows "\<exists>c b'. encrypt_and_mac_one C T tag p b = (Inr c, b') \<and>
    demac_and_decrypt_one C T c b = (Inr p, b') \<and> bsp_ready C T n b' \<and>
    bsp_wire T tag 1032 c \<and>
    length c = 1 + length (bertlv_encode_len T ((length p div 16 + 1) * 16 + 8)) +
      (length p div 16 + 1) * 16 + 8"
proof -
  have rdy: "crypt_ready C (Suc n) (c_algo b)" "mac_ready C (m_algo b)" "tlv_laws T" "tag < 256"
    using assms by (auto simp: bsp_ready_def tag1_ok_def)
  obtain ct where ct: "BspAlgoCrypt_encrypt C p (c_algo b) =
      (Inr ct, (c_algo b)\<lparr>block_nr := block_nr (c_algo b) + 1\<rparr>)"
    "BspAlgoCrypt_decrypt C ct (c_algo b) =
      (Inr p, (c_algo b)\<lparr>block_nr := block_nr (c_algo b) + 1\<rparr>)"
    "length ct = (length p div 16 + 1) * 16"
    using crypt_one [OF rdy(1)] by blast
  let ?tl = "of_nat tag # bertlv_encode_len T (length ct + 8)"
  obtain mac m' where m: "BspAlgoMac_auth C T tag ct (m_algo b) = (Inr (?tl @ ct @ mac), m')"
    "BspAlgoMac_verify C (?tl @ ct @ mac) (m_algo b) = (Inr (?tl @ ct), m')"
    "length mac = 8" "mac_ready C m'"
    using mac_one [OF rdy(2,4), of T ct] by auto
  obtain td l r where td: "bertlv_parse_one T (?tl @ ct) = Inr (td, l, ct, r)"
  proof -
    have "length p div 16 \<le> 63" using assms(3) by linarith
    then have "length ct \<le> 2048" by (simp add: ct(3))
    from bsp_payload_parse [OF rdy(3) assms(2) this] that show ?thesis by auto
  qed
  let ?b = "b\<lparr>c_algo := (c_algo b)\<lparr>block_nr := block_nr (c_algo b) + 1\<rparr>, m_algo := m'\<rparr>"
  have "encrypt_and_mac_one C T tag p b = (Inr (?tl @ ct @ mac), ?b)"
    using assms ct(1) m(1) rdy(4)
    by (simp add: encrypt_and_mac_one_def bindS_def on_c_algo_def on_m_algo_def bsp_ready_def)
  moreover have "demac_and_decrypt_one C T (?tl @ ct @ mac) b = (Inr p, ?b)"
    using m(2) td ct(2)
    by (simp add: demac_and_decrypt_one_def bindS_def on_c_algo_def on_m_algo_def)
  moreover have "bsp_ready C T n ?b"
    using assms(1) m(4) by (simp add: bsp_ready_def crypt_ready_def)
  moreover have "bsp_wire T tag 1032 (?tl @ ct @ mac)"
  proof -
    have "length p div 16 \<le> 63" using assms(3) by linarith
    then have "length (ct @ mac) \<le> 1032" by (simp add: ct(3) m(3))
    from bsp_wireI [OF rdy(3) assms(2) this] m(3) show ?thesis by simp
  qed
  ultimately show ?thesis using ct(3) m(3) by force
qed

lemma mac_only_one_ready:
  assumes "bsp_ready C T (Suc n) b" "tag1_ok tag" "length p \<le> 1008"
  shows "\<exists>c b'. mac_only_one C T tag p b = (Inr c, b') \<and>
    demac_only_one C T c b = (Inr p, b') \<and> bsp_ready C T n b' \<and> bsp_wire T tag 1016 c"
proof -
  have rdy: "mac_ready C (m_algo b)" "tlv_laws T" "tag < 256"
    using assms by (auto simp: bsp_ready_def tag1_ok_def)
  let ?tl = "of_nat tag # bertlv_encode_len T (length p + 8)"
  obtain mac m' where m: "BspAlgoMac_auth C T tag p (m_algo b) = (Inr (?tl @ p @ mac), m')"
    "BspAlgoMac_verify C (?tl @ p @ mac) (m_algo b) = (Inr (?tl @ p), m')"
    "length mac = 8" "mac_ready C m'"
    using mac_one [OF rdy(1,3), of T p] by auto
  obtain td l r where td: "bertlv_parse_one T (?tl @ p) = Inr (td, l, p, r)"
    using bsp_payload_parse [OF rdy(2) assms(2), of p] assms(3) by auto
  let ?b = "b\<lparr>m_algo := m', c_algo := (c_algo b)\<lparr>block_nr := block_nr (c_algo b) + 1\<rparr>\<rparr>"
  have "mac_only_one C T tag p b = (Inr (?tl @ p @ mac), ?b)"
    using assms m(1) rdy(3)
    by (simp add: mac_only_one_def bindS_def on_m_algo_def inc_block_nr_def bsp_ready_def)
  moreover have "demac_only_one C T (?tl @ p @ mac) b = (Inr p, ?b)"
    using m(2) td by (simp add: demac_only_one_def bindS_def on_m_algo_def inc_block_nr_def)
  moreover have "bsp_ready C T n ?b"
    using assms(1) m(4) by (simp add: bsp_ready_def crypt_ready_def)
  moreover have "bsp_wire T tag 1016 (?tl @ p @ mac)"
    using bsp_wireI [OF rdy(2) assms(2), of "p @ mac" 1016] assms(3) m(3) by simp
  ultimately show ?thesis by blast
qed

text \<open>Both pairs of methods keep the contract of a channel, for payloads of at most 1008 bytes. The
  laws on the packages are part of \<open>bsp_ready\<close>.\<close>

definition bsp_payload_ok :: "nat \<Rightarrow> bytes \<Rightarrow> bool" where
  "bsp_payload_ok tag p \<longleftrightarrow> tag1_ok tag \<and> length p \<le> 1008"

interpretation bsp_enc: channel
  "encrypt_and_mac_one C T tag" "demac_and_decrypt_one C T" "bsp_ready C T" "bsp_payload_ok tag"
  "bsp_wire T tag 1032"
  for C T tag
  by unfold_locales (use encrypt_and_mac_one_ready in \<open>fastforce simp: bsp_payload_ok_def\<close>)

interpretation bsp_mac: channel
  "mac_only_one C T tag" "demac_only_one C T" "bsp_ready C T" "bsp_payload_ok tag"
  "bsp_wire T tag 1016"
  for C T tag
  by unfold_locales (use mac_only_one_ready in \<open>fastforce simp: bsp_payload_ok_def\<close>)

section \<open>Segmentation: lemmas\<close>

text \<open>The specification of the loop: cut the data in pieces of the maximal size and protect them one
  after the other.\<close>

function chunks :: "nat \<Rightarrow> 'a list \<Rightarrow> 'a list list" where
  "chunks n xs = (if xs = [] \<or> n = 0 then [] else take n xs # chunks n (drop n xs))"
  by pat_completeness auto
termination
  by (relation "measure (\<lambda>(n, xs). length xs)") auto

declare chunks.simps [simp del] bsp_segment_loop.simps [simp del]

lemma chunks_Nil [simp]: "chunks n [] = []"
  by (simp add: chunks.simps)

lemma chunks_rec: "xs \<noteq> [] \<Longrightarrow> 0 < n \<Longrightarrow> chunks n xs = take n xs # chunks n (drop n xs)"
  by (subst chunks.simps) simp

lemma concat_chunks: "0 < n \<Longrightarrow> concat (chunks n xs) = xs"
proof (induction n xs rule: chunks.induct)
  case (1 n xs)
  then show ?case by (cases "xs = []") (simp_all add: chunks_rec)
qed

lemma chunks_sizes: "list_all (\<lambda>c. c \<noteq> [] \<and> length c \<le> n) (chunks n xs)"
proof (induction n xs rule: chunks.induct)
  case (1 n xs)
  then show ?case by (cases "xs = [] \<or> n = 0") (auto simp: chunks.simps [of n xs])
qed

lemma length_chunks: "0 < n \<Longrightarrow> length (chunks n xs) = (length xs + (n - 1)) div n"
proof (induction n xs rule: chunks.induct)
  case (1 n xs)
  show ?case
  proof (cases "xs = []")
    case True
    with 1 show ?thesis by simp
  next
    case False
    then have "length xs + (n - 1) = length xs - 1 + n" using "1.prems" by (cases xs) simp_all
    then have "(length xs + (n - 1)) div n = Suc ((length xs - 1) div n)"
      using "1.prems" by (simp only: div_add_self2)
    moreover have "(length xs - n + (n - 1)) div n = (length xs - 1) div n"
    proof (cases "n \<le> length xs")
      case True
      with "1.prems" have "length xs - n + (n - 1) = length xs - 1" by linarith
      then show ?thesis by simp
    next
      case False
      with "1.prems" show ?thesis by simp
    qed
    ultimately show ?thesis using 1 False by (simp add: chunks_rec)
  qed
qed

lemma length_chunks_payload: "length (chunks 1008 p) = (length p + 1007) div 1008"
  using length_chunks [of 1008 p] by (simp add: add.commute)

lemma segment_loop_chunks:
  "0 < mx \<Longrightarrow> bsp_segment_loop one mx r res b =
     bindS (mapS one (chunks mx r)) (\<lambda>cs. retS (res @ cs)) b"
proof (induction one mx r res b rule: bsp_segment_loop.induct)
  case (1 one mx r res b)
  consider "r = []" | "r \<noteq> []" "length r < mx" | "r \<noteq> []" "\<not> length r < mx" by blast
  then show ?case
  proof cases
    case 1
    then show ?thesis by (simp add: bsp_segment_loop.simps)
  next
    case 2
    then have "bsp_segment_loop one mx r res b = bindS (one r) (\<lambda>c. retS (res @ [c])) b"
      by (subst bsp_segment_loop.simps) (simp add: bsp_segment_loop.simps bindS_def split: prod.splits sum.splits)
    with 2 show ?thesis
      by (simp add: chunks_rec bindS_def split: prod.splits sum.splits)
  next
    case 3
    with 1 show ?thesis
      by (subst bsp_segment_loop.simps)
        (auto simp: chunks_rec slice_def bindS_def split: prod.splits sum.splits)
  qed
qed

lemma bsp_chunks_ok: "tag1_ok tag \<Longrightarrow> list_all (bsp_payload_ok tag) (chunks 1008 p)"
  using chunks_sizes [of 1008 p] by (auto simp: bsp_payload_ok_def list_all_iff)

lemma bsp_init_ready:
  assumes "crypto_laws C" "tlv_laws T" "length k = 16" "length k' = 16" "n < 256 ^ 16"
  shows "bsp_ready C T n (BspInstance_init T k k' mcv)"
proof -
  have "length (bertlv_encode_len T MAX_SEGMENT_SIZE) = 3"
    using tlv_encode_len_length [OF assms(2), of MAX_SEGMENT_SIZE] by (simp add: MAX_SEGMENT_SIZE_def)
  with assms show ?thesis
    by (simp add: bsp_ready_def crypt_ready_def mac_ready_def BspInstance_init_def Let_def
        BspAlgoCrypt_init_def BspAlgoMac_init_def l_mac_def MAX_SEGMENT_SIZE_def)
qed

lemma bsp_kdf_ready:
  assumes "crypto_laws C" "tlv_laws T" "n < 256 ^ 16"
    and "BspInstance_from_kdf C T z kt kl h e = Inr b"
  shows "bsp_ready C T n b"
  using assms
  by (auto simp: BspInstance_from_kdf_def bsp_key_derivation_def Let_def slice_def x963kdf_length
      intro!: bsp_init_ready)

lemma encrypt_and_mac_ready:
  assumes "bsp_ready C T ((length p + 1007) div 1008 + k) b" "tag1_ok tag"
  shows "\<exists>cs b'. encrypt_and_mac C T tag p b = (Inr cs, b') \<and>
    demac_and_decrypt C T cs b = (Inr p, b') \<and> bsp_ready C T k b' \<and>
    length cs = (length p + 1007) div 1008 \<and> list_all (bsp_wire T tag 1032) cs"
proof -
  have n: "length (chunks 1008 p) = (length p + 1007) div 1008" by (simp add: length_chunks_payload)
  with assms(1) have "bsp_ready C T (length (chunks 1008 p) + k) b" by simp
  from bsp_enc.many [OF this bsp_chunks_ok [OF assms(2)]] obtain cs b' where
    cs: "mapS (encrypt_and_mac_one C T tag) (chunks 1008 p) b = (Inr cs, b')"
    "mapS (demac_and_decrypt_one C T) cs b = (Inr (chunks 1008 p), b')" "bsp_ready C T k b'"
    "length cs = length (chunks 1008 p)" "list_all (bsp_wire T tag 1032) cs" by blast
  have "max_payload_size b = 1008" using assms(1) by (simp add: bsp_ready_def)
  with cs n show ?thesis
    by (intro exI [of _ cs] exI [of _ b'])
      (simp add: encrypt_and_mac_def demac_and_decrypt_def segment_loop_chunks concat_chunks)
qed

lemma mac_only_ready:
  assumes "bsp_ready C T ((length p + 1007) div 1008 + k) b" "tag1_ok tag"
  shows "\<exists>cs b'. mac_only C T tag p b = (Inr cs, b') \<and>
    demac_only C T cs b = (Inr p, b') \<and> bsp_ready C T k b' \<and>
    length cs = (length p + 1007) div 1008 \<and> list_all (bsp_wire T tag 1016) cs"
proof -
  have n: "length (chunks 1008 p) = (length p + 1007) div 1008" by (simp add: length_chunks_payload)
  with assms(1) have "bsp_ready C T (length (chunks 1008 p) + k) b" by simp
  from bsp_mac.many [OF this bsp_chunks_ok [OF assms(2)]] obtain cs b' where
    cs: "mapS (mac_only_one C T tag) (chunks 1008 p) b = (Inr cs, b')"
    "mapS (demac_only_one C T) cs b = (Inr (chunks 1008 p), b')" "bsp_ready C T k b'"
    "length cs = length (chunks 1008 p)" "list_all (bsp_wire T tag 1016) cs" by blast
  have "max_payload_size b = 1008" using assms(1) by (simp add: bsp_ready_def)
  with cs n show ?thesis
    by (intro exI [of _ cs] exI [of _ b'])
      (simp add: mac_only_def demac_only_def segment_loop_chunks concat_chunks)
qed

lemma bsp_wire_length:
  assumes "bsp_wire T tag 1016 c"
  shows "length c \<le> MAX_SEGMENT_SIZE"
proof -
  from assms obtain v where v: "c = nested_tlv T tag v" "length v \<le> 1016" "tlv_laws T" "tag1_ok tag"
    by (auto simp: bsp_wire_def)
  have "length (bertlv_encode_len T (length v)) \<le> 3"
    using tlv_encode_len_length [OF v(3), of "length v"] v(2) by (simp split: if_splits)
  with v show ?thesis by (simp add: nested_tlv_def tlv_encode_tag1 MAX_SEGMENT_SIZE_def)
qed

lemma demo_instance: "\<exists>b. BspInstance_from_kdf demo_crypto demo_tlv [1, 2, 3] 0x88 16 [4] [5] = Inr b"
  by (simp add: BspInstance_from_kdf_def bsp_key_derivation_def Let_def)

section \<open>Properties\<close>

text \<open>C8: BSP encryption round trip. Let both ends of the channel build their \<open>BspInstance\<close>
  from the same shared secret and key reference data. Then \<open>encrypt_and_mac\<close> of any plaintext
  (up to the number of blocks the counter can hold) terminates without an error, and
  \<open>demac_and_decrypt\<close> of the resulting segments returns exactly that plaintext and leaves the
  receiver in the sender's state, so that the next message can follow.\<close>

theorem bsp_encrypt_roundtrip:
  assumes "crypto_laws C" "tlv_laws T"
    and "BspInstance_from_kdf C T secret key_type key_length host_id eid = Inr b"
    and "tag1_ok tag" "(length plaintext + 1007) div 1008 < 256 ^ 16"
  shows "\<exists>segs b'. encrypt_and_mac C T tag plaintext b = (Inr segs, b') \<and>
    demac_and_decrypt C T segs b = (Inr plaintext, b') \<and>
    length segs = (length plaintext + 1007) div 1008"
  using encrypt_and_mac_ready [of C T plaintext 0 b tag] bsp_kdf_ready [OF assms(1,2,5,3)] assms(4)
  by auto

theorem bsp_encrypt_roundtrip_witness:
  "\<exists>b segs b'. BspInstance_from_kdf demo_crypto demo_tlv [1, 2, 3] 0x88 16 [4] [5] = Inr b \<and>
     encrypt_and_mac demo_crypto demo_tlv 0x86 [7, 8, 9] b = (Inr segs, b') \<and>
     demac_and_decrypt demo_crypto demo_tlv segs b = (Inr [7, 8, 9], b') \<and> length segs = 1"
proof -
  obtain b where b: "BspInstance_from_kdf demo_crypto demo_tlv [1, 2, 3] 0x88 16 [4] [5] = Inr b"
    using demo_instance by blast
  with bsp_encrypt_roundtrip [OF demo_crypto_laws demo_tlv_laws b tag1_ok_values(1), of "[7, 8, 9]"]
  show ?thesis by auto
qed

text \<open>C9: BSP MAC-only round trip. The same for \<open>mac_only\<close> and \<open>demac_only\<close>, and every
  segment stays within \<open>MAX_SEGMENT_SIZE\<close>.\<close>

theorem bsp_mac_only_roundtrip:
  assumes "crypto_laws C" "tlv_laws T"
    and "BspInstance_from_kdf C T secret key_type key_length host_id eid = Inr b"
    and "tag1_ok tag" "(length plaintext + 1007) div 1008 < 256 ^ 16"
  shows "\<exists>segs b'. mac_only C T tag plaintext b = (Inr segs, b') \<and>
    demac_only C T segs b = (Inr plaintext, b') \<and>
    list_all (\<lambda>seg. length seg \<le> MAX_SEGMENT_SIZE) segs"
proof -
  have "bsp_ready C T ((length plaintext + 1007) div 1008 + 0) b"
    using bsp_kdf_ready [OF assms(1,2,5,3)] by simp
  from mac_only_ready [OF this assms(4)] obtain segs b' where
    "mac_only C T tag plaintext b = (Inr segs, b')" "demac_only C T segs b = (Inr plaintext, b')"
    "list_all (bsp_wire T tag 1016) segs" by blast
  then show ?thesis by (auto simp: list_all_iff intro: bsp_wire_length)
qed

theorem bsp_mac_only_roundtrip_witness:
  "\<exists>b segs b'. BspInstance_from_kdf demo_crypto demo_tlv [1, 2, 3] 0x88 16 [4] [5] = Inr b \<and>
     mac_only demo_crypto demo_tlv 0x88 [7, 8, 9] b = (Inr segs, b') \<and>
     demac_only demo_crypto demo_tlv segs b = (Inr [7, 8, 9], b') \<and>
     list_all (\<lambda>seg. length seg \<le> MAX_SEGMENT_SIZE) segs"
proof -
  obtain b where b: "BspInstance_from_kdf demo_crypto demo_tlv [1, 2, 3] 0x88 16 [4] [5] = Inr b"
    using demo_instance by blast
  with bsp_mac_only_roundtrip [OF demo_crypto_laws demo_tlv_laws b tag1_ok_values(3), of "[7, 8, 9]"]
  show ?thesis by auto
qed

text \<open>BSP padding. Padding a data block appends the byte 80 and 0 to 15 zero bytes, gives the
  next full multiple of 16 bytes above the length of the data, and is undone by \<open>_unpad\<close>,
  whatever bytes the data ends with.\<close>

theorem bsp_padding_correct:
  "\<exists>n < 16. pad_to_multiple aes128_get_padding d aes128_blocksize 0 = d @ 0x80 # replicate n 0 \<and>
     length (pad_to_multiple aes128_get_padding d aes128_blocksize 0) =
       16 * (length d div 16 + 1) \<and>
     aes128_unpad (pad_to_multiple aes128_get_padding d aes128_blocksize 0) = Inr d"
  using aes_padding.dec_enc [of d] length_aes128_padded [of d]
  by (intro exI [of _ "(16 - (length d + 1) mod 16) mod 16"])
    (simp add: aes128_padded del: replicate_0)

text \<open>Segments that are encrypted can exceed the maximum the module sets itself. A payload
  of the full \<open>max_payload_size\<close> grows by a whole block of padding, so its protected segment is
  1036 bytes long, although \<open>MAX_SEGMENT_SIZE\<close> (tag, length field and MAC included) is 1020.\<close>

theorem bsp_encrypted_segment_too_long:
  assumes "crypto_laws C" "tlv_laws T"
    and "BspInstance_from_kdf C T secret key_type key_length host_id eid = Inr b"
    and "length plaintext = max_payload_size b"
  shows "\<exists>seg b'. encrypt_and_mac C T 0x86 plaintext b = (Inr [seg], b') \<and>
    length seg = 1036 \<and> length seg > MAX_SEGMENT_SIZE"
proof -
  have rdy: "bsp_ready C T (Suc 0) b" by (rule bsp_kdf_ready [OF assms(1,2) _ assms(3)]) simp
  then have len: "length plaintext = 1008" using assms(4) by (simp add: bsp_ready_def)
  obtain c b' where c: "encrypt_and_mac_one C T 0x86 plaintext b = (Inr c, b')"
    "length c = 1 + length (bertlv_encode_len T ((length plaintext div 16 + 1) * 16 + 8)) +
      (length plaintext div 16 + 1) * 16 + 8"
    using encrypt_and_mac_one_ready [OF rdy tag1_ok_values(1), of plaintext] len by auto
  have "length (bertlv_encode_len T 1032) = 3"
    using tlv_encode_len_length [OF assms(2), of 1032] by simp
  with c(2) len have "length c = 1036" by simp
  moreover have "chunks 1008 plaintext = [plaintext]"
    using len chunks_rec [of plaintext 1008] by (cases "plaintext = []") simp_all
  ultimately show ?thesis using c(1) rdy
    by (simp add: encrypt_and_mac_def bsp_ready_def segment_loop_chunks MAX_SEGMENT_SIZE_def)
qed

theorem bsp_encrypted_segment_too_long_witness:
  "\<exists>b seg b'. BspInstance_from_kdf demo_crypto demo_tlv [1, 2, 3] 0x88 16 [4] [5] = Inr b \<and>
     encrypt_and_mac demo_crypto demo_tlv 0x86 (replicate (max_payload_size b) 1) b = (Inr [seg], b') \<and>
     length seg > MAX_SEGMENT_SIZE"
proof -
  obtain b where b: "BspInstance_from_kdf demo_crypto demo_tlv [1, 2, 3] 0x88 16 [4] [5] = Inr b"
    using demo_instance by blast
  with bsp_encrypted_segment_too_long [OF demo_crypto_laws demo_tlv_laws b,
      of "replicate (max_payload_size b) 1"]
  show ?thesis by auto
qed



end
