(* ===== verification/X509_Cert.thy ===== *)
theory X509_Cert
  imports Ext_Libs
begin

text \<open>
  \<^verbatim>\<open>pysim/pySim/esim/x509_cert.py\<close> and \<open>ecdsa_tr03111_to_dss\<close> of
  \<^verbatim>\<open>pysim/osmo-smdpp.py\<close>: certificates, the verification of certificate chains
  (class \<open>CertificateSet\<close>) and key pairs (class \<open>CertAndPrivkey\<close>). A certificate is the
  record of the attributes the program reads from an \<open>x509.Certificate\<close>; parsing, signing and
  verifying belong to the package \<open>cryptography\<close> and are fields of the parameter
  \<open>x509_lib\<close>. An authority key identifier extension always carries its key identifier here.
  The download and check of revocation lists (\<open>load_crl\<close>, \<open>verify_cert_crl\<close>, which no code of
  the repository calls) is left out.
\<close>

section \<open>Certificates\<close>

datatype extension_value =
    SubjectKeyIdentifier bytes
  | AuthorityKeyIdentifier bytes
  | CertificatePolicies "string list"
  | KeyUsage bool bool
  | NameConstraints "(string \<times> string) list list"
  | SubjectAlternativeName string
  | UnrecognizedExtension bytes
  | OtherExtension

text \<open>\<open>CertificatePolicies\<close> lists the policy identifiers in dotted form; \<open>KeyUsage\<close> has the
  bits keyCertSign and cRLSign; \<open>NameConstraints\<close> lists, for each permitted subtree that is a
  directory name, its attributes (dotted OID and value); \<open>SubjectAlternativeName\<close> has the
  registered OID; \<open>UnrecognizedExtension\<close> has the DER value.\<close>

record extension =
  ext_oid :: string
  ext_value :: extension_value

record certificate =
  cert_public_key :: bytes
  cert_extensions :: "extension list"
  cert_signature :: bytes
  cert_tbs :: bytes
  cert_subject_serials :: "string list"

text \<open>The functions of \<open>cryptography\<close>: signature check under a public key (false where the
  package raises \<open>InvalidSignature\<close>), signing with a private key, DER signatures from and to
  their two integers, certificates from and to DER.\<close>

record x509_lib =
  pk_verify :: "bytes \<Rightarrow> bytes \<Rightarrow> bytes \<Rightarrow> bool"
  sk_sign :: "bytes \<Rightarrow> bytes \<Rightarrow> bytes"
  encode_dss_signature :: "nat \<Rightarrow> nat \<Rightarrow> bytes"
  decode_dss_signature :: "bytes \<Rightarrow> nat \<times> nat"
  load_der_x509_certificate :: "bytes \<Rightarrow> certificate result"
  cert_public_bytes :: "certificate \<Rightarrow> bytes"

definition check_signed :: "x509_lib \<Rightarrow> certificate \<Rightarrow> certificate \<Rightarrow> unit result" where
  "check_signed X cert signer =
     (if pk_verify X (cert_public_key signer) (cert_signature cert) (cert_tbs cert)
      then Inr () else Inl InvalidSignature)"

text \<open>\<open>extensions.get_extension_for_class(...).value\<close>.\<close>

fun get_ski :: "extension list \<Rightarrow> bytes result" where
  "get_ski [] = Inl ExtensionNotFound"
| "get_ski (x # xs) = (case ext_value x of SubjectKeyIdentifier k \<Rightarrow> Inr k | _ \<Rightarrow> get_ski xs)"

fun get_aki :: "extension list \<Rightarrow> bytes result" where
  "get_aki [] = Inl ExtensionNotFound"
| "get_aki (x # xs) = (case ext_value x of AuthorityKeyIdentifier k \<Rightarrow> Inr k | _ \<Rightarrow> get_aki xs)"

fun get_key_usage :: "extension list \<Rightarrow> (bool \<times> bool) result" where
  "get_key_usage [] = Inl ExtensionNotFound"
| "get_key_usage (x # xs) = (case ext_value x of KeyUsage a b \<Rightarrow> Inr (a, b) | _ \<Rightarrow> get_key_usage xs)"

definition cert_get_subject_key_id :: "certificate \<Rightarrow> bytes result" where
  "cert_get_subject_key_id cert = get_ski (cert_extensions cert)"

definition cert_get_auth_key_id :: "certificate \<Rightarrow> bytes result" where
  "cert_get_auth_key_id cert = get_aki (cert_extensions cert)"

definition cert_policy_has_oid :: "certificate \<Rightarrow> string \<Rightarrow> bool" where
  "cert_policy_has_oid cert match_oid =
     list_ex (\<lambda>x. case ext_value x of CertificatePolicies ps \<Rightarrow> List.member ps match_oid | _ \<Rightarrow> False)
       (cert_extensions cert)"

section \<open>Role OIDs\<close>

definition ID_RSP :: string where
  "ID_RSP = ''2.23.146.1''"

definition ID_RSP_CERT_OBJECTS :: string where
  "ID_RSP_CERT_OBJECTS = join_with ''.'' [ID_RSP, ''2'']"

definition ID_RSP_ROLE :: string where
  "ID_RSP_ROLE = join_with ''.'' [ID_RSP_CERT_OBJECTS, ''1'']"

definition id_rspRole_ci :: string where
  "id_rspRole_ci = ID_RSP_ROLE @ ''.0''"

definition id_rspRole_dp_auth_v2 :: string where
  "id_rspRole_dp_auth_v2 = ID_RSP_ROLE @ ''.4''"

definition id_rspRole_dp_pb_v2 :: string where
  "id_rspRole_dp_pb_v2 = ID_RSP_ROLE @ ''.5''"

section \<open>CertificateSet\<close>

record certificate_set =
  root_cert :: certificate
  intermediate_certs :: "bytes \<rightharpoonup> certificate"

definition CertificateSet_init :: "x509_lib \<Rightarrow> certificate \<Rightarrow> certificate_set result" where
  "CertificateSet_init X root =
     bindR (check_signed X root root) (\<lambda>_.
       if \<not> cert_policy_has_oid root id_rspRole_ci then Inl ValueError
       else bindR (get_key_usage (cert_extensions root)) (\<lambda>(key_cert_sign, crl_sign).
         if \<not> key_cert_sign then Inl ValueError
         else if \<not> crl_sign then Inl ValueError
         else Inr \<lparr>root_cert = root, intermediate_certs = Map.empty\<rparr>))"

definition root_cert_id :: "certificate_set \<Rightarrow> bytes result" where
  "root_cert_id cs = cert_get_subject_key_id (root_cert cs)"

definition add_intermediate_cert :: "certificate_set \<Rightarrow> certificate \<Rightarrow> certificate_set result" where
  "add_intermediate_cert cs cert =
     bindR (get_key_usage (cert_extensions cert)) (\<lambda>(key_cert_sign, crl_sign).
       if \<not> key_cert_sign then Inl ValueError
       else bindR (cert_get_auth_key_id cert) (\<lambda>aki.
            bindR (cert_get_subject_key_id cert) (\<lambda>ski.
              if aki = ski then Inl ValueError
              else Inr (cs\<lparr>intermediate_certs := (intermediate_certs cs)(ski \<mapsto> cert)\<rparr>))))"

text \<open>The loop of \<open>verify_cert_chain\<close>; it stops at \<open>max_depth\<close> at the latest.\<close>

function verify_chain_loop ::
  "x509_lib \<Rightarrow> certificate_set \<Rightarrow> nat \<Rightarrow> nat \<Rightarrow> certificate \<Rightarrow> unit result" where
  "verify_chain_loop X cs max_depth depth c =
     bindR (cert_get_auth_key_id c) (\<lambda>aki.
     bindR (root_cert_id cs) (\<lambda>rid.
       if aki = rid then check_signed X c (root_cert cs)
       else (case intermediate_certs cs aki of
               None \<Rightarrow> Inl VerifyError
             | Some parent_cert \<Rightarrow>
                 bindR (check_signed X c parent_cert) (\<lambda>_.
                   if depth + 1 > max_depth then Inl VerifyError
                   else verify_chain_loop X cs max_depth (depth + 1) parent_cert))))"
  by pat_completeness auto
termination
  by (relation "measure (\<lambda>(X, cs, max_depth, depth, c). max_depth - depth)") auto

definition verify_cert_chain :: "x509_lib \<Rightarrow> certificate_set \<Rightarrow> certificate \<Rightarrow> nat \<Rightarrow> unit result" where
  "verify_cert_chain X cs cert max_depth = verify_chain_loop X cs max_depth 1 cert"

section \<open>ECDSA signatures and key pairs\<close>

definition ecdsa_dss_to_tr03111 :: "x509_lib \<Rightarrow> bytes \<Rightarrow> bytes result" where
  "ecdsa_dss_to_tr03111 X sig =
     (case decode_dss_signature X sig of (r, s) \<Rightarrow>
        bindR (to_bytes_be 32 r) (\<lambda>rb. bindR (to_bytes_be 32 s) (\<lambda>sb. Inr (rb @ sb))))"

definition ecdsa_tr03111_to_dss :: "x509_lib \<Rightarrow> bytes \<Rightarrow> bytes result" where
  "ecdsa_tr03111_to_dss X sig =
     assertR (length sig = 64)
       (let r = from_bytes_be (slice 0 32 sig); s = from_bytes_be (slice 32 (32 * 2) sig)
        in Inr (encode_dss_signature X r s))"

record cert_and_privkey =
  required_policy_oid :: "string option"
  cp_cert :: "certificate option"
  cp_priv_key :: "bytes option"

definition CertAndPrivkey_init ::
  "string option \<Rightarrow> certificate option \<Rightarrow> bytes option \<Rightarrow> cert_and_privkey" where
  "CertAndPrivkey_init required cert priv_key =
     \<lparr>required_policy_oid = required, cp_cert = cert, cp_priv_key = priv_key\<rparr>"

text \<open>\<open>cert_from_der_file\<close>, given the contents of the file.\<close>

definition cert_from_der_file :: "x509_lib \<Rightarrow> bytes \<Rightarrow> cert_and_privkey \<Rightarrow> cert_and_privkey result" where
  "cert_from_der_file X contents cp =
     bindR (load_der_x509_certificate X contents) (\<lambda>cert.
       (case required_policy_oid cp of
          Some (c # cs) \<Rightarrow> assertR (cert_policy_has_oid cert (c # cs)) (Inr (cp\<lparr>cp_cert := Some cert\<rparr>))
        | _ \<Rightarrow> Inr (cp\<lparr>cp_cert := Some cert\<rparr>)))"

definition ecdsa_sign :: "x509_lib \<Rightarrow> cert_and_privkey \<Rightarrow> bytes \<Rightarrow> bytes result" where
  "ecdsa_sign X cp plaintext =
     (case cp_priv_key cp of
        None \<Rightarrow> Inl AttributeError
      | Some sk \<Rightarrow> ecdsa_dss_to_tr03111 X (sk_sign X sk plaintext))"

text \<open>\<open>list(filter(isinstance, self.cert.extensions))[0].value\<close>: no match raises
  \<open>IndexError\<close>, a missing certificate \<open>AttributeError\<close>.\<close>

definition get_authority_key_identifier :: "cert_and_privkey \<Rightarrow> bytes result" where
  "get_authority_key_identifier cp =
     (case cp_cert cp of
        None \<Rightarrow> Inl AttributeError
      | Some cert \<Rightarrow> catchR (get_aki (cert_extensions cert)) (\<lambda>_. Inl IndexError))"

fun get_san :: "extension list \<Rightarrow> string result" where
  "get_san [] = Inl IndexError"
| "get_san (x # xs) = (case ext_value x of SubjectAlternativeName s \<Rightarrow> Inr s | _ \<Rightarrow> get_san xs)"

definition get_subject_alt_name :: "cert_and_privkey \<Rightarrow> string result" where
  "get_subject_alt_name cp =
     (case cp_cert cp of None \<Rightarrow> Inl AttributeError | Some cert \<Rightarrow> get_san (cert_extensions cert))"

definition get_cert_as_der :: "x509_lib \<Rightarrow> cert_and_privkey \<Rightarrow> bytes result" where
  "get_cert_as_der X cp =
     (case cp_cert cp of None \<Rightarrow> Inl AttributeError | Some cert \<Rightarrow> Inr (cert_public_bytes X cert))"

section \<open>Certificate chains: the specification\<close>

definition signed_by :: "x509_lib \<Rightarrow> certificate \<Rightarrow> certificate \<Rightarrow> bool" where
  "signed_by X c p \<longleftrightarrow> pk_verify X (cert_public_key p) (cert_signature c) (cert_tbs c)"

text \<open>\<open>chain X cs n c\<close>: the certificate leads to the root over \<open>n\<close> intermediate
  certificates of the set, each found by the authority key identifier of the one before, and every
  link is signed.\<close>

inductive chain :: "x509_lib \<Rightarrow> certificate_set \<Rightarrow> nat \<Rightarrow> certificate \<Rightarrow> bool" for X cs where
  chain_root: "cert_get_auth_key_id c = Inr rid \<Longrightarrow> root_cert_id cs = Inr rid \<Longrightarrow>
     signed_by X c (root_cert cs) \<Longrightarrow> chain X cs 0 c"
| chain_step: "cert_get_auth_key_id c = Inr aki \<Longrightarrow> root_cert_id cs = Inr rid \<Longrightarrow> aki \<noteq> rid \<Longrightarrow>
     intermediate_certs cs aki = Some p \<Longrightarrow> signed_by X c p \<Longrightarrow> chain X cs n p \<Longrightarrow>
     chain X cs (Suc n) c"

inductive_cases chain_0E: "chain X cs 0 c"
inductive_cases chain_SucE: "chain X cs (Suc n) c"

lemma check_signed_iff [simp]: "check_signed X c p = Inr u \<longleftrightarrow> signed_by X c p"
  by (simp add: check_signed_def signed_by_def)

lemma check_signed_Inl [simp]: "check_signed X c p = Inl e \<longleftrightarrow> \<not> signed_by X c p \<and> e = InvalidSignature"
  by (auto simp: check_signed_def signed_by_def)

declare verify_chain_loop.simps [simp del]

lemma verify_chain_loop_sound:
  "verify_chain_loop X cs md d c = Inr () \<Longrightarrow> \<exists>n. chain X cs n c \<and> (n = 0 \<or> d + n \<le> md)"
proof (induction X cs md d c rule: verify_chain_loop.induct)
  case (1 X cs md d c)
  from "1.prems" obtain aki rid where k: "cert_get_auth_key_id c = Inr aki" "root_cert_id cs = Inr rid"
    by (subst (asm) verify_chain_loop.simps) auto
  show ?case
  proof (cases "aki = rid")
    case True
    with "1.prems" k show ?thesis
      by (subst (asm) verify_chain_loop.simps) (auto intro: chain.chain_root)
  next
    case False
    with "1.prems" k obtain p where p: "intermediate_certs cs aki = Some p" "signed_by X c p"
      "d + 1 \<le> md" "verify_chain_loop X cs md (d + 1) p = Inr ()"
      by (subst (asm) verify_chain_loop.simps) (auto split: option.splits if_splits)
    then obtain n where "chain X cs n p" "n = 0 \<or> d + 1 + n \<le> md"
      using "1.IH" [OF k False p(1)] by fastforce
    with k False p show ?thesis
      by (intro exI [of _ "Suc n"]) (auto intro: chain.chain_step)
  qed
qed

lemma verify_chain_loop_complete:
  "chain X cs n c \<Longrightarrow> n = 0 \<or> d + n \<le> md \<Longrightarrow> verify_chain_loop X cs md d c = Inr ()"
proof (induction n c arbitrary: d rule: chain.induct)
  case (chain_root c rid)
  then show ?case by (subst verify_chain_loop.simps) simp
next
  case (chain_step c aki rid p n)
  then have "verify_chain_loop X cs md (d + 1) p = Inr ()" by auto
  with chain_step show ?case by (subst verify_chain_loop.simps) simp
qed

lemma verify_cert_chain_iff:
  "verify_cert_chain X cs c md = Inr () \<longleftrightarrow> (\<exists>n. chain X cs n c \<and> (n = 0 \<or> n < md))"
  unfolding verify_cert_chain_def
  using verify_chain_loop_sound [of X cs md 1 c] verify_chain_loop_complete [of X cs _ c 1 md]
  by (auto simp: Suc_le_eq)

text \<open>With one intermediate certificate a chain has at most one intermediate link.\<close>

lemma CertificateSet_init_eq:
  "CertificateSet_init X root = Inr cs \<Longrightarrow>
   cs = \<lparr>root_cert = root, intermediate_certs = Map.empty\<rparr> \<and> signed_by X root root \<and>
   cert_policy_has_oid root id_rspRole_ci"
  by (auto simp: CertificateSet_init_def split: if_splits)

lemma add_intermediate_cert_eq:
  "add_intermediate_cert cs c = Inr cs' \<Longrightarrow>
   \<exists>aki ski crl. cert_get_auth_key_id c = Inr aki \<and> cert_get_subject_key_id c = Inr ski \<and> aki \<noteq> ski \<and>
     get_key_usage (cert_extensions c) = Inr (True, crl) \<and>
     cs' = cs\<lparr>intermediate_certs := (intermediate_certs cs)(ski \<mapsto> c)\<rparr>"
  by (auto simp: add_intermediate_cert_def split: if_splits)

lemma chain_one_intermediate:
  assumes "CertificateSet_init X root = Inr cs0" "add_intermediate_cert cs0 eum = Inr cs"
    and "chain X cs n c"
  shows "n = 0 \<and> signed_by X c root \<or>
    n = 1 \<and> signed_by X c eum \<and> signed_by X eum root \<and>
      cert_get_auth_key_id c = cert_get_subject_key_id eum \<and>
      cert_get_auth_key_id eum = cert_get_subject_key_id root"
proof -
  from CertificateSet_init_eq [OF assms(1)] add_intermediate_cert_eq [OF assms(2)] obtain aki ski where
    cs: "cs = \<lparr>root_cert = root, intermediate_certs = [ski \<mapsto> eum]\<rparr>"
    and k: "cert_get_auth_key_id eum = Inr aki" "cert_get_subject_key_id eum = Inr ski" "aki \<noteq> ski"
    by auto
  have eum: "m = 0" if "chain X cs m eum" for m
    using that k cs by cases auto
  from assms(3) show ?thesis
  proof cases
    case (chain_root rid)
    with cs show ?thesis by simp
  next
    case (chain_step aki' rid p m)
    with cs have p: "p = eum" "aki' = ski" by (auto split: if_splits)
    with chain_step eum have "m = 0" by simp
    with chain_step p have "chain X cs 0 eum" by simp
    then have "signed_by X eum root" "cert_get_auth_key_id eum = cert_get_subject_key_id root"
      using cs by (auto elim!: chain_0E simp: root_cert_id_def)
    with chain_step p k \<open>m = 0\<close> show ?thesis by simp
  qed
qed

section \<open>ECDSA signatures: lemmas\<close>

definition dss_laws :: "x509_lib \<Rightarrow> bool" where
  "dss_laws X \<longleftrightarrow> (\<forall>r s. decode_dss_signature X (encode_dss_signature X r s) = (r, s))"

lemma tr03111_halves:
  assumes "length sig = 64"
  shows "to_bytes_raw 32 (from_bytes_be (take 32 sig)) @ to_bytes_raw 32 (from_bytes_be (drop 32 sig)) = sig"
  using to_from_bytes_raw [of "take 32 sig"] to_from_bytes_raw [of "drop 32 sig"] assms by simp

text \<open>A concrete instance for the witnesses: two integers in unary, a signature is valid if its
  first integer is the length of key and data together, and every certificate file holds one byte,
  the index in a given list.\<close>

definition demo_encode_dss :: "nat \<Rightarrow> nat \<Rightarrow> bytes" where
  "demo_encode_dss r s = replicate r 0 @ 1 # replicate s 0"

definition demo_decode_dss :: "bytes \<Rightarrow> nat \<times> nat" where
  "demo_decode_dss b =
     (length (takeWhile (\<lambda>x. x = 0) b), length b - 1 - length (takeWhile (\<lambda>x. x = 0) b))"

definition demo_x509 :: "certificate list \<Rightarrow> x509_lib" where
  "demo_x509 certs = \<lparr>
     pk_verify = (\<lambda>pk sig data. fst (demo_decode_dss sig) = length pk + length data),
     sk_sign = (\<lambda>sk data. demo_encode_dss (length sk + length data) 0),
     encode_dss_signature = demo_encode_dss,
     decode_dss_signature = demo_decode_dss,
     load_der_x509_certificate = (\<lambda>b. case b of
         [i] \<Rightarrow> if unat i < length certs then Inr (certs ! unat i) else Inl ValueError
       | _ \<Rightarrow> Inl ValueError),
     cert_public_bytes = (\<lambda>c. case find (\<lambda>i. certs ! i = c) [0..<length certs] of
         Some i \<Rightarrow> [of_nat i] | None \<Rightarrow> [])\<rparr>"

lemma demo_dss: "demo_decode_dss (demo_encode_dss r s) = (r, s)"
proof -
  have "takeWhile (\<lambda>x. x = 0) (replicate r 0 @ 1 # replicate s (0 :: byte)) = replicate r 0"
    by (simp add: takeWhile_tail)
  then show ?thesis by (simp add: demo_decode_dss_def demo_encode_dss_def)
qed

lemma demo_dss_laws: "dss_laws (demo_x509 certs)"
  by (simp add: dss_laws_def demo_x509_def demo_dss)

section \<open>Properties\<close>

text \<open>C11: Certificate chain verification is exact. \<open>verify_cert_chain\<close> always terminates, and it
  returns without an exception if and only if the certificate leads, over intermediate certificates
  of the set found by their key identifiers and with every signature valid, to the root; the
  number of intermediates is below \<open>max_depth\<close> (or 0).\<close>

theorem verify_cert_chain_exact:
  "verify_cert_chain X cs cert max_depth = Inr () \<longleftrightarrow>
     (\<exists>n. chain X cs n cert \<and> (n = 0 \<or> n < max_depth))"
  by (rule verify_cert_chain_iff)

text \<open>Conversion between raw and DER signatures. For every 64-byte raw signature, converting to
  DER and back is the identity, provided the package decodes what it encodes; any other length
  violates the assertion.\<close>

theorem tr03111_roundtrip:
  assumes "dss_laws X"
  shows "bindR (ecdsa_tr03111_to_dss X sig) (ecdsa_dss_to_tr03111 X) =
    (if length sig = 64 then Inr sig else Inl AssertionError)"
proof (cases "length sig = 64")
  case True
  have "from_bytes_be (take 32 sig) < 256 ^ 32" "from_bytes_be (drop 32 sig) < 256 ^ 32"
    using from_bytes_be_bound [of "take 32 sig"] from_bytes_be_bound [of "drop 32 sig"] True by simp_all
  with True assms tr03111_halves [OF True] show ?thesis
    by (simp add: ecdsa_tr03111_to_dss_def ecdsa_dss_to_tr03111_def dss_laws_def Let_def slice_def
        to_bytes_be_def)
next
  case False
  then show ?thesis by (simp add: ecdsa_tr03111_to_dss_def)
qed

theorem tr03111_roundtrip_witness:
  "bindR (ecdsa_tr03111_to_dss (demo_x509 []) (replicate 64 7)) (ecdsa_dss_to_tr03111 (demo_x509 [])) =
     Inr (replicate 64 7)"
  using tr03111_roundtrip [OF demo_dss_laws, of "[]" "replicate 64 7"] by simp

end
