(* ===== verification/Rsp_Asn1.thy ===== *)
theory Rsp_Asn1
  imports X509_Cert
begin

text \<open>
  The decoded forms of the ASN.1 types of \<^verbatim>\<open>pysim/pySim/esim/asn1/rsp/rsp.asn\<close> that the
  program reads or builds, and the remaining parameters of the SM-DP+ model: the compiled codec
  \<open>rsp.asn1\<close> (package asn1tools), the hex helpers of \<open>osmocom.utils\<close> and the elliptic
  curve operations of \<open>cryptography\<close>. Only the components the program uses are fields of the
  records; a CHOICE is a datatype, because asn1tools decodes it to a pair of alternative and value.
\<close>

section \<open>Decoded values\<close>

record store_metadata_request =
  smr_iccid :: bytes
  smr_serviceProviderName :: string
  smr_profileName :: string
  smr_icon :: "(bytes \<times> nat) option"
  smr_notificationConfigurationInfo :: "((bytes \<times> nat) \<times> string) list option"

record replace_session_keys =
  ppkEnc :: bytes
  ppkCmac :: bytes
  initialMacChainingValue :: bytes

record control_ref_template =
  crt_keyType :: bytes
  crt_keyLen :: bytes
  crt_hostId :: bytes

record init_sec_chan_part =
  remoteOpId :: nat
  isc_transactionId :: bytes
  controlRefTemplate :: control_ref_template
  smdpOtpk :: bytes

record init_sec_chan = init_sec_chan_part +
  smdpSign :: bytes

record euicc_info1 =
  euiccCiPKIdListForSigning :: "bytes list"
  euiccCiPKIdListForSigningV3 :: "bytes list option"
  euiccCiPKIdListForVerification :: "bytes list option"

record server_signed1 =
  ss1_transactionId :: bytes
  ss1_euiccChallenge :: bytes
  ss1_serverAddress :: string
  ss1_serverChallenge :: bytes

record smdp_signed2 =
  sd2_transactionId :: bytes
  sd2_ccRequiredFlag :: bool

text \<open>\<open>CtxParams1\<close>: the one alternative of the schema, with its optional \<open>matchingId\<close>, and
  any other a later version may define.\<close>

datatype ctx_params1 =
    CtxParamsForCommonAuthentication "string option"
  | OtherCtxParams1

record euicc_signed1 =
  es1_serverChallenge :: bytes
  es1_ctxParams1 :: ctx_params1

text \<open>A decoded \<open>Certificate\<close> is opaque to the program: it is only encoded again.\<close>

datatype asn_certificate = AsnCertificate bytes

record authenticate_response_ok =
  aro_euiccSigned1 :: euicc_signed1
  aro_euiccSignature1 :: bytes
  aro_euiccCertificate :: asn_certificate
  aro_eumCertificate :: asn_certificate

datatype authenticate_server_response =
    AuthenticateResponseOk authenticate_response_ok
  | AuthenticateResponseError

record euicc_signed2 =
  es2_transactionId :: bytes
  es2_euiccOtpk :: bytes

datatype prepare_download_response =
    DownloadResponseOk euicc_signed2 bytes
  | DownloadResponseError

text \<open>\<open>finalResult\<close>: AID and response of the ISD-P, or command, reason and optional response.\<close>

datatype final_result =
    SuccessResult bytes bytes
  | ErrorResult nat nat "bytes option"

record pir_data =
  pird_transactionId :: bytes
  pird_finalResult :: final_result

record notification_metadata =
  nm_profileManagementOperation :: "bytes \<times> nat"
  nm_notificationAddress :: string
  nm_iccid :: "bytes option"

record other_signed_notification =
  osn_tbsOtherNotification :: notification_metadata
  osn_euiccNotificationSignature :: bytes
  osn_euiccCertificate :: asn_certificate
  osn_eumCertificate :: asn_certificate

datatype pending_notification =
    ProfileInstallationResult pir_data bytes
  | OtherSignedNotification other_signed_notification

record euicc_cancel_session_signed =
  ecs_transactionId :: bytes
  ecs_smdpOid :: string

datatype cancel_session_response =
    CancelSessionResponseOk euicc_cancel_session_signed bytes
  | CancelSessionResponseError

section \<open>The codec\<close>

record asn1_lib =
  enc_StoreMetadataRequest :: "store_metadata_request \<Rightarrow> bytes result"
  dec_StoreMetadataRequest :: "bytes \<Rightarrow> store_metadata_request result"
  enc_ReplaceSessionKeysRequest :: "replace_session_keys \<Rightarrow> bytes result"
  dec_ReplaceSessionKeysRequest :: "bytes \<Rightarrow> replace_session_keys result"
  enc_ConfigureISDPRequest :: "bytes result"
  dec_ConfigureISDPRequest :: "bytes \<Rightarrow> unit result"
  enc_InitialiseSecureChannelRequest :: "init_sec_chan \<Rightarrow> bytes result"
  dec_InitialiseSecureChannelRequest :: "bytes \<Rightarrow> init_sec_chan result"
  dec_EUICCInfo1 :: "bytes \<Rightarrow> euicc_info1 result"
  enc_ServerSigned1 :: "server_signed1 \<Rightarrow> bytes result"
  enc_SmdpSigned2 :: "smdp_signed2 \<Rightarrow> bytes result"
  dec_AuthenticateServerResponse :: "bytes \<Rightarrow> authenticate_server_response result"
  dec_PrepareDownloadResponse :: "bytes \<Rightarrow> prepare_download_response result"
  dec_PendingNotification :: "bytes \<Rightarrow> pending_notification result"
  enc_ProfileInstallationResultData :: "pir_data \<Rightarrow> bytes result"
  enc_NotificationMetadata :: "notification_metadata \<Rightarrow> bytes result"
  dec_CancelSessionResponse :: "bytes \<Rightarrow> cancel_session_response result"
  enc_EuiccCancelSessionSigned :: "euicc_cancel_session_signed \<Rightarrow> bytes result"
  enc_Certificate :: "asn_certificate \<Rightarrow> bytes result"

text \<open>What the binding of profile packages relies on: the codec decodes what it encodes, and the
  encoding of an \<open>InitialiseSecureChannelRequest\<close> is one TLV with tag BF23; data with another
  tag is refused. The encodings are shorter than the largest TLV.\<close>

definition bpp_asn1_laws :: "tlv_lib \<Rightarrow> asn1_lib \<Rightarrow> bool" where
  "bpp_asn1_laws T A \<longleftrightarrow>
     (\<forall>x y. enc_StoreMetadataRequest A x = Inr y \<longrightarrow>
        dec_StoreMetadataRequest A y = Inr x \<and> length y < len_bound) \<and>
     (\<forall>x y. enc_ReplaceSessionKeysRequest A x = Inr y \<longrightarrow>
        dec_ReplaceSessionKeysRequest A y = Inr x \<and> length y < len_bound) \<and>
     (\<forall>y. enc_ConfigureISDPRequest A = Inr y \<longrightarrow>
        dec_ConfigureISDPRequest A y = Inr () \<and> length y < len_bound) \<and>
     (\<forall>x y. enc_InitialiseSecureChannelRequest A x = Inr y \<longrightarrow>
        dec_InitialiseSecureChannelRequest A y = Inr x \<and>
        (\<exists>v. length v < len_bound \<and>
             y = bertlv_encode_tag T 0xBF23 @ bertlv_encode_len T (length v) @ v)) \<and>
     (\<forall>t v. tag_ok t \<longrightarrow> t \<noteq> 0xBF23 \<longrightarrow> length v < len_bound \<longrightarrow>
        (\<exists>e. dec_InitialiseSecureChannelRequest A
          (bertlv_encode_tag T t @ bertlv_encode_len T (length v) @ v) = Inl e))"

section \<open>osmocom.utils and elliptic curves\<close>

record osmo_utils =
  h2b :: "string \<Rightarrow> bytes result"
  b2h :: "bytes \<Rightarrow> string"
  swap_nibbles :: "string \<Rightarrow> string"

text \<open>A private key is its value and the name of its curve.\<close>

record ec_private_key =
  ek_private_value :: nat
  ek_curve :: string

record ec_lib =
  ec_public_point :: "ec_private_key \<Rightarrow> bytes"
  ec_exchange :: "ec_private_key \<Rightarrow> bytes \<Rightarrow> bytes result"

text \<open>\<open>public_bytes(X962, UncompressedPoint)\<close>; and \<open>exchange(ECDH(), ...)\<close> with the point
  decoded on the key's own curve, which raises for bytes that are no point. On one curve the
  exchange is commutative.\<close>

definition ecdh_laws :: "ec_lib \<Rightarrow> bool" where
  "ecdh_laws E \<longleftrightarrow>
     (\<forall>a b. ek_curve a = ek_curve b \<longrightarrow>
        (\<exists>z. ec_exchange E a (ec_public_point E b) = Inr z \<and>
             ec_exchange E b (ec_public_point E a) = Inr z))"

end
