(* ===== verification/Esim_Codes.thy ===== *)
theory Esim_Codes
  imports Vrsp_Prelude
begin

text \<open>
  \<^verbatim>\<open>pysim/pySim/esim/__init__.py\<close>: the profile management operation of notifications
  (class \<open>PMO\<close>) and the activation code of SGP.22 section 4.1 (class
  \<open>ActivationCode\<close>). A \<open>PMO\<close> instance is its only field, the operation's name; an
  \<open>ActivationCode\<close> is a record of its fields.
\<close>

section \<open>PMO\<close>

type_synonym pmo = string

definition pmo4operation :: "(string \<times> nat) list" where
  "pmo4operation = [(''install'', 0x80), (''enable'', 0x40), (''disable'', 0x20), (''delete'', 0x10)]"

definition PMO_init :: "string \<Rightarrow> pmo result" where
  "PMO_init op = (if op \<in> set (map fst pmo4operation) then Inr op else Inl ValueError)"

definition PMO_to_int :: "pmo \<Rightarrow> nat result" where
  "PMO_to_int p = (case map_of pmo4operation p of None \<Rightarrow> Inl KeyError | Some v \<Rightarrow> Inr v)"

text \<open>The loop \<open>for i in range(0, 8)\<close> with its early return.\<close>

definition PMO_num_bits :: "nat \<Rightarrow> nat" where
  "PMO_num_bits data = (case find (\<lambda>i. bit data i) [0..<8] of Some i \<Rightarrow> 8 - i | None \<Rightarrow> 0)"

definition PMO_to_bitstring :: "pmo \<Rightarrow> (bytes \<times> nat) result" where
  "PMO_to_bitstring p =
     bindR (PMO_to_int p) (\<lambda>val.
       if val < 256 then Inr ([of_nat val], PMO_num_bits val) else Inl ValueError)"

fun PMO_lookup_int :: "(string \<times> nat) list \<Rightarrow> nat \<Rightarrow> pmo result" where
  "PMO_lookup_int [] i = Inl ValueError"
| "PMO_lookup_int ((k, v) # items) i = (if v = i then PMO_init k else PMO_lookup_int items i)"

definition PMO_from_int :: "nat \<Rightarrow> pmo result" where
  "PMO_from_int i = PMO_lookup_int pmo4operation i"

definition PMO_from_bitstring :: "bytes \<times> nat \<Rightarrow> pmo result" where
  "PMO_from_bitstring bstr = bindR (nthR (fst bstr) 0) (\<lambda>b. PMO_from_int (unat b))"

definition PMO_valid :: "pmo \<Rightarrow> bool" where
  "PMO_valid p \<longleftrightarrow> PMO_init p = Inr p"

section \<open>ActivationCode\<close>

record activation_code =
  ac_hostname :: string
  ac_token :: string
  ac_oid :: "string option"
  ac_cc_required :: bool
  ac_format :: nat

definition ActivationCode_init ::
  "string \<Rightarrow> string \<Rightarrow> string option \<Rightarrow> bool \<Rightarrow> activation_code result" where
  "ActivationCode_init hostname token oid cc_required =
     (if CHR ''$'' \<in> set hostname then Inl ValueError
      else if CHR ''$'' \<in> set token then Inl ValueError
      else Inr \<lparr>ac_hostname = hostname, ac_token = token, ac_oid = oid,
                ac_cc_required = cc_required, ac_format = 1\<rparr>)"

text \<open>The dictionary \<open>decode_str\<close> returns.\<close>

record ac_dict =
  d_format :: string
  d_hostname :: string
  d_token :: string
  d_oid :: "string option"
  d_cc_required :: bool

text \<open>The two optional trailing elements, each popped only if present.\<close>

fun ac_tail :: "string list \<Rightarrow> string option \<times> bool" where
  "ac_tail [] = (None, False)"
| "ac_tail [oid] = (if oid \<noteq> [] then Some oid else None, False)"
| "ac_tail (oid # ccr # rest) = (if oid \<noteq> [] then Some oid else None, ccr = ''1'')"

definition ActivationCode_decode_str :: "string \<Rightarrow> ac_dict result" where
  "ActivationCode_decode_str ac =
     bindR (nthR ac 0) (\<lambda>c.
       if c \<noteq> CHR ''1'' then Inl ValueError
       else (case split_on (CHR ''$'') ac of
               f # h # t # rest \<Rightarrow>
                 Inr \<lparr>d_format = f, d_hostname = h, d_token = t,
                      d_oid = fst (ac_tail rest), d_cc_required = snd (ac_tail rest)\<rparr>
             | _ \<Rightarrow> Inl IndexError))"

definition ActivationCode_from_string :: "string \<Rightarrow> activation_code result" where
  "ActivationCode_from_string ac =
     bindR (ActivationCode_decode_str ac) (\<lambda>d.
       ActivationCode_init (d_hostname d) (d_token d) (d_oid d) (d_cc_required d))"

text \<open>\<open>self.format\<close> is 1 in every instance, so the conversion \<open>\<^verbatim>\<open>%d\<close>\<close> prints the digit 1.\<close>

definition ActivationCode_to_string :: "bool \<Rightarrow> activation_code \<Rightarrow> string" where
  "ActivationCode_to_string for_qrcode a =
     (if for_qrcode then ''LPA:'' else []) @
     ''1$'' @ ac_hostname a @ ''$'' @ ac_token a @
     (case ac_oid a of
        Some (c # cs) \<Rightarrow> CHR ''$'' # c # cs
      | _ \<Rightarrow> if ac_cc_required a then ''$'' else []) @
     (if ac_cc_required a then ''$1'' else [])"

text \<open>The instances the class builds whose OID, if any, is a non-empty string free of the separator.\<close>

definition ac_ok :: "activation_code \<Rightarrow> bool" where
  "ac_ok a \<longleftrightarrow>
     CHR ''$'' \<notin> set (ac_hostname a) \<and> CHR ''$'' \<notin> set (ac_token a) \<and>
     (case ac_oid a of None \<Rightarrow> True | Some x \<Rightarrow> x \<noteq> [] \<and> CHR ''$'' \<notin> set x) \<and>
     ac_format a = 1"

section \<open>PMO: lemmas\<close>

lemma PMO_valid_cases:
  "PMO_valid p \<longleftrightarrow> p = ''install'' \<or> p = ''enable'' \<or> p = ''disable'' \<or> p = ''delete''"
  by (auto simp: PMO_valid_def PMO_init_def pmo4operation_def)

lemma PMO_bitstring_values:
  "PMO_to_bitstring ''install'' = Inr ([0x80], 1)"
  "PMO_to_bitstring ''enable'' = Inr ([0x40], 2)"
  "PMO_to_bitstring ''disable'' = Inr ([0x20], 3)"
  "PMO_to_bitstring ''delete'' = Inr ([0x10], 4)"
  by code_simp+

lemma PMO_from_int_values:
  "PMO_from_int 128 = Inr ''install''" "PMO_from_int 64 = Inr ''enable''"
  "PMO_from_int 32 = Inr ''disable''" "PMO_from_int 16 = Inr ''delete''"
  by code_simp+

interpretation pmo: codec PMO_to_bitstring PMO_from_bitstring PMO_valid
  by unfold_locales
    (auto simp: PMO_valid_cases PMO_bitstring_values PMO_from_bitstring_def nthR_def PMO_from_int_values)

section \<open>ActivationCode: lemmas\<close>

lemma ac_to_string_False:
  "ActivationCode_to_string False a =
     ''1$'' @ ac_hostname a @ CHR ''$'' # ac_token a @
     (case ac_oid a of
        Some (c # cs) \<Rightarrow> CHR ''$'' # (c # cs) @ (if ac_cc_required a then ''$1'' else [])
      | _ \<Rightarrow> if ac_cc_required a then ''$$1'' else [])"
  by (auto simp: ActivationCode_to_string_def split: option.splits list.splits)

lemma ac_split_to_string:
  assumes "ac_ok a"
  shows "split_on (CHR ''$'') (ActivationCode_to_string False a) =
    ''1'' # ac_hostname a # ac_token a #
    (case ac_oid a of
       Some x \<Rightarrow> x # (if ac_cc_required a then [''1''] else [])
     | None \<Rightarrow> if ac_cc_required a then [[], ''1''] else [])"
  using assms
  by (auto simp: ac_to_string_False ac_ok_def split_on_append_sep split_on_no_sep
      split: option.splits list.splits)

lemma ac_from_to_string:
  assumes "ac_ok a"
  shows "ActivationCode_from_string (ActivationCode_to_string False a) = Inr a"
proof -
  have "nthR (ActivationCode_to_string False a) 0 = Inr (CHR ''1'')"
    by (simp add: ac_to_string_False nthR_def)
  then show ?thesis
    using assms ac_split_to_string [OF assms]
    by (auto simp: ActivationCode_from_string_def ActivationCode_decode_str_def
        ActivationCode_init_def ac_ok_def split: option.splits)
qed

lemma ac_tail_fields: "fst (ac_tail fs) = Some x \<Longrightarrow> x \<noteq> [] \<and> x \<in> set fs"
  by (induction fs rule: ac_tail.induct) (auto split: if_splits)

lemma ac_from_string_ok:
  assumes "ActivationCode_from_string s = Inr a"
  shows "ac_ok a"
proof -
  from assms obtain f h t rest where sp: "split_on (CHR ''$'') s = f # h # t # rest"
    and a: "ActivationCode_init h t (fst (ac_tail rest)) (snd (ac_tail rest)) = Inr a"
    by (auto simp: ActivationCode_from_string_def ActivationCode_decode_str_def
        split: if_splits list.splits)
  have "CHR ''$'' \<notin> set x" if "fst (ac_tail rest) = Some x" for x
    using ac_tail_fields [OF that] split_on_fields [of x "CHR ''$''" s] sp by auto
  with a show ?thesis
    by (auto simp: ActivationCode_init_def ac_ok_def dest: ac_tail_fields
        split: if_splits option.splits)
qed

interpretation activation_code: codec
  "\<lambda>a. Inr (ActivationCode_to_string False a)" ActivationCode_from_string ac_ok
  by unfold_locales (auto simp: ac_from_to_string)

lemma ac_init_fields:
  "split_on (CHR ''$'') s = f # h # t # rest \<Longrightarrow>
   \<exists>a. ActivationCode_init h t x y = Inr a"
  using split_on_fields [of h "CHR ''$''" s] split_on_fields [of t "CHR ''$''" s]
  by (simp add: ActivationCode_init_def)

section \<open>Properties\<close>

text \<open>Activation code round trip. Printing an activation code whose OID, if present, is not
  empty and has no separator, and parsing the string gives the code back; and whatever string
  \<open>from_string\<close> accepts, the printed form of the result parses to the same code again, so the
  printed form is canonical.\<close>

theorem activation_code_roundtrip:
  assumes "ac_ok a \<or> ActivationCode_from_string s = Inr a"
  shows "ActivationCode_from_string (ActivationCode_to_string False a) = Inr a"
  using assms activation_code.dec_enc [of a] ac_from_string_ok by blast

theorem activation_code_roundtrip_witness:
  "ActivationCode_from_string (ActivationCode_to_string False
     \<lparr>ac_hostname = ''smdp.example.com'', ac_token = ''TS48'', ac_oid = None,
      ac_cc_required = True, ac_format = 1\<rparr>) =
   Inr \<lparr>ac_hostname = ''smdp.example.com'', ac_token = ''TS48'', ac_oid = None,
      ac_cc_required = True, ac_format = 1\<rparr>"
  by (rule activation_code_roundtrip) (simp add: ac_ok_def)

text \<open>Which strings are activation codes. \<open>from_string\<close> accepts a string exactly when it
  starts with the digit 1 and has at least three fields; an empty string or a missing field raises
  \<open>IndexError\<close>, another first character \<open>ValueError\<close>. The form printed for a QR code
  (with the prefix \<open>LPA:\<close>) is therefore never accepted.\<close>

theorem activation_code_accepts:
  "(case ActivationCode_from_string s of
      Inr a \<Rightarrow> s \<noteq> [] \<and> hd s = CHR ''1'' \<and> 3 \<le> length (split_on (CHR ''$'') s)
    | Inl e \<Rightarrow> if s = [] then e = IndexError
               else if hd s \<noteq> CHR ''1'' then e = ValueError
               else length (split_on (CHR ''$'') s) < 3 \<and> e = IndexError) \<and>
   ActivationCode_from_string (ActivationCode_to_string True a) = Inl ValueError"
proof
  show "ActivationCode_from_string (ActivationCode_to_string True a) = Inl ValueError"
    by (simp add: ActivationCode_from_string_def ActivationCode_decode_str_def
        ActivationCode_to_string_def nthR_def)
  consider "s = []" | "s \<noteq> []" "hd s \<noteq> CHR ''1''"
    | "s \<noteq> []" "hd s = CHR ''1''" "length (split_on (CHR ''$'') s) < 3"
    | f h t rest where "s \<noteq> []" "hd s = CHR ''1''" "split_on (CHR ''$'') s = f # h # t # rest"
    by (metis Suc_le_length_iff not_less numeral_3_eq_3)
  then show "case ActivationCode_from_string s of
      Inr a \<Rightarrow> s \<noteq> [] \<and> hd s = CHR ''1'' \<and> 3 \<le> length (split_on (CHR ''$'') s)
    | Inl e \<Rightarrow> if s = [] then e = IndexError
               else if hd s \<noteq> CHR ''1'' then e = ValueError
               else length (split_on (CHR ''$'') s) < 3 \<and> e = IndexError"
  proof cases
    case (4 f h t rest)
    then show ?thesis
      using ac_init_fields [OF 4(3), of "fst (ac_tail rest)" "snd (ac_tail rest)"]
      by (auto simp: ActivationCode_from_string_def ActivationCode_decode_str_def nthR_def hd_conv_nth)
  qed (auto simp: ActivationCode_from_string_def ActivationCode_decode_str_def nthR_def hd_conv_nth
      split: list.splits)
qed

text \<open>Profile management operations survive their bit string form. Every instance the
  constructor accepts is encoded as one byte and a bit count, and decoded to the same operation.\<close>

theorem pmo_bitstring_roundtrip:
  assumes "PMO_init op = Inr p"
  shows "bindR (PMO_to_bitstring p) PMO_from_bitstring = Inr p"
proof -
  from assms have "PMO_valid p" by (auto simp: PMO_valid_def PMO_init_def split: if_splits)
  then show ?thesis by (rule pmo.roundtrip)
qed

theorem pmo_bitstring_roundtrip_witness:
  "bindR (PMO_to_bitstring ''disable'') PMO_from_bitstring = Inr ''disable''"
  by (rule pmo_bitstring_roundtrip [of "''disable''"]) (simp add: PMO_init_def pmo4operation_def)

end
