(* ===== verification/Rsp_Session.thy ===== *)
theory Rsp_Session
  imports Rsp_Asn1 Esim_Codes
begin

text \<open>
  \<^verbatim>\<open>pysim/pySim/esim/rsp.py\<close> (class \<open>RspSessionState\<close> with its pickling hooks, class
  \<open>RspSessionStore\<close>, the extraction of signed sections) and the class
  \<open>ProfileMetadata\<close> of \<^verbatim>\<open>pysim/pySim/esim/es8p.py\<close>, which a session holds.

  A session is the record of the object's attributes; the attribute \<open>matchingId\<close> is not set by
  the constructor, so \<open>None\<close> stands for its absence. The state \<open>__getstate__\<close> builds is a
  record of its own: the certificates are replaced by their DER form, the one-time key by its
  value and curve. The shelf keeps pickled states and builds a new object on every access, so a
  caller's later changes of that object do not reach the store until it is assigned again.
\<close>

section \<open>ProfileMetadata\<close>

record profile_metadata =
  iccid_bin :: bytes
  spn :: string
  profile_name :: string
  icon :: "bytes option"
  icon_type :: "nat option"
  notifications :: "(string \<times> string) list"

definition ProfileMetadata_init :: "bytes \<Rightarrow> string \<Rightarrow> string \<Rightarrow> profile_metadata" where
  "ProfileMetadata_init iccid name pname =
     \<lparr>iccid_bin = iccid, spn = name, profile_name = pname, icon = None, icon_type = None,
      notifications = []\<rparr>"

definition set_icon :: "bool \<Rightarrow> bytes \<Rightarrow> profile_metadata \<Rightarrow> profile_metadata result" where
  "set_icon is_png icon_data md =
     (if length icon_data > 1024 then Inl ValueError
      else Inr (md\<lparr>icon := Some icon_data, icon_type := Some (if is_png then 1 else 0)\<rparr>))"

definition add_notification :: "string \<Rightarrow> string \<Rightarrow> profile_metadata \<Rightarrow> profile_metadata" where
  "add_notification event address md = md\<lparr>notifications := notifications md @ [(event, address)]\<rparr>"

text \<open>The loop over the notifications: each event becomes a \<open>PMO\<close> and its bit string.\<close>

definition notification_entry :: "string \<times> string \<Rightarrow> ((bytes \<times> nat) \<times> string) result" where
  "notification_entry n =
     bindR (PMO_init (fst n)) (\<lambda>pmo. bindR (PMO_to_bitstring pmo) (\<lambda>bs. Inr (bs, snd n)))"

definition store_metadata_dict :: "profile_metadata \<Rightarrow> store_metadata_request result" where
  "store_metadata_dict md =
     bindR (mapR notification_entry (notifications md)) (\<lambda>nci.
       Inr \<lparr>smr_iccid = iccid_bin md, smr_serviceProviderName = spn md, smr_profileName = profile_name md,
            smr_icon = (case icon md of
                Some (b # bs) \<Rightarrow> map_option (Pair (b # bs)) (icon_type md)
              | _ \<Rightarrow> None),
            smr_notificationConfigurationInfo = (if nci = [] then None else Some nci)\<rparr>)"

definition gen_store_metadata_request :: "asn1_lib \<Rightarrow> profile_metadata \<Rightarrow> bytes result" where
  "gen_store_metadata_request A md = bindR (store_metadata_dict md) (enc_StoreMetadataRequest A)"

section \<open>RspSessionState\<close>

record rsp_attributes =
  transactionId :: string
  serverChallenge :: bytes
  ci_cert_id :: bytes
  eid :: "string option"
  profileMetadata :: "profile_metadata option"
  matchingId :: "string option"
  smdpSignature2_do :: "bytes option"
  euicc_otpk :: "bytes option"
  smdp_otpk :: "bytes option"
  host_id :: "bytes option"
  shared_secret :: "bytes option"

record rsp_session = rsp_attributes +
  euicc_cert :: "certificate option"
  eum_cert :: "certificate option"
  smdp_ot :: "ec_private_key option"

record rsp_pickled = rsp_attributes +
  p_euicc_cert :: "bytes option"
  p_eum_cert :: "bytes option"
  p_smdp_ot :: "(nat \<times> string) option"

definition RspSessionState_init :: "string \<Rightarrow> bytes \<Rightarrow> bytes \<Rightarrow> rsp_session" where
  "RspSessionState_init tid challenge ci_id =
     \<lparr>transactionId = tid, serverChallenge = challenge, ci_cert_id = ci_id, eid = None,
      profileMetadata = None, matchingId = None, smdpSignature2_do = None, euicc_otpk = None,
      smdp_otpk = None, host_id = None, shared_secret = None,
      euicc_cert = None, eum_cert = None, smdp_ot = None\<rparr>"

definition rsp_getstate :: "x509_lib \<Rightarrow> rsp_session \<Rightarrow> rsp_pickled" where
  "rsp_getstate X s = rsp_attributes.extend (rsp_attributes.truncate s)
     (rsp_pickled.fields
       (map_option (cert_public_bytes X) (euicc_cert s))
       (map_option (cert_public_bytes X) (eum_cert s))
       (map_option (\<lambda>k. (ek_private_value k, ek_curve k)) (smdp_ot s)))"

text \<open>A one-time key of value 0 would not be rebuilt; its attribute would then be missing. No private
  key has that value, and the model keeps the attribute unset in that case.\<close>

definition rsp_setstate :: "x509_lib \<Rightarrow> rsp_pickled \<Rightarrow> rsp_session result" where
  "rsp_setstate X p =
     bindR (case p_euicc_cert p of
              None \<Rightarrow> Inr None
            | Some der \<Rightarrow> bindR (load_der_x509_certificate X der) (\<lambda>c. Inr (Some c))) (\<lambda>ec.
     bindR (case p_eum_cert p of
              None \<Rightarrow> Inr None
            | Some der \<Rightarrow> bindR (load_der_x509_certificate X der) (\<lambda>c. Inr (Some c))) (\<lambda>uc.
       Inr (rsp_attributes.extend (rsp_attributes.truncate p)
         (rsp_session.fields ec uc
           (case p_smdp_ot p of
              Some (v, curve) \<Rightarrow>
                if v \<noteq> 0 then Some \<lparr>ek_private_value = v, ek_curve = curve\<rparr> else None
            | None \<Rightarrow> None)))))"

section \<open>RspSessionStore\<close>

text \<open>The shelf: open, closed (every access raises), or dropped by an in-memory store.\<close>

datatype shelf_state = OpenShelf "string \<rightharpoonup> rsp_pickled" | ClosedShelf | NoShelf

record rsp_store =
  in_memory :: bool
  shelf :: shelf_state

text \<open>The constructor, given the contents of the database file.\<close>

definition RspSessionStore_init ::
  "string option \<Rightarrow> bool \<Rightarrow> (string \<rightharpoonup> rsp_pickled) \<Rightarrow> rsp_store result" where
  "RspSessionStore_init filename in_mem contents =
     (if in_mem then Inr \<lparr>in_memory = True, shelf = OpenShelf Map.empty\<rparr>
      else if filename = None then Inl ValueError
      else Inr \<lparr>in_memory = False, shelf = OpenShelf contents\<rparr>)"

definition store_getitem :: "x509_lib \<Rightarrow> rsp_store \<Rightarrow> string \<Rightarrow> rsp_session result" where
  "store_getitem X st key =
     (case shelf st of
        NoShelf \<Rightarrow> Inl TypeError
      | ClosedShelf \<Rightarrow> Inl ValueError
      | OpenShelf m \<Rightarrow> (case m key of None \<Rightarrow> Inl KeyError | Some p \<Rightarrow> rsp_setstate X p))"

definition store_setitem :: "x509_lib \<Rightarrow> rsp_store \<Rightarrow> string \<Rightarrow> rsp_session \<Rightarrow> rsp_store result" where
  "store_setitem X st key val =
     (case shelf st of
        NoShelf \<Rightarrow> Inl TypeError
      | ClosedShelf \<Rightarrow> Inl ValueError
      | OpenShelf m \<Rightarrow> Inr (st\<lparr>shelf := OpenShelf (m(key \<mapsto> rsp_getstate X val))\<rparr>))"

definition store_delitem :: "rsp_store \<Rightarrow> string \<Rightarrow> rsp_store result" where
  "store_delitem st key =
     (case shelf st of
        NoShelf \<Rightarrow> Inl TypeError
      | ClosedShelf \<Rightarrow> Inl ValueError
      | OpenShelf m \<Rightarrow> (case m key of
            None \<Rightarrow> Inl KeyError
          | Some p \<Rightarrow> Inr (st\<lparr>shelf := OpenShelf (m(key := None))\<rparr>)))"

definition store_contains :: "rsp_store \<Rightarrow> string \<Rightarrow> bool result" where
  "store_contains st key =
     (case shelf st of
        NoShelf \<Rightarrow> Inl TypeError
      | ClosedShelf \<Rightarrow> Inl ValueError
      | OpenShelf m \<Rightarrow> Inr (m key \<noteq> None))"

text \<open>\<open>get(key, None)\<close>, an attribute delegated to the shelf by \<open>__getattr__\<close>.\<close>

definition store_get :: "x509_lib \<Rightarrow> rsp_store \<Rightarrow> string \<Rightarrow> rsp_session option result" where
  "store_get X st key =
     (case shelf st of
        NoShelf \<Rightarrow> Inl AttributeError
      | ClosedShelf \<Rightarrow> Inl ValueError
      | OpenShelf m \<Rightarrow> (case m key of
            None \<Rightarrow> Inr None
          | Some p \<Rightarrow> bindR (rsp_setstate X p) (\<lambda>s. Inr (Some s))))"

definition store_close :: "rsp_store \<Rightarrow> rsp_store" where
  "store_close st = st\<lparr>shelf := (if in_memory st then NoShelf else ClosedShelf)\<rparr>"

section \<open>Extraction of the signed sections\<close>

definition extract_signed :: "tlv_lib \<Rightarrow> nat \<Rightarrow> bytes \<Rightarrow> bytes result" where
  "extract_signed T outer_tag response =
     bindR (bertlv_parse_one_rawtag T response) (\<lambda>(rawtag, l, v, remainder).
       if remainder \<noteq> [] then Inl ValueError
       else if rawtag \<noteq> outer_tag then Inl ValueError
       else bindR (bertlv_parse_one_rawtag T v) (\<lambda>(rawtag1, l1, v1, remainder1).
         if rawtag1 \<noteq> 0xA0 then Inl ValueError
         else bindR (bertlv_return_one_rawtlv T v1) (\<lambda>(rawtag2, l2, tlv2, remainder2).
           if rawtag2 \<noteq> 0x30 then Inl ValueError else Inr tlv2)))"

text \<open>The two functions of the source differ in the outer tag only. (Formatting the message for an
  unexpected outer tag calls \<open>b2h\<close> on an integer; whichever exception leaves, it is an error.)\<close>

definition extract_euiccSigned1 :: "tlv_lib \<Rightarrow> bytes \<Rightarrow> bytes result" where
  "extract_euiccSigned1 T authenticateServerResponse = extract_signed T 0xBF38 authenticateServerResponse"

definition extract_euiccSigned2 :: "tlv_lib \<Rightarrow> bytes \<Rightarrow> bytes result" where
  "extract_euiccSigned2 T prepareDownloadResponse = extract_signed T 0xBF21 prepareDownloadResponse"

section \<open>Pickling: lemmas\<close>

text \<open>A certificate that was parsed once serialises to a form that parses to it again; a session is
  fit for storage if its certificates do and its one-time key, if any, is not 0.\<close>

definition der_laws :: "x509_lib \<Rightarrow> bool" where
  "der_laws X \<longleftrightarrow> (\<forall>b c. load_der_x509_certificate X b = Inr c \<longrightarrow>
     load_der_x509_certificate X (cert_public_bytes X c) = Inr c)"

definition cert_storable :: "x509_lib \<Rightarrow> certificate option \<Rightarrow> bool" where
  "cert_storable X oc \<longleftrightarrow>
     (case oc of None \<Rightarrow> True | Some c \<Rightarrow> load_der_x509_certificate X (cert_public_bytes X c) = Inr c)"

definition session_ok :: "x509_lib \<Rightarrow> rsp_session \<Rightarrow> bool" where
  "session_ok X s \<longleftrightarrow> cert_storable X (euicc_cert s) \<and> cert_storable X (eum_cert s) \<and>
     (case smdp_ot s of None \<Rightarrow> True | Some k \<Rightarrow> ek_private_value k \<noteq> 0)"

lemma rsp_setstate_getstate:
  assumes "session_ok X s"
  shows "rsp_setstate X (rsp_getstate X s) = Inr s"
proof -
  have "cert_storable X c \<Longrightarrow> (case map_option (cert_public_bytes X) c of
           None \<Rightarrow> Inr None
         | Some der \<Rightarrow> bindR (load_der_x509_certificate X der) (\<lambda>c. Inr (Some c))) = Inr c" for c
    by (simp add: cert_storable_def split: option.splits)
  with assms show ?thesis
    by (cases s)
      (auto simp: rsp_setstate_def rsp_getstate_def rsp_attributes.defs rsp_pickled.defs rsp_session.defs
        session_ok_def split: option.splits)
qed

lemma session_ok_init [simp]: "session_ok X (RspSessionState_init tid ch ci)"
  by (simp add: session_ok_def cert_storable_def RspSessionState_init_def)

section \<open>The store as a map: the interface and its instance\<close>

text \<open>What the server relies on: the operations act like those of a finite map from keys to
  values.\<close>

locale kv_store =
  fixes get :: "'s \<Rightarrow> 'k \<Rightarrow> 'v option result"
    and set_item :: "'s \<Rightarrow> 'k \<Rightarrow> 'v \<Rightarrow> 's result"
    and del_item :: "'s \<Rightarrow> 'k \<Rightarrow> 's result"
    and inv :: "'s \<Rightarrow> bool"
    and ok :: "'v \<Rightarrow> bool"
  assumes get_total: "inv s \<Longrightarrow> \<exists>r. get s k = Inr r \<and> (\<forall>v. r = Some v \<longrightarrow> ok v)"
    and set_law: "inv s \<Longrightarrow> ok v \<Longrightarrow> \<exists>s'. set_item s k v = Inr s' \<and> inv s' \<and>
      get s' k = Inr (Some v) \<and> (\<forall>j. j \<noteq> k \<longrightarrow> get s' j = get s j)"
    and del_law: "inv s \<Longrightarrow> get s k = Inr (Some v) \<Longrightarrow> \<exists>s'. del_item s k = Inr s' \<and> inv s' \<and>
      get s' k = Inr None \<and> (\<forall>j. j \<noteq> k \<longrightarrow> get s' j = get s j)"
    and del_missing: "inv s \<Longrightarrow> get s k = Inr None \<Longrightarrow> del_item s k = Inl KeyError"
begin

definition abs :: "'s \<Rightarrow> 'k \<rightharpoonup> 'v" where
  "abs s k = (case get s k of Inr r \<Rightarrow> r | Inl _ \<Rightarrow> None)"

lemma get_abs: "inv s \<Longrightarrow> get s k = Inr (abs s k)"
  using get_total [of s k] by (auto simp: abs_def)

lemma abs_ok: "inv s \<Longrightarrow> abs s k = Some v \<Longrightarrow> ok v"
  using get_total [of s k] by (auto simp: abs_def)

lemma set_refines:
  assumes "inv s" "ok v"
  shows "\<exists>s'. set_item s k v = Inr s' \<and> inv s' \<and> abs s' = (abs s)(k \<mapsto> v)"
  using set_law [OF assms, of k] by (force simp: abs_def)

lemma del_refines:
  assumes "inv s"
  shows "(case abs s k of
      None \<Rightarrow> del_item s k = Inl KeyError
    | Some v \<Rightarrow> \<exists>s'. del_item s k = Inr s' \<and> inv s' \<and> abs s' = (abs s)(k := None))"
proof (cases "abs s k")
  case None
  with assms show ?thesis using del_missing get_abs by fastforce
next
  case (Some v)
  with assms have "get s k = Inr (Some v)" using get_abs by fastforce
  from del_law [OF assms this] Some show ?thesis by (force simp: abs_def)
qed

end

definition store_inv :: "x509_lib \<Rightarrow> rsp_store \<Rightarrow> bool" where
  "store_inv X st \<longleftrightarrow>
     (\<exists>m. shelf st = OpenShelf m \<and> (\<forall>k p. m k = Some p \<longrightarrow> (\<exists>s. session_ok X s \<and> p = rsp_getstate X s)))"

interpretation rss: kv_store "store_get X" "store_setitem X" store_delitem "store_inv X" "session_ok X" for X
proof
  fix s k
  assume "store_inv X s"
  then show "\<exists>r. store_get X s k = Inr r \<and> (\<forall>v. r = Some v \<longrightarrow> session_ok X v)"
    by (force simp: store_inv_def store_get_def rsp_setstate_getstate split: option.splits)
next
  fix s v k
  assume "store_inv X s" "session_ok X v"
  then show "\<exists>s'. store_setitem X s k v = Inr s' \<and> store_inv X s' \<and>
      store_get X s' k = Inr (Some v) \<and> (\<forall>j. j \<noteq> k \<longrightarrow> store_get X s' j = store_get X s j)"
    by (force simp: store_inv_def store_get_def store_setitem_def rsp_setstate_getstate)
next
  fix s k v
  assume "store_inv X s" "store_get X s k = Inr (Some v)"
  then show "\<exists>s'. store_delitem s k = Inr s' \<and> store_inv X s' \<and>
      store_get X s' k = Inr None \<and> (\<forall>j. j \<noteq> k \<longrightarrow> store_get X s' j = store_get X s j)"
    by (auto simp: store_inv_def store_get_def store_delitem_def split: option.splits)
next
  fix s k
  assume "store_inv X s" "store_get X s k = Inr None"
  then show "store_delitem s k = Inl KeyError"
    by (auto simp: store_inv_def store_get_def store_delitem_def split: option.splits)
qed

abbreviation store_map :: "x509_lib \<Rightarrow> rsp_store \<Rightarrow> string \<rightharpoonup> rsp_session" where
  "store_map \<equiv> rss.abs"

lemma store_inv_init: "RspSessionStore_init None True m = Inr st \<Longrightarrow> store_inv X st"
  by (auto simp: RspSessionStore_init_def store_inv_def)

lemma store_contains_iff: "store_inv X st \<Longrightarrow> store_contains st k = Inr (store_map X st k \<noteq> None)"
  by (force simp: store_inv_def store_contains_def rss.abs_def store_get_def rsp_setstate_getstate
      split: option.splits)

lemma extract_signed_nested:
  assumes "tlv_laws T" "tag_ok outer" "tag_ok choice" "tag_ok inner"
    and "length (nested_tlv T choice (nested_tlv T inner body @ rest)) < len_bound"
    and "length (nested_tlv T inner body @ rest) < len_bound" "length body < len_bound"
  shows "extract_signed T expected
      (nested_tlv T outer (nested_tlv T choice (nested_tlv T inner body @ rest)) @ trailing) =
    (if trailing = [] \<and> outer = expected \<and> choice = 0xA0 \<and> inner = 0x30
     then Inr (nested_tlv T inner body) else Inl ValueError)"
proof -
  let ?in = "nested_tlv T inner body @ rest"
  let ?ch = "nested_tlv T choice ?in"
  have "bertlv_parse_one_rawtag T (nested_tlv T outer ?ch @ trailing) = Inr (outer, length ?ch, ?ch, trailing)"
    "bertlv_parse_one_rawtag T ?ch = Inr (choice, length ?in, ?in, [])"
    "bertlv_return_one_rawtlv T ?in = Inr (inner, length body, nested_tlv T inner body, rest)"
    using assms nested_tlv_parse [of T choice ?in "[]"]
    by (simp_all add: nested_tlv_parse nested_tlv_return)
  then show ?thesis by (auto simp: extract_signed_def)
qed

text \<open>A session for the witnesses.\<close>

definition demo_cert :: certificate where
  "demo_cert = \<lparr>cert_public_key = [1], cert_extensions = [], cert_signature = [], cert_tbs = [2],
     cert_subject_serials = []\<rparr>"

definition demo_session :: rsp_session where
  "demo_session = (RspSessionState_init ''AB'' [1] [2])
     \<lparr>euicc_cert := Some demo_cert, smdp_ot := Some \<lparr>ek_private_value = 7, ek_curve = ''P-256''\<rparr>\<rparr>"

section \<open>Properties\<close>

text \<open>Sessions survive persistent storage. Pickling a session and unpickling it gives the same
  session, whichever of its certificates and keys are set, if the package parses the certificates of
  the session from their serialised form and the one-time key is not 0.\<close>

theorem session_pickle_roundtrip:
  assumes "session_ok X s"
  shows "rsp_setstate X (rsp_getstate X s) = Inr s"
  by (rule rsp_setstate_getstate [OF assms])

theorem session_pickle_roundtrip_witness:
  "rsp_setstate (demo_x509 [demo_cert]) (rsp_getstate (demo_x509 [demo_cert]) demo_session) = Inr demo_session"
  by (rule session_pickle_roundtrip)
    (simp add: session_ok_def cert_storable_def demo_session_def RspSessionState_init_def demo_x509_def)

text \<open>C7: The session store refines a map from transaction ids to sessions. On an open store, for
  every key: \<open>get\<close> returns the map's entry, assignment updates exactly that entry, deletion
  removes exactly it or raises \<open>KeyError\<close> if there is none, membership is the map's domain, and
  every operation keeps the store well-formed.\<close>

theorem session_store_refines_map:
  assumes "store_inv X st" "session_ok X v"
  shows "store_get X st k = Inr (store_map X st k) \<and>
    store_contains st k = Inr (k \<in> dom (store_map X st)) \<and>
    (\<exists>st'. store_setitem X st k v = Inr st' \<and> store_inv X st' \<and>
       store_map X st' = (store_map X st)(k \<mapsto> v)) \<and>
    (if k \<in> dom (store_map X st)
     then \<exists>st'. store_delitem st k = Inr st' \<and> store_inv X st' \<and>
       store_map X st' = (store_map X st)(k := None)
     else store_delitem st k = Inl KeyError)"
  using rss.get_abs [OF assms(1)] store_contains_iff [OF assms(1)] rss.set_refines [OF assms]
    rss.del_refines [OF assms(1), of k]
  by (auto split: option.splits)

theorem session_store_refines_map_witness:
  "\<exists>st st'. RspSessionStore_init None True Map.empty = Inr st \<and>
     store_setitem (demo_x509 [demo_cert]) st ''AB'' demo_session = Inr st' \<and>
     store_map (demo_x509 [demo_cert]) st' = (store_map (demo_x509 [demo_cert]) st)(''AB'' \<mapsto> demo_session) \<and>
     store_delitem st ''AB'' = Inl KeyError"
proof -
  obtain st where st: "RspSessionStore_init None True Map.empty = Inr st" "shelf st = OpenShelf Map.empty"
    by (simp add: RspSessionStore_init_def)
  then have inv: "store_inv (demo_x509 [demo_cert]) st" by (auto simp: store_inv_def)
  have ok: "session_ok (demo_x509 [demo_cert]) demo_session"
    by (simp add: session_ok_def cert_storable_def demo_session_def RspSessionState_init_def demo_x509_def)
  have "store_map (demo_x509 [demo_cert]) st ''AB'' = None"
    using st by (simp add: rss.abs_def store_get_def)
  with session_store_refines_map [OF inv ok, of "''AB''"] st(1) show ?thesis by (auto simp: dom_def)
qed

text \<open>Extraction of the signed section. From a response that is the expected outer TLV around the
  CHOICE tag A0 around a SEQUENCE and further fields, the function returns the SEQUENCE with its own
  tag and length, byte for byte, which is what the eUICC has signed. With a different outer tag,
  CHOICE tag or inner tag, or with data behind the outer TLV, it raises.\<close>

theorem extract_signed_exact:
  assumes "tlv_laws T" "tag_ok outer" "tag_ok choice" "tag_ok inner"
    and "length (nested_tlv T choice (nested_tlv T inner body @ rest)) < len_bound"
    and "length (nested_tlv T inner body @ rest) < len_bound" "length body < len_bound"
  shows "extract_signed T expected
      (nested_tlv T outer (nested_tlv T choice (nested_tlv T inner body @ rest)) @ trailing) =
    (if trailing = [] \<and> outer = expected \<and> choice = 0xA0 \<and> inner = 0x30
     then Inr (nested_tlv T inner body) else Inl ValueError)"
  by (rule extract_signed_nested [OF assms])

theorem extract_signed_exact_witness:
  "extract_signed demo_tlv 0xBF38 (nested_tlv demo_tlv 0xBF38 (nested_tlv demo_tlv 0xA0
     (nested_tlv demo_tlv 0x30 [1, 2] @ [9]))) = Inr (nested_tlv demo_tlv 0x30 [1, 2]) \<and>
   nested_tlv demo_tlv 0x30 [1, 2] = [0x30, 2, 1, 2]"
proof -
  have 1: "nested_tlv demo_tlv 0x30 [1, 2] = [0x30, 2, 1, 2]"
    "nested_tlv demo_tlv 0xA0 [0x30, 2, 1, 2, 9] = [0xA0, 5, 0x30, 2, 1, 2, 9]"
    by (simp_all add: nested_tlv_def demo_tlv_def demo_encode_tag_def demo_encode_len_def)
  show ?thesis
    using extract_signed_exact [OF demo_tlv_laws tag_ok_values(15) tag_ok_values(6) tag_ok_values(1),
        of "[1, 2]" "[9]" "0xBF38" "[]"]
    by (simp add: 1)
qed

end
