(* ===== verification/Es8p.thy ===== *)
theory Es8p
  imports Bsp Rsp_Session
begin

text \<open>
  \<^verbatim>\<open>pysim/pySim/esim/es8p.py\<close>: unprotected, protected and bound profile packages. The
  class attribute \<open>der\<close> of \<open>UnprotectedProfilePackage\<close>, which \<open>from_der\<close> assigns to the
  class and not to the instance, is a state of its own (\<open>upp_class\<close>). \<open>BoundProfilePackage.encode\<close>
  runs on the \<open>BspInstance\<close> it derives; \<open>decode\<close> returns a record of the attributes it sets.
\<close>

section \<open>Secure channel initialisation\<close>

text \<open>A missing value where Python code needs one (an attribute still \<open>None\<close>).\<close>

definition someR :: "py_error \<Rightarrow> 'a option \<Rightarrow> 'a result" where
  "someR e x = (case x of None \<Rightarrow> Inl e | Some v \<Rightarrow> Inr v)"

definition wrap_as_der_tlv :: "tlv_lib \<Rightarrow> nat \<Rightarrow> bytes \<Rightarrow> bytes" where
  "wrap_as_der_tlv T tag val = bertlv_encode_tag T tag @ bertlv_encode_len T (length val) @ val"

definition gen_init_sec_chan_signed_part :: "tlv_lib \<Rightarrow> 'a init_sec_chan_part_scheme \<Rightarrow> bytes result" where
  "gen_init_sec_chan_signed_part T iscsp =
     (if \<not> remoteOpId iscsp < 256 then Inl ValueError
      else let crt = controlRefTemplate iscsp;
               out_crt = wrap_as_der_tlv T 0x80 (crt_keyType crt) @ wrap_as_der_tlv T 0x81 (crt_keyLen crt)
                  @ wrap_as_der_tlv T 0x84 (crt_hostId crt)
           in Inr (wrap_as_der_tlv T 0x82 [of_nat (remoteOpId iscsp)]
                @ wrap_as_der_tlv T 0x80 (isc_transactionId iscsp)
                @ wrap_as_der_tlv T 0xA6 out_crt
                @ wrap_as_der_tlv T 0x5F49 (smdpOtpk iscsp)))"

definition gen_initialiseSecureChannel ::
  "x509_lib \<Rightarrow> tlv_lib \<Rightarrow> osmo_utils \<Rightarrow> string \<Rightarrow> bytes \<Rightarrow> bytes \<Rightarrow> bytes \<Rightarrow> cert_and_privkey \<Rightarrow>
   init_sec_chan result" where
  "gen_initialiseSecureChannel X T U tid hostid otpk_dp otpk_euicc dp_pb =
     bindR (h2b U tid) (\<lambda>tid_b.
       let init_scr = \<lparr>remoteOpId = 1, isc_transactionId = tid_b,
             controlRefTemplate = \<lparr>crt_keyType = [0x88], crt_keyLen = [16], crt_hostId = hostid\<rparr>,
             smdpOtpk = otpk_dp\<rparr>
       in bindR (gen_init_sec_chan_signed_part T init_scr) (\<lambda>part.
          let to_sign = part @ wrap_as_der_tlv T 0x5F49 otpk_euicc
          in bindR (ecdsa_sign X dp_pb to_sign) (\<lambda>sig.
               Inr (init_sec_chan_part.extend init_scr (init_sec_chan.fields sig)))))"

definition gen_replace_session_keys :: "asn1_lib \<Rightarrow> bytes \<Rightarrow> bytes \<Rightarrow> bytes \<Rightarrow> bytes result" where
  "gen_replace_session_keys A ppk_enc ppk_cmac initial_mcv =
     enc_ReplaceSessionKeysRequest A
       \<lparr>ppkEnc = ppk_enc, ppkCmac = ppk_cmac, initialMacChainingValue = initial_mcv\<rparr>"

section \<open>Profile packages\<close>

type_synonym upp_class = "bytes option"

record upp =
  upp_metadata :: "profile_metadata option"

definition UPP_from_der :: "bytes \<Rightarrow> profile_metadata option \<Rightarrow> (upp_class, upp) comp" where
  "UPP_from_der der md cls = (Inr \<lparr>upp_metadata = md\<rparr>, Some der)"

definition UPP_to_der :: "upp \<Rightarrow> (upp_class, bytes) comp" where
  "UPP_to_der u cls = (someR AttributeError cls, cls)"

record ppp =
  ppp_metadata :: "profile_metadata option"
  ppp_ppk_enc :: bytes
  ppp_ppk_mac :: bytes
  ppp_initial_mcv :: bytes
  ppp_encoded :: "bytes list"

definition PPP_from_upp :: "crypto_lib \<Rightarrow> tlv_lib \<Rightarrow> upp_class \<Rightarrow> upp \<Rightarrow> (bsp_instance, ppp) comp" where
  "PPP_from_upp C T cls u b =
     bindS (liftS (fst (UPP_to_der u cls))) (\<lambda>der.
     bindS (encrypt_and_mac C T 0x86 der) (\<lambda>enc.
       retS \<lparr>ppp_metadata = upp_metadata u, ppp_ppk_enc = s_enc (c_algo b), ppp_ppk_mac = s_mac (m_algo b),
             ppp_initial_mcv = mac_chain (m_algo b), ppp_encoded = enc\<rparr>)) b"

record bpp =
  bpp_upp :: "upp option"
  bpp_ppp :: "ppp option"

definition BPP_from_ppp :: "ppp \<Rightarrow> bpp" where
  "BPP_from_ppp p = \<lparr>bpp_upp = None, bpp_ppp = Some p\<rparr>"

definition BPP_from_upp :: "upp \<Rightarrow> bpp" where
  "BPP_from_upp u = \<lparr>bpp_upp = Some u, bpp_ppp = None\<rparr>"

definition encode_seq :: "tlv_lib \<Rightarrow> nat \<Rightarrow> bytes list \<Rightarrow> bytes" where
  "encode_seq T tag sequence =
     (let payload = concat sequence
      in bertlv_encode_tag T tag @ bertlv_encode_len T (length payload) @ payload)"

text \<open>The metadata \<open>encode\<close> stores: that of the UPP if there is one, else that of the PPP.\<close>

definition bpp_store_metadata :: "asn1_lib \<Rightarrow> bpp \<Rightarrow> bytes result" where
  "bpp_store_metadata A self =
     (case bpp_upp self of
        Some u \<Rightarrow> bindR (someR AttributeError (upp_metadata u)) (gen_store_metadata_request A)
      | None \<Rightarrow>
          bindR (someR AttributeError (bpp_ppp self)) (\<lambda>p.
          bindR (someR AttributeError (ppp_metadata p)) (gen_store_metadata_request A)))"

text \<open>The part of \<open>encode\<close> that protects the sequences with the session's BSP instance; the result
  is the sequence behind the initialisation request, and the PPP in use.\<close>

definition bpp_protect ::
  "crypto_lib \<Rightarrow> tlv_lib \<Rightarrow> asn1_lib \<Rightarrow> upp_class \<Rightarrow> bpp \<Rightarrow> bytes \<Rightarrow> bytes \<Rightarrow> (bsp_instance, bytes \<times> ppp) comp" where
  "bpp_protect C T A cls self conf_idsp_bin smr_bin =
     bindS (encrypt_and_mac C T 0x87 conf_idsp_bin) (\<lambda>first87.
     bindS (mac_only C T 0x88 smr_bin) (\<lambda>seq88.
       let seq01 = encode_seq T 0xA0 first87 @ encode_seq T 0xA1 seq88
       in case bpp_ppp self of
            Some p \<Rightarrow>
              bindS (liftS (gen_replace_session_keys A (ppp_ppk_enc p) (ppp_ppk_mac p) (ppp_initial_mcv p)))
                (\<lambda>rsk_bin.
              bindS (encrypt_and_mac C T 0x87 rsk_bin) (\<lambda>second87.
                retS (seq01 @ encode_seq T 0xA2 second87 @ encode_seq T 0xA3 (ppp_encoded p), p)))
          | None \<Rightarrow>
              bindS (liftS (someR AttributeError (bpp_upp self))) (\<lambda>u.
              bindS (PPP_from_upp C T cls u) (\<lambda>p.
                retS (seq01 @ encode_seq T 0xA3 (ppp_encoded p), p)))))"

definition BPP_encode ::
  "crypto_lib \<Rightarrow> tlv_lib \<Rightarrow> asn1_lib \<Rightarrow> x509_lib \<Rightarrow> osmo_utils \<Rightarrow> upp_class \<Rightarrow> bpp \<Rightarrow>
   rsp_session \<Rightarrow> cert_and_privkey \<Rightarrow> (bytes \<times> bpp) result" where
  "BPP_encode C T A X U cls self ss dp_pb =
     bindR (someR TypeError (eid ss)) (\<lambda>eid_s.
     bindR (h2b U eid_s) (\<lambda>eid_b.
     bindR (someR TypeError (shared_secret ss)) (\<lambda>secret.
     bindR (someR TypeError (host_id ss)) (\<lambda>hostid.
     bindR (BspInstance_from_kdf C T secret 0x88 16 hostid eid_b) (\<lambda>bsp.
     bindR (someR TypeError (smdp_otpk ss)) (\<lambda>otpk_dp.
     bindR (someR TypeError (euicc_otpk ss)) (\<lambda>otpk_euicc.
     bindR (gen_initialiseSecureChannel X T U (transactionId ss) hostid otpk_dp otpk_euicc dp_pb) (\<lambda>iscr.
     bindR (enc_ConfigureISDPRequest A) (\<lambda>conf_idsp_bin.
     bindR (bpp_store_metadata A self) (\<lambda>smr_bin.
     bindR (enc_InitialiseSecureChannelRequest A iscr) (\<lambda>iscr_bin.
     bindR (fst (bpp_protect C T A cls self conf_idsp_bin smr_bin bsp)) (\<lambda>(rest, p).
       let bpp_seq = iscr_bin @ rest
       in Inr (bertlv_encode_tag T 0xBF36 @ bertlv_encode_len T (length bpp_seq) @ bpp_seq,
               self\<lparr>bpp_ppp := Some p\<rparr>)))))))))))))"

section \<open>Decoding, as inside an eUICC\<close>

text \<open>The loop of \<open>split_bertlv_sequence\<close>. It ends as long as the parser consumes something.\<close>

function split_bertlv_sequence :: "tlv_lib \<Rightarrow> bytes \<Rightarrow> bytes list \<Rightarrow> bytes list result" where
  "split_bertlv_sequence T remainder ret =
     (if remainder = [] then Inr ret
      else bindR (bertlv_return_one_rawtlv T remainder) (\<lambda>(tag, l, tlv, rest).
        if length rest < length remainder then split_bertlv_sequence T rest (ret @ [tlv])
        else Inl NonTermination))"
  by pat_completeness auto
termination
  by (relation "measure (\<lambda>(T, remainder, ret). length remainder)") auto

record bpp_decoded =
  dec_shared_secret :: bytes
  dec_encoded_configureISDPRequest :: bytes
  dec_encoded_storeMetadataRequest :: bytes
  dec_storeMetadataRequest :: store_metadata_request
  dec_replaceSessionKeysRequest :: "replace_session_keys option"
  dec_upp :: bytes

text \<open>The sequences of a BPP: configureISDP, storeMetadata, the optional replaceSessionKeys, and the
  profile elements.\<close>

definition bpp_sequences ::
  "tlv_lib \<Rightarrow> bytes \<Rightarrow> (bytes list \<times> bytes list \<times> bytes list option \<times> bytes list) result" where
  "bpp_sequences T remainder0 =
     bindR (bertlv_parse_one_rawtag T remainder0) (\<lambda>(tag1, l1, v1, remainder1).
     if tag1 \<noteq> 0xA0 then Inl ValueError else
     bindR (split_bertlv_sequence T v1 []) (\<lambda>firstSeqOf87.
     bindR (bertlv_parse_one_rawtag T remainder1) (\<lambda>(tag2, l2, v2, remainder2).
     if tag2 \<noteq> 0xA1 then Inl ValueError else
     bindR (split_bertlv_sequence T v2 []) (\<lambda>seqOf88.
     bindR (bertlv_parse_one_rawtag T remainder2) (\<lambda>(tag3, l3, tlv, remainder3).
     if tag3 = 0xA2 then
       bindR (split_bertlv_sequence T tlv []) (\<lambda>secondSeqOf87.
       bindR (bertlv_parse_one_rawtag T remainder3) (\<lambda>(tag4, l4, v4, remainder4).
       if tag4 \<noteq> 0xA3 then Inl ValueError else
       bindR (split_bertlv_sequence T v4 []) (\<lambda>seqOf86.
         Inr (firstSeqOf87, seqOf88, Some secondSeqOf87, seqOf86))))
     else if tag3 = 0xA3 then
       bindR (split_bertlv_sequence T tlv []) (\<lambda>seqOf86. Inr (firstSeqOf87, seqOf88, None, seqOf86))
     else Inl ValueError)))))"

text \<open>The part of \<open>decode\<close> that removes the protection, on the BSP instance of the session. With
  replaced session keys the profile elements are read by a new instance.\<close>

definition bpp_unprotect ::
  "crypto_lib \<Rightarrow> tlv_lib \<Rightarrow> asn1_lib \<Rightarrow> bytes \<Rightarrow> bytes list \<times> bytes list \<times> bytes list option \<times> bytes list \<Rightarrow>
   (bsp_instance, bpp_decoded) comp" where
  "bpp_unprotect C T A secret = (\<lambda>(firstSeqOf87, seqOf88, secondSeqOf87, seqOf86).
     bindS (demac_and_decrypt C T firstSeqOf87) (\<lambda>conf.
     bindS (liftS (dec_ConfigureISDPRequest A conf)) (\<lambda>_.
     bindS (demac_only C T seqOf88) (\<lambda>smr_bin.
     bindS (liftS (dec_StoreMetadataRequest A smr_bin)) (\<lambda>smr.
       (case secondSeqOf87 of
          Some second87 \<Rightarrow>
            bindS (demac_and_decrypt C T second87) (\<lambda>rsk_bin.
            bindS (liftS (dec_ReplaceSessionKeysRequest A rsk_bin)) (\<lambda>rsk.
            bindS (liftS (fst (demac_and_decrypt C T seqOf86
                (BspInstance_init T (ppkEnc rsk) (ppkCmac rsk) (initialMacChainingValue rsk))))) (\<lambda>u.
              retS \<lparr>dec_shared_secret = secret, dec_encoded_configureISDPRequest = conf,
                    dec_encoded_storeMetadataRequest = smr_bin, dec_storeMetadataRequest = smr,
                    dec_replaceSessionKeysRequest = Some rsk, dec_upp = u\<rparr>)))
        | None \<Rightarrow>
            bindS (demac_and_decrypt C T seqOf86) (\<lambda>u.
              retS \<lparr>dec_shared_secret = secret, dec_encoded_configureISDPRequest = conf,
                    dec_encoded_storeMetadataRequest = smr_bin, dec_storeMetadataRequest = smr,
                    dec_replaceSessionKeysRequest = None, dec_upp = u\<rparr>)))))))"

definition BPP_decode ::
  "crypto_lib \<Rightarrow> tlv_lib \<Rightarrow> asn1_lib \<Rightarrow> osmo_utils \<Rightarrow> ec_lib \<Rightarrow> ec_private_key \<Rightarrow> string \<Rightarrow> bytes \<Rightarrow>
   bpp_decoded result" where
  "BPP_decode C T A U E euicc_ot eid_s bpp_bin =
     bindR (bertlv_return_one_rawtlv T bpp_bin) (\<lambda>(tag, l, iscr_bin, remainder).
     bindR (dec_InitialiseSecureChannelRequest A iscr_bin) (\<lambda>iscr.
     bindR (bpp_sequences T remainder) (\<lambda>seqs.
     bindR (ec_exchange E euicc_ot (smdpOtpk iscr)) (\<lambda>secret.
     bindR (h2b U eid_s) (\<lambda>eid_b.
       let crt = controlRefTemplate iscr in
       bindR (BspInstance_from_kdf C T secret (from_bytes_be (crt_keyType crt))
                (from_bytes_be (crt_keyLen crt)) (crt_hostId crt) eid_b) (\<lambda>bsp.
         fst (bpp_unprotect C T A secret seqs bsp)))))))"

section \<open>Framing: lemmas\<close>

declare split_bertlv_sequence.simps [simp del]

lemma someR_eq_Inr [simp]: "someR e x = Inr v \<longleftrightarrow> x = Some v"
  by (simp add: someR_def split: option.splits)

lemma someR_None [simp]: "someR e None = Inl e"
  by (simp add: someR_def)

lemma someR_Some [simp]: "someR e (Some v) = Inr v"
  by simp

lemma encode_seq_nested: "encode_seq T tag segs = nested_tlv T tag (concat segs)"
  by (simp add: encode_seq_def nested_tlv_def Let_def)

lemma nested_tlv_nonempty: "tlv_laws T \<Longrightarrow> length v < len_bound \<Longrightarrow> nested_tlv T t v \<noteq> []"
  using tlv_encode_len_length [of T "length v"] by (auto simp: nested_tlv_def split: if_splits)

lemma split_bertlv_wires:
  "list_all (bsp_wire T tag n) segs \<Longrightarrow> n < len_bound \<Longrightarrow>
   split_bertlv_sequence T (concat segs) ret = Inr (ret @ segs)"
proof (induction segs arbitrary: ret)
  case Nil
  then show ?case by (simp add: split_bertlv_sequence.simps)
next
  case (Cons c segs)
  then obtain v where v: "c = nested_tlv T tag v" "length v < len_bound" "tlv_laws T" "tag_ok tag"
    by (auto simp: bsp_wire_def tag_ok_def)
  have "split_bertlv_sequence T (concat (c # segs)) ret = split_bertlv_sequence T (concat segs) (ret @ [c])"
    using nested_tlv_return [OF v(3,4,2)] nested_tlv_nonempty [OF v(3,2)] v(1)
    by (subst split_bertlv_sequence.simps) simp
  with Cons show ?case by simp
qed

lemma bpp_asn1_sizes:
  assumes "bpp_asn1_laws T A"
  shows "enc_StoreMetadataRequest A x = Inr y \<Longrightarrow> dec_StoreMetadataRequest A y = Inr x \<and> length y < len_bound"
    and "enc_ReplaceSessionKeysRequest A x' = Inr y \<Longrightarrow>
      dec_ReplaceSessionKeysRequest A y = Inr x' \<and> length y < len_bound"
    and "enc_ConfigureISDPRequest A = Inr y \<Longrightarrow> dec_ConfigureISDPRequest A y = Inr () \<and> length y < len_bound"
  using assms unfolding bpp_asn1_laws_def by blast+

lemma bpp_iscr_laws:
  assumes "bpp_asn1_laws T A" "enc_InitialiseSecureChannelRequest A x = Inr y"
  shows "dec_InitialiseSecureChannelRequest A y = Inr x"
    and "\<exists>v. length v < len_bound \<and> y = nested_tlv T 0xBF23 v"
  using assms unfolding bpp_asn1_laws_def nested_tlv_def by blast+

lemma bpp_iscr_other_tag:
  assumes "bpp_asn1_laws T A" "tag_ok t" "t \<noteq> 0xBF23" "length v < len_bound"
  shows "\<exists>e. dec_InitialiseSecureChannelRequest A (nested_tlv T t v) = Inl e"
  using assms unfolding bpp_asn1_laws_def nested_tlv_def by blast

lemma segment_budget: "length x < len_bound \<Longrightarrow> (length x + 1007) div 1008 \<le> len_bound"
  by simp

text \<open>A ready instance that can still take a whole message of bounded length.\<close>

lemma encrypt_bounded:
  assumes "bsp_ready C T (len_bound + k) b" "tag1_ok tag" "length x < len_bound"
  shows "\<exists>cs b'. encrypt_and_mac C T tag x b = (Inr cs, b') \<and> demac_and_decrypt C T cs b = (Inr x, b') \<and>
    bsp_ready C T k b' \<and> list_all (bsp_wire T tag 1032) cs \<and> length cs = (length x + 1007) div 1008"
proof -
  have "bsp_ready C T ((length x + 1007) div 1008 + k) b"
    using bsp_ready_mono [OF assms(1)] segment_budget [OF assms(3)] by simp
  from encrypt_and_mac_ready [OF this assms(2)] show ?thesis by blast
qed

lemma mac_bounded:
  assumes "bsp_ready C T (len_bound + k) b" "tag1_ok tag" "length x < len_bound"
  shows "\<exists>cs b'. mac_only C T tag x b = (Inr cs, b') \<and> demac_only C T cs b = (Inr x, b') \<and>
    bsp_ready C T k b' \<and> list_all (bsp_wire T tag 1016) cs \<and> length cs = (length x + 1007) div 1008"
proof -
  have "bsp_ready C T ((length x + 1007) div 1008 + k) b"
    using bsp_ready_mono [OF assms(1)] segment_budget [OF assms(3)] by simp
  from mac_only_ready [OF this assms(2)] show ?thesis by blast
qed

lemma bpp_sequences_parse:
  assumes "tlv_laws T"
    and "list_all (bsp_wire T 0x87 1032) f" "list_all (bsp_wire T 0x88 1016) s"
    and "list_all (bsp_wire T 0x86 1032) e"
    and "case sec of Some x \<Rightarrow> list_all (bsp_wire T 0x87 1032) x \<and> length (concat x) < len_bound | None \<Rightarrow> True"
    and "length (concat f) < len_bound" "length (concat s) < len_bound" "length (concat e) < len_bound"
  shows "bpp_sequences T (nested_tlv T 0xA0 (concat f) @ nested_tlv T 0xA1 (concat s) @
    (case sec of Some x \<Rightarrow> nested_tlv T 0xA2 (concat x) | None \<Rightarrow> []) @ nested_tlv T 0xA3 (concat e)) =
    Inr (f, s, sec, e)"
proof -
  have last: "bertlv_parse_one_rawtag T (nested_tlv T 0xA3 (concat e)) =
      Inr (0xA3, length (concat e), concat e, [])"
    using nested_tlv_parse [OF assms(1) tag_ok_values(9) assms(8), of "[]"] by simp
  have sp: "split_bertlv_sequence T (concat f) [] = Inr f" "split_bertlv_sequence T (concat s) [] = Inr s"
    "split_bertlv_sequence T (concat e) [] = Inr e"
    using assms by (simp_all add: split_bertlv_wires)
  show ?thesis
  proof (cases sec)
    case None
    then show ?thesis
      using assms(1,6,7) last sp
      by (simp add: bpp_sequences_def nested_tlv_parse tag_ok_values)
  next
    case (Some x)
    then have "split_bertlv_sequence T (concat x) [] = Inr x" "length (concat x) < len_bound"
      using assms(5) split_bertlv_wires [of T "0x87" "1032" x "[]"] by simp_all
    with Some show ?thesis
      using assms(1,6,7) last sp
      by (simp add: bpp_sequences_def nested_tlv_parse tag_ok_values)
  qed
qed

section \<open>Protection and its removal: lemmas\<close>

text \<open>\<open>bpp_frame\<close>: the protected sequences of a BPP in their TLVs.\<close>

definition bpp_frame ::
  "tlv_lib \<Rightarrow> bytes list \<times> bytes list \<times> bytes list option \<times> bytes list \<Rightarrow> bytes" where
  "bpp_frame T = (\<lambda>(f, s, sec, e). nested_tlv T 0xA0 (concat f) @ nested_tlv T 0xA1 (concat s) @
     (case sec of Some x \<Rightarrow> nested_tlv T 0xA2 (concat x) | None \<Rightarrow> []) @ nested_tlv T 0xA3 (concat e))"

definition bpp_frame_ok :: "tlv_lib \<Rightarrow> bytes list \<times> bytes list \<times> bytes list option \<times> bytes list \<Rightarrow> bool" where
  "bpp_frame_ok T = (\<lambda>(f, s, sec, e). list_all (bsp_wire T 0x87 1032) f \<and> list_all (bsp_wire T 0x88 1016) s \<and>
     (case sec of Some x \<Rightarrow> list_all (bsp_wire T 0x87 1032) x | None \<Rightarrow> True) \<and>
     list_all (bsp_wire T 0x86 1032) e)"

lemma nested_tlv_length_ge: "length v \<le> length (nested_tlv T t v)"
  by (simp add: nested_tlv_def)

lemma bpp_frame_parse:
  assumes "tlv_laws T" "bpp_frame_ok T seqs" "length (bpp_frame T seqs) < len_bound"
  shows "bpp_sequences T (bpp_frame T seqs) = Inr seqs"
proof -
  obtain f s sec e where seqs: "seqs = (f, s, sec, e)" by (cases seqs) auto
  have bounds: "length (concat f) < len_bound" "length (concat s) < len_bound" "length (concat e) < len_bound"
    "case sec of Some x \<Rightarrow> length (concat x) < len_bound | None \<Rightarrow> True"
    using assms(3) nested_tlv_length_ge [of "concat f" T "0xA0"] nested_tlv_length_ge [of "concat s" T "0xA1"]
      nested_tlv_length_ge [of "concat e" T "0xA3"]
    by (auto simp: seqs bpp_frame_def nested_tlv_def split: option.splits)
  show ?thesis
    unfolding seqs bpp_frame_def prod.case
    by (rule bpp_sequences_parse) (use assms bounds in \<open>auto simp: seqs bpp_frame_ok_def split: option.splits\<close>)
qed

text \<open>The data of one download, as both ends see it.\<close>

lemma bpp_protect_ppp:
  assumes "bpp_asn1_laws T A" "bsp_ready C T (len_bound + (len_bound + (len_bound + k))) b"
    and "enc_ConfigureISDPRequest A = Inr conf" "enc_StoreMetadataRequest A smr = Inr smr_bin"
    and "PPP_from_upp C T (Some der) u (BspInstance_init T k1 k2 mcv) = (Inr p, b0)"
    and "crypto_laws C" "tlv_laws T" "length k1 = 16" "length k2 = 16" "length der < len_bound"
    and "fst (bpp_protect C T A cls (BPP_from_ppp p) conf smr_bin b) = Inr (rest, p')"
  shows "\<exists>seqs d. rest = bpp_frame T seqs \<and> bpp_frame_ok T seqs \<and>
    fst (bpp_unprotect C T A z seqs b) = Inr d \<and> dec_upp d = der \<and> dec_storeMetadataRequest d = smr \<and>
    dec_shared_secret d = z"
proof -
  let ?b0 = "BspInstance_init T k1 k2 mcv"
  have "bsp_ready C T (len_bound + 0) ?b0"
    by (rule bsp_init_ready) (use assms in auto)
  from encrypt_bounded [OF this tag1_ok_values(1) assms(10)] obtain e b1 where
    e: "encrypt_and_mac C T 0x86 der ?b0 = (Inr e, b1)" "demac_and_decrypt C T e ?b0 = (Inr der, b1)"
    "list_all (bsp_wire T 0x86 1032) e" by blast
  from assms(5) e(1) have p: "p = \<lparr>ppp_metadata = upp_metadata u, ppp_ppk_enc = k1, ppp_ppk_mac = k2,
      ppp_initial_mcv = mcv, ppp_encoded = e\<rparr>"
    by (simp add: PPP_from_upp_def UPP_to_der_def BspInstance_init_def BspAlgoCrypt_init_def
        BspAlgoMac_init_def Let_def)
  from encrypt_bounded [OF assms(2) tag1_ok_values(2)] bpp_asn1_sizes(3) [OF assms(1,3)] obtain f c1 where
    f: "encrypt_and_mac C T 0x87 conf b = (Inr f, c1)" "demac_and_decrypt C T f b = (Inr conf, c1)"
    "bsp_ready C T (len_bound + (len_bound + k)) c1" "list_all (bsp_wire T 0x87 1032) f" by blast
  from mac_bounded [OF f(3) tag1_ok_values(3)] bpp_asn1_sizes(1) [OF assms(1,4)] obtain s c2 where
    s: "mac_only C T 0x88 smr_bin c1 = (Inr s, c2)" "demac_only C T s c1 = (Inr smr_bin, c2)"
    "bsp_ready C T (len_bound + k) c2" "list_all (bsp_wire T 0x88 1016) s" by blast
  from assms(11) f(1) s(1) p obtain rsk_bin where
    rsk: "enc_ReplaceSessionKeysRequest A \<lparr>ppkEnc = k1, ppkCmac = k2, initialMacChainingValue = mcv\<rparr> = Inr rsk_bin"
    by (auto simp: bpp_protect_def BPP_from_ppp_def gen_replace_session_keys_def bindS_def Let_def
        split: sum.splits prod.splits)
  from encrypt_bounded [OF s(3) tag1_ok_values(2)] bpp_asn1_sizes(2) [OF assms(1) rsk] obtain x c3 where
    x: "encrypt_and_mac C T 0x87 rsk_bin c2 = (Inr x, c3)" "demac_and_decrypt C T x c2 = (Inr rsk_bin, c3)"
    "list_all (bsp_wire T 0x87 1032) x" by blast
  have "rest = bpp_frame T (f, s, Some x, e)"
    using assms(11) f(1) s(1) x(1) rsk p
    by (simp add: bpp_protect_def BPP_from_ppp_def gen_replace_session_keys_def bpp_frame_def
        encode_seq_nested Let_def)
  moreover have "bpp_frame_ok T (f, s, Some x, e)"
    using f(4) s(4) x(3) e(3) by (simp add: bpp_frame_ok_def)
  ultimately show ?thesis
    using f(2) s(2) x(2) e(2) bpp_asn1_sizes(1) [OF assms(1,4)] bpp_asn1_sizes(2) [OF assms(1) rsk]
      bpp_asn1_sizes(3) [OF assms(1,3)]
    by (intro exI [of _ "(f, s, Some x, e)"]) (simp add: bpp_unprotect_def)
qed

lemma bpp_protect_upp:
  assumes "bpp_asn1_laws T A" "bsp_ready C T (len_bound + (len_bound + (len_bound + k))) b"
    and "enc_ConfigureISDPRequest A = Inr conf" "enc_StoreMetadataRequest A smr = Inr smr_bin"
    and "length der < len_bound"
  shows "\<exists>f s e d p. fst (bpp_protect C T A (Some der) (BPP_from_upp u) conf smr_bin b) =
      Inr (bpp_frame T (f, s, None, e), p) \<and> bpp_frame_ok T (f, s, None, e) \<and>
    fst (bpp_unprotect C T A z (f, s, None, e) b) = Inr d \<and> dec_upp d = der \<and>
    dec_storeMetadataRequest d = smr \<and> dec_shared_secret d = z \<and>
    length f = (length conf + 1007) div 1008 \<and> length s = (length smr_bin + 1007) div 1008 \<and>
    length e = (length der + 1007) div 1008"
proof -
  from encrypt_bounded [OF assms(2) tag1_ok_values(2)] bpp_asn1_sizes(3) [OF assms(1,3)] obtain f c1 where
    f: "encrypt_and_mac C T 0x87 conf b = (Inr f, c1)" "demac_and_decrypt C T f b = (Inr conf, c1)"
    "bsp_ready C T (len_bound + (len_bound + k)) c1" "list_all (bsp_wire T 0x87 1032) f"
    "length f = (length conf + 1007) div 1008" by blast
  from mac_bounded [OF f(3) tag1_ok_values(3)] bpp_asn1_sizes(1) [OF assms(1,4)] obtain s c2 where
    s: "mac_only C T 0x88 smr_bin c1 = (Inr s, c2)" "demac_only C T s c1 = (Inr smr_bin, c2)"
    "bsp_ready C T (len_bound + k) c2" "list_all (bsp_wire T 0x88 1016) s"
    "length s = (length smr_bin + 1007) div 1008" by blast
  from encrypt_bounded [OF s(3) tag1_ok_values(1) assms(5)] obtain e c3 where
    e: "encrypt_and_mac C T 0x86 der c2 = (Inr e, c3)" "demac_and_decrypt C T e c2 = (Inr der, c3)"
    "list_all (bsp_wire T 0x86 1032) e" "length e = (length der + 1007) div 1008" by blast
  have "\<exists>p. fst (bpp_protect C T A (Some der) (BPP_from_upp u) conf smr_bin b) =
      Inr (bpp_frame T (f, s, None, e), p)"
    using f(1) s(1) e(1)
    by (simp add: bpp_protect_def BPP_from_upp_def PPP_from_upp_def UPP_to_der_def bpp_frame_def
        encode_seq_nested Let_def)
  moreover have "bpp_frame_ok T (f, s, None, e)"
    using f(4) s(4) e(3) by (simp add: bpp_frame_ok_def)
  moreover have "\<exists>d. fst (bpp_unprotect C T A z (f, s, None, e) b) = Inr d \<and> dec_upp d = der \<and>
      dec_storeMetadataRequest d = smr \<and> dec_shared_secret d = z"
    using f(2) s(2) e(2) bpp_asn1_sizes(1) [OF assms(1,4)] bpp_asn1_sizes(3) [OF assms(1,3)]
    by (simp add: bpp_unprotect_def)
  ultimately show ?thesis using f(5) s(5) e(4) by blast
qed

lemma nested_tlv_length_le:
  assumes "tlv_laws T" "tag1_ok t" "length v < len_bound"
  shows "length (nested_tlv T t v) \<le> length v + 6"
  using tlv_encode_len_length [OF assms(1,3)] assms(1,2)
  by (simp add: nested_tlv_def tlv_encode_tag1 split: if_splits)

lemma wires_length:
  "list_all (bsp_wire T tag n) cs \<Longrightarrow> n \<le> 1032 \<Longrightarrow> length (concat cs) \<le> length cs * 1038"
proof (induction cs)
  case Nil
  then show ?case by simp
next
  case (Cons c cs)
  then obtain v where "c = nested_tlv T tag v" "length v \<le> 1032" "tlv_laws T" "tag1_ok tag"
    by (auto simp: bsp_wire_def)
  then have "length c \<le> 1038" using nested_tlv_length_le [of T tag v] by simp
  with Cons show ?case by simp
qed

section \<open>Encoding and decoding: lemmas\<close>

text \<open>The session holds the result of the key agreement with the eUICC's one-time key.\<close>

definition keys_agreed :: "ec_lib \<Rightarrow> rsp_session \<Rightarrow> ec_private_key \<Rightarrow> bool" where
  "keys_agreed E ss euicc_ot \<longleftrightarrow>
     (\<exists>sk z. ek_curve sk = ek_curve euicc_ot \<and> smdp_otpk ss = Some (ec_public_point E sk) \<and>
        euicc_otpk ss = Some (ec_public_point E euicc_ot) \<and>
        ec_exchange E sk (ec_public_point E euicc_ot) = Inr z \<and> shared_secret ss = Some z)"

text \<open>The two ways to build a BPP for a profile: protected under keys of its own, or unprotected and
  then protected under the session keys.\<close>

definition bpp_of_profile ::
  "crypto_lib \<Rightarrow> tlv_lib \<Rightarrow> upp_class \<Rightarrow> bytes \<Rightarrow> profile_metadata \<Rightarrow> bpp \<Rightarrow> bool" where
  "bpp_of_profile C T cls der md self \<longleftrightarrow> length der < len_bound \<and>
     ((\<exists>p k1 k2 mcv b0. length k1 = 16 \<and> length k2 = 16 \<and>
         PPP_from_upp C T (Some der) \<lparr>upp_metadata = Some md\<rparr> (BspInstance_init T k1 k2 mcv) = (Inr p, b0) \<and>
         self = BPP_from_ppp p) \<or>
      (cls = Some der \<and> self = BPP_from_upp \<lparr>upp_metadata = Some md\<rparr>))"

lemma PPP_from_upp_metadata:
  "PPP_from_upp C T cls u b = (Inr p, b') \<Longrightarrow> ppp_metadata p = upp_metadata u"
  by (auto simp: PPP_from_upp_def bindS_eq_Inr)

lemma bpp_of_profile_metadata:
  "bpp_of_profile C T cls der md self \<Longrightarrow> bpp_store_metadata A self = gen_store_metadata_request A md"
  by (auto simp: bpp_of_profile_def bpp_store_metadata_def BPP_from_ppp_def BPP_from_upp_def
      dest: PPP_from_upp_metadata)

lemma bpp_protect_roundtrip:
  assumes "crypto_laws C" "tlv_laws T" "bpp_asn1_laws T A" "bpp_of_profile C T cls der md self"
    and "BspInstance_from_kdf C T z kt kl h eb = Inr b"
    and "enc_ConfigureISDPRequest A = Inr conf" "enc_StoreMetadataRequest A smr = Inr smr_bin"
    and "fst (bpp_protect C T A cls self conf smr_bin b) = Inr (rest, p')"
  shows "\<exists>seqs d. rest = bpp_frame T seqs \<and> bpp_frame_ok T seqs \<and>
    fst (bpp_unprotect C T A z seqs b) = Inr d \<and> dec_upp d = der \<and> dec_storeMetadataRequest d = smr \<and>
    dec_shared_secret d = z"
proof -
  have rdy: "bsp_ready C T (len_bound + (len_bound + (len_bound + 0))) b"
    by (rule bsp_kdf_ready [OF assms(1,2) _ assms(5)]) simp
  from assms(4) consider (ppp) p k1 k2 mcv b0 where "length k1 = 16" "length k2 = 16"
      "PPP_from_upp C T (Some der) \<lparr>upp_metadata = Some md\<rparr> (BspInstance_init T k1 k2 mcv) = (Inr p, b0)"
      "self = BPP_from_ppp p" "length der < len_bound"
    | (upp) "cls = Some der" "self = BPP_from_upp \<lparr>upp_metadata = Some md\<rparr>" "length der < len_bound"
    unfolding bpp_of_profile_def by blast
  then show ?thesis
  proof cases
    case ppp
    with assms(8) show ?thesis
      using bpp_protect_ppp [OF assms(3) rdy assms(6,7) ppp(3) assms(1,2) ppp(1,2,5)] by simp
  next
    case upp
    with assms(8) show ?thesis
      using bpp_protect_upp [OF assms(3) rdy assms(6,7) upp(3), of "\<lparr>upp_metadata = Some md\<rparr>" z]
      by fastforce
  qed
qed

lemma BPP_encode_parts:
  assumes "BPP_encode C T A X U cls self ss dp_pb = Inr (out, self')"
    and "bpp_of_profile C T cls der md self"
  obtains es eb z h bsp otdp oteu iscr conf smr smr_bin iscr_bin rest p where
    "eid ss = Some es" "h2b U es = Inr eb" "shared_secret ss = Some z" "host_id ss = Some h"
    "BspInstance_from_kdf C T z 0x88 16 h eb = Inr bsp"
    "smdp_otpk ss = Some otdp" "euicc_otpk ss = Some oteu"
    "gen_initialiseSecureChannel X T U (transactionId ss) h otdp oteu dp_pb = Inr iscr"
    "enc_ConfigureISDPRequest A = Inr conf" "store_metadata_dict md = Inr smr"
    "enc_StoreMetadataRequest A smr = Inr smr_bin"
    "enc_InitialiseSecureChannelRequest A iscr = Inr iscr_bin"
    "fst (bpp_protect C T A cls self conf smr_bin bsp) = Inr (rest, p)"
    "out = nested_tlv T 0xBF36 (iscr_bin @ rest)"
  using assms(1) bpp_of_profile_metadata [OF assms(2), of A]
  by (auto simp: BPP_encode_def gen_store_metadata_request_def nested_tlv_def Let_def)

lemma gen_initialiseSecureChannel_fields:
  "gen_initialiseSecureChannel X T U tid h otdp oteu dp_pb = Inr iscr \<Longrightarrow>
   smdpOtpk iscr = otdp \<and>
   controlRefTemplate iscr = \<lparr>crt_keyType = [0x88], crt_keyLen = [16], crt_hostId = h\<rparr>"
  by (auto simp: gen_initialiseSecureChannel_def Let_def init_sec_chan.defs init_sec_chan_part.defs)

section \<open>Concrete instances for the witnesses\<close>

definition demo_utils :: osmo_utils where
  "demo_utils = \<lparr>h2b = (\<lambda>s. Inr (map (\<lambda>c. of_nat (of_char c)) s)),
     b2h = (\<lambda>b. map (\<lambda>x. char_of (unat x)) b), swap_nibbles = rev\<rparr>"

definition demo_ec :: ec_lib where
  "demo_ec = \<lparr>ec_public_point = (\<lambda>k. replicate (ek_private_value k) 1),
     ec_exchange = (\<lambda>k p. Inr (replicate (ek_private_value k + length p) 1))\<rparr>"

text \<open>A codec that knows one value of each of the types a BPP needs.\<close>

definition demo_asn1 :: "store_metadata_request \<Rightarrow> replace_session_keys \<Rightarrow> init_sec_chan \<Rightarrow> asn1_lib" where
  "demo_asn1 smr rsk iscr = \<lparr>
     enc_StoreMetadataRequest = (\<lambda>x. if x = smr then Inr [5] else Inl ValueError),
     dec_StoreMetadataRequest = (\<lambda>b. if b = [5] then Inr smr else Inl ValueError),
     enc_ReplaceSessionKeysRequest = (\<lambda>x. if x = rsk then Inr [6] else Inl ValueError),
     dec_ReplaceSessionKeysRequest = (\<lambda>b. if b = [6] then Inr rsk else Inl ValueError),
     enc_ConfigureISDPRequest = Inr [7],
     dec_ConfigureISDPRequest = (\<lambda>b. if b = [7] then Inr () else Inl ValueError),
     enc_InitialiseSecureChannelRequest =
       (\<lambda>x. if x = iscr then Inr (nested_tlv demo_tlv 0xBF23 [8]) else Inl ValueError),
     dec_InitialiseSecureChannelRequest =
       (\<lambda>b. if b = nested_tlv demo_tlv 0xBF23 [8] then Inr iscr else Inl ValueError),
     dec_EUICCInfo1 = (\<lambda>_. Inl ValueError), enc_ServerSigned1 = (\<lambda>_. Inl ValueError),
     enc_SmdpSigned2 = (\<lambda>_. Inl ValueError), dec_AuthenticateServerResponse = (\<lambda>_. Inl ValueError),
     dec_PrepareDownloadResponse = (\<lambda>_. Inl ValueError), dec_PendingNotification = (\<lambda>_. Inl ValueError),
     enc_ProfileInstallationResultData = (\<lambda>_. Inl ValueError), enc_NotificationMetadata = (\<lambda>_. Inl ValueError),
     dec_CancelSessionResponse = (\<lambda>_. Inl ValueError), enc_EuiccCancelSessionSigned = (\<lambda>_. Inl ValueError),
     enc_Certificate = (\<lambda>_. Inl ValueError)\<rparr>"

lemma demo_ecdh_laws: "ecdh_laws demo_ec"
  by (simp add: ecdh_laws_def demo_ec_def add.commute)

lemma nested_tlv_tag_inj:
  assumes "tlv_laws T" "tag_ok t" "tag_ok t'" "length v < len_bound" "length v' < len_bound"
    and "nested_tlv T t v = nested_tlv T t' v'"
  shows "t = t'"
  using nested_tlv_parse [OF assms(1,2,4), of "[]"] nested_tlv_parse [OF assms(1,3,5), of "[]"] assms(6)
  by simp

lemma demo_asn1_laws: "bpp_asn1_laws demo_tlv (demo_asn1 smr rsk iscr)"
proof -
  have "nested_tlv demo_tlv t v \<noteq> nested_tlv demo_tlv 0xBF23 [8]"
    if "tag_ok t" "t \<noteq> 0xBF23" "length v < len_bound" for t v
    using nested_tlv_tag_inj [OF demo_tlv_laws that(1) tag_ok_values(13) that(3), of "[8]"] that(2) by auto
  then show ?thesis
    unfolding bpp_asn1_laws_def demo_asn1_def nested_tlv_def [symmetric]
    by (auto split: if_splits intro!: exI [of _ "[8]"])
qed

definition demo_metadata :: profile_metadata where
  "demo_metadata = add_notification ''enable'' ''smdp.example.com'' (ProfileMetadata_init [0x98] ''SPN'' ''TS48'')"

definition demo_bpp_session :: rsp_session where
  "demo_bpp_session = (RspSessionState_init ''AB'' [1] [2])
     \<lparr>eid := Some ''89'', host_id := Some [3], smdp_otpk := Some [1, 1], euicc_otpk := Some [1, 1, 1],
      shared_secret := Some [1, 1, 1, 1, 1]\<rparr>"

definition demo_privkey :: cert_and_privkey where
  "demo_privkey = CertAndPrivkey_init None None (Some [4])"

lemma demo_iscr:
  "\<exists>iscr. gen_initialiseSecureChannel (demo_x509 []) demo_tlv demo_utils ''AB'' [3] [1, 1] [1, 1, 1] demo_privkey
     = Inr iscr"
proof -
  have "\<exists>sig. ecdsa_sign (demo_x509 []) demo_privkey d = Inr sig" if "length d < 1000" for d
    using that by (simp add: ecdsa_sign_def demo_privkey_def CertAndPrivkey_init_def demo_x509_def
        ecdsa_dss_to_tr03111_def demo_dss to_bytes_be_def)
  then show ?thesis
    by (simp add: gen_initialiseSecureChannel_def demo_utils_def gen_init_sec_chan_signed_part_def
        Let_def wrap_as_der_tlv_def demo_tlv_def demo_encode_tag_def demo_encode_len_def)
qed

lemma demo_metadata_dict: "\<exists>smr. store_metadata_dict demo_metadata = Inr smr"
  by (simp add: demo_metadata_def store_metadata_dict_def add_notification_def ProfileMetadata_init_def
      notification_entry_def PMO_init_def pmo4operation_def
      PMO_bitstring_values [unfolded pmo4operation_def])

lemma demo_bpp_encode:
  obtains A out self' where "bpp_asn1_laws demo_tlv A" "length out < len_bound"
    "BPP_encode demo_crypto demo_tlv A (demo_x509 []) demo_utils (Some [9, 9])
       (BPP_from_upp \<lparr>upp_metadata = Some demo_metadata\<rparr>) demo_bpp_session demo_privkey = Inr (out, self')"
proof -
  obtain iscr where iscr: "gen_initialiseSecureChannel (demo_x509 []) demo_tlv demo_utils ''AB'' [3]
      [1, 1] [1, 1, 1] demo_privkey = Inr iscr" using demo_iscr by blast
  obtain smr where smr: "store_metadata_dict demo_metadata = Inr smr" using demo_metadata_dict by blast
  define A where "A = demo_asn1 smr \<lparr>ppkEnc = [], ppkCmac = [], initialMacChainingValue = []\<rparr> iscr"
  have laws: "bpp_asn1_laws demo_tlv A" unfolding A_def by (rule demo_asn1_laws)
  obtain bsp where bsp: "BspInstance_from_kdf demo_crypto demo_tlv [1, 1, 1, 1, 1] 0x88 16 [3]
      (map (\<lambda>c. of_nat (of_char c)) ''89'') = Inr bsp"
    by (simp add: BspInstance_from_kdf_def bsp_key_derivation_def Let_def)
  have rdy: "bsp_ready demo_crypto demo_tlv (len_bound + (len_bound + (len_bound + 0))) bsp"
    by (rule bsp_kdf_ready [OF demo_crypto_laws demo_tlv_laws _ bsp]) simp
  have enc: "enc_ConfigureISDPRequest A = Inr [7]" "enc_StoreMetadataRequest A smr = Inr [5]"
    "enc_InitialiseSecureChannelRequest A iscr = Inr (nested_tlv demo_tlv 0xBF23 [8])"
    by (simp_all add: A_def demo_asn1_def)
  obtain f s e p where p: "fst (bpp_protect demo_crypto demo_tlv A (Some [9, 9])
      (BPP_from_upp \<lparr>upp_metadata = Some demo_metadata\<rparr>) [7] [5] bsp) =
      Inr (bpp_frame demo_tlv (f, s, None, e), p)" "bpp_frame_ok demo_tlv (f, s, None, e)"
    "length f = 1" "length s = 1" "length e = 1"
    using bpp_protect_upp [OF laws rdy enc(1,2), of "[9, 9]" "\<lparr>upp_metadata = Some demo_metadata\<rparr>" "[]"]
    by auto
  have "length (concat f) \<le> 1038" "length (concat s) \<le> 1038" "length (concat e) \<le> 1038"
    using p wires_length [of demo_tlv "0x87" 1032 f] wires_length [of demo_tlv "0x88" 1016 s]
      wires_length [of demo_tlv "0x86" 1032 e] by (simp_all add: bpp_frame_ok_def)
  then have "length (bpp_frame demo_tlv (f, s, None, e)) \<le> 3 * 1044"
    using nested_tlv_length_le [OF demo_tlv_laws, of "0xA0" "concat f"]
      nested_tlv_length_le [OF demo_tlv_laws, of "0xA1" "concat s"]
      nested_tlv_length_le [OF demo_tlv_laws, of "0xA3" "concat e"]
    by (simp add: bpp_frame_def tag1_ok_def)
  then have "length (nested_tlv demo_tlv 0xBF36
      (nested_tlv demo_tlv 0xBF23 [8] @ bpp_frame demo_tlv (f, s, None, e))) < len_bound"
    by (simp add: nested_tlv_def demo_tlv_def demo_encode_tag_def demo_encode_len_def)
  moreover have "\<exists>self'. BPP_encode demo_crypto demo_tlv A (demo_x509 []) demo_utils (Some [9, 9])
       (BPP_from_upp \<lparr>upp_metadata = Some demo_metadata\<rparr>) demo_bpp_session demo_privkey =
       Inr (nested_tlv demo_tlv 0xBF36
         (nested_tlv demo_tlv 0xBF23 [8] @ bpp_frame demo_tlv (f, s, None, e)), self')"
    using iscr smr bsp enc p(1)
    by (simp add: BPP_encode_def demo_bpp_session_def RspSessionState_init_def bpp_store_metadata_def
        BPP_from_upp_def gen_store_metadata_request_def nested_tlv_def Let_def demo_utils_def add.assoc)
  ultimately show ?thesis using that laws by blast
qed

section \<open>Properties\<close>

text \<open>C1: A bound profile package delivers the profile. Let the SM-DP+ encode a BPP for a profile, either
  protected under its own keys or under the session keys, in a session whose key agreement was made
  with the one-time key of the eUICC. The result is a BF36 TLV, and the eUICC's decoding of its content,
  with that key and the session's EID, succeeds and returns exactly the bytes of the profile and the
  metadata request of the session.\<close>

theorem bpp_roundtrip:
  assumes "crypto_laws C" "tlv_laws T" "bpp_asn1_laws T A" "ecdh_laws E"
    and "bpp_of_profile C T cls der md self" "keys_agreed E ss euicc_ot"
    and "BPP_encode C T A X U cls self ss dp_pb = Inr (out, self')" "length out < len_bound"
  shows "\<exists>content d es. out = nested_tlv T 0xBF36 content \<and> eid ss = Some es \<and>
    BPP_decode C T A U E euicc_ot es content = Inr d \<and> dec_upp d = der \<and>
    store_metadata_dict md = Inr (dec_storeMetadataRequest d)"
proof -
  obtain es eb z h bsp otdp oteu iscr conf smr smr_bin iscr_bin rest p where
    p: "eid ss = Some es" "h2b U es = Inr eb" "shared_secret ss = Some z" "host_id ss = Some h"
    "BspInstance_from_kdf C T z 0x88 16 h eb = Inr bsp"
    "smdp_otpk ss = Some otdp" "euicc_otpk ss = Some oteu"
    "gen_initialiseSecureChannel X T U (transactionId ss) h otdp oteu dp_pb = Inr iscr"
    "enc_ConfigureISDPRequest A = Inr conf" "store_metadata_dict md = Inr smr"
    "enc_StoreMetadataRequest A smr = Inr smr_bin"
    "enc_InitialiseSecureChannelRequest A iscr = Inr iscr_bin"
    "fst (bpp_protect C T A cls self conf smr_bin bsp) = Inr (rest, p)"
    "out = nested_tlv T 0xBF36 (iscr_bin @ rest)"
    using BPP_encode_parts [OF assms(7,5)] by metis
  obtain seqs d where d: "rest = bpp_frame T seqs" "bpp_frame_ok T seqs"
    "fst (bpp_unprotect C T A z seqs bsp) = Inr d" "dec_upp d = der" "dec_storeMetadataRequest d = smr"
    using bpp_protect_roundtrip [OF assms(1,2,3,5) p(5,9,11,13)] by blast
  have len: "length (iscr_bin @ rest) < len_bound"
    using assms(8) nested_tlv_length_ge [of "iscr_bin @ rest" T "0xBF36"] p(14) by simp
  obtain v where "length v < len_bound" "iscr_bin = nested_tlv T 0xBF23 v"
    using bpp_iscr_laws(2) [OF assms(3) p(12)] by blast
  then have "bertlv_return_one_rawtlv T (iscr_bin @ rest) = Inr (0xBF23, length v, iscr_bin, rest)"
    using nested_tlv_return [OF assms(2) tag_ok_values(13)] by simp
  moreover have "bpp_sequences T rest = Inr seqs"
    using bpp_frame_parse [OF assms(2) d(2)] len d(1) by simp
  moreover have "ec_exchange E euicc_ot (smdpOtpk iscr) = Inr z"
    using assms(4,6) gen_initialiseSecureChannel_fields [OF p(8)] p(3,6,7)
    unfolding keys_agreed_def ecdh_laws_def by fastforce
  ultimately have "BPP_decode C T A U E euicc_ot es (iscr_bin @ rest) = Inr d"
    using bpp_iscr_laws(1) [OF assms(3) p(12)] p(2,5) d(3) gen_initialiseSecureChannel_fields [OF p(8)]
    by (simp add: BPP_decode_def Let_def)
  with p d show ?thesis by blast
qed

theorem bpp_roundtrip_witness:
  "\<exists>A out self' content d.
     BPP_encode demo_crypto demo_tlv A (demo_x509 []) demo_utils (Some [9, 9])
       (BPP_from_upp \<lparr>upp_metadata = Some demo_metadata\<rparr>) demo_bpp_session demo_privkey = Inr (out, self') \<and>
     out = nested_tlv demo_tlv 0xBF36 content \<and>
     BPP_decode demo_crypto demo_tlv A demo_utils demo_ec \<lparr>ek_private_value = 3, ek_curve = ''P''\<rparr> ''89'' content =
       Inr d \<and> dec_upp d = [9, 9]"
proof -
  obtain A out self' where o: "bpp_asn1_laws demo_tlv A" "length out < len_bound"
    "BPP_encode demo_crypto demo_tlv A (demo_x509 []) demo_utils (Some [9, 9])
       (BPP_from_upp \<lparr>upp_metadata = Some demo_metadata\<rparr>) demo_bpp_session demo_privkey = Inr (out, self')"
    by (rule demo_bpp_encode)
  have prof: "bpp_of_profile demo_crypto demo_tlv (Some [9, 9]) [9, 9] demo_metadata
      (BPP_from_upp \<lparr>upp_metadata = Some demo_metadata\<rparr>)"
    by (simp add: bpp_of_profile_def)
  have "keys_agreed demo_ec demo_bpp_session \<lparr>ek_private_value = 3, ek_curve = ''P''\<rparr>"
    unfolding keys_agreed_def
    by (intro exI [of _ "\<lparr>ek_private_value = 2, ek_curve = ''P''\<rparr>"])
      (simp add: demo_ec_def demo_bpp_session_def RspSessionState_init_def numeral_eq_Suc)
  from bpp_roundtrip [OF demo_crypto_laws demo_tlv_laws o(1) demo_ecdh_laws prof this o(3,2)] o(3)
  show ?thesis by (auto simp: demo_bpp_session_def)
qed

text \<open>\<open>decode\<close> does not accept what \<open>encode\<close> returns. The output of \<open>encode\<close> is wrapped in a BF36
  TLV; \<open>decode\<close> expects the bare sequence, reads the whole TLV as initialisation request, and
  raises.\<close>

theorem bpp_decode_rejects_encoded:
  assumes "tlv_laws T" "bpp_asn1_laws T A"
    and "BPP_encode C T A X U cls self ss dp_pb = Inr (out, self')" "length out < len_bound"
  shows "\<exists>e. BPP_decode C T A U E euicc_ot es out = Inl e"
proof -
  from assms(3) obtain v where out: "out = nested_tlv T 0xBF36 v"
    by (auto simp: BPP_encode_def nested_tlv_def Let_def simp del: length_append)
  with assms(4) have "length v < len_bound"
    using nested_tlv_length_ge [of v T "0xBF36"] by simp
  then have "bertlv_return_one_rawtlv T out = Inr (0xBF36, length v, out, [])"
    using nested_tlv_return [OF assms(1) tag_ok_values(14), of v "[]"] out by simp
  moreover have "\<exists>e. dec_InitialiseSecureChannelRequest A out = Inl e"
    unfolding out by (rule bpp_iscr_other_tag [OF assms(2) tag_ok_values(14) _ \<open>length v < len_bound\<close>]) simp
  ultimately show ?thesis by (auto simp: BPP_decode_def)
qed

theorem bpp_decode_rejects_encoded_witness:
  "\<exists>A out self' e.
     BPP_encode demo_crypto demo_tlv A (demo_x509 []) demo_utils (Some [9, 9])
       (BPP_from_upp \<lparr>upp_metadata = Some demo_metadata\<rparr>) demo_bpp_session demo_privkey = Inr (out, self') \<and>
     BPP_decode demo_crypto demo_tlv A demo_utils demo_ec \<lparr>ek_private_value = 3, ek_curve = ''P''\<rparr> ''89'' out =
       Inl e"
proof -
  obtain A out self' where o: "bpp_asn1_laws demo_tlv A" "length out < len_bound"
    "BPP_encode demo_crypto demo_tlv A (demo_x509 []) demo_utils (Some [9, 9])
       (BPP_from_upp \<lparr>upp_metadata = Some demo_metadata\<rparr>) demo_bpp_session demo_privkey = Inr (out, self')"
    by (rule demo_bpp_encode)
  from bpp_decode_rejects_encoded [OF demo_tlv_laws o(1,3,2)] o(3) show ?thesis by blast
qed

text \<open>Unprotected packages share their contents. \<open>from_der\<close> stores the DER data in the class, so
  after a second package has been loaded, \<open>to_der\<close> of the first returns the data of the second.\<close>

theorem upp_instances_share_der:
  "bindS (UPP_from_der der1 md1) (\<lambda>u1. bindS (UPP_from_der der2 md2) (\<lambda>u2. UPP_to_der u1)) cls =
     (Inr der2, Some der2)"
  by (simp add: UPP_from_der_def UPP_to_der_def bindS_def)

end
