(* ===== verification/Py_Std.thy ===== *)
theory Py_Std
  imports Vrsp_Prelude
begin

text \<open>
  The parts of Python's standard library the server and the tools use beyond those of the prelude:
  values of dynamic type (what a JSON document or a decoded ASN.1 structure is made of), ASCII case
  conversion and \<open>strip\<close>, decimal and hexadecimal rendering of integers, \<open>base64\<close> and the
  lexical functions of \<open>os.path\<close>. The base64 decoder is CPython's: it skips characters outside
  the alphabet and stops at a complete padding.
\<close>

section \<open>Dynamic values\<close>

text \<open>Dictionaries keep their order of insertion.\<close>

datatype pyval =
    PNone
  | PBool bool
  | PInt int
  | PStr string
  | PBytes bytes
  | PList "pyval list"
  | PTuple "pyval list"
  | PDict "(string \<times> pyval) list"

text \<open>What \<open>json.dump\<close> accepts, and what \<open>json.load\<close> gives back for it: tuples return as
  lists. Bytes raise \<open>TypeError\<close>.\<close>

fun json_dumpable :: "pyval \<Rightarrow> bool" where
  "json_dumpable (PBytes b) = False"
| "json_dumpable (PList xs) = list_all json_dumpable xs"
| "json_dumpable (PTuple xs) = list_all json_dumpable xs"
| "json_dumpable (PDict kvs) = list_all (\<lambda>kv. json_dumpable (snd kv)) kvs"
| "json_dumpable v = True"

fun json_reload :: "pyval \<Rightarrow> pyval" where
  "json_reload (PList xs) = PList (map json_reload xs)"
| "json_reload (PTuple xs) = PList (map json_reload xs)"
| "json_reload (PDict kvs) = PDict (map (\<lambda>kv. (fst kv, json_reload (snd kv))) kvs)"
| "json_reload v = v"

type_synonym pydict = "(string \<times> pyval) list"

lemma json_dumpable_reload [simp]: "json_dumpable (json_reload v) = json_dumpable v"
  by (induction v rule: json_reload.induct) (auto simp: list_all_iff)

lemma json_reload_idem [simp]: "json_reload (json_reload v) = json_reload v"
  by (induction v rule: json_reload.induct) auto

text \<open>Truth value.\<close>

fun py_truthy :: "pyval \<Rightarrow> bool" where
  "py_truthy PNone = False"
| "py_truthy (PBool b) = b"
| "py_truthy (PInt i) = (i \<noteq> 0)"
| "py_truthy (PStr s) = (s \<noteq> [])"
| "py_truthy (PBytes b) = (b \<noteq> [])"
| "py_truthy (PList xs) = (xs \<noteq> [])"
| "py_truthy (PTuple xs) = (xs \<noteq> [])"
| "py_truthy (PDict kvs) = (kvs \<noteq> [])"

text \<open>Operations of dictionaries: \<open>d.get(k)\<close>, \<open>d[k] = v\<close> (in place if the key is there,
  else at the end), \<open>del d[k]\<close>.\<close>

fun dict_set :: "'k \<Rightarrow> 'v \<Rightarrow> ('k \<times> 'v) list \<Rightarrow> ('k \<times> 'v) list" where
  "dict_set k v [] = [(k, v)]"
| "dict_set k v ((k', v') # d) = (if k' = k then (k, v) # d else (k', v') # dict_set k v d)"

definition dict_del :: "'k \<Rightarrow> ('k \<times> 'v) list \<Rightarrow> ('k \<times> 'v) list" where
  "dict_del k d = filter (\<lambda>kv. fst kv \<noteq> k) d"

definition dict_ok :: "('k \<times> 'v) list \<Rightarrow> bool" where
  "dict_ok d \<longleftrightarrow> distinct (map fst d)"

lemma map_of_dict_set [simp]: "map_of (dict_set k v d) = (map_of d)(k \<mapsto> v)"
  by (induction k v d rule: dict_set.induct) auto

lemma dict_set_nonempty [simp]: "dict_set k v d \<noteq> []"
  by (induction k v d rule: dict_set.induct) auto

lemma map_of_dict_del [simp]: "map_of (dict_del k d) = (map_of d)(k := None)"
  by (induction d) (auto simp: dict_del_def)

lemma fst_set_dict_set [simp]: "fst ` set (dict_set k v d) = insert k (fst ` set d)"
  by (induction k v d rule: dict_set.induct) auto

lemma dict_ok_set [simp]: "dict_ok d \<Longrightarrow> dict_ok (dict_set k v d)"
  by (induction k v d rule: dict_set.induct) (auto simp: dict_ok_def)

lemma dict_ok_del [simp]: "dict_ok d \<Longrightarrow> dict_ok (dict_del k d)"
  by (simp add: dict_ok_def dict_del_def distinct_map_filter)

lemma dict_ok_Nil [simp]: "dict_ok []"
  by (simp add: dict_ok_def)

text \<open>\<open>v[k]\<close> on a dictionary, and the use of a value as bytes, list or integer.\<close>

definition getitem :: "pyval \<Rightarrow> string \<Rightarrow> pyval result" where
  "getitem v k = (case v of PDict d \<Rightarrow> (case map_of d k of None \<Rightarrow> Inl KeyError | Some x \<Rightarrow> Inr x) | _ \<Rightarrow> Inl TypeError)"

definition as_bytes :: "pyval \<Rightarrow> bytes result" where
  "as_bytes v = (case v of PBytes b \<Rightarrow> Inr b | _ \<Rightarrow> Inl TypeError)"

definition as_int :: "pyval \<Rightarrow> int result" where
  "as_int v = (case v of PInt i \<Rightarrow> Inr i | _ \<Rightarrow> Inl TypeError)"

definition as_list :: "pyval \<Rightarrow> pyval list result" where
  "as_list v = (case v of PList l \<Rightarrow> Inr l | _ \<Rightarrow> Inl TypeError)"

text \<open>\<open>v[k] = x\<close> and \<open>v.get(k, default)\<close> on a dictionary, and iteration.\<close>

definition setitem :: "pyval \<Rightarrow> string \<Rightarrow> pyval \<Rightarrow> pyval result" where
  "setitem v k x = (case v of PDict d \<Rightarrow> Inr (PDict (dict_set k x d)) | _ \<Rightarrow> Inl TypeError)"

definition get_default :: "pyval \<Rightarrow> string \<Rightarrow> pyval \<Rightarrow> pyval result" where
  "get_default v k dflt =
     (case v of PDict d \<Rightarrow> Inr (case map_of d k of None \<Rightarrow> dflt | Some x \<Rightarrow> x) | _ \<Rightarrow> Inl AttributeError)"

definition py_iter :: "pyval \<Rightarrow> pyval list result" where
  "py_iter v =
     (case v of
        PList l \<Rightarrow> Inr l
      | PTuple l \<Rightarrow> Inr l
      | PStr s \<Rightarrow> Inr (map (\<lambda>c. PStr [c]) s)
      | PBytes bs \<Rightarrow> Inr (map (\<lambda>b. PInt (int (unat b))) bs)
      | PDict d \<Rightarrow> Inr (map (\<lambda>kv. PStr (fst kv)) d)
      | _ \<Rightarrow> Inl TypeError)"

section \<open>Characters and numbers\<close>

text \<open>\<open>s.upper()\<close> and \<open>s.lower()\<close> on ASCII letters; other characters are kept.\<close>

definition upper_char :: "char \<Rightarrow> char" where
  "upper_char c = (if 97 \<le> (of_char c :: nat) \<and> (of_char c :: nat) \<le> 122 then char_of ((of_char c :: nat) - 32) else c)"

definition lower_char :: "char \<Rightarrow> char" where
  "lower_char c = (if 65 \<le> (of_char c :: nat) \<and> (of_char c :: nat) \<le> 90 then char_of ((of_char c :: nat) + 32) else c)"

abbreviation str_upper :: "string \<Rightarrow> string" where
  "str_upper \<equiv> map upper_char"

abbreviation str_lower :: "string \<Rightarrow> string" where
  "str_lower \<equiv> map lower_char"

definition py_space :: "char \<Rightarrow> bool" where
  "py_space c \<longleftrightarrow> (let n = (of_char c :: nat) in (9 \<le> n \<and> n \<le> 13) \<or> (28 \<le> n \<and> n \<le> 32) \<or> n = 133 \<or> n = 160)"

definition str_strip :: "string \<Rightarrow> string" where
  "str_strip s = rev (dropWhile py_space (rev (dropWhile py_space s)))"

text \<open>\<open>str(n)\<close> of an integer that is not negative.\<close>

definition digit_char :: "nat \<Rightarrow> char" where
  "digit_char d = char_of (48 + d)"

fun nat_str :: "nat \<Rightarrow> string" where
  "nat_str n = (if n < 10 then [digit_char n] else nat_str (n div 10) @ [digit_char (n mod 10)])"

declare nat_str.simps [simp del]

fun digits_value :: "string \<Rightarrow> nat" where
  "digits_value s = foldl (\<lambda>a c. 10 * a + ((of_char c :: nat) - 48)) 0 s"

definition is_digit :: "char \<Rightarrow> bool" where
  "is_digit c \<longleftrightarrow> 48 \<le> (of_char c :: nat) \<and> (of_char c :: nat) \<le> 57"

lemma of_digit_char [simp]: "d < 10 \<Longrightarrow> (of_char (digit_char d) :: nat) = 48 + d"
  by (simp add: digit_char_def)

lemma is_digit_char [simp]: "d < 10 \<Longrightarrow> is_digit (digit_char d)"
  by (simp add: is_digit_def)

lemma nat_str_digits: "\<forall>c\<in>set (nat_str n). is_digit c"
  by (induction n rule: nat_str.induct) (subst nat_str.simps, auto)

lemma nat_str_nonempty [simp]: "nat_str n \<noteq> []"
  by (subst nat_str.simps) simp

lemma digits_value_nat_str [simp]: "digits_value (nat_str n) = n"
  by (induction n rule: nat_str.induct) (subst nat_str.simps, simp)

lemma nat_str_inject [simp]: "nat_str m = nat_str n \<longleftrightarrow> m = n"
  by (metis digits_value_nat_str)

lemma nat_str_no_dot: "CHR ''.'' \<notin> set (nat_str n)"
  using nat_str_digits [of n] by (auto simp: is_digit_def)

section \<open>base64\<close>

definition b64_alphabet :: string where
  "b64_alphabet = ''ABCDEFGHIJKLMNOPQRSTUVWXYZabcdefghijklmnopqrstuvwxyz0123456789+/''"

definition b64_char :: "nat \<Rightarrow> char" where
  "b64_char v = b64_alphabet ! v"

definition b64_val :: "char \<Rightarrow> nat option" where
  "b64_val c = (let i = length (takeWhile (\<lambda>x. x \<noteq> c) b64_alphabet) in if i < 64 then Some i else None)"

fun b64encode :: "bytes \<Rightarrow> string" where
  "b64encode [] = []"
| "b64encode [a] = [b64_char (unat a div 4), b64_char (unat a mod 4 * 16), CHR ''='', CHR ''='']"
| "b64encode [a, b] = [b64_char (unat a div 4), b64_char (unat a mod 4 * 16 + unat b div 16),
     b64_char (unat b mod 16 * 4), CHR ''='']"
| "b64encode (a # b # c # r) = b64_char (unat a div 4) # b64_char (unat a mod 4 * 16 + unat b div 16) #
     b64_char (unat b mod 16 * 4 + unat c div 64) # b64_char (unat c mod 64) # b64encode r"

text \<open>\<open>binascii.a2b_base64\<close> outside its strict mode: position in the quad, the bits left over,
  the number of pads seen since the last data character.\<close>

fun a2b_base64 :: "nat \<Rightarrow> nat \<Rightarrow> nat \<Rightarrow> string \<Rightarrow> bytes result" where
  "a2b_base64 quad_pos leftchar pads [] = (if quad_pos \<noteq> 0 then Inl ValueError else Inr [])"
| "a2b_base64 quad_pos leftchar pads (c # cs) =
     (if c = CHR ''='' then
        (if quad_pos \<ge> 2 \<and> quad_pos + (pads + 1) \<ge> 4 then Inr []
         else a2b_base64 quad_pos leftchar (if quad_pos \<ge> 2 then pads + 1 else pads) cs)
      else (case b64_val c of
          None \<Rightarrow> a2b_base64 quad_pos leftchar pads cs
        | Some v \<Rightarrow>
            (if quad_pos = 0 then a2b_base64 1 v 0 cs
             else if quad_pos = 1 then
               bindR (a2b_base64 2 (v mod 16) 0 cs) (\<lambda>r. Inr (of_nat (leftchar * 4 + v div 16) # r))
             else if quad_pos = 2 then
               bindR (a2b_base64 3 (v mod 4) 0 cs) (\<lambda>r. Inr (of_nat (leftchar * 16 + v div 4) # r))
             else bindR (a2b_base64 0 0 0 cs) (\<lambda>r. Inr (of_nat (leftchar * 64 + v) # r)))))"

text \<open>\<open>b64decode(s)\<close> of a string: characters that are not ASCII raise \<open>ValueError\<close>.\<close>

definition b64decode :: "string \<Rightarrow> bytes result" where
  "b64decode s = (if list_all (\<lambda>c. (of_char c :: nat) < 128) s then a2b_base64 0 0 0 s else Inl ValueError)"

lemma b64_char_val_all: "list_all (\<lambda>v. b64_val (b64_char v) = Some v \<and> b64_char v \<noteq> CHR ''='' \<and>
    (of_char (b64_char v) :: nat) < 128) [0..<64]"
  by code_simp

lemma b64_char_val [simp]:
  assumes "v < 64"
  shows "b64_val (b64_char v) = Some v" "b64_char v \<noteq> CHR ''=''" "(of_char (b64_char v) :: nat) < 128"
  using b64_char_val_all assms by (auto simp: list_all_iff)

lemma unat_parts [simp]:
  "unat (a :: byte) div 4 < 64" "unat (a :: byte) mod 4 * 16 + unat (b :: byte) div 16 < 64"
  "unat (b :: byte) mod 16 * 4 + unat (c :: byte) div 64 < 64"
  "unat (a :: byte) mod 4 * 16 < 64" "unat (b :: byte) mod 16 * 4 < 64"
  using unat_byte_lt [of a] unat_byte_lt [of b] unat_byte_lt [of c] by linarith+

lemma b64_recombine:
  fixes a b c :: nat
  assumes "b < 256" "c < 256"
  shows "a div 4 * 4 + (a mod 4 * 16 + b div 16) div 16 = a"
    "(a mod 4 * 16 + b div 16) mod 16 * 16 + (b mod 16 * 4 + c div 64) div 4 = b"
    "(b mod 16 * 4 + c div 64) mod 4 * 64 + c mod 64 = c"
proof -
  have "b div 16 < 16" "c div 64 < 4" using assms by linarith+
  then show "a div 4 * 4 + (a mod 4 * 16 + b div 16) div 16 = a"
    "(a mod 4 * 16 + b div 16) mod 16 * 16 + (b mod 16 * 4 + c div 64) div 4 = b"
    "(b mod 16 * 4 + c div 64) mod 4 * 64 + c mod 64 = c"
    by (simp_all add: mod_mult_self3 div_mult_mod_eq)
qed

lemma b64_recombine_byte:
  fixes a b c :: byte
  shows "of_nat (unat a div 4 * 4 + (unat a mod 4 * 16 + unat b div 16) div 16) = a"
    "of_nat ((unat a mod 4 * 16 + unat b div 16) mod 16 * 16 +
      (unat b mod 16 * 4 + unat c div 64) div 4) = b"
    "of_nat ((unat b mod 16 * 4 + unat c div 64) mod 4 * 64 + unat c mod 64) = c"
  by (simp_all only: b64_recombine [OF unat_byte_lt unat_byte_lt] of_nat_unat ucast_id)

lemma a2b_b64encode: "a2b_base64 0 0 0 (b64encode bs) = Inr bs"
proof (induction bs rule: b64encode.induct)
  case 1
  then show ?case by simp
next
  case (2 a)
  show ?case using b64_recombine_byte(1) [of a 0] by simp
next
  case (3 a b)
  show ?case using b64_recombine_byte(1) [of a b] b64_recombine_byte(2) [of a b 0] by simp
next
  case (4 a b c r)
  then show ?case
    using b64_recombine_byte(1) [of a b] b64_recombine_byte(2) [of a b c] b64_recombine_byte(3) [of b c]
    by simp
qed

lemma b64encode_ascii: "list_all (\<lambda>c. (of_char c :: nat) < 128) (b64encode bs)"
  by (induction bs rule: b64encode.induct) simp_all

lemma b64_roundtrip [simp]: "b64decode (b64encode bs) = Inr bs"
  by (simp add: b64decode_def b64encode_ascii a2b_b64encode)

declare b64encode.simps [simp del] a2b_base64.simps [simp del]

interpretation base64: codec "\<lambda>bs. Inr (b64encode bs)" b64decode "\<lambda>bs. True"
  by unfold_locales simp_all

section \<open>os.path\<close>

text \<open>\<open>os.path.join(a, b)\<close> on POSIX, and \<open>os.path.commonprefix((a, b))\<close>, which compares
  character by character.\<close>

definition path_join :: "string \<Rightarrow> string \<Rightarrow> string" where
  "path_join a b = (if take 1 b = ''/'' then b
     else if a = [] \<or> last a = CHR ''/'' then a @ b
     else a @ ''/'' @ b)"

fun commonprefix :: "'a list \<Rightarrow> 'a list \<Rightarrow> 'a list" where
  "commonprefix (x # xs) (y # ys) = (if x = y then x # commonprefix xs ys else [])"
| "commonprefix _ _ = []"

definition starts_with :: "'a list \<Rightarrow> 'a list \<Rightarrow> bool" where
  "starts_with p s \<longleftrightarrow> take (length p) s = p"

definition ends_with :: "'a list \<Rightarrow> 'a list \<Rightarrow> bool" where
  "ends_with p s \<longleftrightarrow> length p \<le> length s \<and> drop (length s - length p) s = p"

lemma starts_with_iff: "starts_with p s \<longleftrightarrow> (\<exists>r. s = p @ r)"
  unfolding starts_with_def by (metis append_eq_conv_conj append_take_drop_id)

lemma ends_with_append [simp]: "ends_with p (s @ p)"
  by (simp add: ends_with_def)

lemma commonprefix_whole: "commonprefix s p = p \<longleftrightarrow> starts_with p s"
proof (induction s p rule: commonprefix.induct)
  case (1 x xs y ys)
  then show ?case by (auto simp: starts_with_def)
qed (auto simp: starts_with_def)

end
