(* ===== verification/Saip_Oid.thy ===== *)
theory Saip_Oid
  imports Py_Std "HOL-Library.List_Lexorder"
begin

text \<open>
  \<^verbatim>\<open>pysim/pySim/esim/saip/oid.py\<close>: object identifiers of profile templates, their comparison
  and the prefix match. The comparison operators are those \<open>functools.total_ordering\<close> derives
  from \<open>__gt__\<close>; they make the type a linear order, which the type class instance below states,
  so that the library's \<open>sort\<close> applies. \<open>int(x)\<close> is modelled for digit strings (Python
  also accepts signs, blanks and underscores, which no encoder of OIDs produces).
\<close>

datatype oid = OID (intlist: "nat list")

definition parse_int :: "string \<Rightarrow> nat result" where
  "parse_int s = (if s \<noteq> [] \<and> list_all is_digit s then Inr (digits_value s) else Inl ValueError)"

definition intlist_from_str :: "string \<Rightarrow> nat list result" where
  "intlist_from_str instr = mapR parse_int (split_on CHR ''.'' instr)"

definition str_from_intlist :: "nat list \<Rightarrow> string" where
  "str_from_intlist l = join_with ''.'' (map nat_str l)"

definition OID_init :: "string \<Rightarrow> oid result" where
  "OID_init initializer = bindR (intlist_from_str initializer) (\<lambda>l. Inr (OID l))"

definition oid_str :: "oid \<Rightarrow> string" where
  "oid_str o1 = str_from_intlist (intlist o1)"

definition eOID_init :: "string \<Rightarrow> oid result" where
  "eOID_init initializer = bindR (intlist_from_str initializer) (\<lambda>l. Inr (OID ([2, 23, 143, 1] @ l)))"

text \<open>The loop of \<open>cmp\<close> over the positions: when the positions of the first identifier are used up
  it returns -1 before it looks at the second.\<close>

fun cmp_loop :: "nat list \<Rightarrow> nat list \<Rightarrow> int" where
  "cmp_loop [] ys = - 1"
| "cmp_loop (x # xs) [] = 1"
| "cmp_loop (x # xs) (y # ys) = (if x > y then 1 else if x < y then - 1 else cmp_loop xs ys)"

definition oid_cmp :: "oid \<Rightarrow> oid \<Rightarrow> int" where
  "oid_cmp self other = cmp_loop (intlist self) (intlist other)"

definition oid_gt :: "oid \<Rightarrow> oid \<Rightarrow> bool" where
  "oid_gt self other \<longleftrightarrow> oid_cmp self other > 0"

definition prefix_match :: "oid \<Rightarrow> string \<Rightarrow> bool" where
  "prefix_match self s \<longleftrightarrow> starts_with (oid_str self) s"

lemma cmp_loop_lex: "cmp_loop xs ys > 0 \<longleftrightarrow> ys < xs"
  by (induction xs ys rule: cmp_loop.induct) auto

lemma oid_gt_lex: "oid_gt a b \<longleftrightarrow> intlist b < intlist a"
  by (simp add: oid_gt_def oid_cmp_def cmp_loop_lex)

instantiation oid :: linorder
begin

definition less_eq_oid :: "oid \<Rightarrow> oid \<Rightarrow> bool" where
  "a \<le> b \<longleftrightarrow> \<not> oid_gt a b"

definition less_oid :: "oid \<Rightarrow> oid \<Rightarrow> bool" where
  "a < b \<longleftrightarrow> \<not> oid_gt a b \<and> a \<noteq> b"

instance
proof
  fix a b c :: oid
  have le: "x \<le> y \<longleftrightarrow> intlist x \<le> intlist y" for x y :: oid
    by (simp add: less_eq_oid_def oid_gt_lex not_less)
  show "a < b \<longleftrightarrow> a \<le> b \<and> \<not> b \<le> a"
    by (cases a, cases b) (auto simp: less_oid_def less_eq_oid_def oid_gt_lex not_less)
  show "a \<le> a" by (simp add: le)
  show "a \<le> b \<Longrightarrow> b \<le> c \<Longrightarrow> a \<le> c" by (simp add: le)
  show "a \<le> b \<Longrightarrow> b \<le> a \<Longrightarrow> a = b" by (cases a, cases b) (simp add: le)
  show "a \<le> b \<or> b \<le> a" by (auto simp: le)
qed

end

definition highest_oid :: "oid list \<Rightarrow> oid result" where
  "highest_oid oids = (case sort oids of [] \<Rightarrow> Inl IndexError | x # xs \<Rightarrow> Inr (last (x # xs)))"

definition MF_oid :: "oid result" where
  "MF_oid = eOID_init ''2.1''"

definition ADF_CSIM_by_default_oid :: "oid result" where
  "ADF_CSIM_by_default_oid = eOID_init ''2.10''"

section \<open>Lemmas\<close>

lemma oid_le_lex: "a \<le> b \<longleftrightarrow> intlist a \<le> intlist (b :: oid)"
  by (simp add: less_eq_oid_def oid_gt_lex not_less)

lemma parse_int_nat_str [simp]: "parse_int (nat_str n) = Inr n"
  using nat_str_digits [of n] by (simp add: parse_int_def list_all_iff del: digits_value.simps)

lemma split_dotted: "l \<noteq> [] \<Longrightarrow> split_on CHR ''.'' (join_with ''.'' (map nat_str l)) = map nat_str l"
proof (induction l)
  case (Cons n l)
  then show ?case by (cases l) (simp_all add: split_on_no_sep split_on_append_sep nat_str_no_dot)
qed simp

lemma intlist_roundtrip: "l \<noteq> [] \<Longrightarrow> intlist_from_str (str_from_intlist l) = Inr l"
  by (simp add: intlist_from_str_def str_from_intlist_def split_dotted mapR_eq_Inr list_all2_conv_all_nth)

interpretation oid_codec: codec "\<lambda>o1. Inr (oid_str o1)" OID_init "\<lambda>o1. intlist o1 \<noteq> []"
  by unfold_locales (auto simp: oid_str_def OID_init_def intlist_roundtrip)

lemma sort_nonempty: "xs \<noteq> [] \<Longrightarrow> sort (xs :: oid list) \<noteq> []"
  by (metis set_empty set_sort)

lemma last_sort_Max:
  assumes "xs \<noteq> []"
  shows "last (sort xs) = Max (set (xs :: oid list))"
proof (rule Max_eqI [symmetric])
  have e: "sort xs = butlast (sort xs) @ [last (sort xs)]"
    using sort_nonempty [OF assms] by simp
  show "last (sort xs) \<in> set xs"
    using last_in_set [OF sort_nonempty [OF assms]] by simp
  fix y
  assume "y \<in> set xs"
  then have "y \<in> set (butlast (sort xs) @ [last (sort xs)])" using e by (metis set_sort)
  moreover have "sorted (butlast (sort xs) @ [last (sort xs)])" using e by (metis sorted_sort)
  ultimately show "y \<le> last (sort xs)" by (auto simp: sorted_append)
qed simp

section \<open>Properties\<close>

text \<open>Text form and comparison of template OIDs. Reading the text form of an OID gives the OID
  back; the comparison the class derives from its \<open>cmp\<close> is the lexicographic order of the arcs,
  although \<open>cmp\<close> itself returns -1 for equal OIDs; and \<open>highest_oid\<close> returns the largest
  element of a list that is not empty.\<close>

theorem oid_roundtrip_and_order:
  "(intlist a \<noteq> [] \<longrightarrow> OID_init (oid_str a) = Inr a) \<and>
   (a < b \<longleftrightarrow> intlist a < intlist b) \<and> oid_cmp a a = - 1 \<and>
   highest_oid (a # oids) = Inr (Max (set (a # oids)))"
proof (intro conjI impI)
  show "intlist a \<noteq> [] \<Longrightarrow> OID_init (oid_str a) = Inr a"
    using oid_codec.roundtrip [of a] by simp
  show "a < b \<longleftrightarrow> intlist a < intlist b"
    unfolding less_le oid_le_lex by (metis oid.expand)
  show "oid_cmp a a = - 1"
  proof -
    have "cmp_loop l l = - 1" for l by (induction l) auto
    then show ?thesis by (simp add: oid_cmp_def)
  qed
  have "sort (a # oids) \<noteq> []" by (rule sort_nonempty) simp
  then show "highest_oid (a # oids) = Inr (Max (set (a # oids)))"
    unfolding highest_oid_def using last_sort_Max [of "a # oids"]
    by (cases "sort (a # oids)") (simp_all del: sort_key_simps)
qed

theorem oid_roundtrip_and_order_witness:
  "OID_init (oid_str (OID [2, 23, 143, 1, 2, 1])) = Inr (OID [2, 23, 143, 1, 2, 1])"
  using oid_roundtrip_and_order [of "OID [2, 23, 143, 1, 2, 1]" "OID []" "[]"] by simp

text \<open>The prefix match compares characters, not arcs: every OID matches itself and everything
  below it, but the template OID of the MF (2.1) also matches that of the CSIM application (2.10),
  which is not below it.\<close>

theorem prefix_match_characterwise:
  "prefix_match (OID (l @ [n])) (oid_str (OID (l @ n # ext))) \<and>
   (\<exists>mf csim. MF_oid = Inr mf \<and> ADF_CSIM_by_default_oid = Inr csim \<and>
      prefix_match mf (oid_str csim) \<and> \<not> starts_with (intlist mf) (intlist csim))"
proof (intro conjI)
  have join: "ps \<noteq> [] \<Longrightarrow> qs \<noteq> [] \<Longrightarrow>
      join_with ''.'' (ps @ qs) = join_with ''.'' ps @ ''.'' @ join_with ''.'' qs" for ps qs :: "string list"
    by (induction "''.'' :: string" ps rule: join_with.induct) (auto simp: neq_Nil_conv)
  show "prefix_match (OID (l @ [n])) (oid_str (OID (l @ n # ext)))"
  proof (cases ext)
    case Nil
    then show ?thesis by (simp add: prefix_match_def starts_with_def)
  next
    case (Cons m ms)
    then show ?thesis
      using join [of "map nat_str (l @ [n])" "map nat_str ext"]
      by (auto simp: prefix_match_def oid_str_def str_from_intlist_def starts_with_iff)
  qed
  have "MF_oid = Inr (OID [2, 23, 143, 1, 2, 1])" "ADF_CSIM_by_default_oid = Inr (OID [2, 23, 143, 1, 2, 10])"
    "prefix_match (OID [2, 23, 143, 1, 2, 1]) (oid_str (OID [2, 23, 143, 1, 2, 10]))"
    by code_simp+
  then show "\<exists>mf csim. MF_oid = Inr mf \<and> ADF_CSIM_by_default_oid = Inr csim \<and>
      prefix_match mf (oid_str csim) \<and> \<not> starts_with (intlist mf) (intlist csim)"
    by (intro exI [of _ "OID [2, 23, 143, 1, 2, 1]"] exI [of _ "OID [2, 23, 143, 1, 2, 10]"])
      (simp add: starts_with_def)
qed

end
