(* ===== verification/Saip_Pes.thy ===== *)
theory Saip_Pes
  imports Saip_Oid Ext_Libs
begin

text \<open>
  The core of \<^verbatim>\<open>pysim/pySim/esim/saip/__init__.py\<close>: profile elements (class
  \<open>ProfileElement\<close>), the sequence of them that makes up a profile (class
  \<open>ProfileElementSequence\<close>) with its two indexes, and the splitting of a DER file into
  elements.

  The sequence and its indexes hold references to mutable elements, so the state has an explicit
  store \<open>objs\<close> from references to elements; renumbering through the list is then seen
  through the indexes. A decoded element is a dictionary of dynamic values, as asn1tools returns
  it. The codec of profile elements, the tag and length parsers of \<open>osmocom.tlv\<close> and the
  adapters of package construct for key types, key usage and install parameters are parameters.
  A security domain also keeps its keys as objects (\<open>pe_keys\<close>) and its install parameters
  (\<open>pe_usip\<close>), which are written back before encoding. The file trees that the file system
  classes build beside \<open>decoded\<close> after decoding, and never write back, are not part of the
  state; whether building them raises is the parameter \<open>build_files\<close>.
\<close>

section \<open>Profile elements\<close>

record sd_key_component =
  key_type :: string
  key_data :: bytes
  mac_length :: int

record sd_key =
  key_version_number :: nat
  key_identifier :: nat
  key_usage_qualifier :: pyval
  key_components :: "sd_key_component list"

record profile_element =
  pe_type :: string
  pe_decoded :: pydict
  pe_keys :: "sd_key list"
  pe_usip :: pyval

record pe_lib =
  bertlv_parse_tag :: "bytes \<Rightarrow> (tag_dict \<times> bytes) result"
  bertlv_parse_len :: "bytes \<Rightarrow> (nat \<times> bytes) result"
  dec_ProfileElement :: "bytes \<Rightarrow> (string \<times> pydict) result"
  enc_ProfileElement :: "string \<Rightarrow> pydict \<Rightarrow> bytes result"
  KeyType_parse :: "bytes \<Rightarrow> string result"
  KeyType_build :: "string \<Rightarrow> bytes result"
  KeyUsageQualifier_parse :: "bytes \<Rightarrow> pyval result"
  KeyUsageQualifier_build :: "pyval \<Rightarrow> bytes result"
  C9_from_bytes :: "bytes \<Rightarrow> pyval result"
  C9_to_bytes :: "pyval \<Rightarrow> bytes result"
  build_files :: "string \<Rightarrow> pydict \<Rightarrow> unit result"

definition header_name_translation_dict :: "(string \<times> string option) list" where
  "header_name_translation_dict =
     [(''header'', None),
      (''end'', Some ''end-header''),
      (''genericFileManagement'', Some ''gfm-header''),
      (''akaParameter'', Some ''aka-header''),
      (''cdmaParameter'', Some ''cdma-header''),
      (''application'', Some ''app-Header''),
      (''pukCodes'', Some ''puk-Header''),
      (''pinCodes'', Some ''pin-Header''),
      (''securityDomain'', Some ''sd-Header''),
      (''df-5gprose'', Some ''df-5g-prose-header'')]"

definition header_name :: "string \<Rightarrow> string option" where
  "header_name ty =
     (if starts_with ''opt-'' ty then Some (filter (\<lambda>c. c \<noteq> CHR ''-'') ty @ ''-header'')
      else case map_of header_name_translation_dict ty of
        Some n \<Rightarrow> n
      | None \<Rightarrow> Some (ty @ ''-header''))"

text \<open>The constructor of the base class; an empty \<open>decoded\<close> counts as none.\<close>

definition ProfileElement_init :: "string \<Rightarrow> pydict \<Rightarrow> bool \<Rightarrow> profile_element" where
  "ProfileElement_init ty decoded mandated =
     \<lparr>pe_type = ty, pe_decoded =
       (if decoded \<noteq> [] then decoded
        else case header_name ty of
            None \<Rightarrow> []
          | Some n \<Rightarrow> [(n, PDict [(if mandated then ''mandated'' else ''identification'', PNone)])]),
      pe_keys = [], pe_usip = PNone\<rparr>"

text \<open>The properties \<open>header\<close>, \<open>identification\<close>, \<open>templateID\<close>; an absent entry is
  \<open>None\<close>.\<close>

definition pe_header :: "profile_element \<Rightarrow> pyval" where
  "pe_header pe =
     (case header_name (pe_type pe) of
        None \<Rightarrow> PNone
      | Some n \<Rightarrow> (case map_of (pe_decoded pe) n of None \<Rightarrow> PNone | Some v \<Rightarrow> v))"

definition identification :: "profile_element \<Rightarrow> pyval result" where
  "identification pe = (if py_truthy (pe_header pe) then getitem (pe_header pe) ''identification'' else Inr PNone)"

definition templateID :: "profile_element \<Rightarrow> pyval" where
  "templateID pe = (case map_of (pe_decoded pe) ''templateID'' of None \<Rightarrow> PNone | Some v \<Rightarrow> v)"

section \<open>Keys of security domains\<close>

definition key_component_from_saip_dict :: "pe_lib \<Rightarrow> pyval \<Rightarrow> sd_key_component result" where
  "key_component_from_saip_dict L saip =
     bindR (getitem saip ''keyType'') (\<lambda>kt. bindR (as_bytes kt) (\<lambda>ktb.
     bindR (KeyType_parse L ktb) (\<lambda>ty.
     bindR (getitem saip ''keyData'') (\<lambda>kd. bindR (as_bytes kd) (\<lambda>kdb.
     bindR (getitem saip ''macLength'') (\<lambda>ml. bindR (as_int ml) (\<lambda>mli.
       Inr \<lparr>key_type = ty, key_data = kdb, mac_length = mli\<rparr>)))))))"

definition key_component_to_saip_dict :: "pe_lib \<Rightarrow> sd_key_component \<Rightarrow> pyval result" where
  "key_component_to_saip_dict L c =
     bindR (KeyType_build L (key_type c)) (\<lambda>kt.
       Inr (PDict [(''keyType'', PBytes kt), (''keyData'', PBytes (key_data c)),
                   (''macLength'', PInt (mac_length c))]))"

definition sd_key_from_saip_dict :: "pe_lib \<Rightarrow> pyval \<Rightarrow> sd_key result" where
  "sd_key_from_saip_dict L saip =
     bindR (getitem saip ''keyVersionNumber'') (\<lambda>kvn. bindR (as_bytes kvn) (\<lambda>kvnb.
     bindR (getitem saip ''keyIdentifier'') (\<lambda>kid. bindR (as_bytes kid) (\<lambda>kidb.
     bindR (getitem saip ''keyUsageQualifier'') (\<lambda>kuq. bindR (as_bytes kuq) (\<lambda>kuqb.
     bindR (KeyUsageQualifier_parse L kuqb) (\<lambda>usage.
     bindR (getitem saip ''keyComponents'') (\<lambda>kc. bindR (as_list kc) (\<lambda>kcl.
     bindR (mapR (key_component_from_saip_dict L) kcl) (\<lambda>comps.
       Inr \<lparr>key_version_number = from_bytes_be kvnb, key_identifier = from_bytes_be kidb,
            key_usage_qualifier = usage, key_components = comps\<rparr>))))))))))"

text \<open>\<open>bytes([n])\<close>.\<close>

definition bytes_of_int :: "nat \<Rightarrow> bytes result" where
  "bytes_of_int n = (if n < 256 then Inr [of_nat n] else Inl ValueError)"

definition sd_key_to_saip_dict :: "pe_lib \<Rightarrow> sd_key \<Rightarrow> pyval result" where
  "sd_key_to_saip_dict L k =
     bindR (KeyUsageQualifier_build L (key_usage_qualifier k)) (\<lambda>kuq.
     bindR (bytes_of_int (key_identifier k)) (\<lambda>kid.
     bindR (bytes_of_int (key_version_number k)) (\<lambda>kvn.
     bindR (mapR (key_component_to_saip_dict L) (key_components k)) (\<lambda>comps.
       Inr (PDict [(''keyUsageQualifier'', PBytes kuq), (''keyIdentifier'', PBytes kid),
                   (''keyVersionNumber'', PBytes kvn), (''keyComponents'', PList comps)])))))"

definition sd_post_decode :: "pe_lib \<Rightarrow> profile_element \<Rightarrow> profile_element result" where
  "sd_post_decode L pe =
     bindR (getitem (PDict (pe_decoded pe)) ''instance'') (\<lambda>inst.
     bindR (getitem inst ''applicationSpecificParametersC9'') (\<lambda>c9. bindR (as_bytes c9) (\<lambda>c9b.
     bindR (C9_from_bytes L c9b) (\<lambda>usip.
     bindR (getitem (PDict (pe_decoded pe)) ''keyList'') (\<lambda>kl. bindR (as_list kl) (\<lambda>kll.
     bindR (mapR (sd_key_from_saip_dict L) kll) (\<lambda>keys.
       Inr (pe\<lparr>pe_usip := usip, pe_keys := keys\<rparr>))))))))"

definition sd_pre_encode :: "pe_lib \<Rightarrow> (profile_element, unit) comp" where
  "sd_pre_encode L pe =
     (case mapR (sd_key_to_saip_dict L) (pe_keys pe) of
        Inl e \<Rightarrow> (Inl e, pe)
      | Inr kl \<Rightarrow>
          (let pe1 = pe\<lparr>pe_decoded := dict_set ''keyList'' (PList kl) (pe_decoded pe)\<rparr>
           in case C9_to_bytes L (pe_usip pe) of
                Inl e \<Rightarrow> (Inl e, pe1)
              | Inr c9 \<Rightarrow>
                  (case map_of (pe_decoded pe1) ''instance'' of
                     None \<Rightarrow> (Inl KeyError, pe1)
                   | Some (PDict d) \<Rightarrow>
                       (Inr (), pe1\<lparr>pe_decoded := dict_set ''instance''
                          (PDict (dict_set ''applicationSpecificParametersC9'' (PBytes c9) d)) (pe_decoded pe1)\<rparr>)
                   | Some _ \<Rightarrow> (Inl TypeError, pe1))))"

definition find_key :: "profile_element \<Rightarrow> nat \<Rightarrow> nat \<Rightarrow> sd_key option" where
  "find_key pe kvn kid = find (\<lambda>k. key_version_number k = kvn \<and> key_identifier k = kid) (pe_keys pe)"

text \<open>The list is changed before the pre-encoder runs, so it stays changed if that raises.\<close>

definition add_key :: "pe_lib \<Rightarrow> sd_key \<Rightarrow> (profile_element, unit) comp" where
  "add_key L key pe =
     (if find_key pe (key_version_number key) (key_identifier key) \<noteq> None then (Inl ValueError, pe)
      else sd_pre_encode L (pe\<lparr>pe_keys := pe_keys pe @ [key]\<rparr>))"

definition remove_key :: "pe_lib \<Rightarrow> nat \<Rightarrow> nat \<Rightarrow> (profile_element, unit) comp" where
  "remove_key L kvn kid pe =
     (case find_key pe kvn kid of
        None \<Rightarrow> (Inl ValueError, pe)
      | Some key \<Rightarrow> sd_pre_encode L (pe\<lparr>pe_keys := remove1 key (pe_keys pe)\<rparr>))"

section \<open>Codes\<close>

text \<open>\<open>add_puk\<close> and \<open>add_pin\<close>. The last check looks at \<open>max_attempts\<close> a second time where it
  means \<open>retries_left\<close>; \<open>max_attempts << 4 | retries_left\<close> is written with \<open>OR\<close> for
  that reason.\<close>

definition attempts_octet :: "int \<Rightarrow> int \<Rightarrow> int" where
  "attempts_octet max_attempts retries_left = or (push_bit 4 max_attempts) retries_left"

definition add_puk :: "int \<Rightarrow> bytes \<Rightarrow> int \<Rightarrow> int \<Rightarrow> pydict list \<Rightarrow> pydict list result" where
  "add_puk key_ref puk_value max_attempts retries_left codes =
     (if key_ref < 0 \<or> key_ref > 0xff then Inl ValueError
      else if length puk_value \<noteq> 8 then Inl ValueError
      else if max_attempts < 0 \<or> max_attempts > 0xf then Inl ValueError
      else if retries_left < 0 \<or> max_attempts > 0xf then Inl ValueError
      else Inr (codes @ [[(''keyReference'', PInt key_ref), (''pukValue'', PBytes puk_value),
        (''maxNumOfAttemps-retryNumLeft'', PInt (attempts_octet max_attempts retries_left))]]))"

definition add_pin ::
  "int \<Rightarrow> bytes \<Rightarrow> int \<Rightarrow> int \<Rightarrow> int option \<Rightarrow> int \<Rightarrow> pydict list \<Rightarrow> pydict list result" where
  "add_pin key_ref pin_value max_attempts retries_left unblock_ref pin_attrib codes =
     (if key_ref < 0 \<or> key_ref > 0xff then Inl ValueError
      else if pin_attrib < 0 \<or> pin_attrib > 0xff then Inl ValueError
      else if length pin_value \<noteq> 8 then Inl ValueError
      else if max_attempts < 0 \<or> max_attempts > 0xf then Inl ValueError
      else if retries_left < 0 \<or> max_attempts > 0xf then Inl ValueError
      else Inr (codes @ [[(''keyReference'', PInt key_ref), (''pinValue'', PBytes pin_value),
        (''maxNumOfAttemps-retryNumLeft'', PInt (attempts_octet max_attempts retries_left)),
        (''pinAttributes'', PInt pin_attrib)] @
        (case unblock_ref of
           Some u \<Rightarrow> if u \<noteq> 0 then [(''unblockingPINReference'', PInt u)] else []
         | None \<Rightarrow> [])]))"

section \<open>Decoding and encoding of elements\<close>

definition post_decode :: "pe_lib \<Rightarrow> profile_element \<Rightarrow> profile_element result" where
  "post_decode L pe =
     (if pe_type pe = ''securityDomain'' then sd_post_decode L pe
      else bindR (build_files L (pe_type pe) (pe_decoded pe)) (\<lambda>_. Inr pe))"

definition pre_encode :: "pe_lib \<Rightarrow> (profile_element, unit) comp" where
  "pre_encode L pe = (if pe_type pe = ''securityDomain'' then sd_pre_encode L pe else (Inr (), pe))"

definition ProfileElement_from_der :: "pe_lib \<Rightarrow> bytes \<Rightarrow> profile_element result" where
  "ProfileElement_from_der L der =
     bindR (dec_ProfileElement L der) (\<lambda>(ty, decoded). post_decode L (ProfileElement_init ty decoded True))"

definition ProfileElement_to_der :: "pe_lib \<Rightarrow> (profile_element, bytes) comp" where
  "ProfileElement_to_der L pe =
     (case pre_encode L pe of
        (Inl e, pe') \<Rightarrow> (Inl e, pe')
      | (Inr u, pe') \<Rightarrow> (enc_ProfileElement L (pe_type pe') (pe_decoded pe'), pe'))"

text \<open>\<open>pe.header['identification'] = i\<close>.\<close>

definition set_identification :: "nat \<Rightarrow> profile_element \<Rightarrow> profile_element result" where
  "set_identification i pe =
     (case pe_header pe of
        PDict h \<Rightarrow>
          (case header_name (pe_type pe) of
             None \<Rightarrow> Inl TypeError
           | Some n \<Rightarrow> Inr (pe\<lparr>pe_decoded := dict_set n (PDict (dict_set ''identification'' (PInt (int i)) h)) (pe_decoded pe)\<rparr>))
      | _ \<Rightarrow> Inl TypeError)"

section \<open>Splitting\<close>

definition bertlv_first_segment :: "pe_lib \<Rightarrow> bytes \<Rightarrow> (bytes \<times> bytes) result" where
  "bertlv_first_segment L binary =
     bindR (bertlv_parse_tag L binary) (\<lambda>(tagdict, remainder).
     bindR (bertlv_parse_len L remainder) (\<lambda>(len, remainder').
       let tl_length = length binary - length remainder';
           tlv_length = tl_length + len
       in Inr (take tlv_length binary, drop tlv_length binary)))"

section \<open>The sequence\<close>

record pe_sequence =
  objs :: "nat \<Rightarrow> profile_element"
  next_ref :: nat
  pe_list :: "nat list"
  pe_by_type :: "(string \<times> nat list) list"
  pes_by_naa :: "(string \<times> nat list list) list"

definition ProfileElementSequence_init :: pe_sequence where
  "ProfileElementSequence_init =
     \<lparr>objs = (\<lambda>_. ProfileElement_init [] [] True), next_ref = 0, pe_list = [], pe_by_type = [], pes_by_naa = []\<rparr>"

abbreviation type_of :: "pe_sequence \<Rightarrow> nat \<Rightarrow> string" where
  "type_of s r \<equiv> pe_type (objs s r)"

text \<open>A new object.\<close>

definition pe_alloc :: "profile_element \<Rightarrow> pe_sequence \<Rightarrow> nat \<times> pe_sequence" where
  "pe_alloc pe s = (next_ref s, s\<lparr>objs := (objs s)(next_ref s := pe), next_ref := Suc (next_ref s)\<rparr>)"

text \<open>\<open>d[k].append(v)\<close>, with \<open>d[k] = []\<close> first if the key is new.\<close>

definition dict_append :: "'k \<Rightarrow> 'v \<Rightarrow> ('k \<times> 'v list) list \<Rightarrow> ('k \<times> 'v list) list" where
  "dict_append k v d = dict_set k ((case map_of d k of None \<Rightarrow> [] | Some l \<Rightarrow> l) @ [v]) d"

definition rebuild_pe_by_type :: "pe_sequence \<Rightarrow> pe_sequence" where
  "rebuild_pe_by_type s =
     s\<lparr>pe_by_type := fold (\<lambda>r d. dict_append (type_of s r) r d) (pe_list s) []\<rparr>"

definition petype_not_naa_related :: "string list" where
  "petype_not_naa_related = [''securityDomain'', ''rfm'', ''application'', ''end'']"

definition naa_types :: "string list" where
  "naa_types = [''mf'', ''usim'', ''isim'', ''csim'']"

text \<open>The loop of \<open>_rebuild_pes_by_naa\<close>: current NAA, its list so far, the dictionary.\<close>

fun naa_loop ::
  "(nat \<Rightarrow> string) \<Rightarrow> nat list \<Rightarrow> string option \<Rightarrow> nat list \<Rightarrow> (string \<times> nat list list) list \<Rightarrow>
   (string \<times> nat list list) list" where
  "naa_loop ty [] cur_naa cur_list d =
     (case cur_naa of
        Some n \<Rightarrow> if length cur_list > 0 then dict_append n cur_list d else d
      | None \<Rightarrow> d)"
| "naa_loop ty (r # rs) cur_naa cur_list d =
     (if List.member petype_not_naa_related (ty r) then naa_loop ty rs cur_naa cur_list d
      else if List.member naa_types (ty r) then
        naa_loop ty rs (Some (ty r)) [r]
          (case cur_naa of Some n \<Rightarrow> dict_append n cur_list d | None \<Rightarrow> d)
      else naa_loop ty rs cur_naa (cur_list @ [r]) d)"

text \<open>The method empties an attribute of another name (\<open>pres_by_naa\<close>), so the loop starts from the
  dictionary of the previous call.\<close>

definition rebuild_pes_by_naa :: "pe_sequence \<Rightarrow> pe_sequence" where
  "rebuild_pes_by_naa s = s\<lparr>pes_by_naa := naa_loop (type_of s) (pe_list s) None [] (pes_by_naa s)\<rparr>"

definition process_pelist :: "pe_sequence \<Rightarrow> pe_sequence" where
  "process_pelist s = rebuild_pes_by_naa (rebuild_pe_by_type s)"

fun renumber_loop :: "nat list \<Rightarrow> nat \<Rightarrow> (pe_sequence, unit) comp" where
  "renumber_loop [] i s = (Inr (), s)"
| "renumber_loop (r # rs) i s =
     (if \<not> py_truthy (pe_header (objs s r)) then renumber_loop rs i s
      else case set_identification i (objs s r) of
          Inl e \<Rightarrow> (Inl e, s)
        | Inr pe \<Rightarrow> renumber_loop rs (i + 1) (s\<lparr>objs := (objs s)(r := pe)\<rparr>))"

definition renumber_identification :: "(pe_sequence, unit) comp" where
  "renumber_identification s = renumber_loop (pe_list s) 1 s"

definition pes_append :: "nat \<Rightarrow> (pe_sequence, unit) comp" where
  "pes_append r s = renumber_identification (process_pelist (s\<lparr>pe_list := pe_list s @ [r]\<rparr>))"

definition insert_at_index :: "nat \<Rightarrow> nat \<Rightarrow> (pe_sequence, unit) comp" where
  "insert_at_index idx r s =
     renumber_identification (process_pelist
       (s\<lparr>pe_list := take idx (pe_list s) @ r # drop idx (pe_list s)\<rparr>))"

fun index_of :: "nat \<Rightarrow> nat list \<Rightarrow> nat \<Rightarrow> nat result" where
  "index_of r [] i = Inl ValueError"
| "index_of r (c # cs) i = (if c = r then Inr i else index_of r cs (i + 1))"

definition get_index_by_pe :: "pe_sequence \<Rightarrow> nat \<Rightarrow> nat result" where
  "get_index_by_pe s r = index_of r (pe_list s) 0"

definition insert_after_pe :: "nat \<Rightarrow> nat \<Rightarrow> (pe_sequence, unit) comp" where
  "insert_after_pe r_before r_new s =
     (case get_index_by_pe s r_before of
        Inl e \<Rightarrow> (Inl e, s)
      | Inr idx \<Rightarrow> insert_at_index (idx + 1) r_new s)"

definition get_index_by_type :: "pe_sequence \<Rightarrow> string \<Rightarrow> nat list" where
  "get_index_by_type s petype = filter (\<lambda>i. type_of s (pe_list s ! i) = petype) [0..<length (pe_list s)]"

definition add_ssd :: "nat \<Rightarrow> (pe_sequence, unit) comp" where
  "add_ssd ssd s =
     (case get_index_by_type s ''securityDomain'' of
        [] \<Rightarrow> (Inl IndexError, s)
      | idx # _ \<Rightarrow> insert_at_index (idx + 1) ssd s)"

definition get_pes_for_type :: "pe_sequence \<Rightarrow> string \<Rightarrow> nat list" where
  "get_pes_for_type s tname = (case map_of (pe_by_type s) tname of None \<Rightarrow> [] | Some l \<Rightarrow> l)"

definition get_pe_for_type :: "pe_sequence \<Rightarrow> string \<Rightarrow> nat option result" where
  "get_pe_for_type s tname =
     (case get_pes_for_type s tname of
        [] \<Rightarrow> Inr None
      | [r] \<Rightarrow> Inr (Some r)
      | _ \<Rightarrow> Inl AssertionError)"

text \<open>\<open>str(x)\<close> of a template ID, which is a string.\<close>

definition template_matches :: "oid \<Rightarrow> profile_element \<Rightarrow> bool" where
  "template_matches tid pe = (case templateID pe of PStr (c # cs) \<Rightarrow> prefix_match tid (c # cs) | _ \<Rightarrow> False)"

definition get_pes_for_templateID :: "pe_sequence \<Rightarrow> oid \<Rightarrow> nat list" where
  "get_pes_for_templateID s tid = filter (\<lambda>r. template_matches tid (objs s r)) (pe_list s)"

definition get_closest_prev_pe_for_templateID :: "pe_sequence \<Rightarrow> nat \<Rightarrow> oid \<Rightarrow> nat option" where
  "get_closest_prev_pe_for_templateID s cur tid =
     (let cur_idx = (case index_of cur (pe_list s) 0 of Inr i \<Rightarrow> i | Inl _ \<Rightarrow> length (pe_list s))
      in find (\<lambda>r. template_matches tid (objs s r)) (rev (take cur_idx (pe_list s))))"

text \<open>\<open>parse_der\<close>: the loop appends one element per segment; an exception leaves the elements
  parsed so far in the list.\<close>

function parse_der_loop :: "pe_lib \<Rightarrow> bytes \<Rightarrow> (pe_sequence, unit) comp" where
  "parse_der_loop L remainder s =
     (if remainder = [] then (Inr (), s)
      else case bertlv_first_segment L remainder of
          Inl e \<Rightarrow> (Inl e, s)
        | Inr (first_tlv, remainder') \<Rightarrow>
            (case ProfileElement_from_der L first_tlv of
               Inl e \<Rightarrow> (Inl e, s)
             | Inr pe \<Rightarrow>
                 (let (r, s') = pe_alloc pe s; s'' = s'\<lparr>pe_list := pe_list s' @ [r]\<rparr>
                  in if length remainder' < length remainder then parse_der_loop L remainder' s''
                     else (Inl NonTermination, s''))))"
  by pat_completeness auto
termination
  by (relation "measure (\<lambda>(L, remainder, s). length remainder)") auto

definition parse_der :: "pe_lib \<Rightarrow> bytes \<Rightarrow> (pe_sequence, unit) comp" where
  "parse_der L der s =
     (case parse_der_loop L der (s\<lparr>pe_list := []\<rparr>) of
        (Inl e, s') \<Rightarrow> (Inl e, s')
      | (Inr u, s') \<Rightarrow> (Inr (), process_pelist s'))"

definition PES_from_der :: "pe_lib \<Rightarrow> bytes \<Rightarrow> pe_sequence result" where
  "PES_from_der L der =
     (case parse_der L der ProfileElementSequence_init of (Inl e, _) \<Rightarrow> Inl e | (Inr u, s) \<Rightarrow> Inr s)"

fun to_der_loop :: "pe_lib \<Rightarrow> nat list \<Rightarrow> bytes \<Rightarrow> (pe_sequence, bytes) comp" where
  "to_der_loop L [] out s = (Inr out, s)"
| "to_der_loop L (r # rs) out s =
     (case ProfileElement_to_der L (objs s r) of
        (Inl e, pe) \<Rightarrow> (Inl e, s\<lparr>objs := (objs s)(r := pe)\<rparr>)
      | (Inr b, pe) \<Rightarrow> to_der_loop L rs (out @ b) (s\<lparr>objs := (objs s)(r := pe)\<rparr>))"

definition PES_to_der :: "pe_lib \<Rightarrow> (pe_sequence, bytes) comp" where
  "PES_to_der L s = to_der_loop L (pe_list s) [] s"

text \<open>\<open>add_hdr_and_end\<close>, with the fields of the new header given.\<close>

definition ProfileElementHeader_init :: "nat \<Rightarrow> nat \<Rightarrow> bytes \<Rightarrow> string option \<Rightarrow> profile_element" where
  "ProfileElementHeader_init ver_major ver_minor iccid profile_type =
     (ProfileElement_init ''header'' [] True)\<lparr>pe_decoded :=
       [(''major-version'', PInt (int ver_major)), (''minor-version'', PInt (int ver_minor)),
        (''iccid'', PBytes iccid), (''eUICC-Mandatory-services'', PDict []),
        (''eUICC-Mandatory-GFSTEList'', PList [])] @
       (case profile_type of Some (c # cs) \<Rightarrow> [(''profileType'', PStr (c # cs))] | _ \<Rightarrow> [])\<rparr>"

definition ProfileElementEnd_init :: profile_element where
  "ProfileElementEnd_init = ProfileElement_init ''end'' [] True"

definition add_hdr_and_end :: "(pe_sequence, unit) comp" where
  "add_hdr_and_end s =
     (if pe_list s \<noteq> [] then (Inl ValueError, s)
      else let (h, s1) = pe_alloc (ProfileElementHeader_init 2 3 (replicate 10 0) None) s
           in case pes_append h s1 of
                (Inl e, s2) \<Rightarrow> (Inl e, s2)
              | (Inr u, s2) \<Rightarrow> (let (r, s3) = pe_alloc ProfileElementEnd_init s2 in pes_append r s3))"

definition mandatory_service_add :: "string \<Rightarrow> profile_element \<Rightarrow> profile_element result" where
  "mandatory_service_add service pe =
     (case map_of (pe_decoded pe) ''eUICC-Mandatory-services'' of
        None \<Rightarrow> Inl KeyError
      | Some (PDict d) \<Rightarrow>
          Inr (pe\<lparr>pe_decoded := dict_set ''eUICC-Mandatory-services'' (PDict (dict_set service PNone d)) (pe_decoded pe)\<rparr>)
      | Some _ \<Rightarrow> Inl TypeError)"

definition mandatory_service_remove :: "string \<Rightarrow> profile_element \<Rightarrow> profile_element result" where
  "mandatory_service_remove service pe =
     (case map_of (pe_decoded pe) ''eUICC-Mandatory-services'' of
        None \<Rightarrow> Inl KeyError
      | Some (PDict d) \<Rightarrow>
          (if map_of d service \<noteq> None
           then Inr (pe\<lparr>pe_decoded := dict_set ''eUICC-Mandatory-services'' (PDict (dict_del service d)) (pe_decoded pe)\<rparr>)
           else Inl ValueError)
      | Some _ \<Rightarrow> Inl AttributeError)"

text \<open>\<open>rebuild_mandatory_gfstelist\<close>: the order of \<open>list(set)\<close> is not fixed by Python; the model
  keeps the order of first occurrence.\<close>

definition mandated :: "profile_element \<Rightarrow> bool" where
  "mandated pe = (case pe_header pe of PDict h \<Rightarrow> map_of h ''mandated'' \<noteq> None | _ \<Rightarrow> False)"

definition rebuild_mandatory_gfstelist :: "(pe_sequence, unit) comp" where
  "rebuild_mandatory_gfstelist s =
     (let templates = remdups (concat (map (\<lambda>r.
            if mandated (objs s r) then
              (case map_of (pe_decoded (objs s r)) ''templateID'' of Some v \<Rightarrow> [v] | None \<Rightarrow> [])
            else []) (pe_list s)))
      in case get_pe_for_type s ''header'' of
           Inl e \<Rightarrow> (Inl e, s)
         | Inr None \<Rightarrow> (Inl AttributeError, s)
         | Inr (Some r) \<Rightarrow>
             (Inr (), s\<lparr>objs := (objs s)(r := (objs s r)\<lparr>pe_decoded :=
                dict_set ''eUICC-Mandatory-GFSTEList'' (PList templates) (pe_decoded (objs s r))\<rparr>)\<rparr>))"

section \<open>Lemmas: the indexes\<close>

definition dict_lookup :: "('k \<times> 'v list) list \<Rightarrow> 'k \<Rightarrow> 'v list" where
  "dict_lookup d k = (case map_of d k of None \<Rightarrow> [] | Some l \<Rightarrow> l)"

lemma dict_lookup_append [simp]:
  "dict_lookup (dict_append k v d) k' = dict_lookup d k' @ (if k' = k then [v] else [])"
  by (simp add: dict_lookup_def dict_append_def)

lemma dict_lookup_Nil [simp]: "dict_lookup [] k = []"
  by (simp add: dict_lookup_def)

lemma dict_lookup_fold_append:
  "dict_lookup (fold (\<lambda>r d. dict_append (f r) r d) rs d) k = dict_lookup d k @ filter (\<lambda>r. f r = k) rs"
  by (induction rs arbitrary: d) auto

text \<open>The NAA instances of a sequence: each element of an NAA type with the related elements up to
  the next one.\<close>

definition naa_related :: "(nat \<Rightarrow> string) \<Rightarrow> nat list \<Rightarrow> nat list" where
  "naa_related ty rs = filter (\<lambda>r. \<not> List.member petype_not_naa_related (ty r)) rs"

fun naa_segments :: "(nat \<Rightarrow> string) \<Rightarrow> nat list \<Rightarrow> (string \<times> nat list) list" where
  "naa_segments ty [] = []"
| "naa_segments ty (r # rs) =
     (if List.member naa_types (ty r)
      then (ty r, r # takeWhile (\<lambda>q. \<not> List.member naa_types (ty q)) rs) # naa_segments ty rs
      else naa_segments ty rs)"

definition naa_instances :: "pe_sequence \<Rightarrow> string \<Rightarrow> nat list list" where
  "naa_instances s n = map snd (filter (\<lambda>p. fst p = n) (naa_segments (type_of s) (naa_related (type_of s) (pe_list s))))"

lemma naa_loop_Some:
  "cl \<noteq> [] \<Longrightarrow> dict_lookup (naa_loop ty rs (Some c) cl d) n = dict_lookup d n @
     (if c = n then [cl @ takeWhile (\<lambda>q. \<not> List.member naa_types (ty q)) (naa_related ty rs)] else []) @
     map snd (filter (\<lambda>p. fst p = n) (naa_segments ty (naa_related ty rs)))"
  by (induction ty rs "Some c" cl d arbitrary: c rule: naa_loop.induct) (auto simp: naa_related_def)

lemma naa_loop_None:
  "dict_lookup (naa_loop ty rs None cl d) n = dict_lookup d n @
     map snd (filter (\<lambda>p. fst p = n) (naa_segments ty (naa_related ty rs)))"
  by (induction rs arbitrary: cl) (auto simp: naa_related_def naa_loop_Some)

lemma process_pelist_simps [simp]:
  "objs (process_pelist s) = objs s" "pe_list (process_pelist s) = pe_list s"
  "next_ref (process_pelist s) = next_ref s"
  by (simp_all add: process_pelist_def rebuild_pes_by_naa_def rebuild_pe_by_type_def)

lemma process_pelist_by_type:
  "get_pes_for_type (process_pelist s) t = filter (\<lambda>r. type_of s r = t) (pe_list s)"
  by (simp add: get_pes_for_type_def process_pelist_def rebuild_pes_by_naa_def rebuild_pe_by_type_def
      dict_lookup_def [symmetric] dict_lookup_fold_append)

lemma process_pelist_by_naa:
  "dict_lookup (pes_by_naa (process_pelist s)) n = dict_lookup (pes_by_naa s) n @ naa_instances s n"
  by (simp add: process_pelist_def rebuild_pes_by_naa_def rebuild_pe_by_type_def naa_loop_None naa_instances_def)

section \<open>Lemmas: renumbering\<close>

text \<open>By the schema a header is a dictionary.\<close>

definition header_ok :: "profile_element \<Rightarrow> bool" where
  "header_ok pe \<longleftrightarrow> pe_header pe = PNone \<or> (\<exists>h. pe_header pe = PDict h)"

definition numbered :: "profile_element \<Rightarrow> bool" where
  "numbered pe \<longleftrightarrow> py_truthy (pe_header pe)"

lemma set_identification_total:
  assumes "header_ok pe" "numbered pe"
  shows "\<exists>pe'. set_identification i pe = Inr pe' \<and> pe_type pe' = pe_type pe \<and>
    identification pe' = Inr (PInt (int i)) \<and> numbered pe' \<and> header_ok pe'"
proof -
  from assms obtain h where h: "pe_header pe = PDict h" "h \<noteq> []"
    by (auto simp: header_ok_def numbered_def)
  then obtain n where n: "header_name (pe_type pe) = Some n"
    by (auto simp: pe_header_def split: option.splits)
  let ?h = "dict_set ''identification'' (PInt (int i)) h"
  let ?pe = "pe\<lparr>pe_decoded := dict_set n (PDict ?h) (pe_decoded pe)\<rparr>"
  have hdr: "pe_header ?pe = PDict ?h" using n by (simp add: pe_header_def)
  show ?thesis
    using h n hdr
    by (intro exI [of _ ?pe]) (simp add: set_identification_def identification_def getitem_def
        numbered_def header_ok_def)
qed

lemma renumber_loop_correct:
  "distinct rs \<Longrightarrow> (\<forall>r\<in>set rs. header_ok (objs s r)) \<Longrightarrow>
   \<exists>s'. renumber_loop rs i s = (Inr (), s') \<and> s' = s\<lparr>objs := objs s'\<rparr> \<and>
     (\<forall>r. pe_type (objs s' r) = pe_type (objs s r)) \<and> (\<forall>r. numbered (objs s' r) = numbered (objs s r)) \<and>
     (\<forall>r. r \<notin> set rs \<longrightarrow> objs s' r = objs s r) \<and> (\<forall>r\<in>set rs. header_ok (objs s' r)) \<and>
     map (\<lambda>r. identification (objs s' r)) (filter (\<lambda>r. numbered (objs s r)) rs) =
       map (\<lambda>k. Inr (PInt (int k))) [i..<i + length (filter (\<lambda>r. numbered (objs s r)) rs)]"
proof (induction rs arbitrary: i s)
  case Nil
  then show ?case by (intro exI [of _ s]) simp
next
  case (Cons r rs)
  show ?case
  proof (cases "numbered (objs s r)")
    case False
    from Cons.IH [of s i] Cons.prems obtain s' where s': "renumber_loop rs i s = (Inr (), s')"
      "s' = s\<lparr>objs := objs s'\<rparr>"
      "\<forall>r. pe_type (objs s' r) = pe_type (objs s r)" "\<forall>r. numbered (objs s' r) = numbered (objs s r)"
      "\<forall>r. r \<notin> set rs \<longrightarrow> objs s' r = objs s r" "\<forall>r\<in>set rs. header_ok (objs s' r)"
      "map (\<lambda>r. identification (objs s' r)) (filter (\<lambda>r. numbered (objs s r)) rs) =
       map (\<lambda>k. Inr (PInt (int k))) [i..<i + length (filter (\<lambda>r. numbered (objs s r)) rs)]"
      by auto
    have "header_ok (objs s' r)" using s'(5) Cons.prems by auto
    moreover have "renumber_loop (r # rs) i s = (Inr (), s')" using False s'(1) by (simp add: numbered_def)
    ultimately show ?thesis using s' False by (intro exI [of _ s']) simp
  next
    case True
    with Cons.prems set_identification_total [of "objs s r" i] obtain pe where
      pe: "set_identification i (objs s r) = Inr pe" "pe_type pe = pe_type (objs s r)"
        "identification pe = Inr (PInt (int i))" "numbered pe" "header_ok pe"
      by auto
    let ?s = "s\<lparr>objs := (objs s)(r := pe)\<rparr>"
    have r: "r \<notin> set rs" "distinct rs" using Cons.prems by auto
    have hok: "\<forall>q\<in>set rs. header_ok (objs ?s q)" using Cons.prems pe by auto
    have fil: "filter (\<lambda>r. numbered (objs ?s r)) rs = filter (\<lambda>r. numbered (objs s r)) rs"
      using r by (intro filter_cong) auto
    from Cons.IH [OF r(2) hok, of "i + 1"] obtain s' where s': "renumber_loop rs (i + 1) ?s = (Inr (), s')"
      "s' = ?s\<lparr>objs := objs s'\<rparr>"
      "\<forall>q. pe_type (objs s' q) = pe_type (objs ?s q)" "\<forall>q. numbered (objs s' q) = numbered (objs ?s q)"
      "\<forall>q. q \<notin> set rs \<longrightarrow> objs s' q = objs ?s q" "\<forall>q\<in>set rs. header_ok (objs s' q)"
      "map (\<lambda>r. identification (objs s' r)) (filter (\<lambda>r. numbered (objs s r)) rs) =
       map (\<lambda>k. Inr (PInt (int k))) [i + 1..<i + 1 + length (filter (\<lambda>r. numbered (objs s r)) rs)]"
      unfolding fil by blast
    have o: "objs s' r = pe" using s'(5) r(1) by simp
    have "renumber_loop (r # rs) i s = (Inr (), s')" using True s'(1) pe(1) by (simp add: numbered_def)
    moreover have "s' = s\<lparr>objs := objs s'\<rparr>" by (subst s'(2)) simp
    moreover have "[i..<i + length (filter (\<lambda>r. numbered (objs s r)) (r # rs))] =
        i # [i + 1..<i + 1 + length (filter (\<lambda>r. numbered (objs s r)) rs)]"
      using True upt_conv_Cons [of i "i + 1 + length (filter (\<lambda>r. numbered (objs s r)) rs)"]
      by (simp del: upt_Suc)
    ultimately show ?thesis
      using s' True pe o by (intro exI [of _ s']) (auto simp del: upt_Suc)
  qed
qed

lemma renumber_identification_correct:
  assumes "distinct (pe_list s)" "\<forall>r\<in>set (pe_list s). header_ok (objs s r)"
  shows "\<exists>s'. renumber_identification s = (Inr (), s') \<and> s' = s\<lparr>objs := objs s'\<rparr> \<and>
    (\<forall>r. pe_type (objs s' r) = pe_type (objs s r)) \<and>
    (\<forall>r. r \<notin> set (pe_list s) \<longrightarrow> objs s' r = objs s r) \<and>
    (\<forall>r\<in>set (pe_list s). header_ok (objs s' r)) \<and>
    (let ns = filter (\<lambda>r. numbered (objs s' r)) (pe_list s)
     in map (\<lambda>r. identification (objs s' r)) ns = map (\<lambda>k. Inr (PInt (int k))) [1..<1 + length ns])"
proof -
  from renumber_loop_correct [OF assms, of 1] obtain s' where
    s': "renumber_loop (pe_list s) 1 s = (Inr (), s')" "s' = s\<lparr>objs := objs s'\<rparr>"
      "\<forall>r. pe_type (objs s' r) = pe_type (objs s r)" "\<forall>r. numbered (objs s' r) = numbered (objs s r)"
      "\<forall>r. r \<notin> set (pe_list s) \<longrightarrow> objs s' r = objs s r" "\<forall>r\<in>set (pe_list s). header_ok (objs s' r)"
      "map (\<lambda>r. identification (objs s' r)) (filter (\<lambda>r. numbered (objs s r)) (pe_list s)) =
       map (\<lambda>k. Inr (PInt (int k))) [1..<1 + length (filter (\<lambda>r. numbered (objs s r)) (pe_list s))]"
    by blast
  then show ?thesis by (intro exI [of _ s']) (simp add: renumber_identification_def Let_def)
qed

section \<open>Lemmas: parsing\<close>

text \<open>DER has one encoding per value, and every alternative of \<open>ProfileElement\<close> has a mandatory
  component.\<close>

definition pe_der_laws :: "pe_lib \<Rightarrow> bool" where
  "pe_der_laws L \<longleftrightarrow> (\<forall>d ty decoded. dec_ProfileElement L d = Inr (ty, decoded) \<longrightarrow>
     decoded \<noteq> [] \<and> enc_ProfileElement L ty decoded = Inr d)"

declare parse_der_loop.simps [simp del]

lemma bertlv_first_segment_split: "bertlv_first_segment L b = Inr (x, y) \<Longrightarrow> x @ y = b"
  by (auto simp: bertlv_first_segment_def Let_def)

text \<open>What the parser appends: one element per segment, from new references.\<close>

lemma parse_der_loop_segments:
  "parse_der_loop L der s = (Inr (), s') \<Longrightarrow>
   \<exists>segs pes. concat segs = der \<and> list_all2 (\<lambda>d pe. ProfileElement_from_der L d = Inr pe) segs pes \<and>
     pe_list s' = pe_list s @ [next_ref s..<next_ref s + length pes] \<and>
     next_ref s' = next_ref s + length pes \<and>
     map (objs s') [next_ref s..<next_ref s + length pes] = pes \<and>
     (\<forall>r<next_ref s. objs s' r = objs s r) \<and> pes_by_naa s' = pes_by_naa s"
proof (induction L der s rule: parse_der_loop.induct)
  case (1 L der s)
  show ?case
  proof (cases "der = []")
    case True
    with "1.prems" show ?thesis
      by (subst (asm) parse_der_loop.simps) (auto intro!: exI [of _ "[]"])
  next
    case False
    with "1.prems" obtain d rest pe where d: "bertlv_first_segment L der = Inr (d, rest)"
      "ProfileElement_from_der L d = Inr pe"
      by (subst (asm) parse_der_loop.simps) (auto split: sum.splits prod.splits)
    define s1 where "s1 = s\<lparr>objs := (objs s)(next_ref s := pe), next_ref := Suc (next_ref s)\<rparr>"
    define s2 where "s2 = s1\<lparr>pe_list := pe_list s1 @ [next_ref s]\<rparr>"
    have alloc: "pe_alloc pe s = (next_ref s, s1)" by (simp add: pe_alloc_def s1_def)
    with False "1.prems" d have l: "length rest < length der" "parse_der_loop L rest s2 = (Inr (), s')"
      by (simp_all add: parse_der_loop.simps [of L der] s2_def Let_def split: if_splits)
    from "1.IH" [OF False d(1) refl d(2) alloc [symmetric] refl, folded s2_def, OF refl l] obtain segs pes where
      p: "concat segs = rest" "list_all2 (\<lambda>d pe. ProfileElement_from_der L d = Inr pe) segs pes"
      "pe_list s' = pe_list s2 @ [next_ref s2..<next_ref s2 + length pes]"
      "next_ref s' = next_ref s2 + length pes"
      "map (objs s') [next_ref s2..<next_ref s2 + length pes] = pes"
      "\<forall>r<next_ref s2. objs s' r = objs s2 r" "pes_by_naa s' = pes_by_naa s2"
      by blast
    have n: "next_ref s2 = Suc (next_ref s)" "pe_list s2 = pe_list s @ [next_ref s]"
      "pes_by_naa s2 = pes_by_naa s" "objs s2 = (objs s)(next_ref s := pe)"
      by (simp_all add: s2_def s1_def)
    have u: "[next_ref s..<next_ref s + length (pe # pes)] = next_ref s # [next_ref s2..<next_ref s2 + length pes]"
      using upt_conv_Cons [of "next_ref s" "next_ref s + 1 + length pes"] by (simp add: n del: upt_Suc)
    show ?thesis
      using p n u d bertlv_first_segment_split [OF d(1)]
      by (intro exI [of _ "d # segs"] exI [of _ "pe # pes"]) (simp del: upt_Suc)
  qed
qed

lemma PES_from_der_segments:
  assumes "PES_from_der L der = Inr s"
  shows "\<exists>segs. concat segs = der \<and> pe_list s = [0..<length segs] \<and>
    list_all2 (\<lambda>d r. ProfileElement_from_der L d = Inr (objs s r)) segs (pe_list s) \<and>
    (\<forall>t. get_pes_for_type s t = filter (\<lambda>r. type_of s r = t) (pe_list s))"
proof -
  from assms obtain s0 where s0: "parse_der_loop L der ProfileElementSequence_init = (Inr (), s0)"
    "s = process_pelist s0"
    by (auto simp: PES_from_der_def parse_der_def ProfileElementSequence_init_def
        split: prod.splits sum.splits)
  from parse_der_loop_segments [OF s0(1)] obtain segs pes where p: "concat segs = der"
    "list_all2 (\<lambda>d pe. ProfileElement_from_der L d = Inr pe) segs pes"
    "pe_list s0 = [0..<length pes]" "map (objs s0) [0..<length pes] = pes"
    by (auto simp: ProfileElementSequence_init_def)
  have "list_all2 (\<lambda>d r. ProfileElement_from_der L d = Inr (objs s0 r)) segs [0..<length pes]"
    using p(2) by (subst (asm) p(4) [symmetric]) (simp add: list_all2_map2)
  then show ?thesis
    using p s0(2) list_all2_lengthD [OF p(2)] by (intro exI [of _ segs]) (simp add: process_pelist_by_type)
qed

lemma to_der_loop_unchanged:
  "list_all2 (\<lambda>d r. ProfileElement_to_der L (objs s r) = (Inr d, objs s r)) segs rs \<Longrightarrow>
   to_der_loop L rs out s = (Inr (out @ concat segs), s)"
  by (induction segs rs arbitrary: out rule: list_all2_induct) simp_all

text \<open>Instances for the witnesses: a PIN element and an end element, and a codec that reads one byte
  as the type of an element whose dictionary holds the byte.\<close>

definition demo_pe :: "string \<Rightarrow> profile_element" where
  "demo_pe ty = ProfileElement_init ty [] True"

definition demo_seq :: "string list \<Rightarrow> pe_sequence" where
  "demo_seq tys = ProfileElementSequence_init\<lparr>objs := (\<lambda>r. demo_pe (if r < length tys then tys ! r else ''end'')),
     next_ref := length tys, pe_list := [0..<length tys]\<rparr>"

definition demo_pe_lib :: pe_lib where
  "demo_pe_lib = \<lparr>
     bertlv_parse_tag = (\<lambda>b. case b of [] \<Rightarrow> Inl IndexError | x # r \<Rightarrow>
        Inr (\<lparr>td_class = 2, td_constructed = True, td_tag = unat x mod 32\<rparr>, r)),
     bertlv_parse_len = (\<lambda>b. case b of [] \<Rightarrow> Inl IndexError | x # r \<Rightarrow> Inr (unat x, r)),
     dec_ProfileElement = (\<lambda>b. Inr (''header'', [(''iccid'', PBytes b)])),
     enc_ProfileElement = (\<lambda>ty d. case d of [(k, PBytes b)] \<Rightarrow> Inr b | _ \<Rightarrow> Inl ValueError),
     KeyType_parse = (\<lambda>b. Inr ''aes''), KeyType_build = (\<lambda>s. Inr [0x88]),
     KeyUsageQualifier_parse = (\<lambda>b. Inr (PBytes b)),
     KeyUsageQualifier_build = as_bytes,
     C9_from_bytes = (\<lambda>b. Inr (PBytes b)), C9_to_bytes = as_bytes,
     build_files = (\<lambda>ty d. Inr ())\<rparr>"

section \<open>Properties\<close>

text \<open>C17: Editing a profile keeps its elements numbered. Inserting an element that is not yet part of a
  sequence (headers are dictionaries, as the schema says) at any index always succeeds, puts it
  there and keeps the order of the others, and afterwards the elements that have a header
  carry the identifications 1, 2, 3, ... in the order of the list; no other object is touched,
  and the index by type lists exactly the elements of each type in order.\<close>

theorem insert_renumbers:
  assumes "distinct (pe_list s)" "r \<notin> set (pe_list s)"
    and "\<forall>q\<in>insert r (set (pe_list s)). header_ok (objs s q)"
  shows "\<exists>s'. insert_at_index idx r s = (Inr (), s') \<and>
    pe_list s' = take idx (pe_list s) @ r # drop idx (pe_list s) \<and>
    (let ns = filter (\<lambda>q. numbered (objs s' q)) (pe_list s')
     in map (\<lambda>q. identification (objs s' q)) ns = map (\<lambda>k. Inr (PInt (int k))) [1..<1 + length ns]) \<and>
    (\<forall>q. q \<notin> set (pe_list s') \<longrightarrow> objs s' q = objs s q) \<and>
    (\<forall>t. get_pes_for_type s' t = filter (\<lambda>q. type_of s' q = t) (pe_list s'))"
proof -
  let ?l = "take idx (pe_list s) @ r # drop idx (pe_list s)"
  let ?s = "process_pelist (s\<lparr>pe_list := ?l\<rparr>)"
  have set_l: "set ?l = insert r (set (pe_list s))"
    by (metis append_take_drop_id list.simps(15) set_append Un_insert_right)
  have dist: "distinct ?l"
    using assms(1,2) distinct_append [of "take idx (pe_list s)" "drop idx (pe_list s)"]
    by (auto dest: in_set_takeD in_set_dropD)
  have "distinct (pe_list ?s)" "\<forall>q\<in>set (pe_list ?s). header_ok (objs ?s q)"
    using dist assms(3) set_l by auto
  from renumber_identification_correct [OF this] obtain s' where
    s': "renumber_identification ?s = (Inr (), s')" "s' = ?s\<lparr>objs := objs s'\<rparr>"
      "\<forall>q. pe_type (objs s' q) = pe_type (objs ?s q)"
      "\<forall>q. q \<notin> set (pe_list ?s) \<longrightarrow> objs s' q = objs ?s q"
      "let ns = filter (\<lambda>q. numbered (objs s' q)) (pe_list ?s)
       in map (\<lambda>q. identification (objs s' q)) ns = map (\<lambda>k. Inr (PInt (int k))) [1..<1 + length ns]"
    by blast
  have l: "pe_list s' = ?l" by (subst s'(2)) simp
  have "get_pes_for_type s' t = get_pes_for_type ?s t" for t
    by (subst s'(2)) (simp add: get_pes_for_type_def)
  then have "get_pes_for_type s' t = filter (\<lambda>q. type_of s' q = t) (pe_list s')" for t
    using s'(3) l by (simp add: process_pelist_by_type)
  then show ?thesis
    using s' l by (intro exI [of _ s']) (simp add: insert_at_index_def)
qed

theorem insert_renumbers_witness:
  "\<exists>s'. insert_at_index 1 2 (demo_seq [''pinCodes'', ''end'']) = (Inr (), s') \<and> pe_list s' = [0, 2, 1] \<and>
     map (\<lambda>q. identification (objs s' q)) [0, 2, 1] = [Inr (PInt 1), Inr (PInt 2), Inr (PInt 3)]"
proof -
  let ?s = "demo_seq [''pinCodes'', ''end'']"
  have l: "pe_list ?s = [0, 1]" by (simp add: demo_seq_def)
  have "pe_header (objs ?s 0) = PDict [(''mandated'', PNone)]" "pe_header (objs ?s 1) = PDict [(''mandated'', PNone)]"
    "pe_header (objs ?s 2) = PDict [(''mandated'', PNone)]"
    by code_simp+
  then have "distinct (pe_list ?s)" "2 \<notin> set (pe_list ?s)" "\<forall>q\<in>insert 2 (set (pe_list ?s)). header_ok (objs ?s q)"
    by (simp_all add: l header_ok_def)
  from insert_renumbers [OF this, of 1] obtain s' where
    s': "insert_at_index 1 2 ?s = (Inr (), s')" "pe_list s' = take 1 (pe_list ?s) @ 2 # drop 1 (pe_list ?s)"
    by blast
  have "map (\<lambda>q. identification (objs (snd (insert_at_index 1 2 ?s)) q)) [0, 2, 1] =
      [Inr (PInt 1), Inr (PInt 2), Inr (PInt 3)]"
    by code_simp
  with s' l show ?thesis by auto
qed



text \<open>The index by NAA is never emptied: every time it is rebuilt, the instances of the sequence are
  appended to those that are already there, so after two rebuilds of an unchanged sequence each
  instance is listed twice.\<close>

theorem naa_index_accumulates:
  "dict_lookup (pes_by_naa (process_pelist s)) n = dict_lookup (pes_by_naa s) n @ naa_instances s n \<and>
   dict_lookup (pes_by_naa (process_pelist (process_pelist s))) n =
     dict_lookup (pes_by_naa s) n @ naa_instances s n @ naa_instances s n \<and>
   naa_instances (demo_seq [''header'', ''mf'', ''usim'', ''pinCodes'', ''end'']) ''usim'' = [[2, 3]]"
proof (intro conjI)
  show "dict_lookup (pes_by_naa (process_pelist s)) n = dict_lookup (pes_by_naa s) n @ naa_instances s n"
    by (rule process_pelist_by_naa)
  have "naa_instances (process_pelist s) n = naa_instances s n" by (simp add: naa_instances_def)
  then show "dict_lookup (pes_by_naa (process_pelist (process_pelist s))) n =
     dict_lookup (pes_by_naa s) n @ naa_instances s n @ naa_instances s n"
    by (simp add: process_pelist_by_naa)
  show "naa_instances (demo_seq [''header'', ''mf'', ''usim'', ''pinCodes'', ''end'']) ''usim'' = [[2, 3]]"
    by code_simp
qed

end
