(* ===== verification/Saip_Keys.thy ===== *)
theory Saip_Keys
  imports Saip_Pes
begin

text \<open>
  Properties of the keys of security domains and of PIN and PUK codes
  (\<^verbatim>\<open>pysim/pySim/esim/saip/__init__.py\<close>, classes \<open>SecurityDomainKey\<close>,
  \<open>ProfileElementSD\<close>, \<open>ProfileElementPuk\<close>, \<open>ProfileElementPin\<close>), over the definitions of
  theory \<open>Saip_Pes\<close>.
\<close>

section \<open>The adapters and the contract of a key\<close>

text \<open>The adapters of package construct parse what they build.\<close>

definition key_laws :: "pe_lib \<Rightarrow> bool" where
  "key_laws L \<longleftrightarrow>
     (\<forall>x b. KeyType_build L x = Inr b \<longrightarrow> KeyType_parse L b = Inr x) \<and>
     (\<forall>x b. KeyUsageQualifier_build L x = Inr b \<longrightarrow> KeyUsageQualifier_parse L b = Inr x)"

text \<open>A key that can be written: its type and usage are known to the adapters, its numbers fit a
  byte.\<close>

definition key_ok :: "pe_lib \<Rightarrow> sd_key \<Rightarrow> bool" where
  "key_ok L k \<longleftrightarrow> key_version_number k < 256 \<and> key_identifier k < 256 \<and>
     (\<exists>b. KeyUsageQualifier_build L (key_usage_qualifier k) = Inr b) \<and>
     list_all (\<lambda>c. \<exists>b. KeyType_build L (key_type c) = Inr b) (key_components k)"

lemma key_component_roundtrip:
  "key_laws L \<Longrightarrow> key_component_to_saip_dict L c = Inr v \<Longrightarrow> key_component_from_saip_dict L v = Inr c"
  by (auto simp: key_laws_def key_component_to_saip_dict_def key_component_from_saip_dict_def
      getitem_def as_bytes_def as_int_def)

lemma key_components_roundtrip:
  "key_laws L \<Longrightarrow> mapR (key_component_to_saip_dict L) cs = Inr vs \<Longrightarrow>
   mapR (key_component_from_saip_dict L) vs = Inr cs"
  by (induction cs arbitrary: vs) (auto simp: key_component_roundtrip)

lemma key_components_total:
  "list_all (\<lambda>c. \<exists>b. KeyType_build L (key_type c) = Inr b) cs \<Longrightarrow>
   \<exists>vs. mapR (key_component_to_saip_dict L) cs = Inr vs"
  by (induction cs) (auto simp: key_component_to_saip_dict_def)

lemma key_to_dict_total: "key_ok L k \<Longrightarrow> \<exists>v. sd_key_to_saip_dict L k = Inr v"
  using key_components_total [of L "key_components k"]
  by (auto simp: key_ok_def sd_key_to_saip_dict_def bytes_of_int_def)

lemma key_dict_roundtrip:
  "key_laws L \<Longrightarrow> key_ok L k \<Longrightarrow> sd_key_to_saip_dict L k = Inr v \<Longrightarrow> sd_key_from_saip_dict L v = Inr k"
  by (auto simp: key_ok_def key_laws_def sd_key_to_saip_dict_def sd_key_from_saip_dict_def bytes_of_int_def
      getitem_def as_bytes_def as_list_def unat_of_nat key_components_roundtrip [unfolded key_laws_def])

text \<open>The key objects are a codec, for each instance of the adapters that keeps the laws.\<close>

definition key_enc :: "pe_lib \<Rightarrow> sd_key \<Rightarrow> pyval result" where
  "key_enc L k = sd_key_to_saip_dict L k"

interpretation sd_keys: codec "key_enc L" "sd_key_from_saip_dict L" "\<lambda>k. key_laws L \<and> key_ok L k" for L
  by unfold_locales (auto simp: key_enc_def key_to_dict_total key_dict_roundtrip)

section \<open>The invariant of a security domain\<close>

text \<open>Version number and identifier determine a key, every key can be written, and the element has the
  instance parameters and the key list of its type.\<close>

definition sd_inv :: "pe_lib \<Rightarrow> profile_element \<Rightarrow> bool" where
  "sd_inv L pe \<longleftrightarrow> distinct (map (\<lambda>k. (key_version_number k, key_identifier k)) (pe_keys pe)) \<and>
     list_all (key_ok L) (pe_keys pe) \<and> (\<exists>b. C9_to_bytes L (pe_usip pe) = Inr b) \<and>
     (\<exists>d. map_of (pe_decoded pe) ''instance'' = Some (PDict d))"

text \<open>The written form mirrors the objects.\<close>

definition sd_written :: "pe_lib \<Rightarrow> profile_element \<Rightarrow> bool" where
  "sd_written L pe \<longleftrightarrow> (\<exists>kl. mapR (key_enc L) (pe_keys pe) = Inr kl \<and>
     map_of (pe_decoded pe) ''keyList'' = Some (PList kl))"

lemma keys_written_total:
  "list_all (key_ok L) ks \<Longrightarrow> \<exists>kl. mapR (sd_key_to_saip_dict L) ks = Inr kl"
  by (induction ks) (auto dest: key_to_dict_total)

lemma sd_pre_encode_total:
  assumes "sd_inv L pe"
  shows "\<exists>pe'. sd_pre_encode L pe = (Inr (), pe') \<and> pe_keys pe' = pe_keys pe \<and> sd_written L pe' \<and> sd_inv L pe'"
proof -
  from assms obtain kl b d where k: "mapR (sd_key_to_saip_dict L) (pe_keys pe) = Inr kl"
    and b: "C9_to_bytes L (pe_usip pe) = Inr b" and d: "map_of (pe_decoded pe) ''instance'' = Some (PDict d)"
    using keys_written_total [of L "pe_keys pe"] by (auto simp: sd_inv_def)
  let ?pe = "pe\<lparr>pe_decoded := dict_set ''instance''
      (PDict (dict_set ''applicationSpecificParametersC9'' (PBytes b) d))
      (dict_set ''keyList'' (PList kl) (pe_decoded pe))\<rparr>"
  have e: "key_enc L = sd_key_to_saip_dict L" by (rule ext) (simp add: key_enc_def)
  have "sd_pre_encode L pe = (Inr (), ?pe)" using k b d by (simp add: sd_pre_encode_def Let_def)
  moreover have "sd_written L ?pe" using k by (simp add: sd_written_def e)
  moreover have "sd_inv L ?pe" using assms by (auto simp: sd_inv_def)
  ultimately show ?thesis by (intro exI [of _ ?pe]) simp
qed

lemma find_key_None:
  "find_key pe v i = None \<longleftrightarrow> (v, i) \<notin> (\<lambda>k. (key_version_number k, key_identifier k)) ` set (pe_keys pe)"
  by (auto simp: find_key_def find_None_iff)

lemma find_key_Some:
  "find_key pe v i = Some k \<Longrightarrow> k \<in> set (pe_keys pe) \<and> key_version_number k = v \<and> key_identifier k = i"
  by (auto simp: find_key_def find_Some_iff)

lemma remove1_by_key:
  "distinct (map f xs) \<Longrightarrow> x \<in> set xs \<Longrightarrow> remove1 x xs = filter (\<lambda>y. f y \<noteq> f x) xs"
proof (induction xs)
  case (Cons y ys)
  show ?case
  proof (cases "y = x")
    case True
    with Cons.prems have "\<forall>z\<in>set ys. f z \<noteq> f x" by (auto simp: image_iff)
    then have "filter (\<lambda>z. f z \<noteq> f x) ys = ys" by simp
    with True show ?thesis by simp
  next
    case False
    with Cons.prems have "f y \<noteq> f x" by force
    with False Cons show ?thesis by simp
  qed
qed simp

lemma find_unique:
  "distinct (map f xs) \<Longrightarrow> x \<in> set xs \<Longrightarrow> f x = c \<Longrightarrow> find (\<lambda>y. f y = c) xs = Some x"
  by (induction xs) auto

lemma find_key_unique:
  assumes "sd_inv L pe" "k \<in> set (pe_keys pe)"
  shows "find_key pe (key_version_number k) (key_identifier k) = Some k"
  using find_unique [of "\<lambda>k. (key_version_number k, key_identifier k)" "pe_keys pe" k] assms
  by (auto simp: find_key_def sd_inv_def)

section \<open>Instances for the witnesses\<close>

definition demo_key :: "nat \<Rightarrow> sd_key" where
  "demo_key i = \<lparr>key_version_number = 0x30, key_identifier = i, key_usage_qualifier = PBytes [0x38],
     key_components = [\<lparr>key_type = ''aes'', key_data = [1, 2], mac_length = 8\<rparr>]\<rparr>"

definition demo_sd :: profile_element where
  "demo_sd = (ProfileElement_init ''securityDomain'' [(''instance'', PDict []), (''keyList'', PList [])] True)
     \<lparr>pe_keys := [demo_key 1], pe_usip := PBytes [0x82]\<rparr>"

definition demo_key_lib :: pe_lib where
  "demo_key_lib = demo_pe_lib\<lparr>KeyType_build := (\<lambda>s. if s = ''aes'' then Inr [0x88] else Inl ValueError)\<rparr>"

lemma demo_key_laws: "key_laws demo_key_lib"
  by (auto simp: key_laws_def demo_key_lib_def demo_pe_lib_def as_bytes_def split: pyval.splits if_splits)

lemma demo_key_ok: "i < 256 \<Longrightarrow> key_ok demo_key_lib (demo_key i)"
  by (simp add: key_ok_def demo_key_def demo_key_lib_def demo_pe_lib_def as_bytes_def)

lemma demo_sd_inv: "sd_inv demo_key_lib demo_sd"
  using demo_key_ok [of 1]
  by (simp add: sd_inv_def demo_sd_def ProfileElement_init_def) (simp add: demo_key_lib_def demo_pe_lib_def as_bytes_def)

section \<open>Properties\<close>



text \<open>C19: Adding and removing keys of a security domain. The invariant (no two keys with the same version
  number and identifier, all keys can be written) is kept; a key with new numbers is added at the
  end and then found, one whose numbers are taken is refused without a change; removal takes exactly
  the key with these numbers away, and is refused if there is none; and after every successful
  operation the key list of the encoded form mirrors the key objects.\<close>

theorem sd_keys_managed:
  assumes "sd_inv L pe" "key_ok L key"
  shows "(if (\<exists>k\<in>set (pe_keys pe). key_version_number k = key_version_number key \<and>
              key_identifier k = key_identifier key)
     then add_key L key pe = (Inl ValueError, pe)
     else \<exists>pe'. add_key L key pe = (Inr (), pe') \<and> pe_keys pe' = pe_keys pe @ [key] \<and>
       find_key pe' (key_version_number key) (key_identifier key) = Some key \<and> sd_inv L pe' \<and> sd_written L pe') \<and>
    (case find_key pe v i of
       None \<Rightarrow> remove_key L v i pe = (Inl ValueError, pe)
     | Some k \<Rightarrow> \<exists>pe'. remove_key L v i pe = (Inr (), pe') \<and>
         pe_keys pe' = filter (\<lambda>q. \<not> (key_version_number q = v \<and> key_identifier q = i)) (pe_keys pe) \<and>
         find_key pe' v i = None \<and> sd_inv L pe' \<and> sd_written L pe')"
proof (intro conjI)
  let ?n = "\<lambda>k. (key_version_number k, key_identifier k)"
  show "if (\<exists>k\<in>set (pe_keys pe). key_version_number k = key_version_number key \<and>
              key_identifier k = key_identifier key)
     then add_key L key pe = (Inl ValueError, pe)
     else \<exists>pe'. add_key L key pe = (Inr (), pe') \<and> pe_keys pe' = pe_keys pe @ [key] \<and>
       find_key pe' (key_version_number key) (key_identifier key) = Some key \<and> sd_inv L pe' \<and> sd_written L pe'"
  proof (cases "find_key pe (key_version_number key) (key_identifier key)")
    case None
    let ?pe = "pe\<lparr>pe_keys := pe_keys pe @ [key]\<rparr>"
    have "sd_inv L ?pe" using assms None by (auto simp: sd_inv_def find_key_None)
    from sd_pre_encode_total [OF this] obtain pe' where
      pe': "sd_pre_encode L ?pe = (Inr (), pe')" "pe_keys pe' = pe_keys ?pe" "sd_written L pe'" "sd_inv L pe'"
      by blast
    then have "add_key L key pe = (Inr (), pe')" using None by (simp add: add_key_def)
    then show ?thesis
      using None pe' find_key_unique [of L pe' key] unfolding find_key_None by (auto simp: image_iff)
  next
    case (Some k)
    then show ?thesis using find_key_Some [OF Some] by (auto simp: add_key_def)
  qed
  show "case find_key pe v i of
       None \<Rightarrow> remove_key L v i pe = (Inl ValueError, pe)
     | Some k \<Rightarrow> \<exists>pe'. remove_key L v i pe = (Inr (), pe') \<and>
         pe_keys pe' = filter (\<lambda>q. \<not> (key_version_number q = v \<and> key_identifier q = i)) (pe_keys pe) \<and>
         find_key pe' v i = None \<and> sd_inv L pe' \<and> sd_written L pe'"
  proof (cases "find_key pe v i")
    case None
    then show ?thesis by (simp add: remove_key_def)
  next
    case (Some k)
    have dist: "distinct (map ?n (pe_keys pe))" using assms(1) by (simp add: sd_inv_def)
    have k: "k \<in> set (pe_keys pe)" "?n k = (v, i)" using find_key_Some [OF Some] by auto
    have rm: "remove1 k (pe_keys pe) = filter (\<lambda>q. \<not> (key_version_number q = v \<and> key_identifier q = i)) (pe_keys pe)"
      using remove1_by_key [OF dist k(1)] k(2) by simp
    let ?pe = "pe\<lparr>pe_keys := remove1 k (pe_keys pe)\<rparr>"
    have "sd_inv L ?pe"
      using assms(1) unfolding rm by (auto simp: sd_inv_def list_all_iff intro: distinct_map_filter)
    from sd_pre_encode_total [OF this] obtain pe' where
      pe': "sd_pre_encode L ?pe = (Inr (), pe')" "pe_keys pe' = pe_keys ?pe" "sd_written L pe'" "sd_inv L pe'"
      by blast
    then show ?thesis using Some rm by (auto simp: remove_key_def find_key_None)
  qed
qed

theorem sd_keys_managed_witness:
  "add_key demo_key_lib (demo_key 1) demo_sd = (Inl ValueError, demo_sd) \<and>
   (\<exists>pe'. remove_key demo_key_lib 0x30 1 demo_sd = (Inr (), pe') \<and> pe_keys pe' = [])"
proof -
  have f: "find_key demo_sd 0x30 1 = Some (demo_key 1)"
    by (simp add: find_key_def demo_sd_def demo_key_def)
  have k: "pe_keys demo_sd = [demo_key 1]" by (simp add: demo_sd_def)
  show ?thesis
    using sd_keys_managed [OF demo_sd_inv demo_key_ok [of 1], of "0x30" 1]
    by (simp only: f option.case k) (auto simp: demo_key_def)
qed

text \<open>Reading and writing a key drops what the key object has no attribute for: a decoded key with a
  key access other than the default is read without an error, and its written form no longer has the
  access, so encoding a parsed profile can change its security domains.\<close>

theorem sd_key_access_lost:
  "\<exists>v k v'. getitem v ''keyAccess'' = Inr (PBytes [1]) \<and> sd_key_from_saip_dict demo_key_lib v = Inr k \<and>
     sd_key_to_saip_dict demo_key_lib k = Inr v' \<and> getitem v' ''keyAccess'' = Inl KeyError"
proof -
  let ?c = "PDict [(''keyType'', PBytes [0x88]), (''keyData'', PBytes [1, 2]), (''macLength'', PInt 8)]"
  let ?v = "PDict [(''keyUsageQualifier'', PBytes [0x38]), (''keyAccess'', PBytes [1]),
     (''keyIdentifier'', PBytes [1]), (''keyVersionNumber'', PBytes [0x30]), (''keyComponents'', PList [?c])]"
  have "sd_key_from_saip_dict demo_key_lib ?v = Inr (demo_key 1)"
    by (simp add: sd_key_from_saip_dict_def key_component_from_saip_dict_def getitem_def as_bytes_def as_list_def
        as_int_def demo_key_lib_def demo_pe_lib_def demo_key_def)
  moreover obtain v' where "sd_key_to_saip_dict demo_key_lib (demo_key 1) = Inr v'"
    "getitem v' ''keyAccess'' = Inl KeyError"
    by (simp add: sd_key_to_saip_dict_def key_component_to_saip_dict_def bytes_of_int_def getitem_def as_bytes_def
        demo_key_lib_def demo_pe_lib_def demo_key_def)
  moreover have "getitem ?v ''keyAccess'' = Inr (PBytes [1])" by (simp add: getitem_def)
  ultimately show ?thesis by blast
qed

text \<open>The attempts octet of PIN and PUK codes. A code with a retry counter of four bits is stored with
  the maximum in the high and the counter in the low half, so both can be read back; but the check of the
  counter tests the maximum again, so a counter of five bits is accepted too and changes the
  stored maximum.\<close>

theorem attempts_octet_exact:
  "(\<forall>m r. 0 \<le> m \<and> m < 16 \<and> 0 \<le> r \<and> r < 16 \<longrightarrow>
      attempts_octet m r = 16 * m + r \<and> attempts_octet m r div 16 = m \<and> attempts_octet m r mod 16 = r) \<and>
   (\<exists>codes. add_puk 1 (replicate 8 0x31) 10 16 [] = Inr codes \<and>
      codes = [[(''keyReference'', PInt 1), (''pukValue'', PBytes (replicate 8 0x31)),
        (''maxNumOfAttemps-retryNumLeft'', PInt (16 * 11))]])"
proof (intro conjI allI impI)
  have or_add: "or (push_bit 4 m) r = 16 * m + r" if "0 \<le> r" "r < 16" for m r :: int
  proof -
    have "take_bit 4 r = r" using that by (simp add: take_bit_int_eq_self)
    then have "and (push_bit 4 m) r = 0"
      by (metis (no_types) and.assoc and.commute and_zero_eq push_bit_take_bit take_bit_and take_bit_eq_mask
          take_bit_push_bit take_bit_of_0 diff_self_eq_0 push_bit_of_0 take_bit_0)
    then show ?thesis using plus_and_or [of "push_bit 4 m" r] by (simp add: push_bit_eq_mult)
  qed
  fix m r :: int
  assume "0 \<le> m \<and> m < 16 \<and> 0 \<le> r \<and> r < 16"
  then show "attempts_octet m r = 16 * m + r" "attempts_octet m r div 16 = m" "attempts_octet m r mod 16 = r"
    by (simp_all add: attempts_octet_def or_add)
next
  show "\<exists>codes. add_puk 1 (replicate 8 0x31) 10 16 [] = Inr codes \<and>
      codes = [[(''keyReference'', PInt 1), (''pukValue'', PBytes (replicate 8 0x31)),
        (''maxNumOfAttemps-retryNumLeft'', PInt (16 * 11))]]"
    by (simp add: add_puk_def attempts_octet_def)
qed

end
