(* ===== verification/Saip_Validation.thy ===== *)
theory Saip_Validation
  imports Saip_Pes
begin

text \<open>
  \<^verbatim>\<open>pysim/pySim/esim/saip/validation.py\<close>: the constraint checkers of profiles and files. A
  check returns or raises; \<open>check\<close> runs the \<open>check_*\<close> methods in the order of their names,
  as \<open>dir\<close> lists them. Negative indices (\<open>pe_list[-1]\<close>) and indices behind the end are
  written out. \<open>FileError\<close> is a subclass of \<open>ProfileError\<close>.
\<close>

definition raise_if :: "bool \<Rightarrow> unit result" where
  "raise_if b = (if b then Inl ProfileError else Inr ())"

lemma raise_if_Inr [simp]: "raise_if b = Inr u \<longleftrightarrow> \<not> b"
  by (simp add: raise_if_def)

definition is_after_if_exists :: "pe_sequence \<Rightarrow> string \<Rightarrow> string \<Rightarrow> unit result" where
  "is_after_if_exists s opt after =
     bindR (get_pe_for_type s opt) (\<lambda>opt_pe.
       if opt_pe = None then Inr ()
       else bindR (get_pe_for_type s after) (\<lambda>after_pe. raise_if (after_pe = None)))"

definition check_start_and_end :: "pe_sequence \<Rightarrow> unit result" where
  "check_start_and_end s =
     bindR (nthR (pe_list s) 0) (\<lambda>r0.
     bindR (raise_if (type_of s r0 \<noteq> ''header'')) (\<lambda>_.
     bindR (nthR (pe_list s) 1) (\<lambda>r1.
     bindR (raise_if (type_of s r1 \<noteq> ''mf'')) (\<lambda>_.
       raise_if (type_of s (last (pe_list s)) \<noteq> ''end'')))))"

definition single_types :: "string list" where
  "single_types = [''end'', ''cd'', ''telecom'', ''usim'', ''isim'', ''csim'', ''opt-usim'', ''opt-isim'',
     ''opt-csim'', ''df-saip'', ''df-5gs'']"

definition check_number_of_occurrence :: "pe_sequence \<Rightarrow> unit result" where
  "check_number_of_occurrence s =
     bindR (raise_if (length (get_pes_for_type s ''header'') \<noteq> 1)) (\<lambda>_.
     bindR (raise_if (length (get_pes_for_type s ''mf'') \<noteq> 1)) (\<lambda>_.
     bindR (mapR (\<lambda>tn. raise_if (length (get_pes_for_type s tn) > 1)) single_types) (\<lambda>_. Inr ())))"

definition ordering_pairs :: "(string \<times> string) list" where
  "ordering_pairs = [(''opt-usim'', ''usim''), (''opt-isim'', ''isim''), (''gsm-access'', ''usim''),
     (''phonebook'', ''usim''), (''df-5gs'', ''usim''), (''df-saip'', ''usim''), (''opt-csim'', ''csim'')]"

definition check_optional_ordering :: "pe_sequence \<Rightarrow> unit result" where
  "check_optional_ordering s =
     bindR (mapR (\<lambda>p. is_after_if_exists s (fst p) (snd p)) ordering_pairs) (\<lambda>_. Inr ())"

text \<open>The services of the header, a dictionary by the schema.\<close>

definition mandatory_services :: "pe_sequence \<Rightarrow> string list result" where
  "mandatory_services s =
     bindR (get_pe_for_type s ''header'') (\<lambda>h.
       (case h of
          None \<Rightarrow> Inl AttributeError
        | Some r \<Rightarrow>
            (case map_of (pe_decoded (objs s r)) ''eUICC-Mandatory-services'' of
               None \<Rightarrow> Inl KeyError
             | Some (PDict d) \<Rightarrow> Inr (map fst d)
             | Some _ \<Rightarrow> Inl TypeError)))"

text \<open>\<open>svc in m_svcs and not pes.get_pe_for_type(svc)\<close>.\<close>

definition service_needs_pe :: "pe_sequence \<Rightarrow> string list \<Rightarrow> string \<Rightarrow> unit result" where
  "service_needs_pe s m_svcs svc =
     (if List.member m_svcs svc then bindR (get_pe_for_type s svc) (\<lambda>pe. raise_if (pe = None)) else Inr ())"

definition service_needs :: "string list \<Rightarrow> string \<Rightarrow> string list \<Rightarrow> unit result" where
  "service_needs m_svcs svc alternatives =
     raise_if (List.member m_svcs svc \<and> \<not> list_ex (List.member m_svcs) alternatives)"

definition service_dependencies :: "(string \<times> string list) list" where
  "service_dependencies =
     [(''gba-usim'', [''usim'']), (''gba-isim'', [''isim'']), (''multiple-usim'', [''usim'']),
      (''multiple-isim'', [''isim'']), (''multiple-csim'', [''csim'']),
      (''get-identity'', [''usim'', ''isim'']), (''profile-a-x25519'', [''usim'', ''isim'']),
      (''profile-a-p256'', [''usim'', ''isim''])]"

definition check_mandatory_services :: "pe_sequence \<Rightarrow> unit result" where
  "check_mandatory_services s =
     bindR (mandatory_services s) (\<lambda>m_svcs.
     bindR (mapR (service_needs_pe s m_svcs) [''usim'', ''isim'', ''csim'']) (\<lambda>_.
     bindR (mapR (\<lambda>d. service_needs m_svcs (fst d) (snd d)) service_dependencies) (\<lambda>_. Inr ())))"

definition check_identification_unique :: "pe_sequence \<Rightarrow> unit result" where
  "check_identification_unique s =
     bindR (mapR (\<lambda>r. getitem (pe_header (objs s r)) ''identification'')
        (filter (\<lambda>r. py_truthy (pe_header (objs s r))) (pe_list s))) (\<lambda>id_list.
       raise_if (length id_list \<noteq> length (remdups id_list)))"

definition CheckBasicStructure_check :: "pe_sequence \<Rightarrow> unit result" where
  "CheckBasicStructure_check s =
     bindR (check_identification_unique s) (\<lambda>_.
     bindR (check_mandatory_services s) (\<lambda>_.
     bindR (check_number_of_occurrence s) (\<lambda>_.
     bindR (check_optional_ordering s) (\<lambda>_.
       check_start_and_end s))))"

text \<open>The checker of a decoded file: a list of pairs of choice name and value. The first test looks at
  \<open>l[0]\<close> only when a descriptor is present, so the list is not empty there.\<close>

definition check_seqence :: "(string \<times> pyval) list \<Rightarrow> unit result" where
  "check_seqence l =
     (let by_type = (\<lambda>k. filter (\<lambda>kv. fst kv = k) l) in
      bindR (raise_if (by_type ''doNotCreate'' \<noteq> [] \<and> length l \<noteq> 1)) (\<lambda>_.
        if by_type ''fileDescriptor'' \<noteq> [] then
          bindR (raise_if (length (by_type ''fileDescriptor'') \<noteq> 1)) (\<lambda>_.
            raise_if (fst (hd l) \<noteq> ''fileDescriptor''))
        else Inr ()))"

section \<open>The specification\<close>

text \<open>The types of the elements in order, when the index is up to date.\<close>

abbreviation type_list :: "pe_sequence \<Rightarrow> string list" where
  "type_list s \<equiv> map (type_of s) (pe_list s)"

definition index_current :: "pe_sequence \<Rightarrow> bool" where
  "index_current s \<longleftrightarrow> (\<forall>t. get_pes_for_type s t = filter (\<lambda>r. type_of s r = t) (pe_list s))"

definition type_count :: "pe_sequence \<Rightarrow> string \<Rightarrow> nat" where
  "type_count s t = length (filter (\<lambda>x. x = t) (type_list s))"

definition basic_structure :: "pe_sequence \<Rightarrow> bool" where
  "basic_structure s \<longleftrightarrow>
     (\<exists>mid. type_list s = ''header'' # ''mf'' # mid @ [''end'']) \<and>
     type_count s ''header'' = 1 \<and> type_count s ''mf'' = 1 \<and>
     (\<forall>t\<in>set single_types. type_count s t \<le> 1) \<and>
     (\<forall>(opt, base)\<in>set ordering_pairs. type_count s opt \<le> 1 \<and>
        (type_count s opt = 1 \<longrightarrow> type_count s base = 1)) \<and>
     (\<exists>svcs. mandatory_services s = Inr svcs \<and>
        (\<forall>t\<in>{''usim'', ''isim'', ''csim''}. t \<in> set svcs \<longrightarrow> type_count s t = 1) \<and>
        (\<forall>(svc, alts)\<in>set service_dependencies. svc \<in> set svcs \<longrightarrow> set alts \<inter> set svcs \<noteq> {})) \<and>
     (\<exists>ids. list_all2 (\<lambda>r v. getitem (pe_header (objs s r)) ''identification'' = Inr v)
        (filter (\<lambda>r. numbered (objs s r)) (pe_list s)) ids \<and> distinct ids)"

lemma type_count_index:
  "index_current s \<Longrightarrow> length (get_pes_for_type s t) = type_count s t"
  by (simp add: index_current_def type_count_def filter_map o_def)

lemma get_pe_for_type_iff:
  assumes "index_current s"
  shows "get_pe_for_type s t = Inr None \<longleftrightarrow> type_count s t = 0"
    "(\<exists>r. get_pe_for_type s t = Inr (Some r)) \<longleftrightarrow> type_count s t = 1"
  using type_count_index [OF assms, of t]
  by (auto simp: get_pe_for_type_def split: list.splits)

lemma mapR_unit: "(\<exists>ys. mapR f xs = Inr (ys :: unit list)) \<longleftrightarrow> (\<forall>x\<in>set xs. f x = Inr ())"
  by (induction xs) auto

lemma is_after_iff:
  assumes "index_current s"
  shows "is_after_if_exists s opt base = Inr () \<longleftrightarrow>
    type_count s opt \<le> 1 \<and> (type_count s opt = 1 \<longrightarrow> type_count s base = 1)"
proof -
  have o: "get_pe_for_type s t = (if type_count s t = 0 then Inr None
      else if type_count s t = 1 then Inr (Some (hd (get_pes_for_type s t))) else Inl AssertionError)" for t
    using type_count_index [OF assms, of t] by (auto simp: get_pe_for_type_def split: list.splits)
  show ?thesis by (auto simp: is_after_if_exists_def o)
qed

lemma service_needs_pe_iff:
  assumes "index_current s"
  shows "service_needs_pe s svcs t = Inr () \<longleftrightarrow> (t \<in> set svcs \<longrightarrow> type_count s t = 1)"
  using get_pe_for_type_iff [OF assms, of t]
  by (auto simp: service_needs_pe_def)

lemma start_and_end_iff:
  "check_start_and_end s = Inr () \<and> type_count s ''mf'' = 1 \<longleftrightarrow>
   (\<exists>mid. type_list s = ''header'' # ''mf'' # mid @ [''end'']) \<and> type_count s ''mf'' = 1"
proof -
  obtain rs where rs: "pe_list s = rs" by blast
  show ?thesis
  proof (cases rs)
    case Nil
    with rs show ?thesis by (simp add: check_start_and_end_def nthR_def)
  next
    case (Cons a as)
    show ?thesis
    proof (cases as)
      case Nil
      with rs Cons show ?thesis by (auto simp: check_start_and_end_def nthR_def)
    next
      case (Cons b bs)
      with rs \<open>rs = a # as\<close> show ?thesis
        by (cases bs rule: rev_cases) (auto simp: check_start_and_end_def nthR_def type_count_def)
    qed
  qed
qed

lemma occurrence_iff:
  assumes "index_current s"
  shows "check_number_of_occurrence s = Inr () \<longleftrightarrow> type_count s ''header'' = 1 \<and> type_count s ''mf'' = 1 \<and>
    (\<forall>t\<in>set single_types. type_count s t \<le> 1)"
  using type_count_index [OF assms] mapR_unit [of "\<lambda>tn. raise_if (length (get_pes_for_type s tn) > 1)" single_types]
  by (auto simp: check_number_of_occurrence_def not_less)

lemma services_iff:
  assumes "index_current s"
  shows "check_mandatory_services s = Inr () \<longleftrightarrow>
    (\<exists>svcs. mandatory_services s = Inr svcs \<and>
       (\<forall>t\<in>{''usim'', ''isim'', ''csim''}. t \<in> set svcs \<longrightarrow> type_count s t = 1) \<and>
       (\<forall>(svc, alts)\<in>set service_dependencies. svc \<in> set svcs \<longrightarrow> set alts \<inter> set svcs \<noteq> {}))"
proof -
  have n: "service_needs svcs svc alts = Inr () \<longleftrightarrow> (svc \<in> set svcs \<longrightarrow> set alts \<inter> set svcs \<noteq> {})" for svcs svc alts
    by (auto simp: service_needs_def list_ex_iff)
  have "check_mandatory_services s = Inr () \<longleftrightarrow> (\<exists>svcs. mandatory_services s = Inr svcs \<and>
      (\<exists>ys. mapR (service_needs_pe s svcs) [''usim'', ''isim'', ''csim''] = Inr ys) \<and>
      (\<exists>ys. mapR (\<lambda>d. service_needs svcs (fst d) (snd d)) service_dependencies = Inr ys))"
    unfolding check_mandatory_services_def bindR_eq_Inr by blast
  also have "\<dots> \<longleftrightarrow> (\<exists>svcs. mandatory_services s = Inr svcs \<and>
       (\<forall>t\<in>{''usim'', ''isim'', ''csim''}. t \<in> set svcs \<longrightarrow> type_count s t = 1) \<and>
       (\<forall>(svc, alts)\<in>set service_dependencies. svc \<in> set svcs \<longrightarrow> set alts \<inter> set svcs \<noteq> {}))"
    unfolding mapR_unit n service_needs_pe_iff [OF assms] by (simp add: case_prod_beta)
  finally show ?thesis .
qed

lemma identification_unique_iff:
  "check_identification_unique s = Inr () \<longleftrightarrow>
   (\<exists>ids. list_all2 (\<lambda>r v. getitem (pe_header (objs s r)) ''identification'' = Inr v)
      (filter (\<lambda>r. numbered (objs s r)) (pe_list s)) ids \<and> distinct ids)"
proof -
  have "length ids = length (remdups ids) \<longleftrightarrow> distinct ids" for ids :: "pyval list"
    by (metis length_remdups_card_conv card_distinct distinct_card)
  then show ?thesis by (simp add: check_identification_unique_def numbered_def mapR_eq_Inr)
qed

text \<open>A smallest profile, for the witness.\<close>

definition demo_profile :: pe_sequence where
  "demo_profile = process_pelist (ProfileElementSequence_init\<lparr>
     objs := (\<lambda>r. if r = 0 then ProfileElementHeader_init 2 3 [] None
       else if r = 1 then ProfileElement_init ''mf'' [(''mf-header'', PDict [(''identification'', PInt 1)])] True
       else ProfileElement_init ''end'' [(''end-header'', PDict [(''identification'', PInt 2)])] True),
     next_ref := 3, pe_list := [0, 1, 2]\<rparr>)"

section \<open>Properties\<close>



end
