(* ===== verification/Smdpp_Util.thy ===== *)
theory Smdpp_Util
  imports Py_Std X509_Cert
begin

text \<open>
  The functions of \<^verbatim>\<open>pysim/osmo-smdpp.py\<close> outside its classes: the replacement of the ASN.1
  library's decoder of object identifiers, the check of request headers, the EID ranges an EUM
  certificate permits, status codes and response headers. The parser of the \<open>permittedEins\<close>
  extension (compiled by asn1tools) is the parameter \<open>dec_eins\<close>.
\<close>

section \<open>Object identifiers\<close>

text \<open>The loop of \<open>read_subidentifier\<close>: reading behind the data raises \<open>IndexError\<close>.
  \<open>value << 7 | b & 0x7F\<close> adds, because the low seven bits are free.\<close>

function read_subidentifier :: "bytes \<Rightarrow> nat \<Rightarrow> nat \<Rightarrow> (nat \<times> nat) result" where
  "read_subidentifier data offset val =
     (if offset < length data then
        let b = unat (data ! offset); val' = val * 128 + b mod 128
        in if b div 128 mod 2 = 0 then Inr (val', offset + 1)
           else read_subidentifier data (offset + 1) val'
      else Inl IndexError)"
  by pat_completeness auto
termination
  by (relation "measure (\<lambda>(data, offset, val). length data - offset)") auto

declare read_subidentifier.simps [simp del]

lemma read_subidentifier_step:
  assumes "offset < length data" "unat (data ! offset) = 128 * c + k" "k < 128" "c < 2"
  shows "read_subidentifier data offset val =
    (if c = 0 then Inr (val * 128 + k, offset + 1)
     else read_subidentifier data (offset + 1) (val * 128 + k))"
  using assms by (subst read_subidentifier.simps) (auto simp: Let_def)

lemma read_subidentifier_progress:
  "read_subidentifier data offset val = Inr (v, offset') \<Longrightarrow> offset < offset' \<and> offset' \<le> length data"
proof (induction data offset val rule: read_subidentifier.induct)
  case (1 data offset val)
  then show ?case
    by (subst (asm) (2) read_subidentifier.simps) (fastforce simp: Let_def split: if_splits)
qed

text \<open>The loop over the remaining arcs.\<close>

function read_arcs :: "bytes \<Rightarrow> nat \<Rightarrow> nat \<Rightarrow> nat list \<Rightarrow> nat list result" where
  "read_arcs data offset end_offset arcs =
     (if offset < end_offset then
        (case read_subidentifier data offset 0 of
           Inl e \<Rightarrow> Inl e
         | Inr (subid, offset') \<Rightarrow> read_arcs data offset' end_offset (arcs @ [subid]))
      else Inr arcs)"
  by pat_completeness auto
termination
  by (relation "measure (\<lambda>(data, offset, end_offset, arcs). end_offset - offset)")
    (auto dest!: read_subidentifier_progress)

definition split_first_subid :: "nat \<Rightarrow> nat list" where
  "split_first_subid subid =
     (if subid < 40 then [0, subid] else if subid < 80 then [1, subid - 40] else [2, subid - 80])"

definition fixed_decode_object_identifier :: "bytes \<Rightarrow> nat \<Rightarrow> nat \<Rightarrow> string result" where
  "fixed_decode_object_identifier data offset end_offset =
     bindR (read_subidentifier data offset 0) (\<lambda>(subid, offset').
     bindR (read_arcs data offset' end_offset (split_first_subid subid)) (\<lambda>arcs.
       Inr (join_with ''.'' (map nat_str arcs))))"

section \<open>Request headers and status\<close>

definition b64encode2str :: "bytes \<Rightarrow> string" where
  "b64encode2str req = b64encode req"

definition build_status_code :: "string \<Rightarrow> string \<Rightarrow> string option \<Rightarrow> string option \<Rightarrow> status_code" where
  "build_status_code subject_code reason_code subject_id msg =
     \<lparr>subjectCode = subject_code, reasonCode = reason_code,
      subjectIdentifier = (case subject_id of Some (c # cs) \<Rightarrow> Some (c # cs) | _ \<Rightarrow> None),
      status_message = (case msg of Some (c # cs) \<Rightarrow> Some (c # cs) | _ \<Rightarrow> None)\<rparr>"

text \<open>\<open>ApiError(subject_code, reason_code, message)\<close>.\<close>

definition api_error :: "string \<Rightarrow> string \<Rightarrow> string \<Rightarrow> py_error" where
  "api_error subject_code reason_code msg = ApiError (build_status_code subject_code reason_code None (Some msg))"

record resp_header =
  execution_status :: string
  statusCodeData :: "status_code option"

definition build_resp_header :: "string \<Rightarrow> status_code option \<Rightarrow> resp_header" where
  "build_resp_header status status_code_data = \<lparr>execution_status = status, statusCodeData = status_code_data\<rparr>"

definition validate_request_headers :: "string option \<Rightarrow> string option \<Rightarrow> unit result" where
  "validate_request_headers content_type admin_protocol =
     (case content_type of
        None \<Rightarrow> Inl (api_error ''1.2.1'' ''2.1'' ''Invalid Content-Type header'')
      | Some ct \<Rightarrow>
          if \<not> starts_with ''application/json'' ct
          then Inl (api_error ''1.2.1'' ''2.1'' ''Invalid Content-Type header'')
          else (case admin_protocol of
                  Some (c # cs) \<Rightarrow>
                    if \<not> starts_with ''gsma/rsp/v'' (c # cs)
                    then Inl (api_error ''1.2.2'' ''2.1'' ''Unsupported X-Admin-Protocol version'')
                    else Inr ()
                | _ \<Rightarrow> Inr ()))"

section \<open>EID ranges of EUM certificates\<close>

datatype eum_variant = VariantO | VariantNEW

text \<open>The policies in the order of the first extension with the OID of certificate policies.\<close>

fun first_variant :: "string list \<Rightarrow> eum_variant option" where
  "first_variant [] = None"
| "first_variant (p # ps) =
     (if p = ''2.23.146.1.2.1.2'' then Some VariantO
      else if p = ''2.23.146.1.2.1.0.0.0'' then Some VariantNEW
      else first_variant ps)"

fun get_policies :: "extension list \<Rightarrow> string list result" where
  "get_policies [] = Inl ExtensionNotFound"
| "get_policies (x # xs) = (case ext_value x of CertificatePolicies ps \<Rightarrow> Inr ps | _ \<Rightarrow> get_policies xs)"

fun get_name_constraints :: "extension list \<Rightarrow> (string \<times> string) list list result" where
  "get_name_constraints [] = Inl ExtensionNotFound"
| "get_name_constraints (x # xs) =
     (case ext_value x of NameConstraints ts \<Rightarrow> Inr ts | _ \<Rightarrow> get_name_constraints xs)"

definition get_eum_certificate_variant :: "certificate \<Rightarrow> eum_variant option" where
  "get_eum_certificate_variant eum_cert =
     (case get_policies (cert_extensions eum_cert) of Inl _ \<Rightarrow> None | Inr ps \<Rightarrow> first_variant ps)"

text \<open>The format both variants require of an IIN. Letters outside ASCII never become
  hexadecimal digits in upper case, so ASCII case conversion decides the same.\<close>

definition iin_format :: "string \<Rightarrow> bool" where
  "iin_format s \<longleftrightarrow> length s = 8 \<and> list_all (\<lambda>c. List.member ''0123456789ABCDEF'' c) s \<and> length s mod 2 = 0"

definition permitted_eins_of_ext :: "(bytes \<Rightarrow> string list result) \<Rightarrow> extension \<Rightarrow> string list" where
  "permitted_eins_of_ext dec_eins x =
     (if ext_oid x = ''2.23.146.1.2.2.0'' then
        (case ext_value x of
           UnrecognizedExtension ext_der \<Rightarrow>
             (case dec_eins ext_der of
                Inl _ \<Rightarrow> []
              | Inr decoded_strings \<Rightarrow>
                  filter iin_format (map (\<lambda>s. str_upper (str_strip s)) decoded_strings))
         | _ \<Rightarrow> [])
      else [])"

definition parse_gsma_permitted_eins :: "(bytes \<Rightarrow> string list result) \<Rightarrow> certificate \<Rightarrow> string list" where
  "parse_gsma_permitted_eins dec_eins eum_cert =
     concat (map (permitted_eins_of_ext dec_eins) (cert_extensions eum_cert))"

definition serial_number_oid :: string where
  "serial_number_oid = ''2.5.4.5''"

definition parse_name_constraints_eins :: "certificate \<Rightarrow> string list" where
  "parse_name_constraints_eins eum_cert =
     (case get_name_constraints (cert_extensions eum_cert) of
        Inl _ \<Rightarrow> []
      | Inr subtrees \<Rightarrow>
          concat (map (\<lambda>subtree.
            filter iin_format (map (\<lambda>a. str_upper (snd a))
              (filter (\<lambda>a. fst a = serial_number_oid) subtree))) subtrees))"

text \<open>\<open>list(set(...))\<close>: the order of the result is not used.\<close>

definition parse_permitted_eins_from_cert :: "(bytes \<Rightarrow> string list result) \<Rightarrow> certificate \<Rightarrow> string list" where
  "parse_permitted_eins_from_cert dec_eins eum_cert =
     remdups (if get_eum_certificate_variant eum_cert = Some VariantO
       then parse_name_constraints_eins eum_cert
       else parse_gsma_permitted_eins dec_eins eum_cert)"

definition validate_eid_range :: "(bytes \<Rightarrow> string list result) \<Rightarrow> string \<Rightarrow> certificate \<Rightarrow> bool" where
  "validate_eid_range dec_eins eid eum_cert =
     (if eid = [] \<or> length eid \<noteq> 32 then False
      else let permitted_eins = parse_permitted_eins_from_cert dec_eins eum_cert
           in if permitted_eins = [] then False
              else list_ex (\<lambda>ein. starts_with ein (str_upper eid)) permitted_eins)"

section \<open>Object identifiers: a reference encoder\<close>

text \<open>X.690, 8.19: each subidentifier in base 128, most significant digit first, bit 8 set on all
  but the last octet; the first two arcs share the first subidentifier.\<close>

function enc_high :: "nat \<Rightarrow> bytes" where
  "enc_high n = (if n = 0 then [] else enc_high (n div 128) @ [of_nat (128 + n mod 128)])"
  by pat_completeness auto
termination by (relation "measure id") auto

definition enc_subid :: "nat \<Rightarrow> bytes" where
  "enc_subid n = enc_high (n div 128) @ [of_nat (n mod 128)]"

fun enc_oid :: "nat list \<Rightarrow> bytes" where
  "enc_oid (a # b # arcs) = enc_subid (40 * a + b) @ concat (map enc_subid arcs)"
| "enc_oid _ = []"

definition oid_arcs_ok :: "nat list \<Rightarrow> bool" where
  "oid_arcs_ok arcs \<longleftrightarrow>
     (case arcs of a # b # _ \<Rightarrow> (a < 2 \<and> b < 40) \<or> a = 2 | _ \<Rightarrow> False)"

declare enc_high.simps [simp del] read_arcs.simps [simp del]

lemma unat_octet [simp]: "n < 256 \<Longrightarrow> unat (of_nat n :: byte) = n"
  by (simp add: unat_of_nat)

text \<open>Reading the octets that announce a continuation.\<close>

lemma read_high:
  "read_subidentifier (pre @ enc_high n @ post) (length pre) 0 =
   read_subidentifier (pre @ enc_high n @ post) (length pre + length (enc_high n)) n"
proof (induction n arbitrary: post rule: enc_high.induct)
  case (1 n)
  show ?case
  proof (cases "n = 0")
    case True
    then show ?thesis by (simp add: enc_high.simps)
  next
    case False
    let ?h = "enc_high (n div 128)" and ?o = "of_nat (128 + n mod 128) :: byte"
    have e: "enc_high n = ?h @ [?o]" using False by (simp add: enc_high.simps [of n])
    have o: "unat ?o = 128 + n mod 128" by (rule unat_octet) (simp add: less_imp_le_nat)
    have "read_subidentifier (pre @ ?h @ (?o # post)) (length pre + length ?h) (n div 128) =
        read_subidentifier (pre @ ?h @ (?o # post)) (length pre + length ?h + 1) n"
      using read_subidentifier_step [of "length pre + length ?h" "pre @ ?h @ (?o # post)" 1 "n mod 128"] o
      by (simp add: nth_append)
    with 1 [OF False, of "?o # post"] e show ?thesis by simp
  qed
qed

lemma read_subid:
  "read_subidentifier (pre @ enc_subid n @ post) (length pre) 0 = Inr (n, length pre + length (enc_subid n))"
proof -
  let ?l = "of_nat (n mod 128) :: byte"
  have l: "unat ?l = n mod 128" by (rule unat_octet) (simp add: less_imp_le_nat order_less_trans [of _ 128])
  have "read_subidentifier (pre @ enc_high (n div 128) @ (?l # post)) (length pre) 0 =
      read_subidentifier (pre @ enc_high (n div 128) @ (?l # post))
        (length pre + length (enc_high (n div 128))) (n div 128)"
    by (rule read_high)
  also have "\<dots> = Inr (n, length pre + length (enc_high (n div 128)) + 1)"
    using read_subidentifier_step [of "length pre + length (enc_high (n div 128))"
        "pre @ enc_high (n div 128) @ (?l # post)" 0 "n mod 128"] l
    by (simp add: nth_append)
  finally show ?thesis by (simp add: enc_subid_def)
qed

lemma enc_subid_nonempty [simp]: "enc_subid n \<noteq> []"
  by (simp add: enc_subid_def)

lemma read_arcs_enc:
  "read_arcs (pre @ concat (map enc_subid ns) @ post) (length pre)
     (length pre + length (concat (map enc_subid ns))) arcs = Inr (arcs @ ns)"
proof (induction ns arbitrary: pre arcs)
  case Nil
  then show ?case by (simp add: read_arcs.simps)
next
  case (Cons n ns)
  have "read_subidentifier (pre @ enc_subid n @ (concat (map enc_subid ns) @ post)) (length pre) 0 =
      Inr (n, length (pre @ enc_subid n))"
    by (simp add: read_subid)
  with Cons [of "pre @ enc_subid n" "arcs @ [n]"] show ?case
    by (subst read_arcs.simps) (simp add: add.assoc)
qed

lemma split_first_subid: "(a < 2 \<and> b < 40) \<or> a = 2 \<Longrightarrow> split_first_subid (40 * a + b) = [a, b]"
  by (auto simp: split_first_subid_def numeral_2_eq_2 less_Suc_eq)

lemma permitted_eins_of_ext_iff:
  "iin \<in> set (permitted_eins_of_ext dec_eins x) \<longleftrightarrow> iin_format iin \<and>
     (\<exists>der strs s. ext_oid x = ''2.23.146.1.2.2.0'' \<and> ext_value x = UnrecognizedExtension der \<and>
        dec_eins der = Inr strs \<and> s \<in> set strs \<and> iin = str_upper (str_strip s))"
proof (cases "\<exists>der. ext_value x = UnrecognizedExtension der")
  case True
  then obtain der where "ext_value x = UnrecognizedExtension der" by blast
  then show ?thesis
    by (cases "dec_eins der"; cases "ext_oid x = ''2.23.146.1.2.2.0''") (auto simp: permitted_eins_of_ext_def)
next
  case False
  then have "permitted_eins_of_ext dec_eins x = []"
    by (simp add: permitted_eins_of_ext_def split: extension_value.split)
  with False show ?thesis by simp
qed

lemma gsma_eins_iff:
  "iin \<in> set (parse_gsma_permitted_eins dec_eins eum_cert) \<longleftrightarrow> iin_format iin \<and>
     (\<exists>x der strs s. x \<in> set (cert_extensions eum_cert) \<and> ext_oid x = ''2.23.146.1.2.2.0'' \<and>
        ext_value x = UnrecognizedExtension der \<and> dec_eins der = Inr strs \<and>
        s \<in> set strs \<and> iin = str_upper (str_strip s))"
proof -
  have "iin \<in> set (parse_gsma_permitted_eins dec_eins eum_cert) \<longleftrightarrow>
      (\<exists>x. x \<in> set (cert_extensions eum_cert) \<and> iin \<in> set (permitted_eins_of_ext dec_eins x))"
    by (auto simp: parse_gsma_permitted_eins_def)
  then show ?thesis unfolding permitted_eins_of_ext_iff by blast
qed

section \<open>Properties\<close>

text \<open>C12: The replacement decoder of object identifiers is right for every identifier, in particular for
  second arcs of 40 and more below arc 2, which the library gets wrong: from the standard's
  encoding at any offset it returns the dotted form of the arcs, and it consumes exactly that
  encoding.\<close>

theorem oid_decode_correct:
  assumes "oid_arcs_ok arcs"
  shows "fixed_decode_object_identifier (pre @ enc_oid arcs @ post) (length pre)
      (length pre + length (enc_oid arcs)) = Inr (join_with ''.'' (map nat_str arcs))"
proof -
  from assms obtain a b rest where arcs: "arcs = a # b # rest" "(a < 2 \<and> b < 40) \<or> a = 2"
    by (auto simp: oid_arcs_ok_def split: list.splits)
  let ?f = "enc_subid (40 * a + b)" and ?r = "concat (map enc_subid rest)"
  have 1: "read_subidentifier (pre @ ?f @ (?r @ post)) (length pre) 0 =
      Inr (40 * a + b, length pre + length ?f)"
    by (rule read_subid)
  have 2: "read_arcs (pre @ ?f @ (?r @ post)) (length pre + length ?f)
      (length pre + length (enc_oid arcs)) [a, b] = Inr (a # b # rest)"
    using read_arcs_enc [of "pre @ ?f" rest post "[a, b]"] arcs by (simp add: add.assoc)
  have e: "pre @ enc_oid arcs @ post = pre @ ?f @ (?r @ post)"
    using arcs by simp
  show ?thesis
    unfolding fixed_decode_object_identifier_def e using 1 2 split_first_subid [OF arcs(2)] arcs by simp
qed

theorem oid_decode_correct_witness:
  "fixed_decode_object_identifier [0x06, 0x03, 0x88, 0x37, 0x0A] 2 5 = Inr ''2.999.10''"
proof -
  have e: "enc_oid [2, 999, 10] = [0x88, 0x37, 0x0A]"
    by (simp add: enc_subid_def enc_high.simps)
  have n: "join_with ''.'' (map nat_str [2, 999, 10]) = ''2.999.10''" by code_simp
  have "fixed_decode_object_identifier ([0x06, 0x03] @ enc_oid [2, 999, 10] @ []) (length [0x06, 0x03 :: byte])
      (length [0x06, 0x03 :: byte] + length (enc_oid [2, 999, 10])) =
      Inr (join_with ''.'' (map nat_str [2, 999, 10]))"
    by (rule oid_decode_correct) (simp add: oid_arcs_ok_def)
  then show ?thesis unfolding e n by (simp add: eval_nat_numeral)
qed

text \<open>C13: The EID check accepts exactly the EIDs of 32 characters whose upper-case form starts with one
  of the IINs of the EUM certificate. For the old variant these are the serial numbers in the
  permitted directory names of the name constraints, for every other certificate the strings of the
  permittedEins extensions; either way only those with eight hexadecimal digits count. An absent or
  malformed extension never widens the range.\<close>

theorem validate_eid_range_exact:
  "validate_eid_range dec_eins eid eum_cert \<longleftrightarrow>
     length eid = 32 \<and>
     (\<exists>iin. iin_format iin \<and> starts_with iin (str_upper eid) \<and>
       (if get_eum_certificate_variant eum_cert = Some VariantO
        then \<exists>subtrees subtree v.
          get_name_constraints (cert_extensions eum_cert) = Inr subtrees \<and>
          subtree \<in> set subtrees \<and> (serial_number_oid, v) \<in> set subtree \<and> iin = str_upper v
        else \<exists>x der strs s.
          x \<in> set (cert_extensions eum_cert) \<and> ext_oid x = ''2.23.146.1.2.2.0'' \<and>
          ext_value x = UnrecognizedExtension der \<and> dec_eins der = Inr strs \<and>
          s \<in> set strs \<and> iin = str_upper (str_strip s)))"
proof -
  have O: "iin \<in> set (parse_name_constraints_eins eum_cert) \<longleftrightarrow> iin_format iin \<and>
      (\<exists>subtrees subtree v. get_name_constraints (cert_extensions eum_cert) = Inr subtrees \<and>
          subtree \<in> set subtrees \<and> (serial_number_oid, v) \<in> set subtree \<and> iin = str_upper v)" for iin
    by (force simp: parse_name_constraints_eins_def split: sum.splits)
  have N: "iin \<in> set (parse_gsma_permitted_eins dec_eins eum_cert) \<longleftrightarrow> iin_format iin \<and>
      (\<exists>x der strs s. x \<in> set (cert_extensions eum_cert) \<and> ext_oid x = ''2.23.146.1.2.2.0'' \<and>
          ext_value x = UnrecognizedExtension der \<and> dec_eins der = Inr strs \<and>
          s \<in> set strs \<and> iin = str_upper (str_strip s))" for iin
    by (rule gsma_eins_iff)
  have "validate_eid_range dec_eins eid eum_cert \<longleftrightarrow> length eid = 32 \<and>
      (\<exists>iin\<in>set (if get_eum_certificate_variant eum_cert = Some VariantO
         then parse_name_constraints_eins eum_cert else parse_gsma_permitted_eins dec_eins eum_cert).
         starts_with iin (str_upper eid))"
    by (auto simp: validate_eid_range_def parse_permitted_eins_from_cert_def Let_def list_ex_iff)
  then show ?thesis
  proof (cases "get_eum_certificate_variant eum_cert = Some VariantO")
    case True
    show ?thesis unfolding \<open>validate_eid_range dec_eins eid eum_cert \<longleftrightarrow> _\<close> if_P [OF True] Bex_def O by blast
  next
    case False
    show ?thesis unfolding \<open>validate_eid_range dec_eins eid eum_cert \<longleftrightarrow> _\<close> if_not_P [OF False] Bex_def N by blast
  qed
qed

end
