(* ===== verification/Smdpp_History.thy ===== *)
theory Smdpp_History
  imports Py_Std
begin

text \<open>
  Class \<open>DownloadHistoryStore\<close> of \<^verbatim>\<open>pysim/osmo-smdpp.py\<close>, with the file it keeps its
  records in. The file is absent, holds a list of records, or holds a JSON text that was cut off,
  which \<open>json.load\<close> refuses. \<open>_save\<close> opens the file for writing before it serialises, so a
  record that cannot be serialised leaves a cut off file behind; the exception is logged only. The
  file itself can always be opened here. Time stamps are arguments.
\<close>

record download_record =
  dl_transaction_id :: string
  dl_eid :: "string option"
  dl_iccid :: string
  dl_matching_id :: "string option"
  dl_status :: string
  dl_timestamp :: string
  dl_final_result :: pyval

datatype history_file = NoFile | HistoryFile "download_record list" | CutOffFile

record history_store =
  history :: "download_record list"
  history_file :: history_file

definition record_dumpable :: "download_record \<Rightarrow> bool" where
  "record_dumpable r = json_dumpable (dl_final_result r)"

definition record_reload :: "download_record \<Rightarrow> download_record" where
  "record_reload r = r\<lparr>dl_final_result := json_reload (dl_final_result r)\<rparr>"

definition history_load :: "history_store \<Rightarrow> history_store" where
  "history_load h =
     (case history_file h of
        NoFile \<Rightarrow> h
      | HistoryFile rs \<Rightarrow> h\<lparr>history := rs\<rparr>
      | CutOffFile \<Rightarrow> h)"

definition DownloadHistoryStore_init :: "history_file \<Rightarrow> history_store" where
  "DownloadHistoryStore_init file = history_load \<lparr>history = [], history_file = file\<rparr>"

definition history_save :: "history_store \<Rightarrow> history_store" where
  "history_save h =
     h\<lparr>history_file := (if list_all record_dumpable (history h)
        then HistoryFile (map record_reload (history h)) else CutOffFile)\<rparr>"

definition record_download ::
  "string \<Rightarrow> string \<Rightarrow> string option \<Rightarrow> string \<Rightarrow> string option \<Rightarrow> string \<Rightarrow> history_store \<Rightarrow> history_store" where
  "record_download now tid eid_s iccid matching_id status h =
     history_save (h\<lparr>history := history h @
       [\<lparr>dl_transaction_id = tid, dl_eid = eid_s, dl_iccid = iccid, dl_matching_id = matching_id,
         dl_status = status, dl_timestamp = now, dl_final_result = PNone\<rparr>]\<rparr>)"

text \<open>The loop of \<open>update_download\<close>: the first record of the transaction is changed;
  \<open>None\<close> if there is none.\<close>

fun update_records :: "string \<Rightarrow> string \<Rightarrow> pyval \<Rightarrow> download_record list \<Rightarrow> download_record list option" where
  "update_records tid status result [] = None"
| "update_records tid status result (r # rs) =
     (if dl_transaction_id r = tid
      then Some ((if py_truthy result then r\<lparr>dl_status := status, dl_final_result := result\<rparr>
                  else r\<lparr>dl_status := status\<rparr>) # rs)
      else map_option (Cons r) (update_records tid status result rs))"

definition update_download :: "string \<Rightarrow> string \<Rightarrow> pyval \<Rightarrow> history_store \<Rightarrow> history_store" where
  "update_download tid status result h =
     (case update_records tid status result (history h) of
        Some rs \<Rightarrow> history_save (h\<lparr>history := rs\<rparr>)
      | None \<Rightarrow> h)"

section \<open>Lemmas\<close>

text \<open>The file mirrors the list in memory, up to the representation of tuples.\<close>

definition history_synced :: "history_store \<Rightarrow> bool" where
  "history_synced h \<longleftrightarrow> list_all record_dumpable (history h) \<and>
     history_file h = HistoryFile (map record_reload (history h))"

lemma history_save_history [simp]: "history (history_save h) = history h"
  by (simp add: history_save_def)

lemma history_save_synced: "history_synced (history_save h) \<longleftrightarrow> list_all record_dumpable (history h)"
  by (auto simp: history_synced_def history_save_def)

lemma history_save_file:
  "history_file (history_save h) = (if list_all record_dumpable (history h)
     then HistoryFile (map record_reload (history h)) else CutOffFile)"
  by (simp add: history_save_def)

lemma record_download_history [simp]:
  "history (record_download now tid e i m status h) = history h @
     [\<lparr>dl_transaction_id = tid, dl_eid = e, dl_iccid = i, dl_matching_id = m, dl_status = status,
       dl_timestamp = now, dl_final_result = PNone\<rparr>]"
  by (simp add: record_download_def)

lemma update_records_Some:
  "update_records tid status result rs = Some rs' \<Longrightarrow>
   (\<exists>pre r post. rs = pre @ r # post \<and> (\<forall>q\<in>set pre. dl_transaction_id q \<noteq> tid) \<and>
      dl_transaction_id r = tid \<and>
      rs' = pre @ (if py_truthy result then r\<lparr>dl_status := status, dl_final_result := result\<rparr>
                   else r\<lparr>dl_status := status\<rparr>) # post)"
proof (induction rs arbitrary: rs')
  case Nil
  then show ?case by simp
next
  case (Cons x xs)
  show ?case
  proof (cases "dl_transaction_id x = tid")
    case True
    then show ?thesis using Cons.prems by (intro exI [of _ "[]"] exI [of _ x] exI [of _ xs]) auto
  next
    case False
    with Cons.prems obtain ys where ys: "update_records tid status result xs = Some ys" "rs' = x # ys" by auto
    from Cons.IH [OF ys(1)] obtain pre r post where "xs = pre @ r # post"
      "\<forall>q\<in>set pre. dl_transaction_id q \<noteq> tid" "dl_transaction_id r = tid"
      "ys = pre @ (if py_truthy result then r\<lparr>dl_status := status, dl_final_result := result\<rparr>
                   else r\<lparr>dl_status := status\<rparr>) # post"
      by blast
    with False ys show ?thesis by (intro exI [of _ "x # pre"] exI [of _ r] exI [of _ post]) auto
  qed
qed

lemma update_records_None:
  "update_records tid status result rs = None \<longleftrightarrow> (\<forall>r\<in>set rs. dl_transaction_id r \<noteq> tid)"
  by (induction rs) auto

section \<open>Properties\<close>



text \<open>An update of the history changes the status (and the result, if it is given) of exactly the
  first record of its transaction, keeps the order and all other records, and rewrites the file;
  without a record of the transaction it changes nothing.\<close>

theorem update_download_exact:
  "if \<exists>r\<in>set (history h). dl_transaction_id r = tid
   then \<exists>pre r post. history h = pre @ r # post \<and> (\<forall>q\<in>set pre. dl_transaction_id q \<noteq> tid) \<and>
     dl_transaction_id r = tid \<and>
     history (update_download tid status result h) =
       pre @ (if py_truthy result then r\<lparr>dl_status := status, dl_final_result := result\<rparr>
              else r\<lparr>dl_status := status\<rparr>) # post \<and>
     (history_synced (update_download tid status result h) \<longleftrightarrow>
        list_all record_dumpable (history (update_download tid status result h)))
   else update_download tid status result h = h"
proof (cases "update_records tid status result (history h)")
  case None
  then have "\<forall>r\<in>set (history h). dl_transaction_id r \<noteq> tid" "update_download tid status result h = h"
    using update_records_None [of tid status result "history h"] by (simp_all add: update_download_def)
  then show ?thesis by auto
next
  case (Some rs')
  then have u: "update_download tid status result h = history_save (h\<lparr>history := rs'\<rparr>)"
    by (simp add: update_download_def)
  from Some obtain pre r post where "history h = pre @ r # post" "\<forall>q\<in>set pre. dl_transaction_id q \<noteq> tid"
    "dl_transaction_id r = tid"
    "rs' = pre @ (if py_truthy result then r\<lparr>dl_status := status, dl_final_result := result\<rparr>
                   else r\<lparr>dl_status := status\<rparr>) # post"
    using update_records_Some by blast
  then show ?thesis unfolding u history_save_synced by auto
qed

theorem update_download_exact_witness:
  "history (update_download ''T'' ''failed'' PNone
     (record_download ''now'' ''T'' None ''89'' None ''bpp_sent'' (DownloadHistoryStore_init NoFile))) =
   [\<lparr>dl_transaction_id = ''T'', dl_eid = None, dl_iccid = ''89'', dl_matching_id = None,
     dl_status = ''failed'', dl_timestamp = ''now'', dl_final_result = PNone\<rparr>]"
  using update_download_exact [where h = "record_download ''now'' ''T'' None ''89'' None ''bpp_sent''
      (DownloadHistoryStore_init NoFile)" and tid = "''T''" and status = "''failed''" and result = PNone]
  by (auto simp: DownloadHistoryStore_init_def history_load_def Cons_eq_append_conv)

end
