(* ===== verification/Smdpp_Server.thy ===== *)
theory Smdpp_Server
  imports Smdpp_Util Smdpp_History Saip_Pes Es8p
begin

text \<open>
  Class \<open>SmDppHttpServer\<close> of \<^verbatim>\<open>pysim/osmo-smdpp.py\<close>: the ES9+ functions of the SM-DP+
  and the management endpoints for the operator, as computations on the state of the server. The
  state holds the server's certificates and keys, the session store, the download history, the class
  attribute of \<open>UnprotectedProfilePackage\<close>, and the regular files of the machine.

  Request bodies are the parsed JSON objects, with string values. Random values (transaction id,
  challenge, one-time key) and the time are arguments of the handlers. The operating system's view
  of paths and the packages are the fields of \<open>dp_env\<close>. Log output is left out; so are
  the values computed for it alone.
\<close>

section \<open>Environment and state\<close>

record fs_file =
  file_bytes :: bytes
  file_readable :: bool

type_synonym fs_files = "string \<rightharpoonup> fs_file"

text \<open>\<open>os.path.realpath\<close>; whether a path names a directory; whether \<open>open(path, 'wb')\<close> succeeds;
  \<open>os.listdir\<close> of a directory. Files are known by their real path.\<close>

record dp_env =
  env_C :: crypto_lib
  env_T :: tlv_lib
  env_A :: asn1_lib
  env_X :: x509_lib
  env_U :: osmo_utils
  env_E :: ec_lib
  env_P :: pe_lib
  dec_eins :: "bytes \<Rightarrow> string list result"
  realpath :: "string \<Rightarrow> string result"
  isdir :: "string \<Rightarrow> bool"
  writable :: "string \<Rightarrow> bool"
  listdir :: "fs_files \<Rightarrow> string \<Rightarrow> string list result"

record smdpp =
  server_hostname :: string
  upp_dir :: string
  ci_certs :: "certificate list"
  dp_auth :: cert_and_privkey
  dp_pb :: cert_and_privkey
  rss :: rsp_store
  download_history :: history_store
  upp_class_der :: upp_class
  files :: fs_files

type_synonym content = "string \<rightharpoonup> string"
type_synonym fields = "(string \<times> string) list"

definition content_get :: "content \<Rightarrow> string \<Rightarrow> string result" where
  "content_get content key = someR KeyError (content key)"

text \<open>\<open>self.rss.get(key, None)\<close>, \<open>self.rss[key] = val\<close> and \<open>del self.rss[key]\<close> on the server.\<close>

definition rss_get :: "dp_env \<Rightarrow> string \<Rightarrow> (smdpp, rsp_session option) comp" where
  "rss_get env key s = (store_get (env_X env) (rss s) key, s)"

definition rss_set :: "dp_env \<Rightarrow> string \<Rightarrow> rsp_session \<Rightarrow> (smdpp, unit) comp" where
  "rss_set env key val s =
     (case store_setitem (env_X env) (rss s) key val of Inl e \<Rightarrow> (Inl e, s) | Inr st \<Rightarrow> (Inr (), s\<lparr>rss := st\<rparr>))"

definition rss_del :: "string \<Rightarrow> (smdpp, unit) comp" where
  "rss_del key s = (case store_delitem (rss s) key of Inl e \<Rightarrow> (Inl e, s) | Inr st \<Rightarrow> (Inr (), s\<lparr>rss := st\<rparr>))"

definition read_file :: "dp_env \<Rightarrow> fs_files \<Rightarrow> string \<Rightarrow> bytes result" where
  "read_file env fs path =
     bindR (realpath env path) (\<lambda>rp.
       (case fs rp of
          None \<Rightarrow> Inl OSError
        | Some f \<Rightarrow> if file_readable f then Inr (file_bytes f) else Inl OSError))"

definition isfile_readable :: "dp_env \<Rightarrow> fs_files \<Rightarrow> string \<Rightarrow> bool" where
  "isfile_readable env fs path =
     (case realpath env path of
        Inl _ \<Rightarrow> False
      | Inr rp \<Rightarrow> (case fs rp of None \<Rightarrow> False | Some f \<Rightarrow> file_readable f))"

section \<open>Certificates\<close>

fun ci_lookup :: "certificate list \<Rightarrow> bytes \<Rightarrow> certificate option result" where
  "ci_lookup [] ci_pkid = Inr None"
| "ci_lookup (cert # certs) ci_pkid =
     (case get_ski (cert_extensions cert) of
        Inl _ \<Rightarrow> Inl IndexError
      | Inr subject_pkid \<Rightarrow> if subject_pkid = ci_pkid then Inr (Some cert) else ci_lookup certs ci_pkid)"

definition ci_get_cert_for_pkid :: "smdpp \<Rightarrow> bytes \<Rightarrow> certificate option result" where
  "ci_get_cert_for_pkid s ci_pkid = ci_lookup (ci_certs s) ci_pkid"

fun validate_certificate_chain_for_verification :: "dp_env \<Rightarrow> smdpp \<Rightarrow> bytes list \<Rightarrow> bool result" where
  "validate_certificate_chain_for_verification env s [] = Inr False"
| "validate_certificate_chain_for_verification env s (ci_pkid # pkids) =
     bindR (ci_get_cert_for_pkid s ci_pkid) (\<lambda>ci.
       (case ci of
          None \<Rightarrow> validate_certificate_chain_for_verification env s pkids
        | Some ci_cert \<Rightarrow>
            (case bindR (CertificateSet_init (env_X env) ci_cert) (\<lambda>cs.
                  bindR (someR AttributeError (cp_cert (dp_auth s))) (\<lambda>cert.
                    verify_cert_chain (env_X env) cs cert 100)) of
               Inr _ \<Rightarrow> Inr True
             | Inl VerifyError \<Rightarrow> validate_certificate_chain_for_verification env s pkids
             | Inl e \<Rightarrow> Inl e)))"

definition ecdsa_verify :: "dp_env \<Rightarrow> certificate \<Rightarrow> bytes \<Rightarrow> bytes \<Rightarrow> bool result" where
  "ecdsa_verify env cert signature data =
     bindR (ecdsa_tr03111_to_dss (env_X env) signature) (\<lambda>dss_sig.
       Inr (pk_verify (env_X env) (cert_public_key cert) dss_sig data))"

text \<open>The choice of the CI certificate in \<open>initiateAutentication\<close>.\<close>

fun choose_ci_cert :: "smdpp \<Rightarrow> bytes list \<Rightarrow> certificate option result" where
  "choose_ci_cert s [] = Inr None"
| "choose_ci_cert s (x # xs) =
     bindR (ci_get_cert_for_pkid s x) (\<lambda>ci.
       (case ci of
          None \<Rightarrow> choose_ci_cert s xs
        | Some ci_cert \<Rightarrow>
            bindR (cert_get_subject_key_id ci_cert) (\<lambda>ski.
            bindR (get_authority_key_identifier (dp_auth s)) (\<lambda>aki.
              if ski = aki then Inr (Some ci_cert) else choose_ci_cert s xs))))"

text \<open>The chain of an eUICC certificate over an EUM certificate to the CI with the given key id. With
  no such CI certificate the constructor of the set is called with \<open>None\<close>.\<close>

definition verify_euicc_chain :: "dp_env \<Rightarrow> smdpp \<Rightarrow> bytes \<Rightarrow> certificate \<Rightarrow> certificate \<Rightarrow> unit result" where
  "verify_euicc_chain env s ci_id eum euicc =
     bindR (ci_get_cert_for_pkid s ci_id) (\<lambda>ci.
     bindR (someR AttributeError ci) (\<lambda>ci_cert.
     bindR (CertificateSet_init (env_X env) ci_cert) (\<lambda>cs0.
     bindR (add_intermediate_cert cs0 eum) (\<lambda>cs.
       verify_cert_chain (env_X env) cs euicc 100))))"

section \<open>ES9+: initiateAuthentication\<close>

definition server_address_ok :: "smdpp \<Rightarrow> string \<Rightarrow> bool" where
  "server_address_ok s addr \<longleftrightarrow> hd (split_on CHR '':'' addr) = server_hostname s"

definition initiate_output ::
  "dp_env \<Rightarrow> smdpp \<Rightarrow> string \<Rightarrow> bytes \<Rightarrow> bytes \<Rightarrow> fields result" where
  "initiate_output env s tid server_challenge euicc_challenge =
     bindR (h2b (env_U env) tid) (\<lambda>tid_b.
     bindR (enc_ServerSigned1 (env_A env)
        \<lparr>ss1_transactionId = tid_b, ss1_euiccChallenge = euicc_challenge,
         ss1_serverAddress = server_hostname s, ss1_serverChallenge = server_challenge\<rparr>) (\<lambda>serverSigned1_bin.
     bindR (ecdsa_sign (env_X env) (dp_auth s) serverSigned1_bin) (\<lambda>sig.
     bindR (get_authority_key_identifier (dp_auth s)) (\<lambda>aki.
     bindR (get_cert_as_der (env_X env) (dp_auth s)) (\<lambda>der.
       Inr [(''serverSigned1'', b64encode2str serverSigned1_bin),
            (''serverSignature1'', b64encode2str ([0x5f, 0x37, 0x40] @ sig)),
            (''transactionId'', tid),
            (''euiccCiPKIdToBeUsed'', b64encode2str ([0x04, 0x14] @ aki)),
            (''serverCertificate'', b64encode2str der)])))))"

text \<open>The request: the address is checked, the eUICC's challenge and its first information block are
  decoded.\<close>

definition initiate_decode :: "dp_env \<Rightarrow> content \<Rightarrow> smdpp \<Rightarrow> (bytes \<times> euicc_info1) result" where
  "initiate_decode env content s =
     bindR (content_get content ''smdpAddress'') (\<lambda>addr.
     if \<not> server_address_ok s addr then Inl (api_error ''8.8.1'' ''3.8'' ''Invalid SM-DP+ Address'') else
     bindR (content_get content ''euiccChallenge'') (\<lambda>ch64.
     bindR (b64decode ch64) (\<lambda>euiccChallenge.
     if length euiccChallenge \<noteq> 16 then Inl ValueError else
     bindR (content_get content ''euiccInfo1'') (\<lambda>info64.
     bindR (b64decode info64) (\<lambda>euiccInfo1_bin.
     bindR (dec_EUICCInfo1 (env_A env) euiccInfo1_bin) (\<lambda>euiccInfo1. Inr (euiccChallenge, euiccInfo1)))))))"

text \<open>The choice of keys: the result is the CI certificate for the session.\<close>

definition initiate_select :: "dp_env \<Rightarrow> smdpp \<Rightarrow> euicc_info1 \<Rightarrow> certificate result" where
  "initiate_select env s euiccInfo1 =
     (let pkid_list = euiccCiPKIdListForSigning euiccInfo1 @
            (case euiccCiPKIdListForSigningV3 euiccInfo1 of None \<Rightarrow> [] | Some l \<Rightarrow> l);
          verification_pkid_list =
            (case euiccCiPKIdListForVerification euiccInfo1 of None \<Rightarrow> [] | Some l \<Rightarrow> l)
      in bindR (if verification_pkid_list = [] then Inr True
                else validate_certificate_chain_for_verification env s verification_pkid_list) (\<lambda>chain_ok.
         if \<not> chain_ok then Inl (api_error ''8.8.4'' ''3.7''
           ''The SM-DP+ has no CERT.DPauth.SIG which chains to one of the eSIM CA Root CA Certificate with a Public Key supported by the eUICC'') else
         bindR (choose_ci_cert s pkid_list) (\<lambda>ci.
           (case ci of
              None \<Rightarrow> Inl (api_error ''8.8.2'' ''3.1''
                ''None of the proposed Public Key Identifiers is supported by the SM-DP+'')
            | Some ci_cert \<Rightarrow> Inr ci_cert))))"

definition initiate_checks :: "dp_env \<Rightarrow> content \<Rightarrow> smdpp \<Rightarrow> (certificate \<times> bytes) result" where
  "initiate_checks env content s =
     bindR (initiate_decode env content s) (\<lambda>(euiccChallenge, euiccInfo1).
     bindR (initiate_select env s euiccInfo1) (\<lambda>ci_cert. Inr (ci_cert, euiccChallenge)))"

definition initiateAutentication ::
  "dp_env \<Rightarrow> string \<Rightarrow> bytes \<Rightarrow> content \<Rightarrow> (smdpp, fields option) comp" where
  "initiateAutentication env tid server_challenge content s =
     bindS (liftS (initiate_checks env content s)) (\<lambda>(ci_cert, euiccChallenge).
     bindS (liftS (store_contains (rss s) tid)) (\<lambda>known.
     bindS (liftS (assertR (\<not> known) (Inr ()))) (\<lambda>_.
     bindS (liftS (initiate_output env s tid server_challenge euiccChallenge)) (\<lambda>output.
     bindS (liftS (cert_get_subject_key_id ci_cert)) (\<lambda>ski.
     bindS (rss_set env tid (RspSessionState_init tid server_challenge ski)) (\<lambda>_.
       retS (Some output))))))) s"

section \<open>ES9+: authenticateClient\<close>

text \<open>Decoding of the request: transaction id, the decoded and the signed form of the response, the two
  certificates.\<close>

definition authenticate_decode ::
  "dp_env \<Rightarrow> content \<Rightarrow>
   (string \<times> authenticate_response_ok \<times> bytes \<times> certificate \<times> certificate) result" where
  "authenticate_decode env content =
     bindR (content_get content ''transactionId'') (\<lambda>tid.
     bindR (content_get content ''authenticateServerResponse'') (\<lambda>r64.
     bindR (b64decode r64) (\<lambda>resp_bin.
     bindR (catchR (dec_AuthenticateServerResponse (env_A env) resp_bin)
         (\<lambda>_. Inl (api_error ''8.1'' ''6.1'' ''Failed to decode AuthenticateServerResponse''))) (\<lambda>resp.
       (case resp of
          AuthenticateResponseError \<Rightarrow> Inl ValueError
        | AuthenticateResponseOk r_ok \<Rightarrow>
            bindR (extract_euiccSigned1 (env_T env) resp_bin) (\<lambda>euiccSigned1_bin.
            bindR (enc_Certificate (env_A env) (aro_euiccCertificate r_ok)) (\<lambda>euicc_bin.
            bindR (enc_Certificate (env_A env) (aro_eumCertificate r_ok)) (\<lambda>eum_bin.
            bindR (load_der_x509_certificate (env_X env) euicc_bin) (\<lambda>euicc.
            bindR (load_der_x509_certificate (env_X env) eum_bin) (\<lambda>eum.
              Inr (tid, r_ok, euiccSigned1_bin, euicc, eum)))))))))))"

text \<open>The verification of the eUICC against the session; the result is the EID.\<close>

definition authenticate_verify ::
  "dp_env \<Rightarrow> smdpp \<Rightarrow> rsp_session \<Rightarrow> authenticate_response_ok \<Rightarrow> bytes \<Rightarrow> certificate \<Rightarrow> certificate \<Rightarrow>
   string result" where
  "authenticate_verify env s ss r_ok euiccSigned1_bin euicc eum =
     bindR (cert_get_auth_key_id eum) (\<lambda>aki.
     if aki \<noteq> ci_cert_id ss then Inl (api_error ''8.11.1'' ''3.9'' ''Unknown'') else
     bindR (catchR (verify_euicc_chain env s (ci_cert_id ss) eum euicc)
         (\<lambda>e. if e = VerifyError
              then Inl (api_error ''8.1.3'' ''6.1'' ''Verification failed (certificate chain)'') else Inl e)) (\<lambda>_.
     bindR (ecdsa_verify env euicc (aro_euiccSignature1 r_ok) euiccSigned1_bin) (\<lambda>sig_ok.
     if \<not> sig_ok then Inl (api_error ''8.1'' ''6.1'' ''Verification failed (euiccSignature1 over euiccSigned1)'') else
     bindR (nthR (cert_subject_serials euicc) 0) (\<lambda>eid_s.
     if \<not> validate_eid_range (dec_eins env) eid_s eum
     then Inl (api_error ''8.1.4'' ''6.1'' ''EID is not within the permitted range of the EUM certificate'')
     else if es1_serverChallenge (aro_euiccSigned1 r_ok) \<noteq> serverChallenge ss
     then Inl (api_error ''8.1'' ''6.1'' ''Verification failed (serverChallenge)'')
     else Inr eid_s))))"

text \<open>The profile the matching id names: the id and the ICCID in the header of the profile file.\<close>

definition matching_profile :: "dp_env \<Rightarrow> smdpp \<Rightarrow> ctx_params1 \<Rightarrow> (string \<times> string) result" where
  "matching_profile env s ctx =
     (case ctx of
        OtherCtxParams1 \<Rightarrow>
          Inl (api_error ''1.3.1'' ''2.2'' ''ctxParams1 missing mandatory ctxParamsForCommonAuthentication'')
      | CtxParamsForCommonAuthentication None \<Rightarrow> Inl (api_error ''8.2.6'' ''3.8'' ''Refused'')
      | CtxParamsForCommonAuthentication (Some mid) \<Rightarrow>
          (if mid = [] then Inl (api_error ''8.2.6'' ''3.8'' ''Refused'')
           else let path = path_join (upp_dir s) mid @ ''.der'' in
             bindR (realpath env path) (\<lambda>rp.
             if commonprefix rp (upp_dir s) \<noteq> upp_dir s then Inl (api_error ''8.2.6'' ''3.8'' ''Refused'')
             else if \<not> isfile_readable env (files s) path then Inl (api_error ''8.2.6'' ''3.8'' ''Refused'')
             else
               bindR (read_file env (files s) path) (\<lambda>der.
               bindR (PES_from_der (env_P env) der) (\<lambda>pes.
               bindR (get_pe_for_type pes ''header'') (\<lambda>h.
               bindR (someR AttributeError h) (\<lambda>r.
               bindR (getitem (PDict (pe_decoded (objs pes r))) ''iccid'') (\<lambda>v.
               bindR (as_bytes v) (\<lambda>iccid. Inr (mid, b2h (env_U env) iccid))))))))))"

text \<open>Metadata, signed data and the session the handler stores.\<close>

definition authenticate_finish ::
  "dp_env \<Rightarrow> smdpp \<Rightarrow> rsp_session \<Rightarrow> bytes \<Rightarrow> string \<Rightarrow> string \<Rightarrow> (rsp_session \<times> bytes \<times> bytes \<times> bytes) result" where
  "authenticate_finish env s ss euiccSignature1_bin mid iccid_str =
     bindR (h2b (env_U env) (swap_nibbles (env_U env) iccid_str)) (\<lambda>iccid.
       let md = fold (\<lambda>event. add_notification event (server_hostname s)) [''enable'', ''disable'', ''delete'']
                  (ProfileMetadata_init iccid ''OsmocomSPN'' mid)
       in bindR (gen_store_metadata_request (env_A env) md) (\<lambda>md_bin.
          bindR (h2b (env_U env) (transactionId ss)) (\<lambda>tid_b.
          bindR (enc_SmdpSigned2 (env_A env) \<lparr>sd2_transactionId = tid_b, sd2_ccRequiredFlag = False\<rparr>) (\<lambda>smdpSigned2_bin.
          bindR (ecdsa_sign (env_X env) (dp_pb s) (smdpSigned2_bin @ [0x5f, 0x37, 0x40] @ euiccSignature1_bin)) (\<lambda>sig.
            let sig_do = [0x5f, 0x37, 0x40] @ sig
            in Inr (ss\<lparr>matchingId := Some mid, profileMetadata := Some md, smdpSignature2_do := Some sig_do\<rparr>,
                    md_bin, smdpSigned2_bin, sig_do))))))"

definition authenticateClient :: "dp_env \<Rightarrow> content \<Rightarrow> (smdpp, fields option) comp" where
  "authenticateClient env content s =
     bindS (liftS (authenticate_decode env content)) (\<lambda>(tid, r_ok, euiccSigned1_bin, euicc, eum).
     bindS (rss_get env tid) (\<lambda>oss.
       (case oss of
          None \<Rightarrow> raiseS (api_error ''8.10.1'' ''3.9'' ''Unknown'')
        | Some ss \<Rightarrow>
            bindS (liftS (authenticate_verify env s ss r_ok euiccSigned1_bin euicc eum)) (\<lambda>eid_s.
            bindS (liftS (matching_profile env s (es1_ctxParams1 (aro_euiccSigned1 r_ok)))) (\<lambda>(mid, iccid_str).
            bindS (liftS (authenticate_finish env s
                (ss\<lparr>euicc_cert := Some euicc, eum_cert := Some eum, eid := Some eid_s\<rparr>)
                (aro_euiccSignature1 r_ok) mid iccid_str)) (\<lambda>(ss', md_bin, signed2_bin, sig_do).
            bindS (rss_set env tid ss') (\<lambda>_.
            bindS (liftS (get_cert_as_der (env_X env) (dp_pb s))) (\<lambda>der.
              retS (Some [(''transactionId'', tid),
                (''profileMetadata'', b64encode2str md_bin),
                (''smdpSigned2'', b64encode2str signed2_bin),
                (''smdpSignature2'', b64encode2str sig_do),
                (''smdpCertificate'', b64encode2str der)]))))))))) s"

section \<open>ES9+: getBoundProfilePackage\<close>

text \<open>Verification of the eUICC's answer; the result is its one-time public key.\<close>

definition prepare_verify :: "dp_env \<Rightarrow> content \<Rightarrow> string \<Rightarrow> rsp_session \<Rightarrow> bytes result" where
  "prepare_verify env content tid ss =
     bindR (content_get content ''prepareDownloadResponse'') (\<lambda>r64.
     bindR (b64decode r64) (\<lambda>resp_bin.
     bindR (dec_PrepareDownloadResponse (env_A env) resp_bin) (\<lambda>resp.
       (case resp of
          DownloadResponseError \<Rightarrow> Inl ValueError
        | DownloadResponseOk euiccSigned2 euiccSignature2 \<Rightarrow>
            bindR (extract_euiccSigned2 (env_T env) resp_bin) (\<lambda>euiccSigned2_bin.
            bindR (someR TypeError (smdpSignature2_do ss)) (\<lambda>sig_do.
            bindR (someR AttributeError (euicc_cert ss)) (\<lambda>euicc.
            bindR (ecdsa_verify env euicc euiccSignature2 (euiccSigned2_bin @ sig_do)) (\<lambda>sig_ok.
            if \<not> sig_ok then Inl (api_error ''8.1'' ''6.1'' ''eUICC signature is invalid'') else
            bindR (h2b (env_U env) tid) (\<lambda>tid_b.
            if tid_b \<noteq> es2_transactionId euiccSigned2
            then Inl (api_error ''8.10.1'' ''3.9'' ''The signed transactionId != outer transactionId'')
            else Inr (es2_euiccOtpk euiccSigned2))))))))))"

text \<open>The session keys: one-time key \<open>ot\<close> on the curve of the profile binding certificate, host id
  \<open>mahlzeit\<close>.\<close>

definition host_id_const :: bytes where
  "host_id_const = map (\<lambda>c. of_nat (of_char c)) ''mahlzeit''"

definition session_keys :: "dp_env \<Rightarrow> smdpp \<Rightarrow> ec_private_key \<Rightarrow> rsp_session \<Rightarrow> bytes \<Rightarrow> rsp_session result" where
  "session_keys env s ot ss otpk =
     bindR (someR AttributeError (cp_cert (dp_pb s))) (\<lambda>_.
     bindR (ec_exchange (env_E env) ot otpk) (\<lambda>secret.
       Inr (ss\<lparr>euicc_otpk := Some otpk, smdp_ot := Some ot, smdp_otpk := Some (ec_public_point (env_E env) ot),
         host_id := Some host_id_const, shared_secret := Some secret\<rparr>)))"

text \<open>\<open>UnprotectedProfilePackage.from_der\<close> changes the attribute of the class, which is part of the
  server's process.\<close>

definition load_upp :: "dp_env \<Rightarrow> rsp_session \<Rightarrow> (smdpp, upp) comp" where
  "load_upp env ss s =
     bindS (liftS (someR AttributeError (matchingId ss))) (\<lambda>mid.
     bindS (liftS (read_file env (files s) (path_join (upp_dir s) mid @ ''.der''))) (\<lambda>der.
     (\<lambda>s. (case UPP_from_der der (profileMetadata ss) (upp_class_der s) of
            (r, cls) \<Rightarrow> (r, s\<lparr>upp_class_der := cls\<rparr>))))) s"

definition log_download :: "dp_env \<Rightarrow> string \<Rightarrow> string \<Rightarrow> rsp_session \<Rightarrow> (smdpp, unit) comp" where
  "log_download env now tid ss s =
     (let iccid_for_log = (case profileMetadata ss of
            Some md \<Rightarrow> swap_nibbles (env_U env) (b2h (env_U env) (iccid_bin md)) | None \<Rightarrow> ''unknown'')
      in (Inr (), s\<lparr>download_history :=
            record_download now tid (eid ss) iccid_for_log (matchingId ss) ''bpp_sent'' (download_history s)\<rparr>))"

definition bind_profile :: "dp_env \<Rightarrow> smdpp \<Rightarrow> upp \<Rightarrow> bpp result" where
  "bind_profile env s u =
     bindR (fst (PPP_from_upp (env_C env) (env_T env) (upp_class_der s) u
        (BspInstance_init (env_T env) (replicate 16 0) (replicate 16 0x11) (replicate 16 0x22)))) (\<lambda>p.
       Inr (BPP_from_ppp p))"

definition getBoundProfilePackage ::
  "dp_env \<Rightarrow> ec_private_key \<Rightarrow> string \<Rightarrow> content \<Rightarrow> (smdpp, fields option) comp" where
  "getBoundProfilePackage env ot now content =
     bindS (liftS (content_get content ''transactionId'')) (\<lambda>tid.
     bindS (rss_get env tid) (\<lambda>oss.
       (case oss of
          None \<Rightarrow> raiseS (api_error ''8.10.1'' ''3.9'' ''The RSP session identified by the TransactionID is unknown'')
        | Some ss \<Rightarrow>
            bindS (liftS (prepare_verify env content tid ss)) (\<lambda>otpk.
            bindS (\<lambda>s. (session_keys env s ot ss otpk, s)) (\<lambda>ss'.
            bindS (load_upp env ss') (\<lambda>u.
            bindS (log_download env now tid ss') (\<lambda>_.
            bindS (\<lambda>s. (bind_profile env s u, s)) (\<lambda>b.
            bindS (rss_set env tid ss') (\<lambda>_.
            bindS (\<lambda>s. (BPP_encode (env_C env) (env_T env) (env_A env) (env_X env) (env_U env)
                     (upp_class_der s) b ss' (dp_pb s), s)) (\<lambda>(bpp_bin, b').
              retS (Some [(''transactionId'', tid), (''boundProfilePackage'', b64encode2str bpp_bin)])))))))))))"

section \<open>ES9+: handleNotification and cancelSession\<close>

text \<open>The decoded \<open>finalResult\<close> as the value that is compared and stored: a CHOICE is a tuple.\<close>

definition final_result_value :: "final_result \<Rightarrow> pyval" where
  "final_result_value r =
     (case r of
        SuccessResult aid sima \<Rightarrow>
          PTuple [PStr ''successResult'', PDict [(''aid'', PBytes aid), (''simaResponse'', PBytes sima)]]
      | ErrorResult cmd reason sima \<Rightarrow>
          PTuple [PStr ''errorResult'', PDict ([(''bppCommandId'', PInt (int cmd)), (''errorReason'', PInt (int reason))] @
            (case sima of None \<Rightarrow> [] | Some b \<Rightarrow> [(''simaResponse'', PBytes b)]))])"

definition history_update :: "string \<Rightarrow> string \<Rightarrow> pyval \<Rightarrow> (smdpp, unit) comp" where
  "history_update tid status result s =
     (Inr (), s\<lparr>download_history := update_download tid status result (download_history s)\<rparr>)"

definition handle_installation_result :: "dp_env \<Rightarrow> pir_data \<Rightarrow> bytes \<Rightarrow> (smdpp, fields option) comp" where
  "handle_installation_result env pird euiccSignPIR =
     (let tid = b2h (env_U env) (pird_transactionId pird) in
      bindS (rss_get env tid) (\<lambda>oss.
        (case oss of
           None \<Rightarrow> retS None
         | Some ss \<Rightarrow>
             bindS (liftS (enc_ProfileInstallationResultData (env_A env) pird)) (\<lambda>pird_bin.
             bindS (liftS (someR AttributeError (euicc_cert ss))) (\<lambda>euicc.
             bindS (liftS (ecdsa_verify env euicc euiccSignPIR pird_bin)) (\<lambda>sig_ok.
             if \<not> sig_ok then
               bindS (history_update tid ''failed'' (PStr ''Signature verification failed'')) (\<lambda>_.
                 raiseS GenericException)
             else
               (let result = final_result_value (pird_finalResult pird);
                    status = (if result = PStr ''success'' then ''success'' else ''failed'')
                in bindS (history_update tid status result) (\<lambda>_.
                   bindS (rss_del tid) (\<lambda>_. retS None)))))))))"

definition handle_other_notification :: "dp_env \<Rightarrow> other_signed_notification \<Rightarrow> (smdpp, fields option) comp" where
  "handle_other_notification env osn s =
     bindS (liftS (
       bindR (enc_Certificate (env_A env) (osn_euiccCertificate osn)) (\<lambda>euicc_bin.
       bindR (enc_Certificate (env_A env) (osn_eumCertificate osn)) (\<lambda>eum_bin.
       bindR (load_der_x509_certificate (env_X env) euicc_bin) (\<lambda>euicc.
       bindR (load_der_x509_certificate (env_X env) eum_bin) (\<lambda>eum.
       bindR (cert_get_auth_key_id eum) (\<lambda>ci_id.
       bindR (verify_euicc_chain env s ci_id eum euicc) (\<lambda>_.
       bindR (enc_NotificationMetadata (env_A env) (osn_tbsOtherNotification osn)) (\<lambda>tbs_bin.
       bindR (ecdsa_verify env euicc (osn_euiccNotificationSignature osn) tbs_bin) (\<lambda>sig_ok.
       if \<not> sig_ok then Inl GenericException else
       bindR (PMO_from_bitstring (nm_profileManagementOperation (osn_tbsOtherNotification osn))) (\<lambda>pmo.
       bindR (nthR (cert_subject_serials euicc) 0) (\<lambda>eid_s. Inr ())))))))))))) (\<lambda>_. retS None) s"

definition handleNotification :: "dp_env \<Rightarrow> content \<Rightarrow> (smdpp, fields option) comp" where
  "handleNotification env content =
     bindS (liftS (content_get content ''pendingNotification'')) (\<lambda>n64.
     bindS (liftS (b64decode n64)) (\<lambda>n_bin.
     bindS (liftS (dec_PendingNotification (env_A env) n_bin)) (\<lambda>n.
       (case n of
          ProfileInstallationResult pird sig \<Rightarrow> handle_installation_result env pird sig
        | OtherSignedNotification osn \<Rightarrow> handle_other_notification env osn))))"

text \<open>Verification of a cancellation against the session. The attribute \<open>oid\<close> of the extension value
  that \<open>get_subject_alt_name\<close> returns is the identifier of the extension type, a constant, and not
  the registered identifier inside it.\<close>

definition san_extension_oid :: string where
  "san_extension_oid = ''2.5.29.17''"

definition cancel_verify ::
  "dp_env \<Rightarrow> smdpp \<Rightarrow> string \<Rightarrow> rsp_session \<Rightarrow> euicc_cancel_session_signed \<Rightarrow> bytes \<Rightarrow> unit result" where
  "cancel_verify env s tid ss ecsr sig =
     bindR (enc_EuiccCancelSessionSigned (env_A env) ecsr) (\<lambda>ecsr_bin.
       (case euicc_cert ss of
          None \<Rightarrow> Inl (api_error ''8.10.1'' ''3.9'' ''Session not authenticated - cannot verify cancel signature'')
        | Some euicc \<Rightarrow>
            bindR (ecdsa_verify env euicc sig ecsr_bin) (\<lambda>sig_ok.
            if \<not> sig_ok then Inl (api_error ''8.1'' ''6.1'' ''eUICC signature is invalid'') else
            bindR (get_subject_alt_name (dp_auth s)) (\<lambda>san.
            if ecs_smdpOid ecsr \<noteq> san_extension_oid then Inl (api_error ''8.8'' ''3.10'' ''The provided SM-DP+ OID is invalid.'') else
            bindR (h2b (env_U env) tid) (\<lambda>tid_b.
            if ecs_transactionId ecsr \<noteq> tid_b
            then Inl (api_error ''8.10.1'' ''3.9'' ''The signed transactionId != outer transactionId'')
            else Inr ())))))"

definition cancelSession :: "dp_env \<Rightarrow> content \<Rightarrow> (smdpp, fields option) comp" where
  "cancelSession env content s =
     bindS (liftS (content_get content ''transactionId'')) (\<lambda>tid.
     bindS (rss_get env tid) (\<lambda>oss.
       (case oss of
          None \<Rightarrow> raiseS (api_error ''8.10.1'' ''3.9'' ''The RSP session identified by the transactionId is unknown'')
        | Some ss \<Rightarrow>
            bindS (liftS (content_get content ''cancelSessionResponse'')) (\<lambda>r64.
            bindS (liftS (b64decode r64)) (\<lambda>r_bin.
            bindS (liftS (dec_CancelSessionResponse (env_A env) r_bin)) (\<lambda>resp.
              (case resp of
                 CancelSessionResponseError \<Rightarrow> retS None
               | CancelSessionResponseOk ecsr sig \<Rightarrow>
                   bindS (liftS (cancel_verify env s tid ss ecsr sig)) (\<lambda>_.
                   bindS (rss_del tid) (\<lambda>_. retS (Some [(''transactionId'', tid)])))))))))) s"

end
