(* ===== verification/Smdpp_Http.thy ===== *)
theory Smdpp_Http
  imports Complex_Main Smdpp_Server
begin

text \<open>
  The outer layer of \<^verbatim>\<open>pysim/osmo-smdpp.py\<close>: construction of the server, the wrapper and the
  error handler every ES9+ function runs in, the operator's endpoints, and the step relation of the
  server as a whole. JSON replies are given as the values that are serialised. The rate of
  \<open>mno_get_stats\<close> is the exact rational number where Python rounds to a float.
\<close>

section \<open>Construction\<close>

text \<open>What the constructor reads: the files below a directory as \<open>os.walk\<close> lists them, file
  contents, the PEM loaders of package cryptography, the session database and the history file.\<close>

record init_env =
  walk_files :: "string \<Rightarrow> (string \<times> string) list"
  read_path :: "string \<Rightarrow> bytes result"
  load_pem_x509_certificate :: "bytes \<Rightarrow> certificate result"
  load_pem_private_key :: "bytes \<Rightarrow> bytes result"
  session_db :: "string \<Rightarrow> (string \<rightharpoonup> rsp_pickled)"
  stored_history :: "string \<Rightarrow> history_file"

definition DATA_DIR :: string where
  "DATA_DIR = ''./smdpp-data''"

fun load_certs :: "dp_env \<Rightarrow> init_env \<Rightarrow> (string \<times> string) list \<Rightarrow> certificate list result" where
  "load_certs env I [] = Inr []"
| "load_certs env I ((dirpath, filename) # fs) =
     bindR (if ends_with ''.der'' filename then
              bindR (read_path I (path_join dirpath filename)) (\<lambda>b.
              bindR (load_der_x509_certificate (env_X env) b) (\<lambda>c. Inr (Some c)))
            else if ends_with ''.pem'' filename then
              bindR (read_path I (path_join dirpath filename)) (\<lambda>b.
              bindR (load_pem_x509_certificate I b) (\<lambda>c. Inr (Some c)))
            else Inr None) (\<lambda>cert.
       (case cert of
          None \<Rightarrow> load_certs env I fs
        | Some c \<Rightarrow>
            if \<not> cert_policy_has_oid c id_rspRole_ci then Inl ValueError
            else bindR (load_certs env I fs) (\<lambda>cs. Inr (c # cs))))"

definition load_certs_from_path :: "dp_env \<Rightarrow> init_env \<Rightarrow> string \<Rightarrow> certificate list result" where
  "load_certs_from_path env I path = load_certs env I (walk_files I path)"

definition privkey_from_pem_file :: "init_env \<Rightarrow> string \<Rightarrow> cert_and_privkey \<Rightarrow> cert_and_privkey result" where
  "privkey_from_pem_file I path cp =
     bindR (read_path I path) (\<lambda>b. bindR (load_pem_private_key I b) (\<lambda>k. Inr (cp\<lparr>cp_priv_key := Some k\<rparr>)))"

text \<open>Certificate and key of one role, from the two files of the chosen curve.\<close>

definition load_role :: "dp_env \<Rightarrow> init_env \<Rightarrow> string \<Rightarrow> string \<Rightarrow> string \<Rightarrow> bool \<Rightarrow> cert_and_privkey result" where
  "load_role env I role_oid cert_dir role use_brainpool =
     (let dir = path_join cert_dir role;
          curve = (if use_brainpool then ''BRP'' else ''NIST'')
      in bindR (read_path I (path_join dir (''CERT_S_SM_'' @ role @ ''_ECDSA_'' @ curve @ ''.der''))) (\<lambda>b.
         bindR (cert_from_der_file (env_X env) b (CertAndPrivkey_init (Some role_oid) None None)) (\<lambda>cp.
           privkey_from_pem_file I (path_join dir (''SK_S_SM_'' @ role @ ''_ECDSA_'' @ curve @ ''.pem'')) cp)))"

definition SmDppHttpServer_init ::
  "dp_env \<Rightarrow> init_env \<Rightarrow> string \<Rightarrow> string \<Rightarrow> string \<Rightarrow> bool \<Rightarrow> bool \<Rightarrow> fs_files \<Rightarrow> smdpp result" where
  "SmDppHttpServer_init env I hostname ci_certs_path common_cert_path use_brainpool in_mem fs =
     bindR (realpath env (path_join DATA_DIR ''upp'')) (\<lambda>dir.
     bindR (load_certs_from_path env I ci_certs_path) (\<lambda>cis.
     bindR (load_role env I id_rspRole_dp_auth_v2 common_cert_path ''DPauth'' use_brainpool) (\<lambda>auth.
     bindR (load_role env I id_rspRole_dp_pb_v2 common_cert_path ''DPpb'' use_brainpool) (\<lambda>pb.
       let db_path = path_join DATA_DIR (''sm-dp-sessions-'' @ (if use_brainpool then ''BRP'' else ''NIST''))
       in bindR (if in_mem then RspSessionStore_init None True Map.empty
                 else RspSessionStore_init (Some db_path) False (session_db I db_path)) (\<lambda>store.
            Inr \<lparr>server_hostname = hostname, upp_dir = dir, ci_certs = cis, dp_auth = auth, dp_pb = pb,
                 rss = store,
                 download_history = DownloadHistoryStore_init (stored_history I (path_join DATA_DIR ''download_history.json'')),
                 upp_class_der = None, files = fs\<rparr>)))))"

section \<open>Requests and responses\<close>

record request =
  req_content_type :: "string option"
  req_admin_protocol :: "string option"
  req_body :: "content result"

datatype resp_body =
    EmptyBody
  | ApiBody fields resp_header
  | FailedBody resp_header

record http_response =
  resp_code :: nat
  resp_body :: resp_body

text \<open>\<open>rsp_api_wrapper\<close> around a handler, given the response code the handler sets, with the
  handler for \<open>ApiError\<close>. Any other exception leaves the wrapper.\<close>

definition rsp_api_wrapper ::
  "nat \<Rightarrow> (content \<Rightarrow> (smdpp, fields option) comp) \<Rightarrow> request \<Rightarrow> (smdpp, http_response) comp" where
  "rsp_api_wrapper code func request =
     bindS (liftS (validate_request_headers (req_content_type request) (req_admin_protocol request))) (\<lambda>_.
     bindS (liftS (req_body request)) (\<lambda>content.
     bindS (func content) (\<lambda>output.
       (case output of
          None \<Rightarrow> retS \<lparr>resp_code = code, resp_body = EmptyBody\<rparr>
        | Some fs \<Rightarrow> retS \<lparr>resp_code = code, resp_body = ApiBody fs (build_resp_header ''Executed-Success'' None)\<rparr>))))"

definition handle_apierror :: "(smdpp, http_response) comp \<Rightarrow> (smdpp, http_response) comp" where
  "handle_apierror m s =
     (case m s of
        (Inl (ApiError sc), s') \<Rightarrow>
          (Inr \<lparr>resp_code = 200, resp_body = FailedBody (build_resp_header ''Failed'' (Some sc))\<rparr>, s')
      | r \<Rightarrow> r)"

text \<open>The ES9+ functions, with the random values and the time of the call.\<close>

datatype es9_function =
    InitiateAuthentication string bytes
  | AuthenticateClient
  | GetBoundProfilePackage ec_private_key string
  | HandleNotification
  | CancelSession

fun es9_handler :: "dp_env \<Rightarrow> es9_function \<Rightarrow> content \<Rightarrow> (smdpp, fields option) comp" where
  "es9_handler env (InitiateAuthentication tid challenge) = initiateAutentication env tid challenge"
| "es9_handler env AuthenticateClient = authenticateClient env"
| "es9_handler env (GetBoundProfilePackage ot now) = getBoundProfilePackage env ot now"
| "es9_handler env HandleNotification = handleNotification env"
| "es9_handler env CancelSession = cancelSession env"

definition es9_serve :: "dp_env \<Rightarrow> es9_function \<Rightarrow> request \<Rightarrow> (smdpp, http_response) comp" where
  "es9_serve env f request =
     handle_apierror (rsp_api_wrapper (if f = HandleNotification then 204 else 200) (es9_handler env f) request)"

section \<open>The operator's endpoints\<close>

definition is_der_name :: "string \<Rightarrow> bool" where
  "is_der_name filename = ends_with ''.der'' filename"

definition mno_list_profiles :: "dp_env \<Rightarrow> (string \<Rightarrow> string) \<Rightarrow> smdpp \<Rightarrow> pyval result" where
  "mno_list_profiles env mtime s =
     bindR (listdir env (files s) (upp_dir s)) (\<lambda>names.
     bindR (mapR (\<lambda>filename.
         let path = path_join (upp_dir s) filename in
         bindR (realpath env path) (\<lambda>rp.
         bindR (someR OSError (files s rp)) (\<lambda>f.
           Inr (PDict [(''matching_id'', PStr (but_last_n 4 filename)),
             (''size'', PInt (int (length (file_bytes f)))), (''modified'', PStr (mtime path))]))))
       (filter is_der_name names)) (\<lambda>profiles. Inr (PList profiles)))"

definition mno_upload_profile :: "dp_env \<Rightarrow> string option \<Rightarrow> bytes \<Rightarrow> (smdpp, nat \<times> string) comp" where
  "mno_upload_profile env filename content s =
     (case filename of
        Some name \<Rightarrow>
          (if name = [] \<or> \<not> is_der_name name then (Inr (400, ''Invalid filename''), s)
           else let path = path_join (upp_dir s) name in
             (case realpath env path of
                Inl e \<Rightarrow> (Inl e, s)
              | Inr rp \<Rightarrow>
                  if writable env path
                  then (Inr (201, ''Profile uploaded''),
                        s\<lparr>files := (files s)(rp \<mapsto> \<lparr>file_bytes = content, file_readable = True\<rparr>)\<rparr>)
                  else (Inl OSError, s)))
      | None \<Rightarrow> (Inr (400, ''Invalid filename''), s))"

definition mno_delete_profile :: "dp_env \<Rightarrow> string \<Rightarrow> (smdpp, nat \<times> string) comp" where
  "mno_delete_profile env matching_id s =
     (let path = path_join (upp_dir s) (matching_id @ ''.der'') in
      (case realpath env path of
         Inl e \<Rightarrow> (Inr (404, ''Profile not found''), s)
       | Inr rp \<Rightarrow>
           if files s rp \<noteq> None then (Inr (200, ''Profile deleted''), s\<lparr>files := (files s)(rp := None)\<rparr>)
           else if isdir env path then (Inl OSError, s)
           else (Inr (404, ''Profile not found''), s)))"

text \<open>\<open>keys\<close> is the order in which the shelf lists its keys; no session has an attribute
  \<open>created_at\<close>, so every entry gets the time of the request.\<close>

definition mno_list_sessions :: "dp_env \<Rightarrow> string list \<Rightarrow> string \<Rightarrow> smdpp \<Rightarrow> pyval result" where
  "mno_list_sessions env keys now s =
     bindR (mapR (\<lambda>tid.
         bindR (store_get (env_X env) (rss s) tid) (\<lambda>oss.
           Inr (case oss of
               None \<Rightarrow> []
             | Some ss \<Rightarrow>
                 [PDict [(''transaction_id'', PStr tid),
                   (''eid'', PStr (case eid ss of Some (c # cs) \<Rightarrow> c # cs | _ \<Rightarrow> ''Pending authentication...'')),
                   (''matching_id'', PStr (case matchingId ss of Some (c # cs) \<Rightarrow> c # cs | _ \<Rightarrow> ''Not yet selected'')),
                   (''started_at'', PStr now)]]))) keys) (\<lambda>rows. Inr (PList (concat rows)))"

record mno_stats =
  total_profiles :: nat
  active_sessions :: nat
  total_downloads :: nat
  success_rate :: rat
  failed_count :: nat

definition count_status :: "string \<Rightarrow> download_record list \<Rightarrow> nat" where
  "count_status status rs = length (filter (\<lambda>r. dl_status r = status) rs)"

definition mno_get_stats :: "dp_env \<Rightarrow> string list \<Rightarrow> smdpp \<Rightarrow> mno_stats result" where
  "mno_get_stats env keys s =
     (let h = history (download_history s) in
      bindR (listdir env (files s) (upp_dir s)) (\<lambda>names.
        Inr \<lparr>total_profiles = length (filter is_der_name names), active_sessions = length keys,
             total_downloads = length h,
             success_rate = (if h = [] then 0 else of_nat (count_status ''success'' h) / of_nat (length h) * 100),
             failed_count = count_status ''failed'' h\<rparr>))"

section \<open>The server as a state machine\<close>

text \<open>One step is one request, answered or failed. A generated private key is not 0.\<close>

fun call_ok :: "es9_function \<Rightarrow> bool" where
  "call_ok (GetBoundProfilePackage ot now) = (ek_private_value ot \<noteq> 0)"
| "call_ok _ = True"

inductive smdpp_step :: "dp_env \<Rightarrow> smdpp \<Rightarrow> smdpp \<Rightarrow> bool" for env where
  es9: "call_ok f \<Longrightarrow> es9_serve env f request s = (r, s') \<Longrightarrow> smdpp_step env s s'"
| upload: "mno_upload_profile env filename body s = (r, s') \<Longrightarrow> smdpp_step env s s'"
| delete: "mno_delete_profile env matching_id s = (r, s') \<Longrightarrow> smdpp_step env s s'"

inductive smdpp_reachable :: "dp_env \<Rightarrow> smdpp \<Rightarrow> smdpp \<Rightarrow> bool" for env s0 where
  start: "smdpp_reachable env s0 s0"
| step: "smdpp_reachable env s0 s \<Longrightarrow> smdpp_step env s s' \<Longrightarrow> smdpp_reachable env s0 s'"

end
