(* ===== verification/Smdpp_Safety.thy ===== *)
theory Smdpp_Safety
  imports Smdpp_Http
begin

text \<open>
  Safety of the SM-DP+ server: what a successful ES9+ call implies, what it changes, and the
  invariant of all reachable states.
\<close>

section \<open>Outcomes of the handlers\<close>

text \<open>Each handler either leaves the server as it is or makes one known change; the lemmas below list
  the cases, with what has been checked before the change.\<close>

lemmas comp_splits = prod.splits sum.splits option.splits if_splits

lemma smdpp_update_id [simp]:
  "\<exists>dh. s = s\<lparr>download_history := dh\<rparr>"
  "\<exists>cls dh. s = s\<lparr>upp_class_der := cls, download_history := dh\<rparr>"
  by (rule exI [of _ "download_history s"], simp)
    (rule exI [of _ "upp_class_der s"], rule exI [of _ "download_history s"], simp)

lemma rss_set_cases:
  "rss_set env k v s = (r, s') \<Longrightarrow>
   (\<exists>e. r = Inl e \<and> s' = s) \<or>
   (\<exists>st. r = Inr () \<and> store_setitem (env_X env) (rss s) k v = Inr st \<and> s' = s\<lparr>rss := st\<rparr>)"
  by (auto simp: rss_set_def split: sum.splits)

lemma rss_del_cases:
  "rss_del k s = (r, s') \<Longrightarrow>
   (\<exists>e. r = Inl e \<and> s' = s) \<or> (\<exists>st. r = Inr () \<and> store_delitem (rss s) k = Inr st \<and> s' = s\<lparr>rss := st\<rparr>)"
  by (auto simp: rss_del_def split: sum.splits)

lemma initiate_cases:
  assumes "initiateAutentication env tid ch content s = (r, s')"
  shows "(\<exists>e. r = Inl e \<and> s' = s) \<or>
    (\<exists>ci ech out ski st. r = Inr (Some out) \<and> initiate_checks env content s = Inr (ci, ech) \<and>
       store_contains (rss s) tid = Inr False \<and> initiate_output env s tid ch ech = Inr out \<and>
       cert_get_subject_key_id ci = Inr ski \<and>
       store_setitem (env_X env) (rss s) tid (RspSessionState_init tid ch ski) = Inr st \<and> s' = s\<lparr>rss := st\<rparr>)"
proof (cases "initiate_checks env content s")
  case (Inl e)
  with assms show ?thesis by (auto simp: initiateAutentication_def)
next
  case (Inr x)
  obtain ci ech where x: "x = (ci, ech)" by fastforce
  note c = Inr [unfolded x]
  show ?thesis
  proof (cases "store_contains (rss s) tid = Inr False")
    case False
    then have "(\<exists>e. store_contains (rss s) tid = Inl e) \<or> store_contains (rss s) tid = Inr True"
      by (cases "store_contains (rss s) tid") auto
    with assms c show ?thesis by (auto simp: initiateAutentication_def bindS_def)
  next
    case True
    show ?thesis
    proof (cases "initiate_output env s tid ch ech")
      case (Inl e)
      with assms c True show ?thesis by (auto simp: initiateAutentication_def bindS_def)
    next
      case (Inr out)
      with assms c True show ?thesis
        by (cases "cert_get_subject_key_id ci")
          (auto simp: initiateAutentication_def bindS_def rss_set_def split: sum.splits)
    qed
  qed
qed

lemma authenticate_cases:
  assumes "authenticateClient env content s = (r, s')"
  shows "(\<exists>e. r = Inl e \<and> s' = s) \<or>
    (\<exists>tid r_ok sbin euicc eum ss eid_s mid iccid ss' md_bin s2_bin sig_do st.
       authenticate_decode env content = Inr (tid, r_ok, sbin, euicc, eum) \<and>
       store_get (env_X env) (rss s) tid = Inr (Some ss) \<and>
       authenticate_verify env s ss r_ok sbin euicc eum = Inr eid_s \<and>
       matching_profile env s (es1_ctxParams1 (aro_euiccSigned1 r_ok)) = Inr (mid, iccid) \<and>
       authenticate_finish env s (ss\<lparr>euicc_cert := Some euicc, eum_cert := Some eum, eid := Some eid_s\<rparr>)
         (aro_euiccSignature1 r_ok) mid iccid = Inr (ss', md_bin, s2_bin, sig_do) \<and>
       store_setitem (env_X env) (rss s) tid ss' = Inr st \<and> s' = s\<lparr>rss := st\<rparr> \<and>
       (r = Inl AttributeError \<and> cp_cert (dp_pb s) = None \<or>
        (\<exists>der. r = Inr (Some [(''transactionId'', tid), (''profileMetadata'', b64encode2str md_bin),
           (''smdpSigned2'', b64encode2str s2_bin), (''smdpSignature2'', b64encode2str sig_do),
           (''smdpCertificate'', b64encode2str der)]))))"
proof (cases "authenticate_decode env content")
  case (Inl e)
  with assms show ?thesis by (auto simp: authenticateClient_def)
next
  case (Inr x)
  obtain tid r_ok sbin euicc eum where x: "x = (tid, r_ok, sbin, euicc, eum)" by (cases x) auto
  show ?thesis
  proof (cases "store_get (env_X env) (rss s) tid")
    case (Inl e)
    with assms Inr x show ?thesis by (auto simp: authenticateClient_def bindS_def rss_get_def)
  next
    case (Inr oss)
    show ?thesis
    proof (cases oss)
      case None
      with assms \<open>authenticate_decode env content = Inr x\<close> x Inr show ?thesis
        by (auto simp: authenticateClient_def bindS_def rss_get_def)
    next
      case (Some ss)
      note d = \<open>authenticate_decode env content = Inr x\<close> [unfolded x] Inr [unfolded Some]
      from assms d show ?thesis
        by (cases "cp_cert (dp_pb s)")
          (auto simp: authenticateClient_def bindS_def rss_get_def rss_set_def get_cert_as_der_def
            split: prod.splits sum.splits)
    qed
  qed
qed

lemma cancel_cases:
  assumes "cancelSession env content s = (r, s')"
  shows "(\<exists>e. r = Inl e \<and> s' = s) \<or>
    (\<exists>tid ss r64 r_bin. content_get content ''transactionId'' = Inr tid \<and>
       store_get (env_X env) (rss s) tid = Inr (Some ss) \<and>
       content_get content ''cancelSessionResponse'' = Inr r64 \<and> b64decode r64 = Inr r_bin \<and>
       (dec_CancelSessionResponse (env_A env) r_bin = Inr CancelSessionResponseError \<and> r = Inr None \<and> s' = s \<or>
        (\<exists>ecsr sig st. dec_CancelSessionResponse (env_A env) r_bin = Inr (CancelSessionResponseOk ecsr sig) \<and>
           cancel_verify env s tid ss ecsr sig = Inr () \<and> store_delitem (rss s) tid = Inr st \<and>
           r = Inr (Some [(''transactionId'', tid)]) \<and> s' = s\<lparr>rss := st\<rparr>)))"
proof (cases "content_get content ''transactionId''")
  case (Inl e)
  with assms show ?thesis by (auto simp: cancelSession_def)
next
  case (Inr tid)
  note tid = Inr
  show ?thesis
  proof (cases "store_get (env_X env) (rss s) tid")
    case (Inl e)
    with assms tid show ?thesis by (auto simp: cancelSession_def bindS_def rss_get_def)
  next
    case (Inr oss)
    show ?thesis
    proof (cases oss)
      case None
      with assms tid Inr show ?thesis by (auto simp: cancelSession_def bindS_def rss_get_def)
    next
      case (Some ss)
      note g = tid Inr [unfolded Some]
      show ?thesis
      proof (cases "bindR (content_get content ''cancelSessionResponse'') b64decode")
        case (Inl e)
        with assms g show ?thesis
          by (auto simp: cancelSession_def bindS_def rss_get_def bindR_eq_Inl)
      next
        case (Inr r_bin)
        then obtain r64 where b: "content_get content ''cancelSessionResponse'' = Inr r64"
          "b64decode r64 = Inr r_bin"
          by auto
        show ?thesis
        proof (cases "dec_CancelSessionResponse (env_A env) r_bin")
          case (Inl e)
          with assms g b show ?thesis by (auto simp: cancelSession_def bindS_def rss_get_def)
        next
          case (Inr resp)
          with assms g b show ?thesis
            by (cases resp) (auto simp: cancelSession_def bindS_def rss_get_def rss_del_def split: sum.splits)
        qed
      qed
    qed
  qed
qed

lemma installation_result_cases:
  assumes "handle_installation_result env pird sig s = (r, s')"
  shows "(\<exists>dh. s' = s\<lparr>download_history := dh\<rparr>) \<or>
    (\<exists>ss euicc pird_bin st. let tid = b2h (env_U env) (pird_transactionId pird) in
       store_get (env_X env) (rss s) tid = Inr (Some ss) \<and> euicc_cert ss = Some euicc \<and>
       enc_ProfileInstallationResultData (env_A env) pird = Inr pird_bin \<and>
       ecdsa_verify env euicc sig pird_bin = Inr True \<and> store_delitem (rss s) tid = Inr st \<and>
       r = Inr None \<and>
       s' = s\<lparr>rss := st, download_history := update_download tid ''failed''
         (final_result_value (pird_finalResult pird)) (download_history s)\<rparr>)"
proof -
  have f: "final_result_value (pird_finalResult pird) \<noteq> PStr ''success''"
    by (simp add: final_result_value_def split: final_result.splits)
  show ?thesis
    using assms f
    by (auto simp: handle_installation_result_def bindS_def rss_get_def rss_del_def history_update_def Let_def
        split: prod.splits sum.splits option.splits if_splits)
qed

lemma other_notification_state:
  "handle_other_notification env osn s = (r, s') \<Longrightarrow> s' = s"
  by (auto simp: handle_other_notification_def bindS_def split: prod.splits sum.splits)

lemma notification_cases:
  assumes "handleNotification env content s = (r, s')"
  shows "(\<exists>dh. s' = s\<lparr>download_history := dh\<rparr>) \<or>
    (\<exists>(pird :: pir_data) ss st. let tid = b2h (env_U env) (pird_transactionId pird) in
       store_get (env_X env) (rss s) tid = Inr (Some ss) \<and> euicc_cert ss \<noteq> None \<and>
       store_delitem (rss s) tid = Inr st \<and> (\<exists>dh. s' = s\<lparr>rss := st, download_history := dh\<rparr>))"
proof -
  have "s' = s \<or> (\<exists>pird sig. handle_installation_result env pird sig s = (r, s')) \<or>
      (\<exists>osn. handle_other_notification env osn s = (r, s'))"
    using assms
    by (auto simp: handleNotification_def bindS_def split: prod.splits sum.splits pending_notification.splits)
  then consider "s' = s" | pird sig where "handle_installation_result env pird sig s = (r, s')"
    using other_notification_state by blast
  then show ?thesis
  proof cases
    case 1
    then show ?thesis by simp
  next
    case 2
    from installation_result_cases [OF 2, unfolded Let_def] show ?thesis
    proof (elim disjE exE conjE)
      fix dh
      assume "s' = s\<lparr>download_history := dh\<rparr>"
      then show ?thesis by blast
    next
      fix ss euicc st
      let ?tid = "b2h (env_U env) (pird_transactionId pird)"
      assume "store_get (env_X env) (rss s) ?tid = Inr (Some ss)" "euicc_cert ss = Some euicc"
        "store_delitem (rss s) ?tid = Inr st"
        "s' = s\<lparr>rss := st, download_history := update_download ?tid ''failed''
          (final_result_value (pird_finalResult pird)) (download_history s)\<rparr>"
      then show ?thesis
        by (intro disjI2 exI [of _ pird] exI [of _ ss] exI [of _ st]) (simp add: Let_def, blast)
    qed
  qed
qed

text \<open>What binding a profile does to the history: nothing, or one more record.\<close>

definition bpp_logged :: "history_store \<Rightarrow> history_store \<Rightarrow> bool" where
  "bpp_logged h dh \<longleftrightarrow> dh = h \<or> (\<exists>now tid e i m. dh = record_download now tid e i m ''bpp_sent'' h)"

lemma bpp_logged_refl [simp]: "bpp_logged h h"
  by (simp add: bpp_logged_def)

lemma smdpp_update_id_logged [simp]:
  "\<exists>cls dh. s = s\<lparr>upp_class_der := cls, download_history := dh\<rparr> \<and> bpp_logged (download_history s) dh"
  by (rule exI [of _ "upp_class_der s"], rule exI [of _ "download_history s"]) simp

lemma get_bpp_cases:
  assumes "getBoundProfilePackage env ot now content s = (r, s')"
  shows "(\<exists>cls dh. s' = s\<lparr>upp_class_der := cls, download_history := dh\<rparr> \<and> bpp_logged (download_history s) dh \<and>
        (\<exists>e. r = Inl e)) \<or>
    (\<exists>tid ss otpk ss' st cls dh. content_get content ''transactionId'' = Inr tid \<and>
       store_get (env_X env) (rss s) tid = Inr (Some ss) \<and> prepare_verify env content tid ss = Inr otpk \<and>
       session_keys env s ot ss otpk = Inr ss' \<and> store_setitem (env_X env) (rss s) tid ss' = Inr st \<and>
       bpp_logged (download_history s) dh \<and>
       s' = s\<lparr>rss := st, upp_class_der := cls, download_history := dh\<rparr>)"
proof -
  show ?thesis
  proof (cases "content_get content ''transactionId''")
    case (Inl e)
    with assms show ?thesis by (auto simp: getBoundProfilePackage_def bindS_def)
  next
    case (Inr tid)
    note tid = Inr
    show ?thesis
    proof (cases "store_get (env_X env) (rss s) tid")
      case (Inl e)
      with assms tid show ?thesis by (auto simp: getBoundProfilePackage_def bindS_def rss_get_def)
    next
      case (Inr oss)
      show ?thesis
      proof (cases oss)
        case None
        with assms tid Inr show ?thesis by (auto simp: getBoundProfilePackage_def bindS_def rss_get_def)
      next
        case (Some ss)
        note g = tid Inr [unfolded Some]
        show ?thesis
        proof (cases "bindR (prepare_verify env content tid ss) (session_keys env s ot ss)")
          case (Inl e)
          with assms g show ?thesis
            by (auto simp: getBoundProfilePackage_def bindS_def rss_get_def bindR_def split: sum.splits)
        next
          case (Inr ss')
          then obtain otpk where p: "prepare_verify env content tid ss = Inr otpk"
            "session_keys env s ot ss otpk = Inr ss'" by auto
          have "\<exists>cls dh. bpp_logged (download_history s) dh \<and>
              ((\<exists>e. r = Inl e) \<and> s' = s\<lparr>upp_class_der := cls, download_history := dh\<rparr> \<or>
              (\<exists>st. store_setitem (env_X env) (rss s) tid ss' = Inr st \<and>
                 s' = s\<lparr>rss := st, upp_class_der := cls, download_history := dh\<rparr>))"
          proof (cases "load_upp env ss' s")
            case (Pair lr s1)
            show ?thesis
            proof (cases lr)
              case (Inl e)
              with Pair have "s1 = s" by (auto simp: load_upp_def bindS_def UPP_from_der_def split: prod.splits sum.splits)
              with Pair Inl assms g p have "r = Inl e" "s' = s"
                by (auto simp: getBoundProfilePackage_def bindS_def rss_get_def)
              then show ?thesis
                by (intro exI [of _ "upp_class_der s"] exI [of _ "download_history s"]) simp
            next
              case (Inr up)
              with Pair obtain cls where s1: "s1 = s\<lparr>upp_class_der := cls\<rparr>"
                by (auto simp: load_upp_def bindS_def UPP_from_der_def split: prod.splits sum.splits)
              define dh where "dh = download_history (snd (log_download env now tid ss' s1))"
              have l: "log_download env now tid ss' s1 = (Inr (), s\<lparr>upp_class_der := cls, download_history := dh\<rparr>)"
                by (simp add: dh_def log_download_def Let_def s1)
              have lg: "bpp_logged (download_history s) dh"
                unfolding bpp_logged_def dh_def log_download_def Let_def s1 by (rule disjI2) (simp, blast)
              let ?s2 = "s\<lparr>upp_class_der := cls, download_history := dh\<rparr>"
              note h = assms [unfolded getBoundProfilePackage_def] g p Pair [unfolded Inr] l
              show ?thesis
              proof (cases "bind_profile env ?s2 up")
                case (Inl e)
                with h have "r = Inl e" "s' = ?s2" by (simp_all add: bindS_def rss_get_def)
                with lg show ?thesis by blast
              next
                case (Inr b)
                note b = Inr
                show ?thesis
                proof (cases "store_setitem (env_X env) (rss s) tid ss'")
                  case (Inl e)
                  with h b have "r = Inl e" "s' = ?s2" by (simp_all add: bindS_def rss_get_def rss_set_def)
                  with lg show ?thesis by blast
                next
                  case (Inr st)
                  obtain enc where enc: "BPP_encode (env_C env) (env_T env) (env_A env) (env_X env) (env_U env)
                     (upp_class_der (?s2\<lparr>rss := st\<rparr>)) b ss' (dp_pb (?s2\<lparr>rss := st\<rparr>)) = enc" by blast
                  have "s' = ?s2\<lparr>rss := st\<rparr>"
                    using h b Inr enc
                    by (cases enc) (auto simp: bindS_def rss_get_def rss_set_def split: prod.splits)
                  with Inr show ?thesis
                    using lg by (intro exI [of _ cls] exI [of _ dh] conjI disjI2 exI [of _ st]) simp_all
                qed
              qed
            qed
          qed
          with g p show ?thesis by blast
        qed
      qed
    qed
  qed
qed

section \<open>The invariant\<close>

definition unauthenticated :: "rsp_session \<Rightarrow> bool" where
  "unauthenticated ss \<longleftrightarrow> euicc_cert ss = None \<and> eum_cert ss = None \<and> eid ss = None \<and> matchingId ss = None \<and>
     profileMetadata ss = None \<and> smdpSignature2_do ss = None \<and> shared_secret ss = None"

text \<open>The eUICC certificate leads over the EUM certificate to the CI of the session, and the EID in
  its subject is in the EUM's range.\<close>

definition euicc_trusted :: "dp_env \<Rightarrow> smdpp \<Rightarrow> bytes \<Rightarrow> certificate \<Rightarrow> certificate \<Rightarrow> string \<Rightarrow> bool" where
  "euicc_trusted env s ci_id euicc eum eid_s \<longleftrightarrow>
     cert_get_auth_key_id eum = Inr ci_id \<and> verify_euicc_chain env s ci_id eum euicc = Inr () \<and>
     (\<exists>rest. cert_subject_serials euicc = eid_s # rest) \<and> validate_eid_range (dec_eins env) eid_s eum"

definition authenticated :: "dp_env \<Rightarrow> smdpp \<Rightarrow> rsp_session \<Rightarrow> bool" where
  "authenticated env s ss \<longleftrightarrow>
     (\<exists>euicc eum eid_s. euicc_cert ss = Some euicc \<and> eum_cert ss = Some eum \<and> eid ss = Some eid_s \<and>
        euicc_trusted env s (ci_cert_id ss) euicc eum eid_s) \<and>
     matchingId ss \<noteq> None \<and> profileMetadata ss \<noteq> None \<and> smdpSignature2_do ss \<noteq> None"

definition server_inv :: "dp_env \<Rightarrow> smdpp \<Rightarrow> bool" where
  "server_inv env s \<longleftrightarrow> store_inv (env_X env) (rss s) \<and>
     (\<forall>k ss. store_map (env_X env) (rss s) k = Some ss \<longrightarrow>
        transactionId ss = k \<and> (unauthenticated ss \<or> authenticated env s ss))"

lemma authenticated_config: "ci_certs s' = ci_certs s \<Longrightarrow> authenticated env s' ss = authenticated env s ss"
  by (simp add: authenticated_def euicc_trusted_def verify_euicc_chain_def ci_get_cert_for_pkid_def)

lemma inv_get:
  assumes "server_inv env s" "store_get (env_X env) (rss s) k = Inr (Some ss)"
  shows "store_map (env_X env) (rss s) k = Some ss" "session_ok (env_X env) ss" "transactionId ss = k"
    "unauthenticated ss \<or> authenticated env s ss"
proof -
  have st: "store_inv (env_X env) (rss s)" using assms(1) by (simp add: server_inv_def)
  show m: "store_map (env_X env) (rss s) k = Some ss" using rss.get_abs [OF st, of k] assms(2) by simp
  show "session_ok (env_X env) ss" by (rule rss.abs_ok [OF st m])
  show "transactionId ss = k" "unauthenticated ss \<or> authenticated env s ss"
    using assms(1) m by (auto simp: server_inv_def)
qed

lemma inv_set:
  assumes "server_inv env s" "store_setitem (env_X env) (rss s) k v = Inr st" "session_ok (env_X env) v"
    and "transactionId v = k" "unauthenticated v \<or> authenticated env s v"
    and "rss s' = st" "ci_certs s' = ci_certs s"
  shows "server_inv env s'" "store_map (env_X env) (rss s') = (store_map (env_X env) (rss s))(k \<mapsto> v)"
proof -
  have "store_inv (env_X env) (rss s)" using assms(1) by (simp add: server_inv_def)
  from rss.set_refines [OF this assms(3), of k] assms(2,6)
  have st: "store_inv (env_X env) (rss s')"
    and m: "store_map (env_X env) (rss s') = (store_map (env_X env) (rss s))(k \<mapsto> v)"
    by auto
  then show "store_map (env_X env) (rss s') = (store_map (env_X env) (rss s))(k \<mapsto> v)" by simp
  show "server_inv env s'"
    using assms st m authenticated_config [OF assms(7)] by (auto simp: server_inv_def)
qed

lemma inv_del:
  assumes "server_inv env s" "store_delitem (rss s) k = Inr st" "rss s' = st" "ci_certs s' = ci_certs s"
  shows "server_inv env s'" "store_map (env_X env) (rss s') = (store_map (env_X env) (rss s))(k := None)"
proof -
  have i: "store_inv (env_X env) (rss s)" using assms(1) by (simp add: server_inv_def)
  from rss.del_refines [OF i, of k] assms(2,3)
  have st: "store_inv (env_X env) (rss s')"
    and m: "store_map (env_X env) (rss s') = (store_map (env_X env) (rss s))(k := None)"
    by (auto split: option.splits)
  then show "store_map (env_X env) (rss s') = (store_map (env_X env) (rss s))(k := None)" by simp
  show "server_inv env s'"
    using assms st m authenticated_config [OF assms(4)] by (auto simp: server_inv_def)
qed

lemma inv_same_store:
  "server_inv env s \<Longrightarrow> rss s' = rss s \<Longrightarrow> ci_certs s' = ci_certs s \<Longrightarrow> server_inv env s'"
  using authenticated_config [of s' s env] by (simp add: server_inv_def)

text \<open>What the parts of \<open>authenticateClient\<close> establish.\<close>

lemma authenticate_decode_loads:
  "authenticate_decode env content = Inr (tid, r_ok, sbin, euicc, eum) \<Longrightarrow>
   \<exists>b b'. load_der_x509_certificate (env_X env) b = Inr euicc \<and> load_der_x509_certificate (env_X env) b' = Inr eum \<and>
     content_get content ''transactionId'' = Inr tid"
  unfolding authenticate_decode_def bindR_eq_Inr
  by (elim exE conjE, rename_tac tid' r64 bin resp, case_tac resp) auto

lemma authenticate_verify_facts:
  assumes "authenticate_verify env s ss r_ok sbin euicc eum = Inr eid_s"
  shows "euicc_trusted env s (ci_cert_id ss) euicc eum eid_s"
    "ecdsa_verify env euicc (aro_euiccSignature1 r_ok) sbin = Inr True"
    "es1_serverChallenge (aro_euiccSigned1 r_ok) = serverChallenge ss"
proof -
  have c: "catchR m (\<lambda>e. if e = VerifyError then Inl a else Inl e) = Inr y \<longleftrightarrow> m = Inr y" for m a and y :: unit
    by (cases m) auto
  have n: "nthR xs 0 = Inr x \<longleftrightarrow> (\<exists>rest. xs = x # rest)" for xs and x :: string
    by (cases xs) (auto simp: nthR_def)
  show "euicc_trusted env s (ci_cert_id ss) euicc eum eid_s"
    "ecdsa_verify env euicc (aro_euiccSignature1 r_ok) sbin = Inr True"
    "es1_serverChallenge (aro_euiccSigned1 r_ok) = serverChallenge ss"
    using assms by (auto simp: authenticate_verify_def euicc_trusted_def c n split: if_splits)
qed

lemma authenticate_finish_session:
  assumes "authenticate_finish env s ss sig mid iccid = Inr (ss', md_bin, s2_bin, sig_do)"
  shows "\<exists>md. ss' = ss\<lparr>matchingId := Some mid, profileMetadata := Some md, smdpSignature2_do := Some sig_do\<rparr> \<and>
    gen_store_metadata_request (env_A env) md = Inr md_bin"
  using assms by (auto simp: authenticate_finish_def Let_def)

lemma authenticated_after_finish:
  assumes "authenticate_verify env s ss r_ok sbin euicc eum = Inr eid_s"
    and "authenticate_finish env s (ss\<lparr>euicc_cert := Some euicc, eum_cert := Some eum, eid := Some eid_s\<rparr>)
       sig mid iccid = Inr (ss', md_bin, s2_bin, sig_do)"
  shows "authenticated env s ss'" "transactionId ss' = transactionId ss" "ci_cert_id ss' = ci_cert_id ss"
    "serverChallenge ss' = serverChallenge ss" "euicc_cert ss' = Some euicc" "eum_cert ss' = Some eum"
    "eid ss' = Some eid_s" "smdp_ot ss' = smdp_ot ss" "matchingId ss' = Some mid"
  using authenticate_verify_facts(1) [OF assms(1)] authenticate_finish_session [OF assms(2)]
  by (auto simp: authenticated_def)

lemma session_keys_session:
  assumes "session_keys env s ot ss otpk = Inr ss'"
  shows "\<exists>secret. ss' = ss\<lparr>euicc_otpk := Some otpk, smdp_ot := Some ot,
      smdp_otpk := Some (ec_public_point (env_E env) ot), host_id := Some host_id_const, shared_secret := Some secret\<rparr> \<and>
    ec_exchange (env_E env) ot otpk = Inr secret"
  using assms by (auto simp: session_keys_def)

lemma prepare_verify_facts:
  assumes "prepare_verify env content tid ss = Inr otpk"
  shows "\<exists>r64 resp_bin s2 sig s2_bin sig_do euicc. content_get content ''prepareDownloadResponse'' = Inr r64 \<and>
    b64decode r64 = Inr resp_bin \<and> dec_PrepareDownloadResponse (env_A env) resp_bin = Inr (DownloadResponseOk s2 sig) \<and>
    extract_euiccSigned2 (env_T env) resp_bin = Inr s2_bin \<and> smdpSignature2_do ss = Some sig_do \<and>
    euicc_cert ss = Some euicc \<and> ecdsa_verify env euicc sig (s2_bin @ sig_do) = Inr True \<and>
    h2b (env_U env) tid = Inr (es2_transactionId s2) \<and> otpk = es2_euiccOtpk s2"
  using assms unfolding prepare_verify_def bindR_eq_Inr
  by (elim exE conjE, rename_tac r64 bin resp, case_tac resp) (auto split: if_splits)

section \<open>Preservation\<close>

lemma initiate_inv:
  assumes "server_inv env s" "initiateAutentication env tid ch content s = (r, s')"
  shows "server_inv env s'"
  using initiate_cases [OF assms(2)]
proof (elim disjE exE conjE)
  fix ci ech out ski st
  assume "store_setitem (env_X env) (rss s) tid (RspSessionState_init tid ch ski) = Inr st" "s' = s\<lparr>rss := st\<rparr>"
  then show ?thesis
    using inv_set(1) [OF assms(1), of tid "RspSessionState_init tid ch ski" st s']
    by (simp add: RspSessionState_init_def unauthenticated_def session_ok_init [unfolded RspSessionState_init_def])
qed (use assms(1) in simp)

lemma authenticate_inv:
  assumes "server_inv env s" "der_laws (env_X env)" "authenticateClient env content s = (r, s')"
  shows "server_inv env s'"
  using authenticate_cases [OF assms(3)]
proof (rule disjE)
  assume "\<exists>e. r = Inl e \<and> s' = s"
  with assms(1) show ?thesis by blast
next
  assume "\<exists>tid r_ok sbin euicc eum ss eid_s mid iccid ss' md_bin s2_bin sig_do st.
       authenticate_decode env content = Inr (tid, r_ok, sbin, euicc, eum) \<and>
       store_get (env_X env) (rss s) tid = Inr (Some ss) \<and>
       authenticate_verify env s ss r_ok sbin euicc eum = Inr eid_s \<and>
       matching_profile env s (es1_ctxParams1 (aro_euiccSigned1 r_ok)) = Inr (mid, iccid) \<and>
       authenticate_finish env s (ss\<lparr>euicc_cert := Some euicc, eum_cert := Some eum, eid := Some eid_s\<rparr>)
         (aro_euiccSignature1 r_ok) mid iccid = Inr (ss', md_bin, s2_bin, sig_do) \<and>
       store_setitem (env_X env) (rss s) tid ss' = Inr st \<and> s' = s\<lparr>rss := st\<rparr> \<and>
       (r = Inl AttributeError \<and> cp_cert (dp_pb s) = None \<or>
        (\<exists>der. r = Inr (Some [(''transactionId'', tid), (''profileMetadata'', b64encode2str md_bin),
           (''smdpSigned2'', b64encode2str s2_bin), (''smdpSignature2'', b64encode2str sig_do),
           (''smdpCertificate'', b64encode2str der)])))"
  then obtain tid r_ok sbin euicc eum ss eid_s mid iccid ss' md_bin s2_bin sig_do st where
    a: "authenticate_decode env content = Inr (tid, r_ok, sbin, euicc, eum)"
      "store_get (env_X env) (rss s) tid = Inr (Some ss)"
      "authenticate_verify env s ss r_ok sbin euicc eum = Inr eid_s"
      "authenticate_finish env s (ss\<lparr>euicc_cert := Some euicc, eum_cert := Some eum, eid := Some eid_s\<rparr>)
         (aro_euiccSignature1 r_ok) mid iccid = Inr (ss', md_bin, s2_bin, sig_do)"
      "store_setitem (env_X env) (rss s) tid ss' = Inr st" "s' = s\<lparr>rss := st\<rparr>"
    by blast
  note g = inv_get [OF assms(1) a(2)] and f = authenticated_after_finish [OF a(3,4)]
  have "session_ok (env_X env) ss'"
    using g(2) f authenticate_decode_loads [OF a(1)] assms(2) unfolding der_laws_def session_ok_def cert_storable_def
    by auto
  with g f a(5,6) show ?thesis using inv_set(1) [OF assms(1) a(5), of s'] by simp
qed

lemma get_bpp_inv:
  assumes "server_inv env s" "ek_private_value ot \<noteq> 0" "getBoundProfilePackage env ot now content s = (r, s')"
  shows "server_inv env s'"
  using get_bpp_cases [OF assms(3)]
proof (elim disjE exE conjE)
  fix cls dh
  assume "s' = s\<lparr>upp_class_der := cls, download_history := dh\<rparr>"
  then show ?thesis using inv_same_store [OF assms(1), of s'] by simp
next
  fix tid ss otpk ss' st cls dh
  assume a: "store_get (env_X env) (rss s) tid = Inr (Some ss)" "prepare_verify env content tid ss = Inr otpk"
    "session_keys env s ot ss otpk = Inr ss'" "store_setitem (env_X env) (rss s) tid ss' = Inr st"
    "s' = s\<lparr>rss := st, upp_class_der := cls, download_history := dh\<rparr>"
  note g = inv_get [OF assms(1) a(1)]
  have "authenticated env s ss"
    using g(4) prepare_verify_facts [OF a(2)] by (auto simp: unauthenticated_def)
  then have "authenticated env s ss'" "session_ok (env_X env) ss'" "transactionId ss' = tid"
    using session_keys_session [OF a(3)] g assms(2) by (auto simp: authenticated_def session_ok_def)
  with a show ?thesis using inv_set(1) [OF assms(1) a(4), of s'] by simp
qed

lemma cancel_inv:
  assumes "server_inv env s" "cancelSession env content s = (r, s')"
  shows "server_inv env s'"
  using cancel_cases [OF assms(2)] inv_del(1) [OF assms(1), of _ _ s'] assms(1) by fastforce

lemma notification_inv:
  assumes "server_inv env s" "handleNotification env content s = (r, s')"
  shows "server_inv env s'"
  using notification_cases [OF assms(2), unfolded Let_def] inv_del(1) [OF assms(1), of _ _ s']
    inv_same_store [OF assms(1), of s']
  by fastforce

lemma es9_handler_inv:
  assumes "server_inv env s" "der_laws (env_X env)" "call_ok f" "es9_handler env f content s = (r, s')"
  shows "server_inv env s'"
proof (cases f)
  case (InitiateAuthentication tid ch)
  with assms(4) initiate_inv [OF assms(1)] show ?thesis by simp
next
  case AuthenticateClient
  with assms(4) authenticate_inv [OF assms(1,2)] show ?thesis by simp
next
  case (GetBoundProfilePackage ot now)
  with assms(3,4) get_bpp_inv [OF assms(1), of ot] show ?thesis by simp
next
  case HandleNotification
  with assms(4) notification_inv [OF assms(1)] show ?thesis by simp
next
  case CancelSession
  with assms(4) cancel_inv [OF assms(1)] show ?thesis by simp
qed

lemma wrapper_state:
  assumes "rsp_api_wrapper code func request s = (r, s')"
  shows "s' = s \<or> (\<exists>content r'. req_body request = Inr content \<and> func content s = (r', s'))"
proof (cases "validate_request_headers (req_content_type request) (req_admin_protocol request)")
  case (Inl e)
  with assms show ?thesis by (simp add: rsp_api_wrapper_def)
next
  case (Inr u)
  note v = Inr
  show ?thesis
  proof (cases "req_body request")
    case (Inl e)
    with assms v show ?thesis by (simp add: rsp_api_wrapper_def bindS_def)
  next
    case (Inr content)
    obtain r0 s0 where f: "func content s = (r0, s0)" by fastforce
    have "s' = s0"
      using assms v Inr f
      by (cases r0) (auto simp: rsp_api_wrapper_def bindS_def split: option.splits)
    with Inr f show ?thesis by blast
  qed
qed

lemma handle_apierror_state: "snd (handle_apierror m s) = snd (m s)"
  by (auto simp: handle_apierror_def split: prod.splits sum.splits py_error.splits)

lemma es9_serve_inv:
  assumes "server_inv env s" "der_laws (env_X env)" "call_ok f" "es9_serve env f request s = (r, s')"
  shows "server_inv env s'"
proof -
  let ?m = "rsp_api_wrapper (if f = HandleNotification then 204 else 200) (es9_handler env f) request"
  obtain r0 where "?m s = (r0, s')"
    using assms(4) handle_apierror_state [of ?m s] by (cases "?m s") (simp add: es9_serve_def)
  from wrapper_state [OF this] show ?thesis using assms es9_handler_inv by blast
qed

lemma smdpp_step_inv:
  assumes "smdpp_step env s s'" "server_inv env s" "der_laws (env_X env)"
  shows "server_inv env s'"
  using assms(1)
proof cases
  case (es9 f request r)
  with es9_serve_inv [OF assms(2,3)] show ?thesis by blast
next
  case (upload filename body r)
  then have "rss s' = rss s" "ci_certs s' = ci_certs s"
    by (auto simp: mno_upload_profile_def Let_def split: option.splits sum.splits if_splits)
  then show ?thesis by (rule inv_same_store [OF assms(2)])
next
  case (delete matching_id r)
  then have "rss s' = rss s" "ci_certs s' = ci_certs s"
    by (auto simp: mno_delete_profile_def Let_def split: option.splits sum.splits if_splits)
  then show ?thesis by (rule inv_same_store [OF assms(2)])
qed

lemma reachable_inv:
  assumes "smdpp_reachable env s0 s" "server_inv env s0" "der_laws (env_X env)"
  shows "server_inv env s"
  using assms(1) by (induction rule: smdpp_reachable.induct) (use assms smdpp_step_inv in blast)+

end
