(* ===== verification/Smdpp_Demo.thy ===== *)
theory Smdpp_Demo
  imports Smdpp_Safety
begin

text \<open>
  A concrete environment and server for the witnesses of the server's properties: packages that keep
  the laws the theorems assume, one CI, one EUM, one eUICC, one profile. It stands for no code.
\<close>

section \<open>Hexadecimal helpers\<close>

definition hex_digit :: "nat \<Rightarrow> char" where
  "hex_digit n = ''0123456789abcdef'' ! n"

definition hex_value :: "char \<Rightarrow> nat option" where
  "hex_value c = (let i = length (takeWhile (\<lambda>x. x \<noteq> lower_char c) ''0123456789abcdef'')
     in if i < 16 then Some i else None)"

definition demo_b2h :: "bytes \<Rightarrow> string" where
  "demo_b2h bs = concat (map (\<lambda>b. [hex_digit (unat b div 16), hex_digit (unat b mod 16)]) bs)"

fun demo_h2b :: "string \<Rightarrow> bytes result" where
  "demo_h2b [] = Inr []"
| "demo_h2b [c] = Inl ValueError"
| "demo_h2b (c # d # r) =
     (case (hex_value c, hex_value d) of
        (Some x, Some y) \<Rightarrow> bindR (demo_h2b r) (\<lambda>bs. Inr (of_nat (16 * x + y) # bs))
      | _ \<Rightarrow> Inl ValueError)"

fun demo_swap :: "string \<Rightarrow> string" where
  "demo_swap (c # d # r) = d # c # demo_swap r"
| "demo_swap s = s"

definition demo_hex :: osmo_utils where
  "demo_hex = \<lparr>h2b = demo_h2b, b2h = demo_b2h, swap_nibbles = demo_swap\<rparr>"

section \<open>Certificates\<close>

definition demo_certificate :: "extension_value list \<Rightarrow> string list \<Rightarrow> bytes \<Rightarrow> certificate" where
  "demo_certificate vs serials tbs =
     \<lparr>cert_public_key = [], cert_extensions = map (\<lambda>v. \<lparr>ext_oid =
        (case v of UnrecognizedExtension _ \<Rightarrow> ''2.23.146.1.2.2.0'' | _ \<Rightarrow> []), ext_value = v\<rparr>) vs,
      cert_signature = [], cert_tbs = tbs, cert_subject_serials = serials\<rparr>"

definition demo_eid :: string where
  "demo_eid = ''89049032000000000000000000000001''"

definition demo_ci :: certificate where
  "demo_ci = demo_certificate [SubjectKeyIdentifier [7], CertificatePolicies [id_rspRole_ci], KeyUsage True True] [] [1]"

definition demo_eum :: certificate where
  "demo_eum = demo_certificate [AuthorityKeyIdentifier [7], SubjectKeyIdentifier [8], KeyUsage True False,
     UnrecognizedExtension [1]] [] [2]"

definition demo_euicc :: certificate where
  "demo_euicc = demo_certificate [AuthorityKeyIdentifier [8], SubjectKeyIdentifier [9]] [demo_eid] [3]"

definition demo_dp :: certificate where
  "demo_dp = demo_certificate [AuthorityKeyIdentifier [7], SubjectKeyIdentifier [6],
     SubjectAlternativeName ''2.999.10''] [] [4]"

text \<open>Every signature is accepted; certificates are known by the byte they are signed over.\<close>

definition demo_X :: x509_lib where
  "demo_X = \<lparr>pk_verify = (\<lambda>pk sig data. True), sk_sign = (\<lambda>sk data. []),
     encode_dss_signature = (\<lambda>r s. []), decode_dss_signature = (\<lambda>b. (0, 0)),
     load_der_x509_certificate = (\<lambda>b. if b = [1] then Inr demo_ci else if b = [2] then Inr demo_eum
       else if b = [3] then Inr demo_euicc else if b = [4] then Inr demo_dp else Inl ValueError),
     cert_public_bytes = cert_tbs\<rparr>"

lemma demo_X_der_laws: "der_laws demo_X"
  by (auto simp: der_laws_def demo_X_def demo_ci_def demo_eum_def demo_euicc_def demo_dp_def
      demo_certificate_def split: if_splits)

section \<open>Environment\<close>

definition demo_response_ok :: authenticate_response_ok where
  "demo_response_ok = \<lparr>aro_euiccSigned1 = \<lparr>es1_serverChallenge = [5],
      es1_ctxParams1 = CtxParamsForCommonAuthentication (Some ''P'')\<rparr>,
     aro_euiccSignature1 = replicate 64 0, aro_euiccCertificate = AsnCertificate [3],
     aro_eumCertificate = AsnCertificate [2]\<rparr>"

definition demo_A :: asn1_lib where
  "demo_A = \<lparr>
     enc_StoreMetadataRequest = (\<lambda>x. Inr [5]), dec_StoreMetadataRequest = (\<lambda>b. Inl ValueError),
     enc_ReplaceSessionKeysRequest = (\<lambda>x. Inr [6]), dec_ReplaceSessionKeysRequest = (\<lambda>b. Inl ValueError),
     enc_ConfigureISDPRequest = Inr [7], dec_ConfigureISDPRequest = (\<lambda>b. Inr ()),
     enc_InitialiseSecureChannelRequest = (\<lambda>x. Inr [8]), dec_InitialiseSecureChannelRequest = (\<lambda>b. Inl ValueError),
     dec_EUICCInfo1 = (\<lambda>b. Inr \<lparr>euiccCiPKIdListForSigning = [[2], [7]], euiccCiPKIdListForSigningV3 = None,
        euiccCiPKIdListForVerification = Some [[7]]\<rparr>),
     enc_ServerSigned1 = (\<lambda>x. Inr (ss1_serverChallenge x)),
     enc_SmdpSigned2 = (\<lambda>x. Inr (sd2_transactionId x)),
     dec_AuthenticateServerResponse = (\<lambda>b. Inr (AuthenticateResponseOk demo_response_ok)),
     dec_PrepareDownloadResponse = (\<lambda>b. Inr (DownloadResponseOk \<lparr>es2_transactionId = [0xAB], es2_euiccOtpk = [1]\<rparr> (replicate 64 0))),
     dec_PendingNotification = (\<lambda>b. Inr (ProfileInstallationResult
        \<lparr>pird_transactionId = [0xAB], pird_finalResult = SuccessResult [1] [2]\<rparr> (replicate 64 0))),
     enc_ProfileInstallationResultData = (\<lambda>x. Inr []), enc_NotificationMetadata = (\<lambda>x. Inr []),
     dec_CancelSessionResponse = (\<lambda>b. Inr (CancelSessionResponseOk
        \<lparr>ecs_transactionId = [0xAB], ecs_smdpOid = ''2.999.10''\<rparr> (replicate 64 0))),
     enc_EuiccCancelSessionSigned = (\<lambda>x. Inr []),
     enc_Certificate = (\<lambda>c. case c of AsnCertificate b \<Rightarrow> Inr b)\<rparr>"

definition demo_env :: dp_env where
  "demo_env = \<lparr>env_C = demo_crypto, env_T = demo_tlv, env_A = demo_A, env_X = demo_X, env_U = demo_hex,
     env_E = demo_ec, env_P = demo_pe_lib, dec_eins = (\<lambda>b. Inr [''89049032'']),
     realpath = (\<lambda>p. Inr p), isdir = (\<lambda>p. False), writable = (\<lambda>p. True), listdir = (\<lambda>fs p. Inr [])\<rparr>"

definition demo_server :: smdpp where
  "demo_server = \<lparr>server_hostname = ''smdpp.test'', upp_dir = ''/upp'', ci_certs = [demo_ci],
     dp_auth = CertAndPrivkey_init None (Some demo_dp) (Some [1]),
     dp_pb = CertAndPrivkey_init None (Some demo_dp) (Some [1]),
     rss = \<lparr>in_memory = True, shelf = OpenShelf Map.empty\<rparr>,
     download_history = \<lparr>history = [], history_file = NoFile\<rparr>, upp_class_der = None,
     files = [''/upp/P.der'' \<mapsto> \<lparr>file_bytes = [0xA0, 1, 7], file_readable = True\<rparr>]\<rparr>"

lemma demo_server_inv: "server_inv demo_env demo_server"
  by (simp add: server_inv_def demo_server_def store_inv_def rss.abs_def store_get_def)

section \<open>A run\<close>

definition demo_init_content :: content where
  "demo_init_content = [''smdpAddress'' \<mapsto> ''smdpp.test:8443'', ''euiccChallenge'' \<mapsto> b64encode (replicate 16 0),
     ''euiccInfo1'' \<mapsto> b64encode []]"

text \<open>The response: BF38 around the CHOICE tag A0 around a SEQUENCE.\<close>

definition demo_auth_content :: content where
  "demo_auth_content = [''transactionId'' \<mapsto> ''AB'', ''authenticateServerResponse'' \<mapsto>
     b64encode (nested_tlv demo_tlv 0xBF38 (nested_tlv demo_tlv 0xA0 (nested_tlv demo_tlv 0x30 [1, 2])))]"

definition demo_session1 :: rsp_session where
  "demo_session1 = RspSessionState_init ''AB'' [5] [7]"

definition demo_server1 :: smdpp where
  "demo_server1 = demo_server\<lparr>rss := \<lparr>in_memory = True,
     shelf = OpenShelf [''AB'' \<mapsto> rsp_getstate demo_X demo_session1]\<rparr>\<rparr>"

lemma demo_certs [simp]:
  "get_ski (cert_extensions demo_ci) = Inr [7]" "get_key_usage (cert_extensions demo_ci) = Inr (True, True)"
  "cert_policy_has_oid demo_ci id_rspRole_ci" "get_aki (cert_extensions demo_eum) = Inr [7]"
  "get_ski (cert_extensions demo_eum) = Inr [8]" "get_key_usage (cert_extensions demo_eum) = Inr (True, False)"
  "get_aki (cert_extensions demo_euicc) = Inr [8]" "get_aki (cert_extensions demo_dp) = Inr [7]"
  "cert_subject_serials demo_euicc = [demo_eid]" "get_san (cert_extensions demo_dp) = Inr ''2.999.10''"
  by (simp_all add: demo_ci_def demo_eum_def demo_euicc_def demo_dp_def demo_certificate_def cert_policy_has_oid_def)

lemma demo_CertificateSet:
  "CertificateSet_init demo_X demo_ci = Inr \<lparr>root_cert = demo_ci, intermediate_certs = Map.empty\<rparr>"
  by (simp add: CertificateSet_init_def signed_by_def check_signed_def demo_X_def)

lemma demo_signed [simp]: "signed_by demo_X c p"
  by (simp add: signed_by_def demo_X_def)

lemma demo_env_fields [simp]:
  "env_C demo_env = demo_crypto" "env_T demo_env = demo_tlv" "env_A demo_env = demo_A" "env_X demo_env = demo_X"
  "env_U demo_env = demo_hex" "env_E demo_env = demo_ec" "env_P demo_env = demo_pe_lib"
  "dec_eins demo_env = (\<lambda>b. Inr [''89049032''])" "realpath demo_env p = Inr p" "isdir demo_env p = False"
  "writable demo_env p = True"
  by (simp_all add: demo_env_def)

lemma demo_server_fields [simp]:
  "server_hostname demo_server = ''smdpp.test''" "upp_dir demo_server = ''/upp''" "ci_certs demo_server = [demo_ci]"
  "dp_auth demo_server = CertAndPrivkey_init None (Some demo_dp) (Some [1])"
  "dp_pb demo_server = CertAndPrivkey_init None (Some demo_dp) (Some [1])"
  "rss demo_server = \<lparr>in_memory = True, shelf = OpenShelf Map.empty\<rparr>"
  "download_history demo_server = \<lparr>history = [], history_file = NoFile\<rparr>"
  "files demo_server = [''/upp/P.der'' \<mapsto> \<lparr>file_bytes = [0xA0, 1, 7], file_readable = True\<rparr>]"
  by (simp_all add: demo_server_def)

lemma demo_sign [simp]: "ecdsa_sign demo_X (CertAndPrivkey_init None c (Some k)) d = Inr (replicate 64 0)"
proof -
  have "to_bytes_raw n 0 = replicate n 0" for n by (induction n) (simp_all add: replicate_append_same)
  then show ?thesis
    by (simp add: ecdsa_sign_def ecdsa_dss_to_tr03111_def demo_X_def CertAndPrivkey_init_def to_bytes_be_def
        replicate_add [symmetric])
qed

lemma demo_hex_AB [simp]: "h2b demo_hex ''AB'' = Inr [0xAB]"
  by code_simp

lemma demo_chain_dp: "verify_cert_chain demo_X \<lparr>root_cert = demo_ci, intermediate_certs = m\<rparr> demo_dp 100 = Inr ()"
  by (simp add: verify_cert_chain_def verify_chain_loop.simps cert_get_auth_key_id_def root_cert_id_def
      cert_get_subject_key_id_def)

lemma demo_initiate_checks: "initiate_checks demo_env demo_init_content demo_server = Inr (demo_ci, replicate 16 0)"
proof -
  have "server_address_ok demo_server ''smdpp.test:8443''" by (simp add: server_address_ok_def)
  then show ?thesis
    by (simp add: initiate_checks_def initiate_decode_def initiate_select_def content_get_def demo_init_content_def demo_A_def Let_def
        ci_get_cert_for_pkid_def demo_CertificateSet CertAndPrivkey_init_def demo_chain_dp
        cert_get_subject_key_id_def get_authority_key_identifier_def)
qed

lemma demo_initiate:
  "\<exists>out. initiateAutentication demo_env ''AB'' [5] demo_init_content demo_server = (Inr (Some out), demo_server1)"
  by (simp add: initiateAutentication_def demo_initiate_checks bindS_def store_contains_def initiate_output_def
      get_authority_key_identifier_def get_cert_as_der_def rss_set_def store_setitem_def cert_get_subject_key_id_def
      demo_server1_def demo_session1_def)
    (simp add: CertAndPrivkey_init_def demo_A_def bindS_def rss_set_def store_setitem_def)

lemma demo_server1_fields [simp]:
  "server_hostname demo_server1 = ''smdpp.test''" "upp_dir demo_server1 = ''/upp''" "ci_certs demo_server1 = [demo_ci]"
  "dp_auth demo_server1 = CertAndPrivkey_init None (Some demo_dp) (Some [1])"
  "dp_pb demo_server1 = CertAndPrivkey_init None (Some demo_dp) (Some [1])"
  "rss demo_server1 = \<lparr>in_memory = True, shelf = OpenShelf [''AB'' \<mapsto> rsp_getstate demo_X demo_session1]\<rparr>"
  "files demo_server1 = [''/upp/P.der'' \<mapsto> \<lparr>file_bytes = [0xA0, 1, 7], file_readable = True\<rparr>]"
  by (simp_all add: demo_server1_def)

lemma demo_server1_inv: "server_inv demo_env demo_server1"
  using demo_initiate initiate_inv [OF demo_server_inv] by blast

lemma demo_euicc_trusted: "euicc_trusted demo_env demo_server1 [7] demo_euicc demo_eum demo_eid"
proof -
  have "add_intermediate_cert \<lparr>root_cert = demo_ci, intermediate_certs = Map.empty\<rparr> demo_eum =
      Inr \<lparr>root_cert = demo_ci, intermediate_certs = [[8] \<mapsto> demo_eum]\<rparr>"
    by (simp add: add_intermediate_cert_def cert_get_auth_key_id_def cert_get_subject_key_id_def)
  moreover have "verify_cert_chain demo_X \<lparr>root_cert = demo_ci, intermediate_certs = [[8] \<mapsto> demo_eum]\<rparr> demo_euicc 100 = Inr ()"
    by (simp add: verify_cert_chain_def verify_chain_loop.simps cert_get_auth_key_id_def root_cert_id_def
      cert_get_subject_key_id_def)
  moreover have "validate_eid_range (\<lambda>b. Inr [''89049032'']) demo_eid demo_eum"
    by code_simp
  ultimately show ?thesis
    by (simp add: euicc_trusted_def verify_euicc_chain_def ci_get_cert_for_pkid_def demo_CertificateSet
        cert_get_auth_key_id_def)
qed

lemma demo_authenticate_decode:
  "authenticate_decode demo_env demo_auth_content =
     Inr (''AB'', demo_response_ok, nested_tlv demo_tlv 0x30 [1, 2], demo_euicc, demo_eum)"
proof -
  have "nested_tlv demo_tlv 0xA0 (nested_tlv demo_tlv 0x30 [1, 2]) = [0xA0, 4, 0x30, 2, 1, 2]"
    "nested_tlv demo_tlv 0x30 [1, 2] = [0x30, 2, 1, 2]"
    by (simp_all add: nested_tlv_def demo_tlv_def demo_encode_tag_def demo_encode_len_def)
  then have "extract_euiccSigned1 demo_tlv (nested_tlv demo_tlv 0xBF38 (nested_tlv demo_tlv 0xA0 (nested_tlv demo_tlv 0x30 [1, 2]))) =
      Inr (nested_tlv demo_tlv 0x30 [1, 2])"
    using extract_signed_nested [OF demo_tlv_laws tag_ok_values(15) tag_ok_values(6) tag_ok_values(1),
        of "[1, 2]" "[]" "0xBF38" "[]"]
    by (simp add: extract_euiccSigned1_def)
  then show ?thesis
    by (simp add: authenticate_decode_def content_get_def demo_auth_content_def demo_A_def)
      (simp add: demo_response_ok_def demo_X_def)
qed

lemma demo_ecdsa_verify: "length sig = 64 \<Longrightarrow> ecdsa_verify demo_env c sig d = Inr True"
  by (simp add: ecdsa_verify_def ecdsa_tr03111_to_dss_def Let_def demo_X_def)

lemma demo_authenticate_verify:
  "authenticate_verify demo_env demo_server1 demo_session1 demo_response_ok b demo_euicc demo_eum = Inr demo_eid"
  using demo_euicc_trusted
  by (simp add: authenticate_verify_def euicc_trusted_def demo_session1_def RspSessionState_init_def nthR_def
      demo_ecdsa_verify demo_response_ok_def)

lemma demo_profile_parsed:
  "\<exists>pes. PES_from_der demo_pe_lib [0xA0, 1, 7] = Inr pes \<and> get_pe_for_type pes ''header'' = Inr (Some 0) \<and>
     objs pes 0 = ProfileElement_init ''header'' [(''iccid'', PBytes [0xA0, 1, 7])] True"
proof -
  have s: "bertlv_first_segment demo_pe_lib [0xA0, 1, 7] = Inr ([0xA0, 1, 7], [])"
    by (simp add: bertlv_first_segment_def demo_pe_lib_def)
  have d: "ProfileElement_from_der demo_pe_lib d = Inr (ProfileElement_init ''header'' [(''iccid'', PBytes d)] True)" for d
    by (simp add: ProfileElement_from_der_def post_decode_def demo_pe_lib_def ProfileElement_init_def)
  obtain pes where pes: "PES_from_der demo_pe_lib [0xA0, 1, 7] = Inr pes" "pe_list pes = [0]"
    "objs pes 0 = ProfileElement_init ''header'' [(''iccid'', PBytes [0xA0, 1, 7])] True"
    by (simp add: PES_from_der_def parse_der_def parse_der_loop.simps s d pe_alloc_def
        ProfileElementSequence_init_def)
  have "get_pes_for_type pes ''header'' = [0]"
    using PES_from_der_segments [OF pes(1)] pes by (auto simp: ProfileElement_init_def)
  with pes show ?thesis by (auto simp: get_pe_for_type_def)
qed

lemma demo_matching_profile:
  "matching_profile demo_env demo_server1 (CtxParamsForCommonAuthentication (Some ''P'')) = Inr (''P'', ''a00107'')"
proof -
  have "b2h demo_hex [0xA0, 1, 7] = ''a00107''" by code_simp
  then show ?thesis
    using demo_profile_parsed by (auto simp: matching_profile_def path_join_def commonprefix_whole starts_with_def Let_def
        isfile_readable_def read_file_def ProfileElement_init_def getitem_def as_bytes_def)
qed

lemma demo_authenticate:
  "\<exists>out s'. authenticateClient demo_env demo_auth_content demo_server1 = (Inr (Some out), s')"
proof -
  have g: "store_get demo_X (rss demo_server1) ''AB'' = Inr (Some demo_session1)"
    by (simp add: store_get_def rsp_setstate_getstate demo_session1_def)
  obtain ss md where f: "\<exists>s2 sg. authenticate_finish demo_env demo_server1
      (demo_session1\<lparr>euicc_cert := Some demo_euicc, eum_cert := Some demo_eum, eid := Some demo_eid\<rparr>)
      (aro_euiccSignature1 demo_response_ok) ''P'' ''a00107'' = Inr (ss, md, s2, sg)"
  proof -
    have h: "h2b demo_hex (swap_nibbles demo_hex ''a00107'') = Inr [0x0a, 0x10, 0x70]" by code_simp
    have m: "\<exists>smr. store_metadata_dict (fold (\<lambda>event. add_notification event ''smdpp.test'')
        [''enable'', ''disable'', ''delete''] (ProfileMetadata_init [0x0a, 0x10, 0x70] ''OsmocomSPN'' ''P'')) = Inr smr"
      by (simp add: store_metadata_dict_def add_notification_def ProfileMetadata_init_def notification_entry_def
          PMO_init_def pmo4operation_def PMO_bitstring_values [unfolded pmo4operation_def])
    then have "\<exists>x. authenticate_finish demo_env demo_server1
      (demo_session1\<lparr>euicc_cert := Some demo_euicc, eum_cert := Some demo_eum, eid := Some demo_eid\<rparr>)
      (aro_euiccSignature1 demo_response_ok) ''P'' ''a00107'' = Inr x"
      by (simp add: authenticate_finish_def h gen_store_metadata_request_def Let_def demo_A_def
          demo_session1_def RspSessionState_init_def) 
    then show ?thesis using that by (metis prod.exhaust)
  qed
  then obtain s2 sg where f': "authenticate_finish demo_env demo_server1
      (demo_session1\<lparr>euicc_cert := Some demo_euicc, eum_cert := Some demo_eum, eid := Some demo_eid\<rparr>)
      (aro_euiccSignature1 demo_response_ok) ''P'' ''a00107'' = Inr (ss, md, s2, sg)"
    by blast
  have ctx: "es1_ctxParams1 (aro_euiccSigned1 demo_response_ok) = CtxParamsForCommonAuthentication (Some ''P'')"
    by (simp add: demo_response_ok_def)
  have der: "get_cert_as_der demo_X (dp_pb demo_server1) = Inr [4]"
    by (simp add: get_cert_as_der_def CertAndPrivkey_init_def) (simp add: demo_X_def demo_dp_def demo_certificate_def)
  show ?thesis
    using f' g der
    by (simp add: authenticateClient_def demo_authenticate_decode rss_get_def bindS_def demo_authenticate_verify ctx
        demo_matching_profile rss_set_def store_setitem_def)
qed

end
