(* ===== verification/Smdpp_Props.thy ===== *)
theory Smdpp_Props
  imports Smdpp_Demo
begin

text \<open>
  The properties of the SM-DP+ server (\<^verbatim>\<open>pysim/osmo-smdpp.py\<close>), each with a witness on the
  concrete server of theory \<open>Smdpp_Demo\<close> where it has hypotheses.
\<close>

section \<open>Lemmas\<close>

lemma ci_lookup_Some: "ci_lookup certs k = Inr (Some c) \<Longrightarrow> c \<in> set certs \<and> cert_get_subject_key_id c = Inr k"
  by (induction certs k rule: ci_lookup.induct)
    (auto simp: cert_get_subject_key_id_def split: sum.splits if_splits)

lemma choose_ci_cert_Some:
  "choose_ci_cert s ks = Inr (Some c) \<Longrightarrow>
   c \<in> set (ci_certs s) \<and> (\<exists>k\<in>set ks. cert_get_subject_key_id c = Inr k \<and>
     get_authority_key_identifier (dp_auth s) = Inr k)"
proof (induction ks)
  case (Cons k ks)
  from Cons.prems obtain ci where ci: "ci_lookup (ci_certs s) k = Inr ci"
    by (auto simp: ci_get_cert_for_pkid_def)
  show ?case
  proof (cases ci)
    case None
    with Cons ci show ?thesis by (auto simp: ci_get_cert_for_pkid_def)
  next
    case (Some c')
    with Cons ci ci_lookup_Some [of "ci_certs s" k c'] show ?thesis
      by (auto simp: ci_get_cert_for_pkid_def split: if_splits)
  qed
qed simp

lemma initiate_checks_facts:
  assumes "initiate_checks env content s = Inr (ci, ech)"
  shows "(\<exists>addr. content ''smdpAddress'' = Some addr \<and> server_address_ok s addr)" "length ech = 16"
    "ci \<in> set (ci_certs s)" "cert_get_subject_key_id ci = get_authority_key_identifier (dp_auth s)"
proof -
  from assms obtain info where d: "initiate_decode env content s = Inr (ech, info)"
    and i: "initiate_select env s info = Inr ci"
    by (auto simp: initiate_checks_def)
  from d show "\<exists>addr. content ''smdpAddress'' = Some addr \<and> server_address_ok s addr" "length ech = 16"
    by (auto simp: initiate_decode_def content_get_def split: if_splits)
  from i obtain ks where "choose_ci_cert s ks = Inr (Some ci)"
    unfolding initiate_select_def Let_def bindR_eq_Inr
    by (elim exE conjE) (auto split: if_split_asm option.split_asm)
  from choose_ci_cert_Some [OF this] show "ci \<in> set (ci_certs s)"
    "cert_get_subject_key_id ci = get_authority_key_identifier (dp_auth s)"
    by auto
qed

text \<open>What a trusted eUICC certificate means in terms of signatures.\<close>

lemma verify_euicc_chain_links:
  assumes "verify_euicc_chain env s ci_id eum euicc = Inr ()"
  shows "\<exists>ci. ci \<in> set (ci_certs s) \<and> cert_get_subject_key_id ci = Inr ci_id \<and>
    signed_by (env_X env) ci ci \<and> cert_policy_has_oid ci id_rspRole_ci \<and>
    (signed_by (env_X env) euicc ci \<or>
     signed_by (env_X env) euicc eum \<and> signed_by (env_X env) eum ci \<and>
       cert_get_auth_key_id euicc = cert_get_subject_key_id eum)"
proof -
  from assms obtain ci cs0 cs where c: "ci_get_cert_for_pkid s ci_id = Inr (Some ci)"
    "CertificateSet_init (env_X env) ci = Inr cs0" "add_intermediate_cert cs0 eum = Inr cs"
    "verify_cert_chain (env_X env) cs euicc 100 = Inr ()"
    by (auto simp: verify_euicc_chain_def)
  from c(4) obtain n where "chain (env_X env) cs n euicc" by (auto simp: verify_cert_chain_iff)
  from chain_one_intermediate [OF c(2,3) this] ci_lookup_Some [OF c(1) [unfolded ci_get_cert_for_pkid_def]]
    CertificateSet_init_eq [OF c(2)]
  show ?thesis by blast
qed

section \<open>Properties\<close>

text \<open>C2: Safety of all reachable states. From a server whose stored sessions are new or authenticated, every
  sequence of requests, answered or failed, well-formed or not, leads to a server in which each
  session is filed under its own transaction id and is either still without any data from an eUICC
  or fully authenticated: its eUICC certificate leads over its EUM certificate to the CI it was started
  for, the EID is in the EUM's range, and metadata, matching id and server signature are present. In
  particular no profile is bound in a session that was not authenticated.\<close>

theorem reachable_sessions_authenticated:
  assumes "smdpp_reachable env s0 s" "server_inv env s0" "der_laws (env_X env)"
    and "store_map (env_X env) (rss s) tid = Some ss"
  shows "transactionId ss = tid \<and> (unauthenticated ss \<or> authenticated env s ss) \<and>
    (shared_secret ss \<noteq> None \<longrightarrow> authenticated env s ss)"
proof -
  have "server_inv env s" by (rule reachable_inv [OF assms(1-3)])
  with assms(4) have "transactionId ss = tid" "unauthenticated ss \<or> authenticated env s ss"
    by (auto simp: server_inv_def)
  then show ?thesis by (auto simp: unauthenticated_def)
qed

theorem reachable_sessions_authenticated_witness:
  "\<exists>s ss. smdpp_reachable demo_env demo_server s \<and> store_map demo_X (rss s) ''AB'' = Some ss \<and>
     transactionId ss = ''AB''"
proof -
  obtain out where out: "initiateAutentication demo_env ''AB'' [5] demo_init_content demo_server =
      (Inr (Some out), demo_server1)"
    using demo_initiate by blast
  let ?req = "\<lparr>req_content_type = Some ''application/json'', req_admin_protocol = None, req_body = Inr demo_init_content\<rparr>"
  have "\<exists>r. es9_serve demo_env (InitiateAuthentication ''AB'' [5]) ?req demo_server = (r, demo_server1)"
    by (simp add: es9_serve_def handle_apierror_def rsp_api_wrapper_def validate_request_headers_def
        starts_with_def bindS_def out)
  then have "smdpp_step demo_env demo_server demo_server1"
    using smdpp_step.es9 [of "InitiateAuthentication ''AB'' [5]"] by auto
  then have r: "smdpp_reachable demo_env demo_server demo_server1"
    by (rule smdpp_reachable.step [OF smdpp_reachable.start])
  have m: "store_map demo_X (rss demo_server1) ''AB'' = Some demo_session1"
    by (simp add: rss.abs_def store_get_def rsp_setstate_getstate demo_session1_def)
  from reachable_sessions_authenticated [OF r demo_server_inv, of "''AB''" demo_session1] m r
  show ?thesis by (auto simp: demo_X_der_laws)
qed

text \<open>C3: Authentication of the client. If \<open>authenticateClient\<close> answers a request, then the
  transaction names a session of the store; the eUICC certificate of the response is signed by the
  EUM certificate, which is signed by the session's CI (or it is signed by that CI directly); the
  signature over the signed section of the response is valid under the eUICC's key; the response
  carries the session's challenge; the EID of the certificate is in the EUM's range. The session is
  updated, all other sessions are kept; on any error the server is unchanged.\<close>

theorem authenticateClient_sound:
  assumes "server_inv env s" "der_laws (env_X env)" "cp_cert (dp_pb s) \<noteq> None"
  shows "case authenticateClient env content s of
      (Inl e, s') \<Rightarrow> s' = s
    | (Inr out, s') \<Rightarrow>
        \<exists>tid r_ok sbin euicc eum ss ss' eid_s.
          authenticate_decode env content = Inr (tid, r_ok, sbin, euicc, eum) \<and>
          store_map (env_X env) (rss s) tid = Some ss \<and>
          euicc_trusted env s (ci_cert_id ss) euicc eum eid_s \<and>
          (\<exists>ci\<in>set (ci_certs s). cert_get_subject_key_id ci = Inr (ci_cert_id ss) \<and>
             (signed_by (env_X env) euicc ci \<or>
              signed_by (env_X env) euicc eum \<and> signed_by (env_X env) eum ci)) \<and>
          ecdsa_verify env euicc (aro_euiccSignature1 r_ok) sbin = Inr True \<and>
          es1_serverChallenge (aro_euiccSigned1 r_ok) = serverChallenge ss \<and>
          authenticated env s' ss' \<and> euicc_cert ss' = Some euicc \<and> eid ss' = Some eid_s \<and>
          store_map (env_X env) (rss s') = (store_map (env_X env) (rss s))(tid \<mapsto> ss') \<and>
          s' = s\<lparr>rss := rss s'\<rparr>"
proof (cases "authenticateClient env content s")
  case (Pair r s')
  show ?thesis
  proof (cases r)
    case (Inl e)
    from authenticate_cases [OF Pair] Inl assms(3) have "s' = s" by blast
    with Pair Inl show ?thesis by simp
  next
    case (Inr out)
    from authenticate_cases [OF Pair [unfolded Inr]]
    obtain tid r_ok sbin euicc eum ss eid_s mid iccid ss' md_bin s2_bin sig_do st where
      a: "authenticate_decode env content = Inr (tid, r_ok, sbin, euicc, eum)"
        "store_get (env_X env) (rss s) tid = Inr (Some ss)"
        "authenticate_verify env s ss r_ok sbin euicc eum = Inr eid_s"
        "authenticate_finish env s (ss\<lparr>euicc_cert := Some euicc, eum_cert := Some eum, eid := Some eid_s\<rparr>)
           (aro_euiccSignature1 r_ok) mid iccid = Inr (ss', md_bin, s2_bin, sig_do)"
        "store_setitem (env_X env) (rss s) tid ss' = Inr st" "s' = s\<lparr>rss := st\<rparr>"
      by blast
    note g = inv_get [OF assms(1) a(2)] and f = authenticated_after_finish [OF a(3,4)]
      and v = authenticate_verify_facts [OF a(3)]
    have ok: "session_ok (env_X env) ss'"
      using g(2) f authenticate_decode_loads [OF a(1)] assms(2)
      unfolding der_laws_def session_ok_def cert_storable_def by auto
    have m: "store_map (env_X env) (rss s') = (store_map (env_X env) (rss s))(tid \<mapsto> ss')"
      using inv_set(2) [OF assms(1) a(5) ok, of s'] f g a(6) by simp
    have links: "\<exists>ci\<in>set (ci_certs s). cert_get_subject_key_id ci = Inr (ci_cert_id ss) \<and>
        (signed_by (env_X env) euicc ci \<or> signed_by (env_X env) euicc eum \<and> signed_by (env_X env) eum ci)"
      using verify_euicc_chain_links [of env s "ci_cert_id ss" eum euicc] v(1)
      by (auto simp: euicc_trusted_def)
    have au: "authenticated env s' ss'" using f(1) authenticated_config [of s' s] a(6) by simp
    have same: "s' = s\<lparr>rss := rss s'\<rparr>" using a(6) by simp
    show ?thesis
      unfolding Pair Inr prod.case sum.case
      using a(1) g(1) v links au f(5,7) m same by blast
  qed
qed

theorem authenticateClient_sound_witness:
  "\<exists>out s' ss'. authenticateClient demo_env demo_auth_content demo_server1 = (Inr (Some out), s') \<and>
     euicc_cert ss' = Some demo_euicc \<and> store_map demo_X (rss s') ''AB'' = Some ss'"
proof -
  obtain out s' where r: "authenticateClient demo_env demo_auth_content demo_server1 = (Inr (Some out), s')"
    using demo_authenticate by blast
  have "der_laws (env_X demo_env)" "cp_cert (dp_pb demo_server1) \<noteq> None"
    by (simp_all add: demo_X_der_laws CertAndPrivkey_init_def)
  from authenticateClient_sound [OF demo_server1_inv this, of demo_auth_content] r
  show ?thesis by (auto simp: demo_authenticate_decode)
qed





text \<open>C5: Cancellation. \<open>cancelSession\<close> removes a session only if the session is authenticated, its eUICC
  has signed the cancellation, and the signed part names the same transaction; then exactly that
  session is removed. In every other case, an error reported by the eUICC included, the server
  is unchanged.\<close>

theorem cancelSession_sound:
  assumes "server_inv env s"
  shows "case cancelSession env content s of
      (Inr (Some out), s') \<Rightarrow>
        \<exists>tid ss euicc ecsr sig bin. content ''transactionId'' = Some tid \<and>
          store_map (env_X env) (rss s) tid = Some ss \<and> authenticated env s ss \<and> euicc_cert ss = Some euicc \<and>
          enc_EuiccCancelSessionSigned (env_A env) ecsr = Inr bin \<and> ecdsa_verify env euicc sig bin = Inr True \<and>
          h2b (env_U env) tid = Inr (ecs_transactionId ecsr) \<and> out = [(''transactionId'', tid)] \<and>
          store_map (env_X env) (rss s') = (store_map (env_X env) (rss s))(tid := None) \<and>
          s' = s\<lparr>rss := rss s'\<rparr>
    | (_, s') \<Rightarrow> s' = s"
proof (cases "cancelSession env content s")
  case (Pair r s')
  from cancel_cases [OF Pair] consider "(\<exists>e. r = Inl e) \<or> r = Inr None" "s' = s"
    | tid ss ecsr sig st where "content_get content ''transactionId'' = Inr tid"
      "store_get (env_X env) (rss s) tid = Inr (Some ss)" "cancel_verify env s tid ss ecsr sig = Inr ()"
      "store_delitem (rss s) tid = Inr st" "r = Inr (Some [(''transactionId'', tid)])" "s' = s\<lparr>rss := st\<rparr>"
    by blast
  then show ?thesis
  proof cases
    case 1
    with Pair show ?thesis by (auto split: sum.splits)
  next
    case (2 tid ss ecsr sig st)
    from 2(3) obtain euicc bin where v: "euicc_cert ss = Some euicc"
      "enc_EuiccCancelSessionSigned (env_A env) ecsr = Inr bin" "ecdsa_verify env euicc sig bin = Inr True"
      "h2b (env_U env) tid = Inr (ecs_transactionId ecsr)"
      by (auto simp: cancel_verify_def split: option.splits if_splits)
    note g = inv_get [OF assms 2(2)]
    have au: "authenticated env s ss" using g(4) v(1) by (auto simp: unauthenticated_def)
    have m: "store_map (env_X env) (rss s') = (store_map (env_X env) (rss s))(tid := None)"
      using inv_del(2) [OF assms 2(4), of s'] 2(6) by simp
    have c: "content ''transactionId'' = Some tid" using 2(1) by (simp add: content_get_def)
    have same: "s' = s\<lparr>rss := rss s'\<rparr>" using 2(6) by simp
    show ?thesis unfolding Pair 2(5) prod.case sum.case option.case
      using c g(1) au v m same by blast
  qed
qed

theorem cancelSession_sound_witness:
  "\<exists>e. cancelSession demo_env [''transactionId'' \<mapsto> ''CD''] demo_server1 = (Inl e, demo_server1)"
proof -
  have "\<exists>e s'. cancelSession demo_env [''transactionId'' \<mapsto> ''CD''] demo_server1 = (Inl e, s')"
    by (simp add: cancelSession_def content_get_def rss_get_def bindS_def store_get_def)
  with cancelSession_sound [OF demo_server1_inv, of "[''transactionId'' \<mapsto> ''CD'']"] show ?thesis by auto
qed

text \<open>No cancellation is ever accepted for the server's own OID. The OID in the signed cancellation is
  compared with the identifier of the extension type (2.5.29.17) and not with the one registered in
  the certificate, so a verification that succeeds had the former, and a cancellation that carries the
  registered OID is refused.\<close>

theorem cancel_compares_extension_oid:
  "(\<forall>env s tid ss ecsr sig. cancel_verify env s tid ss ecsr sig = Inr () \<longrightarrow> ecs_smdpOid ecsr = ''2.5.29.17'') \<and>
   get_subject_alt_name (dp_auth demo_server1) = Inr ''2.999.10'' \<and>
   cancel_verify demo_env demo_server1 ''AB'' (demo_session1\<lparr>euicc_cert := Some demo_euicc\<rparr>)
     \<lparr>ecs_transactionId = [0xAB], ecs_smdpOid = ''2.999.10''\<rparr> (replicate 64 0) =
     Inl (api_error ''8.8'' ''3.10'' ''The provided SM-DP+ OID is invalid.'')"
proof (intro conjI allI impI)
  fix env s tid ss ecsr sig
  assume "cancel_verify env s tid ss ecsr sig = Inr ()"
  then show "ecs_smdpOid ecsr = ''2.5.29.17''"
    by (auto simp: cancel_verify_def san_extension_oid_def split: option.splits if_splits)
next
  show san: "get_subject_alt_name (dp_auth demo_server1) = Inr ''2.999.10''"
    by (simp add: get_subject_alt_name_def CertAndPrivkey_init_def)
  show "cancel_verify demo_env demo_server1 ''AB'' (demo_session1\<lparr>euicc_cert := Some demo_euicc\<rparr>)
     \<lparr>ecs_transactionId = [0xAB], ecs_smdpOid = ''2.999.10''\<rparr> (replicate 64 0) =
     Inl (api_error ''8.8'' ''3.10'' ''The provided SM-DP+ OID is invalid.'')"
    using san by (simp add: cancel_verify_def demo_A_def demo_ecdsa_verify san_extension_oid_def)
qed

theorem cancel_compares_extension_oid_witness:
  "cancel_verify demo_env demo_server1 ''AB'' (demo_session1\<lparr>euicc_cert := Some demo_euicc\<rparr>)
     \<lparr>ecs_transactionId = [0xAB], ecs_smdpOid = ''2.999.10''\<rparr> (replicate 64 0) \<noteq> Inr ()"
  using cancel_compares_extension_oid by auto

end
