(* ===== verification/Smdpp_Notify.thy ===== *)
theory Smdpp_Notify
  imports Smdpp_Props
begin

text \<open>
  Further properties of the SM-DP+ server: notifications and the download history, the HTTP layer,
  and the file paths of profiles.
\<close>

section \<open>Lemmas\<close>

text \<open>\<open>b2h\<close> of \<open>osmocom.utils\<close> is \<open>bytes.hex\<close>: lower case.\<close>

definition hex_lower_case :: "osmo_utils \<Rightarrow> bool" where
  "hex_lower_case U \<longleftrightarrow> (\<forall>b. set (b2h U b) \<subseteq> set ''0123456789abcdef'')"

lemma hex_digit_lower: "n < 16 \<Longrightarrow> hex_digit n \<in> set ''0123456789abcdef''"
  using nth_mem [of n "''0123456789abcdef''"] by (simp add: hex_digit_def del: set_simps)

lemma demo_hex_lower: "hex_lower_case demo_hex"
proof -
  have "set [hex_digit (unat (x :: byte) div 16), hex_digit (unat x mod 16)] \<subseteq> set ''0123456789abcdef''" for x
  proof -
    have "unat x div 16 < 16" "unat x mod 16 < 16" using unat_byte_lt [of x] by linarith+
    then show ?thesis using hex_digit_lower [of "unat x div 16"] hex_digit_lower [of "unat x mod 16"] by (metis insert_subset empty_subsetI empty_set list.simps(15))
  qed
  then show ?thesis unfolding hex_lower_case_def demo_hex_def demo_b2h_def by (simp del: set_simps) blast
qed

text \<open>The number of successful downloads in the history.\<close>

abbreviation successes :: "smdpp \<Rightarrow> nat" where
  "successes s \<equiv> count_status ''success'' (history (download_history s))"

lemma update_records_successes:
  "update_records tid ''failed'' v rs = Some rs' \<Longrightarrow> count_status ''success'' rs' \<le> count_status ''success'' rs"
proof (induction rs arbitrary: rs')
  case (Cons r rs)
  show ?case
  proof (cases "dl_transaction_id r = tid")
    case True
    with Cons.prems have "rs' = (if py_truthy v then r\<lparr>dl_status := ''failed'', dl_final_result := v\<rparr>
        else r\<lparr>dl_status := ''failed''\<rparr>) # rs" by simp
    then show ?thesis by (simp add: count_status_def)
  next
    case False
    with Cons show ?thesis by (auto simp: count_status_def)
  qed
qed simp

lemma update_download_successes:
  "count_status ''success'' (history (update_download tid ''failed'' v h)) \<le> count_status ''success'' (history h)"
  using update_records_successes [of tid v "history h"] by (auto simp: update_download_def split: option.splits)

lemma bpp_logged_successes:
  "bpp_logged h dh \<Longrightarrow> count_status ''success'' (history dh) = count_status ''success'' (history h)"
  by (auto simp: bpp_logged_def count_status_def)

lemma installation_result_successes:
  assumes "handle_installation_result env pird sig s = (r, s')"
  shows "successes s' \<le> successes s"
proof -
  let ?tid = "b2h (env_U env) (pird_transactionId pird)"
  have f: "final_result_value (pird_finalResult pird) \<noteq> PStr ''success''"
    by (simp add: final_result_value_def split: final_result.splits)
  have "download_history s' = download_history s \<or> (\<exists>v. download_history s' = update_download ?tid ''failed'' v (download_history s))"
    using assms f
    by (auto simp: handle_installation_result_def bindS_def rss_get_def rss_del_def history_update_def Let_def
        split: prod.splits sum.splits option.splits if_splits)
  then show ?thesis using update_download_successes by auto
qed

lemma handler_successes:
  assumes "es9_handler env f content s = (r, s')"
  shows "successes s' \<le> successes s"
proof (cases f)
  case (InitiateAuthentication tid ch)
  with assms initiate_cases [of env tid ch content s r s'] show ?thesis by auto
next
  case AuthenticateClient
  with assms have "authenticateClient env content s = (r, s')" by simp
  from authenticate_cases [OF this] have "download_history s' = download_history s" by (elim disjE exE conjE) simp_all
  then show ?thesis by simp
next
  case (GetBoundProfilePackage ot now)
  with assms have "getBoundProfilePackage env ot now content s = (r, s')" by simp
  from get_bpp_cases [OF this] obtain dh where "bpp_logged (download_history s) dh" "download_history s' = dh"
    by (elim disjE exE conjE) (auto intro: that)
  then show ?thesis using bpp_logged_successes by simp
next
  case HandleNotification
  with assms have h: "handleNotification env content s = (r, s')" by simp
  then consider "s' = s" | pird sig where "handle_installation_result env pird sig s = (r, s')"
    | osn where "handle_other_notification env osn s = (r, s')"
    by (auto simp: handleNotification_def bindS_def split: prod.splits sum.splits pending_notification.splits)
  then show ?thesis
  proof cases
    case 2
    then show ?thesis by (rule installation_result_successes)
  next
    case 3
    from other_notification_state [OF this] show ?thesis by simp
  qed simp
next
  case CancelSession
  with assms have "cancelSession env content s = (r, s')" by simp
  from cancel_cases [OF this] have "download_history s' = download_history s" by auto
  then show ?thesis by simp
qed

lemma step_successes: "smdpp_step env s s' \<Longrightarrow> successes s' \<le> successes s"
proof (induction rule: smdpp_step.cases)
  case (es9 f request s r s')
  let ?m = "rsp_api_wrapper (if f = HandleNotification then 204 else 200) (es9_handler env f) request"
  obtain r0 where "?m s = (r0, s')"
    using es9(4) handle_apierror_state [of ?m s] by (cases "?m s") (simp add: es9_serve_def)
  from wrapper_state [OF this] have "successes s' \<le> successes s" using handler_successes by auto
  with es9 show ?case by simp
next
  case (upload filename body s r s')
  then show ?case
    by (auto simp: mno_upload_profile_def Let_def split: option.splits sum.splits if_splits)
next
  case (delete matching_id s r s')
  then show ?case
    by (auto simp: mno_delete_profile_def Let_def split: option.splits sum.splits if_splits)
qed

section \<open>Properties\<close>

text \<open>Sessions outlive their notification. Transaction ids are upper-case hexadecimal, but the handler
  of notifications looks the session up under the lower-case form; so no notification removes a session
  whose id has a letter, whatever it contains.\<close>

theorem notification_keeps_upper_case_sessions:
  assumes "server_inv env s" "hex_lower_case (env_U env)"
    and "c \<in> set tid" "c \<notin> set ''0123456789abcdef''"
    and "handleNotification env content s = (r, s')"
  shows "store_map (env_X env) (rss s') tid = store_map (env_X env) (rss s) tid"
  using notification_cases [OF assms(5)]
proof (elim disjE exE)
  fix dh
  assume "s' = s\<lparr>download_history := dh\<rparr>"
  then show ?thesis by simp
next
  fix pird :: pir_data and ss st
  let ?tid = "b2h (env_U env) (pird_transactionId pird)"
  assume a: "let tid = ?tid in
       store_get (env_X env) (rss s) tid = Inr (Some ss) \<and> euicc_cert ss \<noteq> None \<and>
       store_delitem (rss s) tid = Inr st \<and> (\<exists>dh. s' = s\<lparr>rss := st, download_history := dh\<rparr>)"
  have "tid \<noteq> ?tid" using assms(2-4) unfolding hex_lower_case_def by blast
  moreover from a have d: "store_delitem (rss s) ?tid = Inr st" and "rss s' = st" "ci_certs s' = ci_certs s"
    by (auto simp: Let_def)
  ultimately show ?thesis using inv_del(2) [OF assms(1) d, of s'] by simp
qed

theorem notification_keeps_upper_case_sessions_witness:
  "store_map demo_X (rss (snd (handleNotification demo_env [''pendingNotification'' \<mapsto> b64encode []] demo_server1))) ''AB'' =
     Some demo_session1"
proof -
  obtain r s' where h: "handleNotification demo_env [''pendingNotification'' \<mapsto> b64encode []] demo_server1 = (r, s')"
    by fastforce
  have "store_map demo_X (rss demo_server1) ''AB'' = Some demo_session1"
    by (simp add: rss.abs_def store_get_def rsp_setstate_getstate demo_session1_def)
  then show ?thesis
    using notification_keeps_upper_case_sessions [OF demo_server1_inv _ _ _ h, of "CHR ''A''" "''AB''"] demo_hex_lower h
    by simp
qed

text \<open>C16: No download is ever counted as a success. The result of an installation is a pair of alternative
  and value, which the handler compares with a string; so no sequence of requests raises the number
  of successes in the history, and the success rate the operator sees stays 0 on a server that starts
  without successes.\<close>

theorem downloads_never_succeed:
  assumes "smdpp_reachable env s0 s" "successes s0 = 0" "mno_get_stats env keys s = Inr stats"
  shows "successes s = 0 \<and> success_rate stats = 0"
proof -
  have "successes s = 0"
    using assms(1) by (induction rule: smdpp_reachable.induct) (use assms(2) step_successes in fastforce)+
  then show ?thesis using assms(3) by (auto simp: mno_get_stats_def Let_def split: if_splits)
qed

theorem downloads_never_succeed_witness:
  "\<exists>stats. mno_get_stats demo_env [] demo_server = Inr stats \<and> success_rate stats = 0"
proof -
  obtain stats where s: "mno_get_stats demo_env [] demo_server = Inr stats"
    by (simp add: mno_get_stats_def demo_env_def)
  from downloads_never_succeed [OF smdpp_reachable.start _ s] s show ?thesis
    by (simp add: count_status_def)
qed

text \<open>A reported success destroys the history file. When the notification of a successful installation
  reaches its record, the result that is stored contains bytes, the JSON text cannot be completed,
  and the file, already opened for writing, is cut off: a restarted server has an empty history.\<close>

theorem success_cuts_off_history:
  assumes "\<exists>rec\<in>set (history h). dl_transaction_id rec = tid"
  shows "history_file (update_download tid ''failed'' (final_result_value (SuccessResult aid sima)) h) = CutOffFile \<and>
    history (DownloadHistoryStore_init (history_file
      (update_download tid ''failed'' (final_result_value (SuccessResult aid sima)) h))) = []"
proof -
  let ?v = "final_result_value (SuccessResult aid sima)"
  have v: "py_truthy ?v" "\<not> json_dumpable ?v" by (simp_all add: final_result_value_def)
  obtain rs where rs: "update_records tid ''failed'' ?v (history h) = Some rs"
    using assms update_records_None [of tid "''failed''" ?v "history h"] by (cases "update_records tid ''failed'' ?v (history h)") auto
  from update_records_Some [OF rs] v have "\<not> list_all record_dumpable rs"
    by (auto simp: record_dumpable_def)
  then show ?thesis
    using rs by (simp add: update_download_def history_save_file DownloadHistoryStore_init_def history_load_def)
qed

theorem success_cuts_off_history_witness:
  "history_file (update_download ''T'' ''failed'' (final_result_value (SuccessResult [1] [2]))
     (record_download ''now'' ''T'' None ''89'' None ''bpp_sent'' (DownloadHistoryStore_init NoFile))) = CutOffFile"
  by (rule success_cuts_off_history [THEN conjunct1]) (simp add: DownloadHistoryStore_init_def history_load_def)


text \<open>Where profiles are read from. A profile is only read if the real path of its file starts with the
  name of the profile directory. The comparison is one of characters, so this does not imply that the
  file is inside the directory: a matching id that leads to a sibling directory whose name
  continues the directory's is accepted.\<close>

theorem profile_path_prefix:
  "(\<forall>env s mid mid' iccid. matching_profile env s (CtxParamsForCommonAuthentication (Some mid)) = Inr (mid', iccid) \<longrightarrow>
      (\<exists>rp. realpath env (path_join (upp_dir s) mid @ ''.der'') = Inr rp \<and> starts_with (upp_dir s) rp \<and> files s rp \<noteq> None)) \<and>
   (\<exists>env s mid iccid. upp_dir s = ''/upp'' \<and> dom (files s) = {''/upp-secret/P.der''} \<and>
      matching_profile env s (CtxParamsForCommonAuthentication (Some mid)) = Inr (mid, iccid))"
proof (intro conjI allI impI)
  fix env s mid mid' iccid
  assume m: "matching_profile env s (CtxParamsForCommonAuthentication (Some mid)) = Inr (mid', iccid)"
  then obtain rp where rp: "realpath env (path_join (upp_dir s) mid @ ''.der'') = Inr rp"
    by (auto simp: matching_profile_def Let_def split: if_splits)
  with m show "\<exists>rp. realpath env (path_join (upp_dir s) mid @ ''.der'') = Inr rp \<and> starts_with (upp_dir s) rp \<and>
      files s rp \<noteq> None"
    by (auto simp: matching_profile_def Let_def commonprefix_whole isfile_readable_def split: if_splits option.splits)
next
  let ?env = "demo_env\<lparr>realpath := (\<lambda>p. Inr ''/upp-secret/P.der'')\<rparr>"
  let ?s = "demo_server\<lparr>files := [''/upp-secret/P.der'' \<mapsto> \<lparr>file_bytes = [0xA0, 1, 7], file_readable = True\<rparr>]\<rparr>"
  obtain pes where pes: "PES_from_der demo_pe_lib [0xA0, 1, 7] = Inr pes" "get_pe_for_type pes ''header'' = Inr (Some 0)"
    "objs pes 0 = ProfileElement_init ''header'' [(''iccid'', PBytes [0xA0, 1, 7])] True"
    using demo_profile_parsed by blast
  then obtain iccid where "matching_profile ?env ?s (CtxParamsForCommonAuthentication (Some ''../upp-secret/P'')) =
      Inr (''../upp-secret/P'', iccid)"
    by (simp add: matching_profile_def Let_def commonprefix_whole starts_with_def isfile_readable_def read_file_def
        ProfileElement_init_def getitem_def as_bytes_def)
  then show "\<exists>env s mid iccid. upp_dir s = ''/upp'' \<and> dom (files s) = {''/upp-secret/P.der''} \<and>
      matching_profile env s (CtxParamsForCommonAuthentication (Some mid)) = Inr (mid, iccid)"
    by (intro exI [of _ ?env] exI [of _ ?s] exI [of _ "''../upp-secret/P''"] exI [of _ iccid]) simp
qed

theorem profile_path_prefix_witness:
  "\<exists>rp. realpath demo_env (path_join (upp_dir demo_server1) ''P'' @ ''.der'') = Inr rp \<and>
     starts_with (upp_dir demo_server1) rp \<and> files demo_server1 rp \<noteq> None"
  using profile_path_prefix [THEN conjunct1, rule_format, OF demo_matching_profile] .

text \<open>The upload of a profile is not confined. A file name that ends in .der is joined to the profile
  directory and the file at the resulting real path is replaced, wherever that is; no other file
  changes. Any other name is refused.\<close>

theorem upload_not_confined:
  assumes "realpath env (path_join (upp_dir s) name) = Inr rp" "writable env (path_join (upp_dir s) name)"
  shows "mno_upload_profile env (Some name) body s =
    (if ends_with ''.der'' name
     then (Inr (201, ''Profile uploaded''),
           s\<lparr>files := (files s)(rp \<mapsto> \<lparr>file_bytes = body, file_readable = True\<rparr>)\<rparr>)
     else (Inr (400, ''Invalid filename''), s))"
  using assms by (auto simp: mno_upload_profile_def is_der_name_def Let_def ends_with_def)

theorem upload_not_confined_witness:
  "mno_upload_profile (demo_env\<lparr>realpath := (\<lambda>p. Inr ''/etc/x.der'')\<rparr>) (Some ''../etc/x.der'') [1] demo_server =
    (Inr (201, ''Profile uploaded''),
     demo_server\<lparr>files := (files demo_server)(''/etc/x.der'' \<mapsto> \<lparr>file_bytes = [1], file_readable = True\<rparr>)\<rparr>)"
  using upload_not_confined [of "demo_env\<lparr>realpath := (\<lambda>p. Inr ''/etc/x.der'')\<rparr>" demo_server "''../etc/x.der''" "''/etc/x.der''" "[1]"]
  by (simp add: ends_with_def demo_env_def)

end
