(* ===== verification/Profile_Store.thy ===== *)
theory Profile_Store
  imports Py_Std
begin

text \<open>
  The profile database of the virtual eUICC, \<^verbatim>\<open>gui/services/profile_store.py\<close>: a JSON file
  that the graphical front end and the operator's tool share. The data is what \<open>json.load\<close>
  returns, a value of dynamic type, so missing keys and values of a wrong type raise as in the
  source. Writing goes through a temporary file; every call of the operating system on that way may
  fail (\<open>store_io\<close>), and the state has the temporary files that are left behind. The locks
  are held only during one read and one write, so an operation is a read, a computation and a
  write. Time stamps and the names of temporary files are part of \<open>store_io\<close>.
\<close>

section \<open>Profiles\<close>

abbreviation DISABLED :: pyval where
  "DISABLED \<equiv> PStr ''disabled''"

abbreviation ENABLED :: pyval where
  "ENABLED \<equiv> PStr ''enabled''"

record profile =
  p_iccid :: pyval
  p_isdp_aid :: pyval
  p_state :: pyval
  p_profile_name :: pyval
  p_service_provider :: pyval
  p_matching_id :: pyval
  p_installed_at :: pyval

definition Profile_init ::
  "string \<Rightarrow> pyval \<Rightarrow> pyval \<Rightarrow> pyval \<Rightarrow> pyval \<Rightarrow> pyval \<Rightarrow> pyval \<Rightarrow> pyval \<Rightarrow> profile" where
  "Profile_init now iccid isdp_aid state profile_name service_provider matching_id installed_at =
     \<lparr>p_iccid = iccid, p_isdp_aid = isdp_aid, p_state = state, p_profile_name = profile_name,
      p_service_provider = service_provider, p_matching_id = matching_id,
      p_installed_at = (if py_truthy installed_at then installed_at else PStr now)\<rparr>"

definition Profile_to_dict :: "profile \<Rightarrow> pyval" where
  "Profile_to_dict p = PDict
     [(''iccid'', p_iccid p), (''isdp_aid'', p_isdp_aid p), (''state'', p_state p),
      (''profile_name'', p_profile_name p), (''service_provider'', p_service_provider p),
      (''matching_id'', p_matching_id p), (''installed_at'', p_installed_at p)]"

definition Profile_from_dict :: "string \<Rightarrow> pyval \<Rightarrow> profile result" where
  "Profile_from_dict now data =
     bindR (getitem data ''iccid'') (\<lambda>iccid.
     bindR (getitem data ''isdp_aid'') (\<lambda>isdp_aid.
     bindR (get_default data ''state'' DISABLED) (\<lambda>state.
     bindR (get_default data ''profile_name'' (PStr '''')) (\<lambda>profile_name.
     bindR (get_default data ''service_provider'' (PStr '''')) (\<lambda>service_provider.
     bindR (get_default data ''matching_id'' (PStr '''')) (\<lambda>matching_id.
     bindR (get_default data ''installed_at'' PNone) (\<lambda>installed_at.
       Inr (Profile_init now iccid isdp_aid state profile_name service_provider matching_id installed_at))))))))"

section \<open>The database file\<close>

datatype db_file = NoDb | DbText pyval | DbGarbage

record pstore =
  db_file :: db_file
  temp_files :: "string list"

record store_io =
  io_now :: string
  io_mkdir :: "unit result"
  io_mkstemp :: "string result"
  io_write :: "unit result"
  io_rename :: "unit result"

definition read_db :: "(pstore, pyval) comp" where
  "read_db s =
     ((case db_file s of NoDb \<Rightarrow> Inl OSError | DbGarbage \<Rightarrow> Inl ValueError | DbText v \<Rightarrow> Inr v), s)"

text \<open>The temporary file exists from \<open>mkstemp\<close> on; serialising, writing or renaming may fail,
  and then it is removed again and the exception is passed on.\<close>

definition write_atomic :: "store_io \<Rightarrow> pyval \<Rightarrow> (pstore, unit) comp" where
  "write_atomic io data s =
     (case setitem data ''last_modified'' (PStr (io_now io)) of
        Inl e \<Rightarrow> (Inl e, s)
      | Inr data' \<Rightarrow>
          (case io_mkstemp io of
             Inl e \<Rightarrow> (Inl e, s)
           | Inr temp_path \<Rightarrow>
               (let s1 = s\<lparr>temp_files := temp_path # temp_files s\<rparr>;
                    unlinked = s1\<lparr>temp_files := removeAll temp_path (temp_files s1)\<rparr>
                in if \<not> json_dumpable data' then (Inl TypeError, unlinked)
                   else case io_write io of
                       Inl e \<Rightarrow> (Inl e, unlinked)
                     | Inr _ \<Rightarrow>
                         (case io_rename io of
                            Inl e \<Rightarrow> (Inl e, unlinked)
                          | Inr _ \<Rightarrow> (Inr (), unlinked\<lparr>db_file := DbText (json_reload data')\<rparr>)))))"

definition default_eid :: string where
  "default_eid = ''89049032001001234500012345678901''"

definition ensure_db_exists :: "store_io \<Rightarrow> (pstore, unit) comp" where
  "ensure_db_exists io s =
     (if db_file s = NoDb
      then write_atomic io (PDict [(''eid'', PStr default_eid), (''profiles'', PList []),
             (''last_modified'', PStr (io_now io))]) s
      else (Inr (), s))"

definition ProfileStore_init :: "store_io \<Rightarrow> (pstore, unit) comp" where
  "ProfileStore_init io = bindS (liftS (io_mkdir io)) (\<lambda>_. ensure_db_exists io)"

section \<open>Queries\<close>

definition list_profiles :: "string \<Rightarrow> (pstore, profile list) comp" where
  "list_profiles now =
     bindS read_db (\<lambda>data. liftS (
       bindR (get_default data ''profiles'' (PList [])) (\<lambda>ps.
       bindR (py_iter ps) (mapR (Profile_from_dict now)))))"

definition str_arg_eq :: "pyval \<Rightarrow> pyval \<Rightarrow> bool" where
  "str_arg_eq a v \<longleftrightarrow> py_truthy a \<and> v = a"

definition get_profile ::
  "string \<Rightarrow> pyval \<Rightarrow> pyval \<Rightarrow> pyval \<Rightarrow> (pstore, profile option) comp" where
  "get_profile now iccid isdp_aid matching_id =
     bindS (list_profiles now) (\<lambda>profiles. retS (List.find (\<lambda>p.
       str_arg_eq matching_id (p_matching_id p) \<or>
       (str_arg_eq iccid (p_iccid p) \<and> \<not> py_truthy matching_id) \<or>
       str_arg_eq isdp_aid (p_isdp_aid p)) profiles))"

definition get_enabled_profile :: "string \<Rightarrow> (pstore, profile option) comp" where
  "get_enabled_profile now =
     bindS (list_profiles now) (\<lambda>profiles. retS (List.find (\<lambda>p. p_state p = ENABLED) profiles))"

definition get_eid :: "(pstore, pyval) comp" where
  "get_eid = bindS read_db (\<lambda>data. liftS (get_default data ''eid'' (PStr default_eid)))"

section \<open>Operations\<close>

text \<open>The loop that looks for the first element with a property and remembers its index.\<close>

fun target_idx :: "('a \<Rightarrow> bool result) \<Rightarrow> 'a list \<Rightarrow> nat option result" where
  "target_idx P [] = Inr None"
| "target_idx P (x # xs) =
     bindR (P x) (\<lambda>b. if b then Inr (Some 0) else bindR (target_idx P xs) (\<lambda>r. Inr (map_option Suc r)))"

text \<open>An operation reads the data, computes an answer and possibly new data, and writes that.\<close>

type_synonym answer = "bool \<times> string"

definition store_op :: "store_io \<Rightarrow> (pyval \<Rightarrow> ('r \<times> pyval option) result) \<Rightarrow> (pstore, 'r) comp" where
  "store_op io f =
     bindS read_db (\<lambda>data.
     bindS (liftS (f data)) (\<lambda>(r, w).
       (case w of None \<Rightarrow> retS r | Some data' \<Rightarrow> bindS (write_atomic io data') (\<lambda>_. retS r))))"

definition add_profile_data :: "profile \<Rightarrow> pyval \<Rightarrow> (bool \<times> pyval option) result" where
  "add_profile_data profile data =
     bindR (getitem data ''profiles'') (\<lambda>ps.
     bindR (py_iter ps) (\<lambda>es.
     bindR (target_idx (\<lambda>existing. bindR (get_default existing ''matching_id'' PNone) (\<lambda>m.
         Inr (m = p_matching_id profile \<and> py_truthy (p_matching_id profile)))) es) (\<lambda>dup.
       if dup \<noteq> None then Inr (False, None)
       else (case ps of
               PList l \<Rightarrow> bindR (setitem data ''profiles'' (PList (l @ [Profile_to_dict profile]))) (\<lambda>d.
                 Inr (True, Some d))
             | _ \<Rightarrow> Inl AttributeError))))"

definition add_profile :: "store_io \<Rightarrow> profile \<Rightarrow> (pstore, bool) comp" where
  "add_profile io profile = store_op io (add_profile_data profile)"

definition item_eq :: "pyval \<Rightarrow> string \<Rightarrow> pyval \<Rightarrow> bool result" where
  "item_eq p key a = (if py_truthy a then bindR (getitem p key) (\<lambda>v. Inr (str_arg_eq a v)) else Inr False)"

definition entry_matches :: "pyval \<Rightarrow> pyval \<Rightarrow> pyval \<Rightarrow> bool result" where
  "entry_matches iccid isdp_aid p =
     bindR (item_eq p ''iccid'' iccid) (\<lambda>b. if b then Inr True else item_eq p ''isdp_aid'' isdp_aid)"

text \<open>The loop that disables every enabled profile but the target, from index \<open>i\<close> on.\<close>

fun disable_others :: "nat \<Rightarrow> nat \<Rightarrow> pyval list \<Rightarrow> pyval list result" where
  "disable_others target i [] = Inr []"
| "disable_others target i (p # ps) =
     bindR (if i \<noteq> target
            then bindR (getitem p ''state'') (\<lambda>st. if st = ENABLED then setitem p ''state'' DISABLED else Inr p)
            else Inr p) (\<lambda>p'.
     bindR (disable_others target (i + 1) ps) (\<lambda>ps'. Inr (p' # ps')))"

definition enable_profile_data ::
  "pyval \<Rightarrow> pyval \<Rightarrow> pyval \<Rightarrow> (answer \<times> pyval option) result" where
  "enable_profile_data iccid isdp_aid data =
     bindR (getitem data ''profiles'') (\<lambda>ps.
     bindR (py_iter ps) (\<lambda>profiles.
     bindR (target_idx (entry_matches iccid isdp_aid) profiles) (\<lambda>t.
       (case t of
          None \<Rightarrow> Inr ((False, ''Profile not found''), None)
        | Some i \<Rightarrow>
            bindR (disable_others i 0 profiles) (\<lambda>profiles1.
            bindR (nthR profiles1 i) (\<lambda>p.
            bindR (setitem p ''state'' ENABLED) (\<lambda>p'.
            bindR (setitem data ''profiles'' (PList (profiles1[i := p']))) (\<lambda>d.
              Inr ((True, ''Profile enabled''), Some d)))))))))"

definition enable_profile :: "store_io \<Rightarrow> pyval \<Rightarrow> pyval \<Rightarrow> (pstore, answer) comp" where
  "enable_profile io iccid isdp_aid = store_op io (enable_profile_data iccid isdp_aid)"

definition disable_profile_data ::
  "pyval \<Rightarrow> pyval \<Rightarrow> pyval \<Rightarrow> (answer \<times> pyval option) result" where
  "disable_profile_data iccid isdp_aid data =
     bindR (getitem data ''profiles'') (\<lambda>ps.
     bindR (py_iter ps) (\<lambda>profiles.
     bindR (target_idx (entry_matches iccid isdp_aid) profiles) (\<lambda>t.
       (case t of
          None \<Rightarrow> Inr ((False, ''Profile not found''), None)
        | Some i \<Rightarrow>
            bindR (nthR profiles i) (\<lambda>p.
            bindR (getitem p ''state'') (\<lambda>st.
              if st \<noteq> ENABLED then Inr ((False, ''Profile already disabled''), None)
              else
                bindR (setitem p ''state'' DISABLED) (\<lambda>p'.
                bindR (setitem data ''profiles'' (PList (profiles[i := p']))) (\<lambda>d.
                  Inr ((True, ''Profile disabled''), Some d)))))))))"

definition disable_profile :: "store_io \<Rightarrow> pyval \<Rightarrow> pyval \<Rightarrow> (pstore, answer) comp" where
  "disable_profile io iccid isdp_aid = store_op io (disable_profile_data iccid isdp_aid)"

definition delete_matches :: "pyval \<Rightarrow> pyval \<Rightarrow> pyval \<Rightarrow> pyval \<Rightarrow> bool result" where
  "delete_matches iccid isdp_aid matching_id p =
     bindR (if py_truthy matching_id
            then bindR (get_default p ''matching_id'' PNone) (\<lambda>m. Inr (str_arg_eq matching_id m))
            else Inr False) (\<lambda>b.
       if b then Inr True
       else bindR (item_eq p ''iccid'' iccid) (\<lambda>c.
         if c \<and> \<not> py_truthy matching_id then Inr True else item_eq p ''isdp_aid'' isdp_aid))"

definition delete_profile_data ::
  "pyval \<Rightarrow> pyval \<Rightarrow> pyval \<Rightarrow> pyval \<Rightarrow> (answer \<times> pyval option) result" where
  "delete_profile_data iccid isdp_aid matching_id data =
     bindR (getitem data ''profiles'') (\<lambda>ps.
     bindR (py_iter ps) (\<lambda>profiles.
     bindR (target_idx (delete_matches iccid isdp_aid matching_id) profiles) (\<lambda>t.
       (case t of
          None \<Rightarrow> Inr ((False, ''Profile not found''), None)
        | Some i \<Rightarrow>
            bindR (nthR profiles i) (\<lambda>p.
            bindR (getitem p ''state'') (\<lambda>st.
              if st = ENABLED then Inr ((False, ''Cannot delete enabled profile (disable it first)''), None)
              else
                bindR (setitem data ''profiles'' (PList (take i profiles @ drop (Suc i) profiles))) (\<lambda>d.
                  Inr ((True, ''Profile deleted''), Some d))))))))"

definition delete_profile ::
  "store_io \<Rightarrow> pyval \<Rightarrow> pyval \<Rightarrow> pyval \<Rightarrow> (pstore, answer) comp" where
  "delete_profile io iccid isdp_aid matching_id =
     store_op io (delete_profile_data iccid isdp_aid matching_id)"

definition set_eid :: "store_io \<Rightarrow> string \<Rightarrow> (pstore, unit) comp" where
  "set_eid io eid = store_op io (\<lambda>data. bindR (setitem data ''eid'' (PStr eid)) (\<lambda>d. Inr ((), Some d)))"

end
