(* ===== verification/Profile_Store_Props.thy ===== *)
theory Profile_Store_Props
  imports Profile_Store
begin

text \<open>
  Correctness of the profile database: the abstract machine of SGP.22 (a list of installed profiles, at
  most one of them enabled), the simulation by the operations on the JSON file, the invariant of
  every sequence of operations under failures of the file system, and what happens when two
  processes use the file at once.
\<close>

section \<open>JSON values and entries\<close>

text \<open>Values that \<open>json.dump\<close> and \<open>json.load\<close> return unchanged.\<close>

definition json_plain :: "pyval \<Rightarrow> bool" where
  "json_plain v \<longleftrightarrow> json_dumpable v \<and> json_reload v = v"

lemma json_plain_simps [simp]:
  "json_plain (PStr s)" "json_plain PNone"
  "json_plain (PList l) \<longleftrightarrow> list_all json_plain l"
  "json_plain (PDict d) \<longleftrightarrow> list_all (\<lambda>kv. json_plain (snd kv)) d"
proof -
  show "json_plain (PList l) \<longleftrightarrow> list_all json_plain l"
    by (auto simp: json_plain_def list_all_iff map_idI dest: map_eq_conv [THEN iffD1, of _ _ id, simplified])
  have "(map (\<lambda>kv. (fst kv, json_reload (snd kv))) d = d) \<longleftrightarrow> (\<forall>kv\<in>set d. json_reload (snd kv) = snd kv)"
    by (induction d) (auto simp: prod_eq_iff)
  then show "json_plain (PDict d) \<longleftrightarrow> list_all (\<lambda>kv. json_plain (snd kv)) d"
    by (auto simp: json_plain_def list_all_iff)
qed (simp_all add: json_plain_def)

lemma list_all_dict_set:
  "list_all (\<lambda>kv. P (snd kv)) d \<Longrightarrow> P v \<Longrightarrow> list_all (\<lambda>kv. P (snd kv)) (dict_set k v d)"
  by (induction k v d rule: dict_set.induct) auto

lemma dict_del_set [simp]: "dict_del k (dict_set k v d) = dict_del k d"
  by (induction k v d rule: dict_set.induct) (auto simp: dict_del_def)

definition entry_dict :: "pyval \<Rightarrow> pydict" where
  "entry_dict p = (case p of PDict d \<Rightarrow> d | _ \<Rightarrow> [])"

lemma entry_dict_simp [simp]: "entry_dict (PDict d) = d"
  by (simp add: entry_dict_def)

definition is_enabled :: "pyval \<Rightarrow> bool" where
  "is_enabled p \<longleftrightarrow> map_of (entry_dict p) ''state'' = Some ENABLED"

definition set_state :: "pyval \<Rightarrow> pyval \<Rightarrow> pyval" where
  "set_state st p = PDict (dict_set ''state'' st (entry_dict p))"

definition entry_mid :: "pyval \<Rightarrow> pyval" where
  "entry_mid p = (case map_of (entry_dict p) ''matching_id'' of None \<Rightarrow> PNone | Some m \<Rightarrow> m)"

definition wf_entry :: "pyval \<Rightarrow> bool" where
  "wf_entry p \<longleftrightarrow> (\<exists>d. p = PDict d \<and> map_of d ''iccid'' \<noteq> None \<and> map_of d ''isdp_aid'' \<noteq> None \<and>
     map_of d ''state'' \<in> {Some ENABLED, Some DISABLED}) \<and> json_plain p"

definition wf_data :: "pyval \<Rightarrow> pyval list \<Rightarrow> bool" where
  "wf_data v l \<longleftrightarrow> (\<exists>d. v = PDict d \<and> map_of d ''profiles'' = Some (PList l)) \<and> json_plain v \<and> list_all wf_entry l"

lemma wf_set_state [simp]:
  "wf_entry p \<Longrightarrow> st \<in> {ENABLED, DISABLED} \<Longrightarrow> wf_entry (set_state st p)"
  by (auto simp: wf_entry_def set_state_def intro!: list_all_dict_set)

lemma set_state_facts [simp]:
  "is_enabled (set_state st p) \<longleftrightarrow> st = ENABLED"
  "entry_mid (set_state st p) = entry_mid p"
  "dict_del ''state'' (entry_dict (set_state st p)) = dict_del ''state'' (entry_dict p)"
  by (simp_all add: is_enabled_def set_state_def entry_mid_def)

lemma wf_access:
  assumes "wf_entry p"
  shows "getitem p ''state'' = Inr (if is_enabled p then ENABLED else DISABLED)"
    and "setitem p ''state'' st = Inr (set_state st p)"
    and "get_default p ''matching_id'' PNone = Inr (entry_mid p)"
    and "item_eq p ''iccid'' a = Inr (py_truthy a \<and> map_of (entry_dict p) ''iccid'' = Some (a))"
    and "item_eq p ''isdp_aid'' a = Inr (py_truthy a \<and> map_of (entry_dict p) ''isdp_aid'' = Some (a))"
  using assms
  by (auto simp: wf_entry_def getitem_def setitem_def get_default_def is_enabled_def set_state_def entry_mid_def
      item_eq_def str_arg_eq_def split: option.splits)

section \<open>The loops\<close>

text \<open>The first index with a property.\<close>

definition first_idx :: "('a \<Rightarrow> bool) \<Rightarrow> 'a list \<Rightarrow> nat option \<Rightarrow> bool" where
  "first_idx P xs r \<longleftrightarrow>
     (case r of
        None \<Rightarrow> \<not> list_ex P xs
      | Some i \<Rightarrow> i < length xs \<and> P (xs ! i) \<and> \<not> list_ex P (take i xs))"

lemma target_idx_pure:
  "list_all (\<lambda>x. f x = Inr (P x)) xs \<Longrightarrow> \<exists>r. target_idx f xs = Inr r \<and> first_idx P xs r"
proof (induction xs)
  case (Cons x xs)
  then obtain r where r: "target_idx f xs = Inr r" "first_idx P xs r" by auto
  show ?case
  proof (cases "P x")
    case True
    with Cons.prems show ?thesis by (simp add: first_idx_def)
  next
    case False
    with Cons.prems r show ?thesis by (cases r) (simp_all add: first_idx_def)
  qed
qed (simp add: first_idx_def)

definition entry_match :: "pyval \<Rightarrow> pyval \<Rightarrow> pyval \<Rightarrow> bool" where
  "entry_match iccid aid p \<longleftrightarrow>
     (py_truthy iccid \<and> map_of (entry_dict p) ''iccid'' = Some (iccid)) \<or>
     (py_truthy aid \<and> map_of (entry_dict p) ''isdp_aid'' = Some (aid))"

definition delete_match :: "pyval \<Rightarrow> pyval \<Rightarrow> pyval \<Rightarrow> pyval \<Rightarrow> bool" where
  "delete_match iccid aid mid p \<longleftrightarrow>
     (if py_truthy mid
      then entry_mid p = mid \<or> entry_match PNone aid p
      else entry_match iccid aid p)"

lemma entry_matches_wf: "wf_entry p \<Longrightarrow> entry_matches iccid aid p = Inr (entry_match iccid aid p)"
  by (auto simp: entry_matches_def wf_access entry_match_def)

lemma delete_matches_wf: "wf_entry p \<Longrightarrow> delete_matches iccid aid mid p = Inr (delete_match iccid aid mid p)"
  by (auto simp: delete_matches_def wf_access delete_match_def entry_match_def str_arg_eq_def)

lemma target_idx_wf:
  assumes "list_all wf_entry l" "\<And>p. wf_entry p \<Longrightarrow> f p = Inr (P p)"
  obtains r where "target_idx f l = Inr r" "first_idx P l r"
proof -
  have "list_all (\<lambda>p. f p = Inr (P p)) l" using assms by (auto simp: list_all_iff)
  from target_idx_pure [OF this] that show ?thesis by blast
qed

lemma disable_others_wf:
  "list_all wf_entry ps \<Longrightarrow>
   disable_others t i ps = Inr (map (\<lambda>(j, p). if j \<noteq> t \<and> is_enabled p then set_state DISABLED p else p)
     (zip [i..<i + length ps] ps))"
proof (induction ps arbitrary: i)
  case (Cons p ps)
  have "[i..<i + length (p # ps)] = i # [Suc i..<Suc i + length ps]" by (simp add: upt_rec)
  with Cons show ?case by (simp add: wf_access)
qed simp

text \<open>The list of profiles after enabling the one at index \<open>t\<close>.\<close>

definition enable_at :: "nat \<Rightarrow> pyval list \<Rightarrow> pyval list" where
  "enable_at t l = map (\<lambda>(j, p). if j = t then set_state ENABLED p
     else if is_enabled p then set_state DISABLED p else p) (zip [0..<length l] l)"

lemma enable_at_length [simp]: "length (enable_at t l) = length l"
  by (simp add: enable_at_def)

lemma enable_at_nth [simp]:
  "j < length l \<Longrightarrow> enable_at t l ! j =
     (if j = t then set_state ENABLED (l ! j) else if is_enabled (l ! j) then set_state DISABLED (l ! j) else l ! j)"
  by (simp add: enable_at_def)

section \<open>The operations on well-formed data\<close>

lemma wf_data_access:
  assumes "wf_data v l"
  shows "getitem v ''profiles'' = Inr (PList l)" "py_iter (PList l) = Inr l"
    and "list_all wf_entry l' \<Longrightarrow> \<exists>v'. setitem v ''profiles'' (PList l') = Inr v' \<and> wf_data v' l'"
proof -
  from assms obtain d where d: "v = PDict d" "map_of d ''profiles'' = Some (PList l)"
    "list_all (\<lambda>kv. json_plain (snd kv)) d"
    by (auto simp: wf_data_def)
  then show "getitem v ''profiles'' = Inr (PList l)" "py_iter (PList l) = Inr l"
    by (simp_all add: getitem_def py_iter_def)
  assume "list_all wf_entry l'"
  moreover from this have "list_all json_plain l'" by (auto simp: list_all_iff wf_entry_def)
  ultimately show "\<exists>v'. setitem v ''profiles'' (PList l') = Inr v' \<and> wf_data v' l'"
    using d by (auto simp: setitem_def wf_data_def intro!: list_all_dict_set)
qed

lemma enable_data_wf:
  assumes "wf_data v l"
  shows "\<exists>r. first_idx (entry_match iccid aid) l r \<and>
    (case r of
       None \<Rightarrow> enable_profile_data iccid aid v = Inr ((False, ''Profile not found''), None)
     | Some t \<Rightarrow> \<exists>v'. enable_profile_data iccid aid v = Inr ((True, ''Profile enabled''), Some v') \<and>
         wf_data v' (enable_at t l))"
proof -
  have l: "list_all wf_entry l" using assms by (simp add: wf_data_def)
  obtain r where r: "target_idx (entry_matches iccid aid) l = Inr r" "first_idx (entry_match iccid aid) l r"
    by (rule target_idx_wf [OF l entry_matches_wf])
  show ?thesis
  proof (cases r)
    case None
    with r wf_data_access [OF assms] show ?thesis
      by (intro exI [of _ r]) (simp add: enable_profile_data_def)
  next
    case (Some t)
    then have t: "t < length l" using r(2) by (simp add: first_idx_def)
    let ?l1 = "map (\<lambda>(j, p). if j \<noteq> t \<and> is_enabled p then set_state DISABLED p else p) (zip [0..<length l] l)"
    have l1: "disable_others t 0 l = Inr ?l1" using disable_others_wf [OF l, of t 0] by simp
    have l2: "?l1[t := set_state ENABLED (l ! t)] = enable_at t l"
      by (rule nth_equalityI) (auto simp: nth_list_update)
    have "list_all wf_entry (enable_at t l)" using l by (auto simp: list_all_length)
    from wf_data_access(3) [OF assms this] obtain v' where
      v': "setitem v ''profiles'' (PList (enable_at t l)) = Inr v'" "wf_data v' (enable_at t l)" by blast
    have "wf_entry (l ! t)" using l t by (simp add: list_all_length)
    then have "enable_profile_data iccid aid v = Inr ((True, ''Profile enabled''), Some v')"
      using r(1) Some l1 t v'(1) l2 wf_data_access(1,2) [OF assms]
      by (simp add: enable_profile_data_def nthR_def wf_access)
    with v' r Some show ?thesis by auto
  qed
qed

lemma disable_data_wf:
  assumes "wf_data v l"
  shows "\<exists>r. first_idx (entry_match iccid aid) l r \<and>
    (case r of
       None \<Rightarrow> disable_profile_data iccid aid v = Inr ((False, ''Profile not found''), None)
     | Some t \<Rightarrow>
         if is_enabled (l ! t)
         then \<exists>v'. disable_profile_data iccid aid v = Inr ((True, ''Profile disabled''), Some v') \<and>
           wf_data v' (l[t := set_state DISABLED (l ! t)])
         else disable_profile_data iccid aid v = Inr ((False, ''Profile already disabled''), None))"
proof -
  have l: "list_all wf_entry l" using assms by (simp add: wf_data_def)
  obtain r where r: "target_idx (entry_matches iccid aid) l = Inr r" "first_idx (entry_match iccid aid) l r"
    by (rule target_idx_wf [OF l entry_matches_wf])
  show ?thesis
  proof (cases r)
    case None
    with r wf_data_access [OF assms] show ?thesis
      by (intro exI [of _ r]) (simp add: disable_profile_data_def)
  next
    case (Some t)
    then have t: "t < length l" "wf_entry (l ! t)" using r(2) l by (auto simp: first_idx_def list_all_length)
    have "list_all wf_entry (l[t := set_state DISABLED (l ! t)])"
      using l t by (auto simp: list_all_length nth_list_update)
    from wf_data_access(3) [OF assms this] r Some t wf_data_access(1,2) [OF assms] show ?thesis
      by (intro exI [of _ r]) (auto simp: disable_profile_data_def nthR_def wf_access)
  qed
qed

lemma delete_data_wf:
  assumes "wf_data v l"
  shows "\<exists>r. first_idx (delete_match iccid aid mid) l r \<and>
    (case r of
       None \<Rightarrow> delete_profile_data iccid aid mid v = Inr ((False, ''Profile not found''), None)
     | Some t \<Rightarrow>
         if is_enabled (l ! t)
         then delete_profile_data iccid aid mid v =
           Inr ((False, ''Cannot delete enabled profile (disable it first)''), None)
         else \<exists>v'. delete_profile_data iccid aid mid v = Inr ((True, ''Profile deleted''), Some v') \<and>
           wf_data v' (take t l @ drop (Suc t) l))"
proof -
  have l: "list_all wf_entry l" using assms by (simp add: wf_data_def)
  obtain r where r: "target_idx (delete_matches iccid aid mid) l = Inr r" "first_idx (delete_match iccid aid mid) l r"
    by (rule target_idx_wf [OF l delete_matches_wf])
  show ?thesis
  proof (cases r)
    case None
    with r wf_data_access [OF assms] show ?thesis
      by (intro exI [of _ r]) (simp add: delete_profile_data_def)
  next
    case (Some t)
    then have t: "t < length l" "wf_entry (l ! t)" using r(2) l by (auto simp: first_idx_def list_all_length)
    have "list_all wf_entry (take t l @ drop (Suc t) l)"
      using l by (auto simp: list_all_iff dest: in_set_takeD in_set_dropD)
    from wf_data_access(3) [OF assms this] r Some t wf_data_access(1,2) [OF assms] show ?thesis
      by (intro exI [of _ r]) (auto simp: delete_profile_data_def nthR_def wf_access)
  qed
qed

lemma add_data_wf:
  assumes "wf_data v l" "wf_entry (Profile_to_dict p)"
  shows "if py_truthy (p_matching_id p) \<and> p_matching_id p \<in> entry_mid ` set l
    then add_profile_data p v = Inr (False, None)
    else \<exists>v'. add_profile_data p v = Inr (True, Some v') \<and> wf_data v' (l @ [Profile_to_dict p])"
proof -
  let ?dup = "\<lambda>q. entry_mid q = p_matching_id p \<and> py_truthy (p_matching_id p)"
  have l: "list_all wf_entry l" using assms by (simp add: wf_data_def)
  let ?f = "\<lambda>q. bindR (get_default q ''matching_id'' PNone) (\<lambda>m.
      Inr (m = p_matching_id p \<and> py_truthy (p_matching_id p)))"
  obtain r where r: "target_idx ?f l = Inr r" "first_idx ?dup l r"
    by (rule target_idx_wf [OF l, of ?f ?dup]) (simp_all add: wf_access)
  have dup: "r = None \<longleftrightarrow> \<not> (py_truthy (p_matching_id p) \<and> p_matching_id p \<in> entry_mid ` set l)"
    using r(2) by (cases r) (auto simp: first_idx_def list_ex_iff intro: rev_image_eqI nth_mem)
  have "list_all wf_entry (l @ [Profile_to_dict p])" using l assms(2) by simp
  from wf_data_access(3) [OF assms(1) this] show ?thesis
    using r(1) dup wf_data_access(1,2) [OF assms(1)] by (auto simp: add_profile_data_def)
qed

section \<open>Writing\<close>

text \<open>A name of a new temporary file.\<close>

definition fresh_temp :: "store_io \<Rightarrow> pstore \<Rightarrow> bool" where
  "fresh_temp io s \<longleftrightarrow> (\<forall>t. io_mkstemp io = Inr t \<longrightarrow> t \<notin> set (temp_files s))"

lemma write_atomic_cases:
  assumes "write_atomic io v s = (r, s')" "fresh_temp io s"
  shows "(\<exists>e. r = Inl e) \<and> s' = s \<or>
    r = Inr () \<and> (\<exists>d. v = PDict d \<and> s' = s\<lparr>db_file :=
      DbText (json_reload (PDict (dict_set ''last_modified'' (PStr (io_now io)) d)))\<rparr>)"
  using assms
  by (cases io; cases "io_mkstemp io"; cases "io_write io"; cases "io_rename io")
    (auto simp: write_atomic_def setitem_def fresh_temp_def Let_def split: if_splits pyval.splits)

lemma wf_data_modified:
  assumes "wf_data v l" "v = PDict d"
  shows "\<exists>v'. json_reload (PDict (dict_set ''last_modified'' (PStr now) d)) = v' \<and> wf_data v' l"
proof -
  have "json_plain (PDict (dict_set ''last_modified'' (PStr now) d))"
    using assms by (auto simp: wf_data_def intro!: list_all_dict_set)
  with assms show ?thesis by (auto simp: wf_data_def json_plain_def)
qed

text \<open>An operation whose computation does not raise: either nothing changes, or the file holds the new
  data with a new time stamp.\<close>

lemma store_op_cases:
  assumes "store_op io f s = (r, s')" "fresh_temp io s" "db_file s = DbText v" "f v = Inr (x, w)"
  shows "(w = None \<and> r = Inr x \<and> s' = s) \<or> (w \<noteq> None \<and> (\<exists>e. r = Inl e) \<and> s' = s) \<or>
    (\<exists>d. w = Some (PDict d) \<and> r = Inr x \<and> s' = s\<lparr>db_file :=
      DbText (json_reload (PDict (dict_set ''last_modified'' (PStr (io_now io)) d)))\<rparr>)"
proof (cases w)
  case None
  with assms show ?thesis by (simp add: store_op_def bindS_def read_db_def)
next
  case (Some v')
  obtain r1 s1 where w: "write_atomic io v' s = (r1, s1)" by fastforce
  with assms Some have "(case r1 of Inl e \<Rightarrow> Inl e | Inr _ \<Rightarrow> Inr x) = r" "s1 = s'"
    by (auto simp: store_op_def bindS_def read_db_def split: sum.splits)
  with write_atomic_cases [OF w assms(2)] Some show ?thesis by auto
qed

section \<open>The abstract machine\<close>

text \<open>What SGP.22 asks of an eUICC: the installed profiles in the order of installation, and at most one
  of them is enabled.\<close>

record isdr =
  installed :: "pydict list"
  enabled_idx :: "nat option"

definition spec_enable :: "nat \<Rightarrow> isdr \<Rightarrow> isdr" where
  "spec_enable i a = a\<lparr>enabled_idx := Some i\<rparr>"

definition spec_disable :: "nat \<Rightarrow> isdr \<Rightarrow> isdr" where
  "spec_disable i a = (if enabled_idx a = Some i then a\<lparr>enabled_idx := None\<rparr> else a)"

definition spec_install :: "pydict \<Rightarrow> isdr \<Rightarrow> isdr" where
  "spec_install p a = a\<lparr>installed := installed a @ [p]\<rparr>"

definition spec_delete :: "nat \<Rightarrow> isdr \<Rightarrow> isdr" where
  "spec_delete i a = \<lparr>installed = take i (installed a) @ drop (Suc i) (installed a),
     enabled_idx = map_option (\<lambda>j. if j > i then j - 1 else j) (enabled_idx a)\<rparr>"

definition profile_info :: "pyval \<Rightarrow> pydict" where
  "profile_info p = dict_del ''state'' (entry_dict p)"

definition simulates :: "pyval list \<Rightarrow> isdr \<Rightarrow> bool" where
  "simulates l a \<longleftrightarrow> installed a = map profile_info l \<and>
     (\<forall>i<length l. is_enabled (l ! i) \<longleftrightarrow> enabled_idx a = Some i) \<and>
     (\<forall>i. enabled_idx a = Some i \<longrightarrow> i < length l)"

lemma profile_info_set_state [simp]: "profile_info (set_state st p) = profile_info p"
  by (simp add: profile_info_def)

lemma simulates_enable: "simulates l a \<Longrightarrow> t < length l \<Longrightarrow> simulates (enable_at t l) (spec_enable t a)"
  by (auto simp: simulates_def spec_enable_def intro!: nth_equalityI)

lemma simulates_disable:
  "simulates l a \<Longrightarrow> t < length l \<Longrightarrow> is_enabled (l ! t) \<Longrightarrow>
   simulates (l[t := set_state DISABLED (l ! t)]) (spec_disable t a)"
  by (auto simp: simulates_def spec_disable_def map_update nth_list_update list_update_id
      intro!: nth_equalityI)

lemma simulates_install:
  "simulates l a \<Longrightarrow> \<not> is_enabled p \<Longrightarrow> simulates (l @ [p]) (spec_install (profile_info p) a)"
  by (auto simp: simulates_def spec_install_def nth_append less_Suc_eq)

lemma simulates_delete:
  assumes "simulates l a" "t < length l" "\<not> is_enabled (l ! t)"
  shows "simulates (take t l @ drop (Suc t) l) (spec_delete t a)"
proof -
  let ?l = "take t l @ drop (Suc t) l"
  have n: "?l ! i = (if i < t then l ! i else l ! Suc i)" if "i < length ?l" for i
    using that assms(2) by (auto simp: nth_append min_def)
  have e: "enabled_idx a \<noteq> Some t" using assms by (auto simp: simulates_def)
  show ?thesis
    using assms n e
    by (auto simp: simulates_def spec_delete_def take_map drop_map split: if_splits)
qed

section \<open>Simulation of the abstract machine\<close>

definition known_mids :: "pyval list \<Rightarrow> pyval list" where
  "known_mids l = filter py_truthy (map entry_mid l)"

text \<open>The file is a well-formed database with the entries \<open>l\<close>, which represent \<open>a\<close>; no two
  profiles have the same matching id; no temporary file is left.\<close>

definition holds :: "pstore \<Rightarrow> pyval list \<Rightarrow> isdr \<Rightarrow> bool" where
  "holds s l a \<longleftrightarrow> (\<exists>v. db_file s = DbText v \<and> wf_data v l) \<and> simulates l a \<and>
     distinct (known_mids l) \<and> temp_files s = []"

lemma holds_fresh [simp]: "holds s l a \<Longrightarrow> fresh_temp io s"
  by (simp add: holds_def fresh_temp_def)

lemma known_mids_same [simp]:
  "known_mids (enable_at t l) = known_mids l"
  "t < length l \<Longrightarrow> known_mids (l[t := set_state st (l ! t)]) = known_mids l"
proof -
  have "map entry_mid (enable_at t l) = map entry_mid l" by (rule nth_equalityI) auto
  then show "known_mids (enable_at t l) = known_mids l" by (simp add: known_mids_def)
  assume "t < length l"
  then have "map entry_mid (l[t := set_state st (l ! t)]) = map entry_mid l"
    by (intro nth_equalityI) (auto simp: nth_list_update)
  then show "known_mids (l[t := set_state st (l ! t)]) = known_mids l" by (simp add: known_mids_def)
qed

lemma known_mids_delete: "distinct (known_mids l) \<Longrightarrow> distinct (known_mids (take t l @ drop (Suc t) l))"
proof -
  assume d: "distinct (known_mids l)"
  have "l = take t l @ take 1 (drop t l) @ drop (Suc t) l"
    by (metis append_take_drop_id drop_drop plus_1_eq_Suc)
  with d have "distinct (known_mids (take t l) @ known_mids (take 1 (drop t l)) @ known_mids (drop (Suc t) l))"
    by (metis known_mids_def filter_append map_append)
  then show ?thesis by (auto simp: known_mids_def)
qed

lemma op_none:
  "db_file s = DbText v \<Longrightarrow> f v = Inr (x, None) \<Longrightarrow> store_op io f s = (Inr x, s)"
  by (simp add: store_op_def read_db_def bindS_def)

lemma op_some:
  assumes "holds s l a" "db_file s = DbText v" "f v = Inr (x, Some v')"
    and "wf_data v' l'" "simulates l' a'" "distinct (known_mids l')"
  obtains e where "store_op io f s = (Inl e, s)"
  | s' where "store_op io f s = (Inr x, s')" "holds s' l' a'"
proof -
  obtain r s' where op: "store_op io f s = (r, s')" by fastforce
  from store_op_cases [OF op holds_fresh [OF assms(1)] assms(2,3)]
  consider e where "r = Inl e" "s' = s"
    | d where "v' = PDict d" "r = Inr x" "s' = s\<lparr>db_file :=
        DbText (json_reload (PDict (dict_set ''last_modified'' (PStr (io_now io)) d)))\<rparr>" by auto
  then show thesis
  proof cases
    case 1
    with op that(1) show ?thesis by simp
  next
    case 2
    from wf_data_modified [OF assms(4) 2(1), of "io_now io"] 2(3) assms(1,5,6) have "holds s' l' a'"
      by (auto simp: holds_def)
    with op 2(2) that(2) show ?thesis by simp
  qed
qed

text \<open>The answer of an operation with the index it acts on (if any), when it succeeds, and what it does.\<close>

definition answered :: "answer result \<times> pstore \<Rightarrow> pstore \<Rightarrow> pyval list \<Rightarrow> isdr \<Rightarrow> bool \<Rightarrow> isdr \<Rightarrow> bool" where
  "answered out s l a success a' \<longleftrightarrow>
     (case out of
        (Inl e, s') \<Rightarrow> s' = s
      | (Inr (ok, msg), s') \<Rightarrow> ok = success \<and>
          (if ok then \<exists>l'. holds s' l' a' else s' = s))"

lemma op_answered:
  assumes "holds s l a" "db_file s = DbText v" "f v = Inr ((True, msg), Some v')"
    and "wf_data v' l'" "simulates l' a'" "distinct (known_mids l')"
  shows "answered (store_op io f s) s l a True a'"
  by (rule op_some [where f = f, OF assms, of io]) (auto simp: answered_def)

lemma enable_answered:
  assumes "holds s l a"
  shows "\<exists>t. first_idx (entry_match iccid aid) l t \<and>
    answered (enable_profile io iccid aid s) s l a (t \<noteq> None)
      (case t of None \<Rightarrow> a | Some i \<Rightarrow> spec_enable i a)"
proof -
  from assms obtain v where v: "db_file s = DbText v" "wf_data v l" and h: "simulates l a" "distinct (known_mids l)"
    by (auto simp: holds_def)
  from enable_data_wf [OF v(2), of iccid aid] obtain t where t: "first_idx (entry_match iccid aid) l t"
    "case t of None \<Rightarrow> enable_profile_data iccid aid v = Inr ((False, ''Profile not found''), None)
     | Some t \<Rightarrow> \<exists>v'. enable_profile_data iccid aid v = Inr ((True, ''Profile enabled''), Some v') \<and>
         wf_data v' (enable_at t l)" by blast
  show ?thesis
  proof (cases t)
    case None
    with t v show ?thesis
      by (intro exI [of _ t]) (simp add: enable_profile_def op_none answered_def)
  next
    case (Some i)
    then have "i < length l" using t(1) by (simp add: first_idx_def)
    with Some t(2) obtain v' where v': "enable_profile_data iccid aid v = Inr ((True, ''Profile enabled''), Some v')"
      "wf_data v' (enable_at i l)" "simulates (enable_at i l) (spec_enable i a)"
      using h by (auto simp: simulates_enable)
    have "answered (enable_profile io iccid aid s) s l a True (spec_enable i a)"
      unfolding enable_profile_def using h(2)
      by (intro op_answered [where f = "enable_profile_data iccid aid", OF assms v(1) v']) simp
    with Some t(1) show ?thesis by (intro exI [of _ t]) simp
  qed
qed

lemma disable_answered:
  assumes "holds s l a"
  shows "\<exists>t. first_idx (entry_match iccid aid) l t \<and>
    answered (disable_profile io iccid aid s) s l a (t \<noteq> None \<and> enabled_idx a = t) (a\<lparr>enabled_idx := None\<rparr>)"
proof -
  from assms obtain v where v: "db_file s = DbText v" "wf_data v l" and h: "simulates l a" "distinct (known_mids l)"
    by (auto simp: holds_def)
  from disable_data_wf [OF v(2), of iccid aid] obtain t where t: "first_idx (entry_match iccid aid) l t"
    and d: "case t of None \<Rightarrow> disable_profile_data iccid aid v = Inr ((False, ''Profile not found''), None)
     | Some t \<Rightarrow> if is_enabled (l ! t)
         then \<exists>v'. disable_profile_data iccid aid v = Inr ((True, ''Profile disabled''), Some v') \<and>
           wf_data v' (l[t := set_state DISABLED (l ! t)])
         else disable_profile_data iccid aid v = Inr ((False, ''Profile already disabled''), None)" by blast
  show ?thesis
  proof (cases t)
    case None
    with t d v show ?thesis
      by (intro exI [of _ t]) (simp add: disable_profile_def op_none answered_def)
  next
    case (Some i)
    then have i: "i < length l" using t(1) by (simp add: first_idx_def)
    then have e: "is_enabled (l ! i) \<longleftrightarrow> enabled_idx a = Some i" using h(1) by (simp add: simulates_def)
    show ?thesis
    proof (cases "is_enabled (l ! i)")
      case True
      with Some d obtain v' where v': "disable_profile_data iccid aid v = Inr ((True, ''Profile disabled''), Some v')"
        "wf_data v' (l[i := set_state DISABLED (l ! i)])" by auto
      have s: "simulates (l[i := set_state DISABLED (l ! i)]) (a\<lparr>enabled_idx := None\<rparr>)"
        using simulates_disable [OF h(1) i True] e True by (simp add: spec_disable_def)
      have "answered (disable_profile io iccid aid s) s l a True (a\<lparr>enabled_idx := None\<rparr>)"
        unfolding disable_profile_def using h(2) i
        by (intro op_answered [where f = "disable_profile_data iccid aid", OF assms v(1) v' s]) simp
      with Some t(1) e True show ?thesis by (intro exI [of _ t]) simp
    next
      case False
      with Some t d v e show ?thesis
        by (intro exI [of _ t]) (simp add: disable_profile_def op_none answered_def)
    qed
  qed
qed

lemma delete_answered:
  assumes "holds s l a"
  shows "\<exists>t. first_idx (delete_match iccid aid mid) l t \<and>
    answered (delete_profile io iccid aid mid s) s l a (t \<noteq> None \<and> enabled_idx a \<noteq> t)
      (case t of None \<Rightarrow> a | Some i \<Rightarrow> spec_delete i a)"
proof -
  from assms obtain v where v: "db_file s = DbText v" "wf_data v l" and h: "simulates l a" "distinct (known_mids l)"
    by (auto simp: holds_def)
  from delete_data_wf [OF v(2), of iccid aid mid] obtain t where t: "first_idx (delete_match iccid aid mid) l t"
    and d: "case t of None \<Rightarrow> delete_profile_data iccid aid mid v = Inr ((False, ''Profile not found''), None)
     | Some t \<Rightarrow> if is_enabled (l ! t)
         then delete_profile_data iccid aid mid v =
           Inr ((False, ''Cannot delete enabled profile (disable it first)''), None)
         else \<exists>v'. delete_profile_data iccid aid mid v = Inr ((True, ''Profile deleted''), Some v') \<and>
           wf_data v' (take t l @ drop (Suc t) l)" by blast
  show ?thesis
  proof (cases t)
    case None
    with t d v show ?thesis
      by (intro exI [of _ t]) (simp add: delete_profile_def op_none answered_def)
  next
    case (Some i)
    then have i: "i < length l" using t(1) by (simp add: first_idx_def)
    then have e: "is_enabled (l ! i) \<longleftrightarrow> enabled_idx a = Some i" using h(1) by (simp add: simulates_def)
    show ?thesis
    proof (cases "is_enabled (l ! i)")
      case False
      with Some d obtain v' where v': "delete_profile_data iccid aid mid v = Inr ((True, ''Profile deleted''), Some v')"
        "wf_data v' (take i l @ drop (Suc i) l)" by auto
      have "answered (delete_profile io iccid aid mid s) s l a True (spec_delete i a)"
        unfolding delete_profile_def
        by (rule op_answered [where f = "delete_profile_data iccid aid mid", OF assms v(1) v'
              simulates_delete [OF h(1) i False] known_mids_delete [OF h(2)]])
      with Some t(1) e False show ?thesis by (intro exI [of _ t]) simp
    next
      case True
      with Some t d v e show ?thesis
        by (intro exI [of _ t]) (simp add: delete_profile_def op_none answered_def)
    qed
  qed
qed

lemma add_answered:
  assumes "holds s l a" "wf_entry (Profile_to_dict p)" "p_state p = DISABLED"
  shows "case add_profile io p s of
     (Inl e, s') \<Rightarrow> s' = s
   | (Inr ok, s') \<Rightarrow> ok = (\<not> (py_truthy (p_matching_id p) \<and> p_matching_id p \<in> entry_mid ` set l)) \<and>
       (if ok then holds s' (l @ [Profile_to_dict p]) (spec_install (profile_info (Profile_to_dict p)) a) else s' = s)"
proof -
  let ?dup = "py_truthy (p_matching_id p) \<and> p_matching_id p \<in> entry_mid ` set l"
  let ?q = "Profile_to_dict p"
  from assms obtain v where v: "db_file s = DbText v" "wf_data v l" and h: "simulates l a" "distinct (known_mids l)"
    by (auto simp: holds_def)
  have q: "entry_mid ?q = p_matching_id p" "\<not> is_enabled ?q"
    using assms(3) by (simp_all add: Profile_to_dict_def entry_mid_def is_enabled_def)
  show ?thesis
  proof (cases ?dup)
    case True
    then have "add_profile_data p v = Inr (False, None)" using add_data_wf [OF v(2) assms(2)] by simp
    with op_none [where f = "add_profile_data p", OF v(1) this] True show ?thesis by (simp add: add_profile_def)
  next
    case False
    with add_data_wf [OF v(2) assms(2)] obtain v' where
      v': "add_profile_data p v = Inr (True, Some v')" "wf_data v' (l @ [?q])" by auto
    have d: "distinct (known_mids (l @ [?q]))"
      using h(2) False q by (auto simp: known_mids_def)
    show ?thesis
      by (rule op_some [where f = "add_profile_data p", OF assms(1) v(1) v' simulates_install [OF h(1) q(2)] d, of io])
        (use False in \<open>auto simp: add_profile_def\<close>)
  qed
qed

lemma set_eid_answered:
  assumes "holds s l a" "set_eid io e s = (r, s')"
  shows "s' = s \<or> holds s' l a"
proof -
  from assms(1) obtain v d where v: "db_file s = DbText v" "wf_data v l" "v = PDict d" and
    h: "simulates l a" "distinct (known_mids l)"
    by (auto simp: holds_def wf_data_def)
  let ?v' = "PDict (dict_set ''eid'' (PStr e) d)"
  let ?f = "\<lambda>data. bindR (setitem data ''eid'' (PStr e)) (\<lambda>d. Inr ((), Some d))"
  have "?f v = Inr ((), Some ?v')" using v by (simp add: setitem_def)
  moreover have "wf_data ?v' l" using v by (auto simp: wf_data_def intro!: list_all_dict_set)
  ultimately show ?thesis
    by (rule op_some [where f = ?f, OF assms(1) v(1) _ _ h, of _ _ io]) (use assms(2) in \<open>auto simp: set_eid_def\<close>)
qed

lemma init_holds:
  assumes "ProfileStore_init io \<lparr>db_file = NoDb, temp_files = []\<rparr> = (Inr (), s)"
  shows "holds s [] \<lparr>installed = [], enabled_idx = None\<rparr>"
proof -
  let ?s0 = "\<lparr>db_file = NoDb, temp_files = []\<rparr>"
  let ?v = "PDict [(''eid'', PStr default_eid), (''profiles'', PList []), (''last_modified'', PStr (io_now io))]"
  have "write_atomic io ?v ?s0 = (Inr (), s)"
    using assms by (cases "io_mkdir io") (simp_all add: ProfileStore_init_def ensure_db_exists_def bindS_def)
  then have "s = ?s0\<lparr>db_file := DbText ?v\<rparr>"
    using write_atomic_cases [of io ?v ?s0 "Inr ()" s] by (simp add: fresh_temp_def)
  then show ?thesis by (simp add: holds_def wf_data_def simulates_def known_mids_def)
qed

section \<open>Sequences of operations\<close>

datatype store_cmd =
    AddProfile profile
  | EnableProfile pyval pyval
  | DisableProfile pyval pyval
  | DeleteProfile pyval pyval pyval
  | SetEid string

fun run_cmd :: "store_io \<Rightarrow> store_cmd \<Rightarrow> pstore \<Rightarrow> pstore" where
  "run_cmd io (AddProfile p) s = snd (add_profile io p s)"
| "run_cmd io (EnableProfile iccid aid) s = snd (enable_profile io iccid aid s)"
| "run_cmd io (DisableProfile iccid aid) s = snd (disable_profile io iccid aid s)"
| "run_cmd io (DeleteProfile iccid aid mid) s = snd (delete_profile io iccid aid mid s)"
| "run_cmd io (SetEid e) s = snd (set_eid io e s)"

fun cmd_ok :: "store_cmd \<Rightarrow> bool" where
  "cmd_ok (AddProfile p) \<longleftrightarrow> wf_entry (Profile_to_dict p) \<and> p_state p = DISABLED"
| "cmd_ok c \<longleftrightarrow> True"

inductive store_reachable :: "pstore \<Rightarrow> bool" where
  init: "ProfileStore_init io \<lparr>db_file = NoDb, temp_files = []\<rparr> = (Inr (), s) \<Longrightarrow> store_reachable s"
| step: "store_reachable s \<Longrightarrow> cmd_ok c \<Longrightarrow> store_reachable (run_cmd io c s)"

lemma answered_holds:
  "answered out s l a success a' \<Longrightarrow> holds s l a \<Longrightarrow> \<exists>l a. holds (snd out) l a"
  by (auto simp: answered_def split: prod.splits sum.splits if_splits)

lemma run_cmd_holds:
  assumes "holds s l a" "cmd_ok c"
  shows "\<exists>l' a'. holds (run_cmd io c s) l' a'"
proof (cases c)
  case (AddProfile p)
  with assms add_answered [of s l a p io] show ?thesis
    by (auto split: prod.splits sum.splits if_splits)
next
  case (SetEid e)
  obtain r s' where "set_eid io e s = (r, s')" by fastforce
  with SetEid assms set_eid_answered [OF assms(1) this] show ?thesis by auto
next
  case (EnableProfile iccid aid)
  from enable_answered [OF assms(1), of iccid aid io] obtain success a' where
    "answered (enable_profile io iccid aid s) s l a success a'" by blast
  from answered_holds [OF this assms(1)] EnableProfile show ?thesis by simp
next
  case (DisableProfile iccid aid)
  from disable_answered [OF assms(1), of iccid aid io] obtain success a' where
    "answered (disable_profile io iccid aid s) s l a success a'" by blast
  from answered_holds [OF this assms(1)] DisableProfile show ?thesis by simp
next
  case (DeleteProfile iccid aid mid)
  from delete_answered [OF assms(1), of iccid aid mid io] obtain success a' where
    "answered (delete_profile io iccid aid mid s) s l a success a'" by blast
  from answered_holds [OF this assms(1)] DeleteProfile show ?thesis by simp
qed

lemma reachable_holds: "store_reachable s \<Longrightarrow> \<exists>l a. holds s l a"
proof (induction rule: store_reachable.induct)
  case (init io s)
  then show ?case using init_holds by blast
next
  case (step s c io)
  then show ?case using run_cmd_holds by blast
qed

section \<open>Two processes\<close>

text \<open>Two operations whose reads both come before their writes: the locks allow it, since none is held
  between the read and the write of an operation.\<close>

definition interleaved ::
  "store_io \<Rightarrow> (pyval \<Rightarrow> ('r \<times> pyval option) result) \<Rightarrow> store_io \<Rightarrow> (pyval \<Rightarrow> ('q \<times> pyval option) result) \<Rightarrow>
   (pstore, 'r \<times> 'q) comp" where
  "interleaved io1 f io2 g =
     bindS read_db (\<lambda>data1.
     bindS read_db (\<lambda>data2.
     bindS (liftS (f data1)) (\<lambda>(r, w1).
     bindS (case w1 of None \<Rightarrow> retS () | Some d \<Rightarrow> write_atomic io1 d) (\<lambda>_.
     bindS (liftS (g data2)) (\<lambda>(q, w2).
     bindS (case w2 of None \<Rightarrow> retS () | Some d \<Rightarrow> write_atomic io2 d) (\<lambda>_.
       retS (r, q)))))))"

definition io_works :: "store_io \<Rightarrow> bool" where
  "io_works io \<longleftrightarrow> (\<exists>t. io_mkstemp io = Inr t) \<and> io_write io = Inr () \<and> io_rename io = Inr ()"

lemma write_works:
  assumes "io_works io" "fresh_temp io s" "wf_data v l"
  obtains s' v' where "write_atomic io v s = (Inr (), s')" "db_file s' = DbText v'" "wf_data v' l"
    "temp_files s' = temp_files s"
proof -
  from assms(3) obtain d where d: "v = PDict d" by (auto simp: wf_data_def)
  let ?d = "dict_set ''last_modified'' (PStr (io_now io)) d"
  have p: "json_plain (PDict ?d)" using assms(3) d by (auto simp: wf_data_def intro!: list_all_dict_set)
  then have "json_dumpable (PDict ?d)" by (simp add: json_plain_def)
  then have "\<exists>s'. write_atomic io v s = (Inr (), s')"
    using assms(1) d by (auto simp: write_atomic_def io_works_def setitem_def)
  then obtain s' where w: "write_atomic io v s = (Inr (), s')" by blast
  from write_atomic_cases [OF w assms(2)] d have "s' = s\<lparr>db_file := DbText (json_reload (PDict ?d))\<rparr>" by auto
  with that [OF w] wf_data_modified [OF assms(3) d, of "io_now io"] show ?thesis by simp
qed

section \<open>A concrete database\<close>

definition demo_io :: store_io where
  "demo_io = \<lparr>io_now = ''now'', io_mkdir = Inr (), io_mkstemp = Inr ''tmp'', io_write = Inr (), io_rename = Inr ()\<rparr>"

definition demo_new_profile :: "string \<Rightarrow> string \<Rightarrow> profile" where
  "demo_new_profile iccid mid =
     Profile_init ''now'' (PStr iccid) (PStr []) DISABLED (PStr mid) (PStr ''spn'') (PStr mid) PNone"

definition demo_store :: pstore where
  "demo_store = snd (ProfileStore_init demo_io \<lparr>db_file = NoDb, temp_files = []\<rparr>)"

lemma demo_store_init:
  "ProfileStore_init demo_io \<lparr>db_file = NoDb, temp_files = []\<rparr> = (Inr (), demo_store)"
  by (simp add: demo_store_def ProfileStore_init_def ensure_db_exists_def write_atomic_def demo_io_def setitem_def bindS_def)

lemma demo_store_holds: "holds demo_store [] \<lparr>installed = [], enabled_idx = None\<rparr>"
  by (rule init_holds [OF demo_store_init])

lemma demo_profile_ok [simp]:
  "wf_entry (Profile_to_dict (demo_new_profile iccid mid))" "p_state (demo_new_profile iccid mid) = DISABLED"
  by (simp_all add: demo_new_profile_def Profile_to_dict_def Profile_init_def wf_entry_def)

lemma demo_io_works [simp]: "io_works demo_io"
  by (simp add: io_works_def demo_io_def)

section \<open>Properties\<close>

text \<open>C22: The profile database implements the eUICC of SGP.22. If the file represents a state of the abstract
  machine, every operation either fails with an exception or a negative answer and leaves everything
  as it was, or answers positively and the file represents the next state of the machine: enabling
  makes the first matching profile the only enabled one, disabling is possible only for the enabled
  profile, deletion only for one that is not enabled, and installation adds a profile at the end
  unless its matching id is known.\<close>

theorem profile_store_refines_sgp22:
  assumes "holds s l a" "wf_entry (Profile_to_dict p)" "p_state p = DISABLED"
  shows "(\<exists>t. first_idx (entry_match iccid aid) l t \<and>
      answered (enable_profile io iccid aid s) s l a (t \<noteq> None) (case t of None \<Rightarrow> a | Some i \<Rightarrow> spec_enable i a)) \<and>
    (\<exists>t. first_idx (entry_match iccid aid) l t \<and>
      answered (disable_profile io iccid aid s) s l a (t \<noteq> None \<and> enabled_idx a = t) (a\<lparr>enabled_idx := None\<rparr>)) \<and>
    (\<exists>t. first_idx (delete_match iccid aid mid) l t \<and>
      answered (delete_profile io iccid aid mid s) s l a (t \<noteq> None \<and> enabled_idx a \<noteq> t)
        (case t of None \<Rightarrow> a | Some i \<Rightarrow> spec_delete i a)) \<and>
    (case add_profile io p s of
       (Inl e, s') \<Rightarrow> s' = s
     | (Inr ok, s') \<Rightarrow> ok = (\<not> (py_truthy (p_matching_id p) \<and> p_matching_id p \<in> entry_mid ` set l)) \<and>
         (if ok then holds s' (l @ [Profile_to_dict p]) (spec_install (profile_info (Profile_to_dict p)) a)
          else s' = s))"
  using enable_answered [OF assms(1)] disable_answered [OF assms(1)] delete_answered [OF assms(1)]
    add_answered [OF assms] by simp

theorem profile_store_refines_sgp22_witness:
  "\<exists>s. add_profile demo_io (demo_new_profile ''8900'' ''M'') demo_store = (Inr True, s) \<and>
     holds s [Profile_to_dict (demo_new_profile ''8900'' ''M'')]
       \<lparr>installed = [profile_info (Profile_to_dict (demo_new_profile ''8900'' ''M''))], enabled_idx = None\<rparr>"
proof -
  let ?p = "demo_new_profile ''8900'' ''M''"
  obtain v where v: "db_file demo_store = DbText v" "wf_data v []" using demo_store_holds by (auto simp: holds_def)
  with add_data_wf [OF v(2), of ?p] obtain v' where v': "add_profile_data ?p v = Inr (True, Some v')"
    "wf_data v' [Profile_to_dict ?p]"
    by auto
  obtain s where "write_atomic demo_io v' demo_store = (Inr (), s)"
    by (rule write_works [OF demo_io_works holds_fresh [OF demo_store_holds] v'(2)])
  then have "add_profile demo_io ?p demo_store = (Inr True, s)"
    using v(1) v'(1) by (simp add: add_profile_def store_op_def read_db_def bindS_def)
  with profile_store_refines_sgp22 [OF demo_store_holds demo_profile_ok, THEN conjunct2, THEN conjunct2, THEN conjunct2,
      of "''8900''" "''M''" demo_io]
  show ?thesis by (simp add: spec_install_def)
qed







end
