(* ===== verification/Lpa_Services.thy ===== *)
theory Lpa_Services
  imports Profile_Store_Props
begin

text \<open>
  The two wrappers around the command line program lpac: \<open>LPAService\<close> of
  \<^verbatim>\<open>gui/services/lpa_service.py\<close> and \<open>LpaCommandService\<close> of
  \<^verbatim>\<open>mno/services/lpa_command.py\<close>, which also keeps the shared profile database up to date.
  Running lpac is a parameter: its outcome (exit code and output, a timeout, or a failure to run it) may
  depend on the commands that were run before, since it talks to a device. The parser of JSON texts is a
  parameter too. The state of a service is the list of commands it has run and, for the
  operator's service, the database.
\<close>

section \<open>Running lpac\<close>

datatype run_outcome = Exited int string string | RunTimeout | RunError string

type_synonym environ = "(string \<times> string) list"
type_synonym commands = "string list list"

record lpac_env =
  lpac_run :: "commands \<Rightarrow> environ \<Rightarrow> string list \<Rightarrow> nat \<Rightarrow> run_outcome"
  json_loads :: "string \<Rightarrow> pyval result"

definition outcome_triple :: "run_outcome \<Rightarrow> bool \<times> string \<times> string" where
  "outcome_triple out =
     (case out of
        Exited code so se \<Rightarrow> (code = 0, so, se)
      | RunTimeout \<Rightarrow> (False, [], ''Command timed out'')
      | RunError msg \<Rightarrow> (False, [], msg))"

text \<open>\<open>a or b or c\<close> on strings.\<close>

definition str_or :: "string \<Rightarrow> string \<Rightarrow> string" where
  "str_or a b = (if a \<noteq> [] then a else b)"

section \<open>LPAService\<close>

record lpa_service =
  lpac_path :: string
  apdu_host :: string
  apdu_port :: nat
  lpa_environ :: environ

definition update_environ :: "environ \<Rightarrow> environ \<Rightarrow> environ" where
  "update_environ new e = fold (\<lambda>(k, v). dict_set k v) new e"

definition LPAService_init :: "environ \<Rightarrow> string \<Rightarrow> string \<Rightarrow> nat \<Rightarrow> lpa_service" where
  "LPAService_init os_environ path host port =
     \<lparr>lpac_path = path, apdu_host = host, apdu_port = port,
      lpa_environ = update_environ
        [(''LPAC_APDU'', ''socket''), (''LPAC_APDU_SOCKET_HOST'', host), (''LPAC_APDU_SOCKET_PORT'', nat_str port),
         (''DYLD_LIBRARY_PATH'', ''./build/lpac/euicc:./build/lpac/utils:./build/lpac/driver''),
         (''LD_LIBRARY_PATH'', ''./build/lpac/euicc:./build/lpac/utils:./build/lpac/driver'')] os_environ\<rparr>"

definition lpa_run_lpac ::
  "lpac_env \<Rightarrow> lpa_service \<Rightarrow> string list \<Rightarrow> nat \<Rightarrow> (commands, bool \<times> string \<times> string) comp" where
  "lpa_run_lpac env svc args timeout sent =
     (Inr (outcome_triple (lpac_run env sent (lpa_environ svc) (lpac_path svc # args) timeout)), sent @ [args])"

definition lpa_get_chip_info :: "lpac_env \<Rightarrow> lpa_service \<Rightarrow> (commands, pyval) comp" where
  "lpa_get_chip_info env svc =
     bindS (lpa_run_lpac env svc [''chip'', ''info''] 30) (\<lambda>(success, so, se).
       if \<not> success then retS PNone
       else retS (case json_loads env so of Inr v \<Rightarrow> v | Inl _ \<Rightarrow> PNone))"

definition lpa_download_profile ::
  "lpac_env \<Rightarrow> lpa_service \<Rightarrow> string \<Rightarrow> string \<Rightarrow> (commands, answer) comp" where
  "lpa_download_profile env svc smdp_address matching_id =
     bindS (lpa_run_lpac env svc [''profile'', ''download'', ''-s'', smdp_address, ''-m'', matching_id] 120)
       (\<lambda>(success, so, se).
       retS (if success then (True, ''Profile downloaded successfully'')
             else (False, str_or se (str_or so ''Download failed''))))"

text \<open>\<open>data.get('payload', {}).get('data', {}).get(key, default)\<close>.\<close>

definition payload_data :: "pyval \<Rightarrow> string \<Rightarrow> pyval \<Rightarrow> pyval result" where
  "payload_data data key dflt =
     bindR (get_default data ''payload'' (PDict [])) (\<lambda>p.
     bindR (get_default p ''data'' (PDict [])) (\<lambda>d. get_default d key dflt))"

definition lpa_list_profiles :: "lpac_env \<Rightarrow> lpa_service \<Rightarrow> (commands, pyval) comp" where
  "lpa_list_profiles env svc =
     bindS (lpa_run_lpac env svc [''profile'', ''list''] 30) (\<lambda>(success, so, se).
       if \<not> success then retS (PList [])
       else (case json_loads env so of
               Inl _ \<Rightarrow> retS (PList [])
             | Inr data \<Rightarrow> liftS (payload_data data ''profileInfoList'' (PList []))))"

definition lpa_profile_command ::
  "lpac_env \<Rightarrow> lpa_service \<Rightarrow> string \<Rightarrow> string \<Rightarrow> string \<Rightarrow> string \<Rightarrow> (commands, answer) comp" where
  "lpa_profile_command env svc verb done_word failed_msg iccid =
     bindS (lpa_run_lpac env svc [''profile'', verb, iccid] 30) (\<lambda>(success, so, se).
       retS (if success then (True, ''Profile '' @ iccid @ '' '' @ done_word)
             else (False, str_or se (str_or so failed_msg))))"

definition lpa_enable_profile :: "lpac_env \<Rightarrow> lpa_service \<Rightarrow> string \<Rightarrow> (commands, answer) comp" where
  "lpa_enable_profile env svc = lpa_profile_command env svc ''enable'' ''enabled'' ''Enable failed''"

definition lpa_disable_profile :: "lpac_env \<Rightarrow> lpa_service \<Rightarrow> string \<Rightarrow> (commands, answer) comp" where
  "lpa_disable_profile env svc = lpa_profile_command env svc ''disable'' ''disabled'' ''Disable failed''"

definition lpa_delete_profile :: "lpac_env \<Rightarrow> lpa_service \<Rightarrow> string \<Rightarrow> (commands, answer) comp" where
  "lpa_delete_profile env svc = lpa_profile_command env svc ''delete'' ''deleted'' ''Delete failed''"

text \<open>Only \<open>KeyError\<close> and \<open>TypeError\<close> are caught.\<close>

definition lpa_get_eid :: "lpac_env \<Rightarrow> lpa_service \<Rightarrow> (commands, pyval) comp" where
  "lpa_get_eid env svc =
     bindS (lpa_get_chip_info env svc) (\<lambda>chip_info.
       if py_truthy chip_info
       then liftS (catchR (payload_data chip_info ''eidValue'' PNone)
              (\<lambda>e. if e \<in> {KeyError, TypeError} then Inr PNone else Inl e))
       else retS PNone)"

section \<open>LpaCommandService\<close>

record lpa_command =
  lc_store :: pstore
  lc_sent :: commands

definition on_store :: "(pstore, 'a) comp \<Rightarrow> (lpa_command, 'a) comp" where
  "on_store m c = (case m (lc_store c) of (r, st) \<Rightarrow> (r, c\<lparr>lc_store := st\<rparr>))"

text \<open>The environment of lpac with the project root, and the constructor, which opens the database.\<close>

definition command_environ :: "string \<Rightarrow> environ \<Rightarrow> environ" where
  "command_environ root os_environ =
     (let libs = path_join root ''build/lpac/euicc'' @ '':'' @ path_join root ''build/lpac/utils'' @ '':'' @
            path_join root ''build/lpac/driver''
      in update_environ
        [(''LPAC_APDU'', ''socket''), (''LPAC_APDU_SOCKET_HOST'', ''127.0.0.1''), (''LPAC_APDU_SOCKET_PORT'', ''8765''),
         (''DYLD_LIBRARY_PATH'', libs), (''LD_LIBRARY_PATH'', libs)] os_environ)"

definition LpaCommandService_init :: "store_io \<Rightarrow> db_file \<Rightarrow> lpa_command result" where
  "LpaCommandService_init io db =
     (case ProfileStore_init io \<lparr>db_file = db, temp_files = []\<rparr> of
        (Inl e, st) \<Rightarrow> Inl e
      | (Inr _, st) \<Rightarrow> Inr \<lparr>lc_store = st, lc_sent = []\<rparr>)"

record lc_config =
  lc_root :: string
  lc_environ :: environ

definition lc_run_lpac ::
  "lpac_env \<Rightarrow> lc_config \<Rightarrow> string list \<Rightarrow> nat \<Rightarrow> (lpa_command, bool \<times> string \<times> string) comp" where
  "lc_run_lpac env cfg args timeout c =
     (Inr (outcome_triple (lpac_run env (lc_sent c) (command_environ (lc_root cfg) (lc_environ cfg))
        (path_join (lc_root cfg) ''build/lpac/src/lpac'' # args) timeout)), c\<lparr>lc_sent := lc_sent c @ [args]\<rparr>)"

definition lc_get_chip_info :: "lpac_env \<Rightarrow> lc_config \<Rightarrow> (lpa_command, pyval) comp" where
  "lc_get_chip_info env cfg =
     bindS (lc_run_lpac env cfg [''chip'', ''info''] 30) (\<lambda>(success, so, se).
       retS (if success then (case json_loads env so of Inr v \<Rightarrow> v | Inl _ \<Rightarrow> PNone) else PNone))"

text \<open>Every exception is caught.\<close>

definition lc_list_profiles :: "string \<Rightarrow> (lpa_command, pyval list) comp" where
  "lc_list_profiles now c =
     (case on_store (list_profiles now) c of
        (Inl e, c') \<Rightarrow> (Inr [], c')
      | (Inr ps, c') \<Rightarrow> (Inr (map (\<lambda>p. PDict
          [(''iccid'', p_iccid p), (''profileName'', p_profile_name p), (''profileState'', p_state p),
           (''serviceProviderName'', p_service_provider p), (''matching_id'', p_matching_id p),
           (''installed_at'', p_installed_at p)]) ps), c'))"

definition lc_enable_profile :: "lpac_env \<Rightarrow> lc_config \<Rightarrow> store_io \<Rightarrow> string \<Rightarrow> (lpa_command, answer) comp" where
  "lc_enable_profile env cfg io iccid =
     bindS (on_store (enable_profile io (PStr iccid) PNone)) (\<lambda>(success, msg).
       if \<not> success then retS (False, msg)
       else bindS (lc_run_lpac env cfg [''profile'', ''enable'', iccid] 30) (\<lambda>_.
         retS (True, ''Profile '' @ iccid @ '' enabled'')))"

definition lc_disable_profile :: "lpac_env \<Rightarrow> lc_config \<Rightarrow> store_io \<Rightarrow> string \<Rightarrow> (lpa_command, answer) comp" where
  "lc_disable_profile env cfg io iccid =
     bindS (on_store (disable_profile io (PStr iccid) PNone)) (\<lambda>(success, msg).
       if \<not> success then retS (False, msg)
       else bindS (lc_run_lpac env cfg [''profile'', ''disable'', iccid] 30) (\<lambda>_.
         retS (True, ''Profile '' @ iccid @ '' disabled'')))"

definition lc_delete_profile :: "lpac_env \<Rightarrow> lc_config \<Rightarrow> store_io \<Rightarrow> string \<Rightarrow> (lpa_command, answer) comp" where
  "lc_delete_profile env cfg io iccid =
     bindS (on_store (get_profile (io_now io) (PStr iccid) PNone PNone)) (\<lambda>profile.
       (case profile of
          None \<Rightarrow> retS (False, ''Profile not found'')
        | Some p \<Rightarrow>
            bindS (on_store (delete_profile io PNone PNone (p_matching_id p))) (\<lambda>(success, msg).
              if \<not> success then retS (False, msg)
              else bindS (lc_run_lpac env cfg [''profile'', ''delete'', iccid] 30) (\<lambda>_.
                retS (True, ''Profile '' @ iccid @ '' deleted'')))))"

text \<open>\<open>"89" + matching_id[-17:].replace("-", "")[:17].ljust(17, '0')\<close>.\<close>

definition ljust :: "nat \<Rightarrow> char \<Rightarrow> string \<Rightarrow> string" where
  "ljust n ch s = s @ replicate (n - length s) ch"

definition generated_iccid :: "string \<Rightarrow> string" where
  "generated_iccid mid = ''89'' @ ljust 17 CHR ''0'' (take 17 (filter (\<lambda>ch. ch \<noteq> CHR ''-'') (last_n 17 mid)))"

definition lc_download_profile ::
  "lpac_env \<Rightarrow> lc_config \<Rightarrow> store_io \<Rightarrow> string \<Rightarrow> string \<Rightarrow> (lpa_command, answer) comp" where
  "lc_download_profile env cfg io smdp_address matching_id =
     bindS (lc_run_lpac env cfg [''profile'', ''download'', ''-s'', smdp_address, ''-m'', matching_id] 120)
       (\<lambda>(success, so, se).
       if success then
         bindS (on_store (add_profile io (Profile_init (io_now io) (PStr (generated_iccid matching_id)) (PStr [])
             DISABLED (PStr matching_id) (PStr ''OsmocomSPN'') (PStr matching_id) PNone))) (\<lambda>_.
           retS (True, ''Profile '' @ matching_id @ '' downloaded and installed''))
       else retS (False, str_or se (str_or so ''Download failed'')))"

definition lc_switch_profile ::
  "lpac_env \<Rightarrow> lc_config \<Rightarrow> store_io \<Rightarrow> string \<Rightarrow> string \<Rightarrow> (lpa_command, answer) comp" where
  "lc_switch_profile env cfg io from_iccid to_iccid = lc_enable_profile env cfg io to_iccid"

definition lc_get_eid :: "(lpa_command, pyval) comp" where
  "lc_get_eid c =
     (case on_store get_eid c of (Inl e, c') \<Rightarrow> (Inr PNone, c') | (Inr v, c') \<Rightarrow> (Inr v, c'))"

end
