(* ===== verification/Lpa_Props.thy ===== *)
theory Lpa_Props
  imports Lpa_Services
begin

text \<open>
  The operator's command service over the profile database: the laws of the database it relies on as a
  locale, the correspondence of its commands with the abstract machine, and the installation of downloaded
  profiles.
\<close>

section \<open>What the service relies on\<close>

locale profile_database =
  fixes inv :: "pstore \<Rightarrow> bool"
  assumes enable_keeps: "inv s \<Longrightarrow> inv (snd (enable_profile io i a s))"
    and disable_keeps: "inv s \<Longrightarrow> inv (snd (disable_profile io i a s))"
    and delete_keeps: "inv s \<Longrightarrow> inv (snd (delete_profile io i a m s))"
    and add_keeps: "inv s \<Longrightarrow> wf_entry (Profile_to_dict p) \<Longrightarrow> p_state p = DISABLED \<Longrightarrow>
      inv (snd (add_profile io p s))"
begin

lemma on_store_keeps:
  assumes "inv (snd (m (lc_store c)))"
    and "\<And>x c'. lc_store c' = snd (m (lc_store c)) \<Longrightarrow> inv (lc_store c') \<Longrightarrow> inv (lc_store (snd (f x c')))"
  shows "inv (lc_store (snd (bindS (on_store m) f c)))"
proof -
  obtain r st where "m (lc_store c) = (r, st)" by fastforce
  with assms show ?thesis by (cases r) (simp_all add: bindS_def on_store_def)
qed

lemma run_lpac_keeps [simp]: "lc_store (snd (bindS (lc_run_lpac env cfg args t) (\<lambda>_. retS x) c)) = lc_store c"
  by (simp add: bindS_def lc_run_lpac_def)

lemma lc_enable_keeps: "inv (lc_store c) \<Longrightarrow> inv (lc_store (snd (lc_enable_profile env cfg io iccid c)))"
  unfolding lc_enable_profile_def
  by (rule on_store_keeps) (auto simp: enable_keeps split: prod.split)

lemma lc_disable_keeps: "inv (lc_store c) \<Longrightarrow> inv (lc_store (snd (lc_disable_profile env cfg io iccid c)))"
  unfolding lc_disable_profile_def
  by (rule on_store_keeps) (auto simp: disable_keeps split: prod.split)

lemma lc_delete_keeps:
  assumes "inv (lc_store c)"
  shows "inv (lc_store (snd (lc_delete_profile env cfg io iccid c)))"
  unfolding lc_delete_profile_def
proof (rule on_store_keeps)
  have q: "snd (get_profile now i a m s) = s" for now i a m s
    by (simp add: get_profile_def list_profiles_def bindS_def read_db_def split: sum.split)
  then show "inv (snd (get_profile (io_now io) (PStr iccid) PNone PNone (lc_store c)))" using assms by simp
  fix x and c' :: lpa_command
  assume "inv (lc_store c')"
  then show "inv (lc_store (snd ((case x of None \<Rightarrow> retS (False, ''Profile not found'')
      | Some p \<Rightarrow> bindS (on_store (delete_profile io PNone PNone (p_matching_id p))) (\<lambda>(success, msg).
          if \<not> success then retS (False, msg)
          else bindS (lc_run_lpac env cfg [''profile'', ''delete'', iccid] 30) (\<lambda>_.
            retS (True, ''Profile '' @ iccid @ '' deleted'')))) c')))"
    by (cases x) (auto intro!: on_store_keeps simp: delete_keeps split: prod.split)
qed

lemma lc_download_keeps:
  assumes "inv (lc_store c)"
  shows "inv (lc_store (snd (lc_download_profile env cfg io addr mid c)))"
proof -
  let ?p = "Profile_init (io_now io) (PStr (generated_iccid mid)) (PStr []) DISABLED (PStr mid) (PStr ''OsmocomSPN'') (PStr mid) PNone"
  have p: "wf_entry (Profile_to_dict ?p)" "p_state ?p = DISABLED"
    by (simp_all add: Profile_init_def Profile_to_dict_def wf_entry_def)
  have "inv (lc_store (snd (bindS (on_store (add_profile io ?p)) (\<lambda>_. retS (x :: answer)) c')))"
    if "lc_store c' = lc_store c" for c' :: lpa_command and x
    using that assms p by (intro on_store_keeps) (auto simp: add_keeps)
  then show ?thesis
    using assms by (simp add: lc_download_profile_def bindS_Inr [OF lc_run_lpac_def] split: prod.split)
qed

end

interpretation json_database: profile_database "\<lambda>s. \<exists>l a. holds s l a"
proof
  fix s io i a m and p :: profile
  assume "\<exists>l a. holds s l a"
  then obtain l b where h: "holds s l b" by blast
  from run_cmd_holds [OF h, of "EnableProfile i a" io] show "\<exists>l a'. holds (snd (enable_profile io i a s)) l a'" by simp
  from run_cmd_holds [OF h, of "DisableProfile i a" io] show "\<exists>l a'. holds (snd (disable_profile io i a s)) l a'" by simp
  from run_cmd_holds [OF h, of "DeleteProfile i a m" io] show "\<exists>l a'. holds (snd (delete_profile io i a m s)) l a'" by simp
  assume "wf_entry (Profile_to_dict p)" "p_state p = DISABLED"
  with run_cmd_holds [OF h, of "AddProfile p" io] show "\<exists>l a'. holds (snd (add_profile io p s)) l a'" by simp
qed

section \<open>Commands and the abstract machine\<close>

lemma bindS_on_store:
  "m (lc_store c) = (Inr x, st) \<Longrightarrow> bindS (on_store m) f c = f x (c\<lparr>lc_store := st\<rparr>)"
  "m (lc_store c) = (Inl e, st) \<Longrightarrow> bindS (on_store m) f c = (Inl e, c\<lparr>lc_store := st\<rparr>)"
  by (simp_all add: bindS_def on_store_def)

text \<open>What a command does: nothing, or the database moves to \<open>a'\<close> and the device is told.\<close>

definition commanded ::
  "answer result \<times> lpa_command \<Rightarrow> lpa_command \<Rightarrow> string list \<Rightarrow> bool \<Rightarrow> isdr \<Rightarrow> bool" where
  "commanded out c args success a' \<longleftrightarrow>
     (case out of
        (Inl e, c') \<Rightarrow> c' = c
      | (Inr (ok, msg), c') \<Rightarrow> ok = success \<and>
          (if ok then (\<exists>l'. holds (lc_store c') l' a') \<and> lc_sent c' = lc_sent c @ [args] else c' = c))"

lemma commanded_refused: "commanded out c args False a' \<Longrightarrow> commanded out c args False b"
  unfolding commanded_def by (cases out; cases "fst out") (simp_all split: prod.splits)

lemma commanded_intro:
  assumes "answered (m (lc_store c)) (lc_store c) l a success a'"
  shows "commanded (bindS (on_store m) (\<lambda>(ok, msg). if \<not> ok then retS (False, msg)
      else bindS (lc_run_lpac env cfg args t) (\<lambda>_. retS (True, txt))) c) c args success a'"
proof -
  obtain r st where m: "m (lc_store c) = (r, st)" by fastforce
  show ?thesis
  proof (cases r)
    case (Inl e)
    with m assms show ?thesis by (simp add: commanded_def answered_def bindS_on_store(2))
  next
    case (Inr x)
    obtain ok msg where x: "x = (ok, msg)" by fastforce
    with m assms Inr show ?thesis
      by (auto simp: commanded_def answered_def bindS_on_store(1) bindS_Inr [OF lc_run_lpac_def] split: if_splits)
  qed
qed

section \<open>Looking a profile up\<close>

definition entry_profile :: "string \<Rightarrow> pyval \<Rightarrow> profile" where
  "entry_profile now q =
     (let d = entry_dict q; dget = (\<lambda>k v. case map_of d k of None \<Rightarrow> v | Some x \<Rightarrow> x)
      in Profile_init now (dget ''iccid'' PNone) (dget ''isdp_aid'' PNone) (dget ''state'' DISABLED)
        (dget ''profile_name'' (PStr [])) (dget ''service_provider'' (PStr [])) (dget ''matching_id'' (PStr []))
        (dget ''installed_at'' PNone))"

lemma from_dict_wf:
  assumes "wf_entry q"
  shows "Profile_from_dict now q = Inr (entry_profile now q)"
    and "map_of (entry_dict q) ''iccid'' = Some (p_iccid (entry_profile now q))"
    and "if py_truthy (entry_mid q) then p_matching_id (entry_profile now q) = entry_mid q
      else \<not> py_truthy (p_matching_id (entry_profile now q))"
proof -
  from assms obtain d i s where d: "q = PDict d" "map_of d ''iccid'' = Some i" "map_of d ''isdp_aid'' = Some s"
    by (auto simp: wf_entry_def)
  then show "Profile_from_dict now q = Inr (entry_profile now q)"
    by (simp add: Profile_from_dict_def entry_profile_def getitem_def get_default_def)
  from d show "map_of (entry_dict q) ''iccid'' = Some (p_iccid (entry_profile now q))"
    by (simp add: entry_profile_def Profile_init_def)
  from d show "if py_truthy (entry_mid q) then p_matching_id (entry_profile now q) = entry_mid q
      else \<not> py_truthy (p_matching_id (entry_profile now q))"
    by (simp add: entry_profile_def Profile_init_def entry_mid_def split: option.splits)
qed

lemma list_profiles_wf:
  assumes "holds s l a"
  shows "list_profiles now s = (Inr (map (entry_profile now) l), s)"
proof -
  from assms obtain v d where v: "db_file s = DbText v" "v = PDict d" "map_of d ''profiles'' = Some (PList l)"
    "list_all wf_entry l"
    by (auto simp: holds_def wf_data_def)
  then have "mapR (Profile_from_dict now) l = Inr (map (entry_profile now) l)"
    by (intro mapR_total from_dict_wf(1)) (simp add: list_all_iff)
  with v show ?thesis by (simp add: list_profiles_def read_db_def bindS_def get_default_def py_iter_def)
qed

lemma get_profile_by_iccid:
  assumes "holds s l a" "iccid \<noteq> []"
  obtains "first_idx (entry_match (PStr iccid) PNone) l None" "get_profile now (PStr iccid) PNone PNone s = (Inr None, s)"
  | t p where "first_idx (entry_match (PStr iccid) PNone) l (Some t)"
      "get_profile now (PStr iccid) PNone PNone s = (Inr (Some p), s)"
      "if py_truthy (entry_mid (l ! t)) then p_matching_id p = entry_mid (l ! t) else \<not> py_truthy (p_matching_id p)"
proof -
  let ?g = "entry_profile now"
  have l: "\<forall>q\<in>set l. wf_entry q" using assms(1) by (auto simp: holds_def wf_data_def list_all_iff)
  have gp: "get_profile now (PStr iccid) PNone PNone s =
      (Inr (List.find (\<lambda>p. p_iccid p = PStr iccid) (map ?g l)), s)"
    using assms(2) list_profiles_wf [OF assms(1)] by (simp add: get_profile_def bindS_def str_arg_eq_def)
  have m: "entry_match (PStr iccid) PNone q \<longleftrightarrow> p_iccid (?g q) = PStr iccid" if "q \<in> set l" for q
    using from_dict_wf(2) [of q now] l that assms(2) by (auto simp: entry_match_def)
  show thesis
  proof (cases "List.find (\<lambda>p. p_iccid p = PStr iccid) (map ?g l)")
    case None
    then have "first_idx (entry_match (PStr iccid) PNone) l None"
      using m by (auto simp: find_None_iff first_idx_def list_ex_iff)
    with gp None that(1) show ?thesis by simp
  next
    case (Some p)
    then obtain t where t: "t < length l" "p_iccid (?g (l ! t)) = PStr iccid" "p = ?g (l ! t)"
      "\<forall>j<t. p_iccid (?g (l ! j)) \<noteq> PStr iccid"
      by (auto simp: find_Some_iff)
    then have "first_idx (entry_match (PStr iccid) PNone) l (Some t)"
      using m by (auto simp: first_idx_def list_ex_length)
    moreover have "wf_entry (l ! t)" using l t(1) by simp
    ultimately show ?thesis
      using gp Some t(3) from_dict_wf(3) [of "l ! t" now] that(2) [of t p] by simp
  qed
qed

text \<open>With distinct matching ids, the profile found by its id is the one it was read from.\<close>

lemma known_mids_notin:
  "distinct (known_mids (xs @ x # ys)) \<Longrightarrow> py_truthy (entry_mid x) \<Longrightarrow> entry_mid x \<notin> entry_mid ` (set xs \<union> set ys)"
  by (auto simp: known_mids_def)

lemma delete_by_mid_same:
  assumes "distinct (known_mids l)" "t < length l" "py_truthy (entry_mid (l ! t))"
    and "first_idx (delete_match PNone PNone (entry_mid (l ! t))) l r"
  shows "r = Some t"
proof -
  have d: "i = t" if "i < length l" "entry_mid (l ! i) = entry_mid (l ! t)" for i
  proof (rule ccontr)
    assume "i \<noteq> t"
    have "l = take t l @ l ! t # drop (Suc t) l" by (rule id_take_nth_drop [OF assms(2)])
    with assms(1,3) have "entry_mid (l ! t) \<notin> entry_mid ` (set (take t l) \<union> set (drop (Suc t) l))"
      by (metis known_mids_notin)
    moreover have "l ! i \<in> set (take t l) \<union> set (drop (Suc t) l)"
    proof (cases "i < t")
      case True
      then have "l ! i = take t l ! i" "i < length (take t l)" using assms(2) by simp_all
      then show ?thesis by (metis UnI1 nth_mem)
    next
      case False
      with \<open>i \<noteq> t\<close> that(1) have "l ! i = drop (Suc t) l ! (i - Suc t)" "i - Suc t < length (drop (Suc t) l)" by simp_all
      then show ?thesis by (metis UnI2 nth_mem)
    qed
    ultimately show False using that(2) by (metis imageI)
  qed
  have m: "delete_match PNone PNone (entry_mid (l ! t)) q \<longleftrightarrow> entry_mid q = entry_mid (l ! t)" for q
    using assms(3) by (auto simp: delete_match_def entry_match_def)
  show ?thesis
  proof (cases r)
    case None
    with assms(2,4) m show ?thesis by (auto simp: first_idx_def list_ex_length)
  next
    case (Some i)
    with assms(4) m d [of i] show ?thesis by (auto simp: first_idx_def)
  qed
qed

lemma first_idx_before: "first_idx P l (Some i) \<Longrightarrow> j < i \<Longrightarrow> \<not> P (l ! j)"
  by (auto simp: first_idx_def list_ex_length)

lemma first_idx_unique:
  assumes "first_idx P l r" "first_idx P l r'"
  shows "r = r'"
proof (cases r; cases r')
  fix i j
  assume r: "r = Some i" "r' = Some j"
  with assms have "P (l ! i)" "P (l ! j)" by (simp_all add: first_idx_def)
  with assms r first_idx_before [of P l i j] first_idx_before [of P l j i] have "i = j" by (meson linorder_neqE_nat)
  with r show ?thesis by simp
qed (use assms in \<open>auto simp: first_idx_def list_ex_length\<close>)

lemma lc_delete_commanded:
  assumes "holds (lc_store c) l a" "iccid \<noteq> []" "first_idx (entry_match (PStr iccid) PNone) l t"
  shows "commanded (lc_delete_profile env cfg io iccid c) c [''profile'', ''delete'', iccid]
    (case t of None \<Rightarrow> False | Some i \<Rightarrow> py_truthy (entry_mid (l ! i)) \<and> enabled_idx a \<noteq> t)
    (case t of None \<Rightarrow> a | Some i \<Rightarrow> spec_delete i a)"
proof (rule get_profile_by_iccid [OF assms(1,2), of "io_now io"])
  assume n: "first_idx (entry_match (PStr iccid) PNone) l None"
    "get_profile (io_now io) (PStr iccid) PNone PNone (lc_store c) = (Inr None, lc_store c)"
  have "t = None" by (rule first_idx_unique [OF assms(3) n(1)])
  with n(2) show ?thesis by (simp add: lc_delete_profile_def bindS_on_store(1) commanded_def)
next
  fix i p
  assume s: "first_idx (entry_match (PStr iccid) PNone) l (Some i)"
    "get_profile (io_now io) (PStr iccid) PNone PNone (lc_store c) = (Inr (Some p), lc_store c)"
    "if py_truthy (entry_mid (l ! i)) then p_matching_id p = entry_mid (l ! i) else \<not> py_truthy (p_matching_id p)"
  have t: "t = Some i" by (rule first_idx_unique [OF assms(3) s(1)])
  from delete_answered [OF assms(1), of PNone PNone "p_matching_id p" io] obtain r where
    r: "first_idx (delete_match PNone PNone (p_matching_id p)) l r"
    "answered (delete_profile io PNone PNone (p_matching_id p) (lc_store c)) (lc_store c) l a (r \<noteq> None \<and> enabled_idx a \<noteq> r)
      (case r of None \<Rightarrow> a | Some i \<Rightarrow> spec_delete i a)" by blast
  have "r = (if py_truthy (entry_mid (l ! i)) then Some i else None)"
  proof (cases "py_truthy (entry_mid (l ! i))")
    case True
    have "i < length l" using s(1) by (simp add: first_idx_def)
    with True delete_by_mid_same [of l i r] r(1) s(3) assms(1) show ?thesis by (simp add: holds_def)
  next
    case False
    then have "\<not> py_truthy (p_matching_id p)" using s(3) by simp
    then have "first_idx (delete_match PNone PNone (p_matching_id p)) l None"
      by (simp add: first_idx_def delete_match_def entry_match_def list_ex_iff)
    with False first_idx_unique [OF r(1)] show ?thesis by simp
  qed
  with commanded_intro [where m = "delete_profile io PNone PNone (p_matching_id p)", OF r(2)] s(2) t show ?thesis
    by (cases "py_truthy (entry_mid (l ! i))")
      (auto simp: lc_delete_profile_def bindS_on_store(1) intro: commanded_refused [where a' = a])
qed

section \<open>Properties\<close>

text \<open>C26: The operator's commands follow the database. Each command acts on the first profile with the given
  ICCID. It fails without any effect, or the database moves to the state that SGP.22 prescribes
  and the device is sent the command, in that order; the profile that is deleted by its
  matching id is the one the ICCID named, because matching ids are distinct. A profile without a
  matching id is never deleted.\<close>

theorem lpa_commands_follow_database:
  assumes "holds (lc_store c) l a" "iccid \<noteq> []"
  shows "\<exists>t. first_idx (entry_match (PStr iccid) PNone) l t \<and>
    commanded (lc_enable_profile env cfg io iccid c) c [''profile'', ''enable'', iccid] (t \<noteq> None)
      (case t of None \<Rightarrow> a | Some i \<Rightarrow> spec_enable i a) \<and>
    commanded (lc_disable_profile env cfg io iccid c) c [''profile'', ''disable'', iccid] (t \<noteq> None \<and> enabled_idx a = t)
      (a\<lparr>enabled_idx := None\<rparr>) \<and>
    commanded (lc_delete_profile env cfg io iccid c) c [''profile'', ''delete'', iccid]
      (case t of None \<Rightarrow> False | Some i \<Rightarrow> py_truthy (entry_mid (l ! i)) \<and> enabled_idx a \<noteq> t)
      (case t of None \<Rightarrow> a | Some i \<Rightarrow> spec_delete i a)"
proof -
  from enable_answered [OF assms(1), of "PStr iccid" PNone io] obtain t where
    e: "first_idx (entry_match (PStr iccid) PNone) l t" "answered (enable_profile io (PStr iccid) PNone (lc_store c)) (lc_store c) l a
      (t \<noteq> None) (case t of None \<Rightarrow> a | Some i \<Rightarrow> spec_enable i a)" by blast
  from disable_answered [OF assms(1), of "PStr iccid" PNone io] first_idx_unique [OF e(1)] have
    d: "answered (disable_profile io (PStr iccid) PNone (lc_store c)) (lc_store c) l a
      (t \<noteq> None \<and> enabled_idx a = t) (a\<lparr>enabled_idx := None\<rparr>)" by blast
  show ?thesis
    using e(1) commanded_intro [where m = "enable_profile io (PStr iccid) PNone", OF e(2)]
      commanded_intro [where m = "disable_profile io (PStr iccid) PNone", OF d] lc_delete_commanded [OF assms e(1)]
    by (intro exI [of _ t]) (simp only: lc_enable_profile_def lc_disable_profile_def simp_thms)
qed

definition demo_lpac :: lpac_env where
  "demo_lpac = \<lparr>lpac_run = (\<lambda>_ _ _ _. Exited 0 [] []), json_loads = (\<lambda>_. Inl ValueError)\<rparr>"

definition demo_config :: lc_config where
  "demo_config = \<lparr>lc_root = ''/r'', lc_environ = []\<rparr>"

theorem lpa_commands_follow_database_witness:
  "commanded (lc_enable_profile demo_lpac demo_config demo_io ''89'' \<lparr>lc_store = demo_store, lc_sent = []\<rparr>)
     \<lparr>lc_store = demo_store, lc_sent = []\<rparr> [''profile'', ''enable'', ''89''] False \<lparr>installed = [], enabled_idx = None\<rparr>"
  using lpa_commands_follow_database [of "\<lparr>lc_store = demo_store, lc_sent = []\<rparr>" "[]" _ "''89''" demo_lpac demo_config demo_io]
    demo_store_holds
  by (fastforce simp: first_idx_def split: option.splits)



end
