(* ===== verification/Process_Manager.thy ===== *)
theory Process_Manager
  imports Py_Std
begin

text \<open>
  The supervision of the backend processes, class \<open>ProcessManager\<close> of
  \<^verbatim>\<open>gui/services/process_manager.py\<close>. A started process is a handle (a \<open>Popen\<close> object); the
  state has the handles whose process is running, which the environment can reduce at any time. nginx is
  looked for by name, so whether one is running is a flag of its own. \<open>forced\<close> has the handles that were
  killed because SIGTERM did not end them in time. What the operating
  system answers to one call (is the program there, can the log be opened, does the process start
  and survive the first seconds, after how many polls does it end on SIGTERM) is an argument. The attempt to
  free the port before a start has no effect: with \<open>shell=True\<close> and a list only the word
  \<open>kill\<close> is executed, without arguments.
\<close>

section \<open>State and environment\<close>

record pm =
  project_root :: string
  processes :: "(string \<times> nat) list"
  log_files :: "(string \<times> string) list"
  alive :: "nat list"
  forced :: "nat list"
  nginx_up :: bool
  next_handle :: nat

record start_env =
  se_exists :: bool
  se_open_error :: "string option"
  se_popen_error :: "string option"
  se_survives :: bool

record stop_env =
  st_error :: "string option"
  st_polls :: "nat option"

definition ProcessManager_init :: "string \<Rightarrow> bool \<Rightarrow> pm" where
  "ProcessManager_init root nginx =
     \<lparr>project_root = root, processes = [], log_files = [], alive = [], forced = [], nginx_up = nginx, next_handle = 0\<rparr>"

definition is_running :: "string \<Rightarrow> pm \<Rightarrow> bool" where
  "is_running service s =
     (if service = ''nginx'' then nginx_up s
      else case map_of (processes s) service of
          None \<Rightarrow> False
        | Some h \<Rightarrow> h \<in> set (alive s))"

definition get_log_file :: "string \<Rightarrow> pm \<Rightarrow> string option" where
  "get_log_file service s = map_of (log_files s) service"

section \<open>Starting and stopping\<close>

text \<open>The part common to the three start functions: program, log file, process, a first poll.\<close>

definition launch ::
  "string \<Rightarrow> string \<Rightarrow> string \<Rightarrow> string \<Rightarrow> string \<Rightarrow> string \<Rightarrow> start_env \<Rightarrow> pm \<Rightarrow> (bool \<times> string) \<times> pm" where
  "launch service label what path log_name ok_msg e s =
     (if \<not> se_exists e then ((False, label @ '' '' @ what @ '' not found: '' @ path_join (project_root s) path), s)
      else case se_open_error e of
          Some m \<Rightarrow> ((False, ''Failed to start '' @ label @ '': '' @ m), s)
        | None \<Rightarrow>
            (case se_popen_error e of
               Some m \<Rightarrow> ((False, ''Failed to start '' @ label @ '': '' @ m), s)
             | None \<Rightarrow>
                 (let h = next_handle s; s1 = s\<lparr>next_handle := h + 1\<rparr>
                  in if \<not> se_survives e then ((False, label @ '' crashed on startup''), s1)
                     else ((True, ok_msg),
                       s1\<lparr>alive := h # alive s1, processes := dict_set service h (processes s1),
                          log_files := dict_set service (path_join (project_root s) log_name) (log_files s1)\<rparr>))))"

definition start_veuicc :: "nat \<Rightarrow> start_env \<Rightarrow> pm \<Rightarrow> (bool \<times> string) \<times> pm" where
  "start_veuicc port e s =
     (if is_running ''veuicc'' s then ((False, ''v-euicc is already running''), s)
      else launch ''veuicc'' ''v-euicc'' ''binary'' ''build/v-euicc/v-euicc-daemon'' ''data/veuicc.log''
             (''v-euicc started on port '' @ nat_str port) e s)"

definition start_smdp :: "string \<Rightarrow> nat \<Rightarrow> start_env \<Rightarrow> pm \<Rightarrow> (bool \<times> string) \<times> pm" where
  "start_smdp host port e s =
     (if is_running ''smdp'' s then ((False, ''SM-DP+ is already running''), s)
      else launch ''smdp'' ''SM-DP+'' ''script'' ''pysim/osmo-smdpp.py'' ''data/smdp.log''
             (''SM-DP+ started on '' @ host @ '':'' @ nat_str port) e s)"

text \<open>Every nginx process is killed first.\<close>

definition start_nginx :: "nat \<Rightarrow> start_env \<Rightarrow> pm \<Rightarrow> (bool \<times> string) \<times> pm" where
  "start_nginx https_port e s =
     (if is_running ''nginx'' s then ((False, ''nginx is already running''), s)
      else case launch ''nginx'' ''nginx'' ''config'' ''pysim/nginx-smdpp.conf'' ''data/nginx.log''
             (''nginx started (HTTPS port '' @ nat_str https_port @ '')'') e s of
          ((ok, msg), s') \<Rightarrow> ((ok, msg), s'\<lparr>nginx_up := ok\<rparr>))"

text \<open>The loop of at most \<open>n\<close> polls: whether the process has ended before they are used up.\<close>

fun poll_loop :: "nat \<Rightarrow> nat option \<Rightarrow> bool" where
  "poll_loop 0 polls = False"
| "poll_loop (Suc n) polls =
     (case polls of
        Some 0 \<Rightarrow> True
      | Some (Suc k) \<Rightarrow> poll_loop n (Some k)
      | None \<Rightarrow> poll_loop n None)"

text \<open>The part common to the two stop functions. A process that ends on SIGTERM or is killed is not
  running any more.\<close>

definition stop_process :: "string \<Rightarrow> string \<Rightarrow> stop_env \<Rightarrow> pm \<Rightarrow> (bool \<times> string) \<times> pm" where
  "stop_process service label e s =
     (if \<not> is_running service s then ((False, label @ '' is not running''), s)
      else case map_of (processes s) service of
          None \<Rightarrow> ((False, ''Failed to stop '' @ label), s)
        | Some h \<Rightarrow>
            (case st_error e of
               Some m \<Rightarrow> ((False, ''Failed to stop '' @ label @ '': '' @ m), s)
             | None \<Rightarrow>
                 (let s1 = s\<lparr>alive := removeAll h (alive s),
                        forced := (if poll_loop 50 (st_polls e) then forced s else h # forced s)\<rparr>
                  in ((True, label @ '' stopped''), s1\<lparr>processes := dict_del service (processes s1)\<rparr>))))"

definition stop_veuicc :: "stop_env \<Rightarrow> pm \<Rightarrow> (bool \<times> string) \<times> pm" where
  "stop_veuicc = stop_process ''veuicc'' ''v-euicc''"

definition stop_smdp :: "stop_env \<Rightarrow> pm \<Rightarrow> (bool \<times> string) \<times> pm" where
  "stop_smdp = stop_process ''smdp'' ''SM-DP+''"

definition stop_nginx :: "stop_env \<Rightarrow> pm \<Rightarrow> (bool \<times> string) \<times> pm" where
  "stop_nginx e s =
     (if \<not> is_running ''nginx'' s then ((False, ''nginx is not running''), s)
      else case st_error e of
          Some m \<Rightarrow> ((False, ''Failed to stop nginx: '' @ m), s)
        | None \<Rightarrow>
            ((True, ''nginx stopped''),
             (case map_of (processes s) ''nginx'' of
                None \<Rightarrow> s\<lparr>nginx_up := False\<rparr>
              | Some h \<Rightarrow> s\<lparr>nginx_up := False, alive := removeAll h (alive s),
                  processes := dict_del ''nginx'' (processes s)\<rparr>)))"

definition stop_all :: "stop_env \<Rightarrow> stop_env \<Rightarrow> stop_env \<Rightarrow> pm \<Rightarrow> pm" where
  "stop_all e1 e2 e3 s = snd (stop_veuicc e3 (snd (stop_smdp e2 (snd (stop_nginx e1 s)))))"

section \<open>All histories\<close>

text \<open>Calls of the manager, and processes that end by themselves.\<close>

inductive pm_reachable :: "pm \<Rightarrow> bool" where
  init: "pm_reachable (ProcessManager_init root False)"
| veuicc: "pm_reachable s \<Longrightarrow> pm_reachable (snd (start_veuicc port e s))"
| smdp: "pm_reachable s \<Longrightarrow> pm_reachable (snd (start_smdp host port e s))"
| nginx: "pm_reachable s \<Longrightarrow> pm_reachable (snd (start_nginx port e s))"
| veuicc_stop: "pm_reachable s \<Longrightarrow> pm_reachable (snd (stop_veuicc st s))"
| smdp_stop: "pm_reachable s \<Longrightarrow> pm_reachable (snd (stop_smdp st s))"
| nginx_stop: "pm_reachable s \<Longrightarrow> pm_reachable (snd (stop_nginx st s))"
| ended: "pm_reachable s \<Longrightarrow> map_of (processes s) ''nginx'' \<noteq> Some h \<Longrightarrow>
    pm_reachable (s\<lparr>alive := removeAll h (alive s)\<rparr>)"
| nginx_ended: "pm_reachable s \<Longrightarrow> map_of (processes s) ''nginx'' = Some h \<Longrightarrow>
    pm_reachable (s\<lparr>alive := removeAll h (alive s), nginx_up := False\<rparr>)"

text \<open>Every running process is registered under exactly one service, and nginx is registered if it runs.\<close>

definition service_names :: "string set" where
  "service_names = {''veuicc'', ''smdp'', ''nginx''}"

definition registered :: "pm \<Rightarrow> bool" where
  "registered s \<longleftrightarrow> dict_ok (processes s) \<and> distinct (map snd (processes s)) \<and> distinct (alive s) \<and>
     set (alive s) \<subseteq> snd ` set (processes s) \<and>
     fst ` set (processes s) \<subseteq> service_names \<and>
     (\<forall>h\<in>snd ` set (processes s). h < next_handle s)"

definition pm_inv :: "pm \<Rightarrow> bool" where
  "pm_inv s \<longleftrightarrow> registered s \<and>
     (nginx_up s \<longleftrightarrow> (\<exists>h. map_of (processes s) ''nginx'' = Some h \<and> h \<in> set (alive s)))"

section \<open>Lemmas\<close>

lemma set_dict_set: "dict_ok d \<Longrightarrow> set (dict_set k v d) = insert (k, v) {kv \<in> set d. fst kv \<noteq> k}"
  by (induction k v d rule: dict_set.induct) (auto simp: dict_ok_def)

lemma distinct_snd_dict_set:
  "distinct (map snd d) \<Longrightarrow> v \<notin> snd ` set d \<Longrightarrow> distinct (map snd (dict_set k v d))"
proof (induction k v d rule: dict_set.induct)
  case (2 k v k' v' d)
  have "snd ` set (dict_set k v d) \<subseteq> insert v (snd ` set d)"
    by (induction k v d rule: dict_set.induct) auto
  with 2 show ?case by auto
qed simp

lemma registered_end: "registered s \<Longrightarrow> registered (s\<lparr>alive := removeAll h (alive s)\<rparr>)"
  by (auto simp: registered_def distinct_removeAll)

lemma registered_next: "registered s \<Longrightarrow> registered (s\<lparr>next_handle := next_handle s + 1\<rparr>)"
  by (auto simp: registered_def)

lemma registered_forget:
  assumes "registered s" "map_of (processes s) k = Some h"
  shows "registered (s\<lparr>alive := removeAll h (alive s), processes := dict_del k (processes s)\<rparr>)"
proof -
  have "x \<in> snd ` set (dict_del k (processes s))" if "x \<in> set (alive s)" "x \<noteq> h" for x
  proof -
    from that assms(1) obtain k' where k': "(k', x) \<in> set (processes s)" by (force simp: registered_def)
    then have "map_of (processes s) k' = Some x" using assms(1) by (simp add: registered_def dict_ok_def)
    then have "k' \<noteq> k" using assms(2) that(2) by auto
    with k' show ?thesis by (force simp: dict_del_def)
  qed
  with assms(1) show ?thesis
    by (auto simp: registered_def dict_del_def distinct_map_filter dict_ok_def distinct_removeAll)
qed

lemma registered_launch:
  assumes "registered s" "service \<in> service_names"
    and "\<And>h. map_of (processes s) service = Some h \<Longrightarrow> h \<notin> set (alive s)"
    and "launch service label what path log_name ok_msg e s = ((ok, msg), s')"
  shows "registered s' \<and> nginx_up s' = nginx_up s \<and>
    (if ok then processes s' = dict_set service (next_handle s) (processes s) \<and> alive s' = next_handle s # alive s
     else processes s' = processes s \<and> alive s' = alive s)"
proof -
  let ?h = "next_handle s"
  have fresh: "?h \<notin> snd ` set (processes s)" using assms(1) by (auto simp: registered_def)
  have r: "registered s'"
    if p: "processes s' = dict_set service ?h (processes s)" "alive s' = ?h # alive s" "next_handle s' = ?h + 1"
  proof -
    have "x \<in> snd ` set (dict_set service ?h (processes s))" if x: "x \<in> set (alive s)" for x
    proof -
      from x assms(1) obtain k where k: "(k, x) \<in> set (processes s)" by (force simp: registered_def)
      then have "map_of (processes s) k = Some x" using assms(1) by (simp add: registered_def dict_ok_def)
      then have "k \<noteq> service" using assms(3) x by auto
      with k assms(1) have "(k, x) \<in> set (dict_set service ?h (processes s))"
        by (simp add: registered_def set_dict_set)
      then show ?thesis by (rule rev_image_eqI) simp
    qed
    then have "set (?h # alive s) \<subseteq> snd ` set (dict_set service ?h (processes s))"
      using assms(1) by (auto simp: registered_def set_dict_set)
    moreover have "?h \<notin> set (alive s)" using assms(1) fresh by (auto simp: registered_def)
    moreover have "\<forall>x\<in>snd ` set (dict_set service ?h (processes s)). x < ?h + 1"
      using assms(1) by (force simp: registered_def set_dict_set)
    moreover have "distinct (map snd (dict_set service ?h (processes s)))"
      using assms(1) fresh by (simp add: registered_def distinct_snd_dict_set)
    moreover have "fst ` set (dict_set service ?h (processes s)) \<subseteq> service_names"
      using assms(1,2) by (simp add: registered_def)
    moreover have "dict_ok (dict_set service ?h (processes s))" "distinct (alive s)"
      using assms(1) by (simp_all add: registered_def)
    ultimately show ?thesis unfolding registered_def p by (intro conjI) simp_all
  qed
  show ?thesis
  proof (cases "se_exists e \<and> se_open_error e = None \<and> se_popen_error e = None")
    case True
    with assms(4) r registered_next [OF assms(1)] show ?thesis
      by (cases "se_survives e") (auto simp: launch_def Let_def)
  next
    case False
    with assms(4) have "\<not> ok" "s' = s" by (auto simp: launch_def split: if_splits option.splits)
    with assms(1) show ?thesis by simp
  qed
qed

lemma not_running_dead:
  "pm_inv s \<Longrightarrow> \<not> is_running service s \<Longrightarrow> map_of (processes s) service = Some h \<Longrightarrow> h \<notin> set (alive s)"
  by (auto simp: pm_inv_def is_running_def split: if_splits)

lemma registered_handle_unique:
  "registered s \<Longrightarrow> map_of (processes s) k = Some h \<Longrightarrow> map_of (processes s) k' = Some h \<Longrightarrow> k = k'"
  unfolding registered_def distinct_map using inj_onD [of snd "set (processes s)" "(k, h)" "(k', h)"]
  by (auto dest: map_of_SomeD)

lemma launch_inv:
  assumes "pm_inv s" "service \<in> {''veuicc'', ''smdp''}" "\<not> is_running service s"
    and "launch service label what path log_name ok_msg e s = ((ok, msg), s')"
  shows "pm_inv s'"
proof -
  from registered_launch [OF _ _ not_running_dead [OF assms(1,3)] assms(4)] assms(1,2)
  have l: "registered s'" "nginx_up s' = nginx_up s" "if ok then processes s' = dict_set service (next_handle s) (processes s) \<and>
      alive s' = next_handle s # alive s else processes s' = processes s \<and> alive s' = alive s"
    by (auto simp: pm_inv_def service_names_def)
  have "map_of (processes s) ''nginx'' \<noteq> Some (next_handle s)"
    using assms(1) by (fastforce simp: pm_inv_def registered_def dest!: map_of_SomeD)
  with l assms(1,2) show ?thesis by (auto simp: pm_inv_def split: if_splits)
qed

lemma start_nginx_inv:
  assumes "pm_inv s"
  shows "pm_inv (snd (start_nginx port e s))"
proof (cases "is_running ''nginx'' s")
  case False
  obtain ok msg s' where l: "launch ''nginx'' ''nginx'' ''config'' ''pysim/nginx-smdpp.conf'' ''data/nginx.log''
             (''nginx started (HTTPS port '' @ nat_str port @ '')'') e s = ((ok, msg), s')"
    by (metis prod.exhaust)
  from registered_launch [OF _ _ not_running_dead [OF assms False] l] assms
  have "registered s'" "if ok then processes s' = dict_set ''nginx'' (next_handle s) (processes s) \<and>
      alive s' = next_handle s # alive s else processes s' = processes s \<and> alive s' = alive s"
    by (auto simp: pm_inv_def service_names_def)
  moreover have "\<nexists>h. map_of (processes s) ''nginx'' = Some h \<and> h \<in> set (alive s)"
    using not_running_dead [OF assms False] by blast
  ultimately show ?thesis
    using False l by (cases ok) (auto simp: start_nginx_def pm_inv_def registered_def)
qed (use assms in \<open>simp add: start_nginx_def\<close>)

lemma stop_process_inv:
  assumes "pm_inv s" "service \<noteq> ''nginx''"
  shows "pm_inv (snd (stop_process service label e s))"
proof (cases "st_error e = None \<and> is_running service s")
  case True
  then obtain h where h: "map_of (processes s) service = Some h" using assms(2) by (auto simp: is_running_def split: option.splits)
  then have n: "map_of (processes s) ''nginx'' \<noteq> Some h"
    using assms registered_handle_unique [of s service h "''nginx''"] by (auto simp: pm_inv_def)
  have "registered (s\<lparr>alive := removeAll h (alive s), processes := dict_del service (processes s)\<rparr>)"
    using registered_forget [OF _ h] assms(1) by (simp add: pm_inv_def)
  with True h n assms show ?thesis
    by (auto simp: stop_process_def pm_inv_def registered_def)
next
  case False
  with assms(1) show ?thesis by (auto simp: stop_process_def split: option.splits)
qed

lemma stop_nginx_inv:
  assumes "pm_inv s"
  shows "pm_inv (snd (stop_nginx e s))"
proof (cases "st_error e = None \<and> nginx_up s")
  case True
  with assms obtain h where h: "map_of (processes s) ''nginx'' = Some h" by (auto simp: pm_inv_def)
  have "registered (s\<lparr>alive := removeAll h (alive s), processes := dict_del ''nginx'' (processes s)\<rparr>)"
    using registered_forget [OF _ h] assms(1) by (simp add: pm_inv_def)
  with True h show ?thesis by (auto simp: stop_nginx_def is_running_def pm_inv_def registered_def)
next
  case False
  with assms show ?thesis by (auto simp: stop_nginx_def is_running_def split: option.splits)
qed

lemma pm_reachable_inv: "pm_reachable s \<Longrightarrow> pm_inv s"
proof (induction rule: pm_reachable.induct)
  case (init root)
  then show ?case by (simp add: pm_inv_def registered_def ProcessManager_init_def)
next
  case (veuicc s port e)
  then show ?case
    using launch_inv [OF veuicc.IH, of "''veuicc''"] by (auto simp: start_veuicc_def) (metis prod.exhaust snd_conv)
next
  case (smdp s host port e)
  then show ?case
    using launch_inv [OF smdp.IH, of "''smdp''"] by (auto simp: start_smdp_def) (metis prod.exhaust snd_conv)
next
  case (ended s h)
  then show ?case using registered_end [of s h] by (auto simp: pm_inv_def)
next
  case (nginx_ended s h)
  then show ?case using registered_end [of s h] by (auto simp: pm_inv_def registered_def)
qed (simp_all add: start_nginx_inv stop_process_inv stop_nginx_inv stop_veuicc_def stop_smdp_def)

lemma alive_running:
  assumes "pm_inv s" "h \<in> set (alive s)"
  obtains k where "k \<in> service_names" "map_of (processes s) k = Some h" "is_running k s"
proof -
  from assms obtain k where "(k, h) \<in> set (processes s)" by (force simp: pm_inv_def registered_def)
  then have k: "map_of (processes s) k = Some h" "k \<in> service_names"
    using assms(1) by (force simp: pm_inv_def registered_def dict_ok_def)+
  then have "is_running k s" using assms by (cases "k = ''nginx''") (auto simp: is_running_def pm_inv_def)
  with k that show thesis by blast
qed

lemma stop_process_stops:
  assumes "pm_inv s" "service \<noteq> ''nginx''" "st_error e = None"
  shows "\<not> is_running service (snd (stop_process service label e s)) \<and>
    nginx_up (snd (stop_process service label e s)) = nginx_up s \<and>
    (\<forall>other. \<not> is_running other s \<longrightarrow> \<not> is_running other (snd (stop_process service label e s)))"
proof (cases "is_running service s")
  case True
  then obtain h where h: "map_of (processes s) service = Some h" "h \<in> set (alive s)"
    using assms(2) by (auto simp: is_running_def split: option.splits)
  with True assms show ?thesis by (auto simp: stop_process_def is_running_def split: option.splits)
qed (simp add: stop_process_def)

section \<open>Properties\<close>





end
