(* ===== verification/Sms_Tpdu.thy ===== *)
theory Sms_Tpdu
  imports Rsp_Asn1 Py_Std
begin

text \<open>
  Short messages, \<^verbatim>\<open>pysim/pySim/sms.py\<close>: user data headers, address fields, SMS-DELIVER and
  SMS-SUBMIT with their binary form and their form for SMPP. The declarations of package construct
  (the layout of headers, of the address field, of the two flag octets) are interpreted by that package, so
  parsing and building them is a parameter (\<open>sms_lib\<close>) with the round trip as its law. An SMPP
  PDU is a record of the parameters the code reads and writes; enumerations of package smpp.pdu are
  their names. Encoding an address with an odd number of digits changes the object, so the encoders are
  computations on it.
\<close>

section \<open>The library\<close>

record udh_ie =
  iei :: nat
  ie_value :: bytes

record addr_struct =
  as_addr_len :: nat
  as_ton :: string
  as_npi :: string
  as_digits :: string
  as_tell :: nat

text \<open>The flag octets. The declaration for SMS-DELIVER names \<open>tp_rp\<close> twice and never \<open>tp_lp\<close>.\<close>

record deliver_flags =
  df_rp :: bool
  df_udhi :: bool
  df_sri :: bool
  df_mms :: bool
  df_mti :: nat

record submit_flags =
  sf_srr :: bool
  sf_udhi :: bool
  sf_rp :: bool
  sf_vpf :: string
  sf_rd :: bool
  sf_mti :: nat

record sms_lib =
  udh_parse :: "bytes \<Rightarrow> (udh_ie list \<times> bytes) result"
  udh_build :: "udh_ie list \<Rightarrow> bytes result"
  addr_parse :: "bytes \<Rightarrow> addr_struct result"
  addr_build :: "nat \<Rightarrow> string \<Rightarrow> string \<Rightarrow> string \<Rightarrow> bytes result"
  deliver_flags_parse :: "bytes \<Rightarrow> deliver_flags result"
  deliver_flags_build :: "deliver_flags \<Rightarrow> bytes result"
  submit_flags_parse :: "bytes \<Rightarrow> submit_flags result"
  submit_flags_build :: "submit_flags \<Rightarrow> bytes result"

datatype bytes_or_hex = InBytes bytes | InHex string

definition in_bytes :: "osmo_utils \<Rightarrow> bytes_or_hex \<Rightarrow> bytes result" where
  "in_bytes U inb = (case inb of InBytes b \<Rightarrow> Inr b | InHex s \<Rightarrow> h2b U s)"

section \<open>User data header\<close>

definition has_ie :: "udh_ie list \<Rightarrow> nat \<Rightarrow> bool" where
  "has_ie ies i \<longleftrightarrow> list_ex (\<lambda>ie. iei ie = i) ies"

definition UDH_from_bytes :: "osmo_utils \<Rightarrow> sms_lib \<Rightarrow> bytes_or_hex \<Rightarrow> (udh_ie list \<times> bytes) result" where
  "UDH_from_bytes U L inb = bindR (in_bytes U inb) (udh_parse L)"

definition UDH_to_bytes :: "sms_lib \<Rightarrow> udh_ie list \<Rightarrow> bytes result" where
  "UDH_to_bytes L ies = udh_build L ies"

section \<open>Data coding\<close>

text \<open>A data coding scheme of SMPP: a scheme with a default coding or, for GSM message classes, with
  a coding of the message.\<close>

datatype data_coding = DcDefault string | DcGsmMessageClass string | DcOther

definition smpp_dcs_is_8bit :: "data_coding \<Rightarrow> bool" where
  "smpp_dcs_is_8bit dcs =
     (if dcs = DcDefault ''OCTET_UNSPECIFIED'' then True
      else if dcs = DcDefault ''OCTET_UNSPECIFIED_COMMON'' then True
      else (case dcs of DcGsmMessageClass c \<Rightarrow> c = ''DATA_8BIT'' | _ \<Rightarrow> False))"

definition ensure_smpp_is_8bit :: "data_coding \<Rightarrow> unit result" where
  "ensure_smpp_is_8bit dcs = (if smpp_dcs_is_8bit dcs then Inr () else Inl ValueError)"

section \<open>Address field\<close>

record address =
  addr_digits :: string
  addr_ton :: string
  addr_npi :: string

definition smpp_map_npi :: "(string \<times> string) list" where
  "smpp_map_npi =
     [(''UNKNOWN'', ''unknown''), (''ISDN'', ''isdn_e164''), (''DATA'', ''data_x121''), (''TELEX'', ''telex_f69''),
      (''LAND_MOBILE'', ''sc_specific6''), (''NATIONAL'', ''national''), (''PRIVATE'', ''private''), (''ERMES'', ''ermes'')]"

definition smpp_map_ton :: "(string \<times> string) list" where
  "smpp_map_ton =
     [(''UNKNOWN'', ''unknown''), (''INTERNATIONAL'', ''international''), (''NATIONAL'', ''national''),
      (''NETWORK_SPECIFIC'', ''network_specific''), (''SUBSCRIBER_NUMBER'', ''short_code''),
      (''ALPHANUMERIC'', ''alphanumeric''), (''ABBREVIATED'', ''abbreviated'')]"

text \<open>\<open>m[k]\<close> and \<open>m.inverse[v]\<close> of a bidirectional dictionary.\<close>

definition bidict_get :: "(string \<times> string) list \<Rightarrow> string \<Rightarrow> string result" where
  "bidict_get m k = (case map_of m k of None \<Rightarrow> Inl KeyError | Some v \<Rightarrow> Inr v)"

definition bidict_inverse :: "(string \<times> string) list \<Rightarrow> string \<Rightarrow> string result" where
  "bidict_inverse m v = bidict_get (map (\<lambda>(a, b). (b, a)) m) v"

definition Address_from_bytes :: "osmo_utils \<Rightarrow> sms_lib \<Rightarrow> bytes_or_hex \<Rightarrow> (address \<times> bytes) result" where
  "Address_from_bytes U L inb =
     bindR (in_bytes U inb) (\<lambda>b.
     bindR (addr_parse L b) (\<lambda>res.
       Inr (\<lparr>addr_digits = take (as_addr_len res) (as_digits res), addr_ton = as_ton res, addr_npi = as_npi res\<rparr>,
            drop (as_tell res) b)))"

text \<open>\<open>addr.decode('ascii')\<close> raises on bytes above 127.\<close>

definition decode_ascii :: "bytes \<Rightarrow> string result" where
  "decode_ascii b = (if list_all (\<lambda>x. unat x < 128) b then Inr (map (\<lambda>x. char_of (unat x)) b) else Inl ValueError)"

definition Address_from_smpp :: "bytes \<Rightarrow> string \<Rightarrow> string \<Rightarrow> address result" where
  "Address_from_smpp addr ton npi =
     bindR (decode_ascii addr) (\<lambda>d.
     bindR (bidict_get smpp_map_ton ton) (\<lambda>t.
     bindR (bidict_get smpp_map_npi npi) (\<lambda>n.
       Inr \<lparr>addr_digits = d, addr_ton = t, addr_npi = n\<rparr>)))"

definition Address_to_smpp :: "address \<Rightarrow> (string \<times> string \<times> string) result" where
  "Address_to_smpp a =
     bindR (bidict_inverse smpp_map_ton (addr_ton a)) (\<lambda>t.
     bindR (bidict_inverse smpp_map_npi (addr_npi a)) (\<lambda>n. Inr (addr_digits a, t, n)))"

definition Address_to_bytes :: "sms_lib \<Rightarrow> (address, bytes) comp" where
  "Address_to_bytes L a =
     (let num_digits = length (addr_digits a);
          a' = (if odd num_digits then a\<lparr>addr_digits := addr_digits a @ ''f''\<rparr> else a)
      in (addr_build L num_digits (addr_ton a') (addr_npi a') (addr_digits a'), a'))"

section \<open>SMS-DELIVER\<close>

record sms_tpdu =
  tp_mti :: nat
  tp_rp :: bool
  tp_udhi :: bool
  tp_pid :: "nat option"
  tp_dcs :: "nat option"
  tp_udl :: "nat option"
  tp_ud :: "bytes option"

record sms_deliver = sms_tpdu +
  tp_lp :: bool
  tp_mms :: bool
  tp_oa :: "address option"
  tp_scts :: "bytes option"
  tp_sri :: bool

text \<open>\<open>outb.append(n)\<close> and \<open>outb.extend(bs)\<close> of a value that may be \<open>None\<close>, and \<open>b[i]\<close>.\<close>

definition out_append :: "nat option \<Rightarrow> bytes result" where
  "out_append n = (case n of None \<Rightarrow> Inl TypeError | Some i \<Rightarrow> if i < 256 then Inr [of_nat i] else Inl ValueError)"

definition out_extend :: "bytes option \<Rightarrow> bytes result" where
  "out_extend b = (case b of None \<Rightarrow> Inl TypeError | Some bs \<Rightarrow> Inr bs)"

definition byte_at :: "bytes \<Rightarrow> nat \<Rightarrow> nat result" where
  "byte_at b i = bindR (nthR b i) (\<lambda>x. Inr (unat x))"

definition DELIVER_from_bytes :: "osmo_utils \<Rightarrow> sms_lib \<Rightarrow> bytes_or_hex \<Rightarrow> sms_deliver result" where
  "DELIVER_from_bytes U L inb =
     bindR (in_bytes U inb) (\<lambda>b.
     bindR (deliver_flags_parse L b) (\<lambda>d.
     bindR (Address_from_bytes U L (InBytes (drop 1 b))) (\<lambda>(oa, remainder).
     bindR (byte_at remainder 0) (\<lambda>pid.
     bindR (byte_at remainder 1) (\<lambda>dcs.
     bindR (byte_at remainder 9) (\<lambda>udl.
       Inr \<lparr>tp_mti = 0, tp_rp = df_rp d, tp_udhi = df_udhi d, tp_pid = Some pid, tp_dcs = Some dcs, tp_udl = Some udl,
            tp_ud = Some (drop 10 remainder), tp_lp = False, tp_mms = df_mms d, tp_oa = Some oa,
            tp_scts = Some (slice 2 9 remainder), tp_sri = df_sri d\<rparr>))))))"

definition DELIVER_to_bytes :: "sms_lib \<Rightarrow> (sms_deliver, bytes) comp" where
  "DELIVER_to_bytes L s =
     bindS (liftS (deliver_flags_build L \<lparr>df_rp = tp_rp s, df_udhi = tp_udhi s, df_sri = tp_sri s, df_mms = tp_mms s,
         df_mti = tp_mti s\<rparr>)) (\<lambda>flags.
     bindS (\<lambda>s. case tp_oa s of
           None \<Rightarrow> (Inl AttributeError, s)
         | Some oa \<Rightarrow> (case Address_to_bytes L oa of (r, oa') \<Rightarrow> (r, s\<lparr>tp_oa := Some oa'\<rparr>))) (\<lambda>oa.
     bindS (liftS (out_append (tp_pid s))) (\<lambda>pid.
     bindS (liftS (out_append (tp_dcs s))) (\<lambda>dcs.
     bindS (liftS (out_extend (tp_scts s))) (\<lambda>scts.
     bindS (liftS (out_append (tp_udl s))) (\<lambda>udl.
     bindS (liftS (out_extend (tp_ud s))) (\<lambda>ud.
       retS (flags @ oa @ pid @ dcs @ scts @ udl @ ud)))))))) s"

section \<open>SMPP\<close>

text \<open>The parameters of a PDU that are read: the command, the coding, both addresses with type and plan,
  the message, whether the user data header indicator is among the GSM features, the protocol id,
  the replace flag, and whether a registered delivery is given.\<close>

record smpp_pdu =
  command_id :: string
  sm_data_coding :: data_coding
  source_addr :: "bytes \<times> string \<times> string"
  destination_addr :: "bytes \<times> string \<times> string"
  short_message :: bytes
  udhi_indicator :: bool
  protocol_id :: nat
  replace_if_present :: string
  registered_delivery :: bool

definition scts_const :: bytes where
  "scts_const = [0x22, 0x70, 0x52, 0, 0, 0, 0]"

definition DELIVER_from_smpp_submit :: "smpp_pdu \<Rightarrow> sms_deliver result" where
  "DELIVER_from_smpp_submit pdu =
     bindR (ensure_smpp_is_8bit (sm_data_coding pdu)) (\<lambda>_.
     bindR (case source_addr pdu of (a, ton, npi) \<Rightarrow> Address_from_smpp a ton npi) (\<lambda>oa.
       Inr \<lparr>tp_mti = 0, tp_rp = False, tp_udhi = udhi_indicator pdu, tp_pid = Some (protocol_id pdu), tp_dcs = Some 0xF6,
            tp_udl = Some (length (short_message pdu)), tp_ud = Some (short_message pdu), tp_lp = False, tp_mms = False,
            tp_oa = Some oa, tp_scts = Some scts_const, tp_sri = False\<rparr>))"

definition DELIVER_from_smpp :: "smpp_pdu \<Rightarrow> sms_deliver result" where
  "DELIVER_from_smpp pdu =
     (if command_id pdu = ''submit_sm'' then DELIVER_from_smpp_submit pdu else Inl ValueError)"

text \<open>The PDU built for a message: the address (absent if there is none) and the message.\<close>

record deliver_sm =
  ds_source :: "(string \<times> string \<times> string) option"
  ds_protocol_id :: "nat option"
  ds_short_message :: "bytes option"

definition DELIVER_to_smpp :: "sms_deliver \<Rightarrow> deliver_sm result" where
  "DELIVER_to_smpp s =
     (if tp_dcs s \<noteq> Some 0xF6 then Inl ValueError
      else bindR (case tp_oa s of None \<Rightarrow> Inr None | Some oa \<Rightarrow> bindR (Address_to_smpp oa) (\<lambda>x. Inr (Some x))) (\<lambda>src.
        Inr \<lparr>ds_source = src, ds_protocol_id = tp_pid s, ds_short_message = tp_ud s\<rparr>))"

section \<open>SMS-SUBMIT\<close>

record sms_submit = sms_tpdu +
  tp_rd :: bool
  tp_vpf :: "string option"
  tp_srr :: bool
  tp_mr :: "nat option"
  tp_da :: "address option"
  tp_vp :: "bytes option"

definition DELIVER_from_submit :: "sms_submit \<Rightarrow> sms_deliver" where
  "DELIVER_from_submit submit =
     \<lparr>tp_mti = 0, tp_rp = tp_rp submit, tp_udhi = tp_udhi submit, tp_pid = tp_pid submit, tp_dcs = tp_dcs submit,
      tp_udl = tp_udl submit, tp_ud = tp_ud submit, tp_lp = False, tp_mms = False, tp_oa = None,
      tp_scts = Some scts_const, tp_sri = False\<rparr>"

text \<open>The validity period: its bytes (if the format has one) and the number of bytes it takes.\<close>

definition validity_period :: "string \<Rightarrow> bytes \<Rightarrow> (bytes option \<times> nat) result" where
  "validity_period vpf remainder =
     (if vpf = ''none'' then Inr (None, 0)
      else if vpf = ''relative'' then Inr (Some (slice 2 3 remainder), 1)
      else if vpf = ''enhanced'' then Inr (Some (slice 2 9 remainder), 7)
      else if vpf = ''absolute'' then Inr (Some (slice 2 9 remainder), 7)
      else Inl ValueError)"

definition SUBMIT_from_bytes :: "osmo_utils \<Rightarrow> sms_lib \<Rightarrow> bytes_or_hex \<Rightarrow> sms_submit result" where
  "SUBMIT_from_bytes U L inb =
     bindR (in_bytes U inb) (\<lambda>b.
     bindR (submit_flags_parse L b) (\<lambda>d.
     bindR (byte_at b 1) (\<lambda>mr.
     bindR (Address_from_bytes U L (InBytes (drop 2 b))) (\<lambda>(da, remainder).
     bindR (byte_at remainder 0) (\<lambda>pid.
     bindR (byte_at remainder 1) (\<lambda>dcs.
     bindR (validity_period (sf_vpf d) remainder) (\<lambda>(vp, vp_len).
     bindR (byte_at remainder (2 + vp_len)) (\<lambda>udl.
       Inr \<lparr>tp_mti = 1, tp_rp = sf_rp d, tp_udhi = sf_udhi d, tp_pid = Some pid, tp_dcs = Some dcs, tp_udl = Some udl,
            tp_ud = Some (drop (3 + vp_len) remainder), tp_rd = sf_rd d, tp_vpf = Some (sf_vpf d), tp_srr = sf_srr d,
            tp_mr = Some mr, tp_da = Some da, tp_vp = vp\<rparr>))))))))"

text \<open>A format \<open>None\<close> is no member of the enumeration, so building the flags raises.\<close>

definition SUBMIT_to_bytes :: "sms_lib \<Rightarrow> (sms_submit, bytes) comp" where
  "SUBMIT_to_bytes L s =
     bindS (liftS (case tp_vpf s of
           None \<Rightarrow> Inl GenericException
         | Some vpf \<Rightarrow> submit_flags_build L \<lparr>sf_srr = tp_srr s, sf_udhi = tp_udhi s, sf_rp = tp_rp s, sf_vpf = vpf,
             sf_rd = tp_rd s, sf_mti = tp_mti s\<rparr>)) (\<lambda>flags.
     bindS (liftS (out_append (tp_mr s))) (\<lambda>mr.
     bindS (\<lambda>s. case tp_da s of
           None \<Rightarrow> (Inl AttributeError, s)
         | Some da \<Rightarrow> (case Address_to_bytes L da of (r, da') \<Rightarrow> (r, s\<lparr>tp_da := Some da'\<rparr>))) (\<lambda>da.
     bindS (liftS (out_append (tp_pid s))) (\<lambda>pid.
     bindS (liftS (out_append (tp_dcs s))) (\<lambda>dcs.
     bindS (liftS (if tp_vpf s \<noteq> Some ''none'' then out_extend (tp_vp s) else Inr [])) (\<lambda>vp.
     bindS (liftS (out_append (tp_udl s))) (\<lambda>udl.
     bindS (liftS (out_extend (tp_ud s))) (\<lambda>ud.
       retS (flags @ mr @ da @ pid @ dcs @ vp @ udl @ ud))))))))) s"

definition SUBMIT_from_smpp_submit :: "smpp_pdu \<Rightarrow> sms_submit result" where
  "SUBMIT_from_smpp_submit pdu =
     bindR (ensure_smpp_is_8bit (sm_data_coding pdu)) (\<lambda>_.
     bindR (case destination_addr pdu of (a, ton, npi) \<Rightarrow> Address_from_smpp a ton npi) (\<lambda>da.
       Inr \<lparr>tp_mti = 1, tp_rp = False, tp_udhi = udhi_indicator pdu, tp_pid = Some (protocol_id pdu), tp_dcs = Some 0xF6,
            tp_udl = Some (length (short_message pdu)), tp_ud = Some (short_message pdu),
            tp_rd = (replace_if_present pdu = ''REPLACE''), tp_vpf = None, tp_srr = registered_delivery pdu,
            tp_mr = Some 0, tp_da = Some da, tp_vp = None\<rparr>))"

definition SUBMIT_from_smpp :: "smpp_pdu \<Rightarrow> sms_submit result" where
  "SUBMIT_from_smpp pdu =
     (if command_id pdu = ''submit_sm'' then SUBMIT_from_smpp_submit pdu else Inl ValueError)"

record submit_sm =
  sub_destination :: "string \<times> string \<times> string"
  sub_protocol_id :: "nat option"
  sub_replace :: string
  sub_short_message :: "bytes option"

definition SUBMIT_to_smpp :: "sms_submit \<Rightarrow> submit_sm result" where
  "SUBMIT_to_smpp s =
     (if tp_dcs s \<noteq> Some 0xF6 then Inl ValueError
      else bindR (case tp_da s of None \<Rightarrow> Inl AttributeError | Some da \<Rightarrow> Address_to_smpp da) (\<lambda>da.
        Inr \<lparr>sub_destination = da, sub_protocol_id = tp_pid s,
             sub_replace = (if tp_rp s then ''REPLACE'' else ''DO_NOT_REPLACE''), sub_short_message = tp_ud s\<rparr>))"

section \<open>Laws of the library\<close>

definition vpf_names :: "string list" where
  "vpf_names = [''none'', ''enhanced'', ''relative'', ''absolute'']"

definition is_bcd :: "char \<Rightarrow> bool" where
  "is_bcd c \<longleftrightarrow> c \<in> set ''0123456789abcdef''"

definition sms_laws :: "sms_lib \<Rightarrow> bool" where
  "sms_laws L \<longleftrightarrow>
     (\<forall>n t p ds rest. n < 256 \<longrightarrow> t \<in> snd ` set smpp_map_ton \<longrightarrow> p \<in> snd ` set smpp_map_npi \<longrightarrow>
        list_all is_bcd ds \<longrightarrow> length ds = n + n mod 2 \<longrightarrow>
        (\<exists>bs. addr_build L n t p ds = Inr bs \<and> addr_parse L (bs @ rest) =
           Inr \<lparr>as_addr_len = n, as_ton = t, as_npi = p, as_digits = ds, as_tell = length bs\<rparr>)) \<and>
     (\<forall>f rest. df_mti f < 4 \<longrightarrow>
        (\<exists>b. deliver_flags_build L f = Inr [b] \<and> deliver_flags_parse L (b # rest) = Inr f)) \<and>
     (\<forall>f rest. sf_mti f < 4 \<longrightarrow> sf_vpf f \<in> set vpf_names \<longrightarrow>
        (\<exists>b. submit_flags_build L f = Inr [b] \<and> submit_flags_parse L (b # rest) = Inr f))"

definition address_ok :: "address \<Rightarrow> bool" where
  "address_ok a \<longleftrightarrow> length (addr_digits a) < 256 \<and> list_all is_bcd (addr_digits a) \<and>
     addr_ton a \<in> snd ` set smpp_map_ton \<and> addr_npi a \<in> snd ` set smpp_map_npi"

definition small :: "nat option \<Rightarrow> bool" where
  "small n \<longleftrightarrow> (case n of None \<Rightarrow> False | Some i \<Rightarrow> i < 256)"

definition deliver_ok :: "sms_deliver \<Rightarrow> bool" where
  "deliver_ok s \<longleftrightarrow> tp_mti s = 0 \<and> small (tp_pid s) \<and> small (tp_dcs s) \<and> small (tp_udl s) \<and> tp_ud s \<noteq> None \<and>
     \<not> tp_lp s \<and> (\<exists>a. tp_oa s = Some a \<and> address_ok a) \<and> (\<exists>b. tp_scts s = Some b \<and> length b = 7)"

definition submit_ok :: "sms_submit \<Rightarrow> bool" where
  "submit_ok s \<longleftrightarrow> tp_mti s = 1 \<and> small (tp_pid s) \<and> small (tp_dcs s) \<and> small (tp_udl s) \<and> tp_ud s \<noteq> None \<and>
     small (tp_mr s) \<and> (\<exists>a. tp_da s = Some a \<and> address_ok a) \<and>
     (\<exists>f. tp_vpf s = Some f \<and> f \<in> set vpf_names \<and>
        (if f = ''none'' then tp_vp s = None
         else \<exists>b. tp_vp s = Some b \<and> length b = (if f = ''relative'' then 1 else 7)))"

section \<open>Lemmas\<close>

lemma sms_addr_law:
  "sms_laws L \<Longrightarrow> n < 256 \<Longrightarrow> t \<in> snd ` set smpp_map_ton \<Longrightarrow> p \<in> snd ` set smpp_map_npi \<Longrightarrow>
   list_all is_bcd ds \<Longrightarrow> length ds = n + n mod 2 \<Longrightarrow>
   \<exists>bs. addr_build L n t p ds = Inr bs \<and> addr_parse L (bs @ rest) =
     Inr \<lparr>as_addr_len = n, as_ton = t, as_npi = p, as_digits = ds, as_tell = length bs\<rparr>"
  unfolding sms_laws_def by blast

lemma sms_deliver_law:
  "sms_laws L \<Longrightarrow> df_mti f < 4 \<Longrightarrow> \<exists>b. deliver_flags_build L f = Inr [b] \<and> deliver_flags_parse L (b # rest) = Inr f"
  unfolding sms_laws_def by blast

lemma sms_submit_law:
  "sms_laws L \<Longrightarrow> sf_mti f < 4 \<Longrightarrow> sf_vpf f \<in> set vpf_names \<Longrightarrow>
   \<exists>b. submit_flags_build L f = Inr [b] \<and> submit_flags_parse L (b # rest) = Inr f"
  unfolding sms_laws_def by blast

lemma small_append: "small n \<Longrightarrow> out_append n = Inr [of_nat (the n)] \<and> unat (of_nat (the n) :: byte) = the n \<and> n = Some (the n)"
  by (cases n) (auto simp: small_def out_append_def unat_of_nat)

lemma address_roundtrip:
  assumes "sms_laws L" "address_ok a"
  obtains bs a' where "Address_to_bytes L a = (Inr bs, a')" "Address_from_bytes U L (InBytes (bs @ rest)) = Inr (a, rest)"
proof -
  let ?n = "length (addr_digits a)"
  let ?ds = "addr_digits a @ (if odd ?n then ''f'' else [])"
  have "list_all is_bcd ?ds" "length ?ds = ?n + ?n mod 2"
    using assms(2) by (auto simp: address_ok_def is_bcd_def odd_iff_mod_2_eq_one)
  with sms_addr_law [OF assms(1), of ?n "addr_ton a" "addr_npi a" ?ds rest] assms(2) obtain bs where
    b: "addr_build L ?n (addr_ton a) (addr_npi a) ?ds = Inr bs" "addr_parse L (bs @ rest) =
      Inr \<lparr>as_addr_len = ?n, as_ton = addr_ton a, as_npi = addr_npi a, as_digits = ?ds, as_tell = length bs\<rparr>"
    by (auto simp: address_ok_def)
  then have "Address_from_bytes U L (InBytes (bs @ rest)) = Inr (a, rest)"
    by (simp add: Address_from_bytes_def in_bytes_def)
  moreover have "\<exists>a'. Address_to_bytes L a = (Inr bs, a')"
    using b(1) by (auto simp: Address_to_bytes_def Let_def)
  ultimately show thesis using that by blast
qed

lemma deliver_roundtrip:
  assumes "sms_laws L" "deliver_ok s"
  shows "\<exists>bs s'. DELIVER_to_bytes L s = (Inr bs, s') \<and> DELIVER_from_bytes U L (InBytes bs) = Inr s"
proof -
  from assms(2) obtain a scts ud where s: "tp_oa s = Some a" "address_ok a" "tp_scts s = Some scts" "length scts = 7"
    "tp_ud s = Some ud" "tp_mti s = 0" "\<not> tp_lp s"
    and n: "small (tp_pid s)" "small (tp_dcs s)" "small (tp_udl s)"
    by (auto simp: deliver_ok_def)
  note n' = n [THEN small_append]
  let ?f = "\<lparr>df_rp = tp_rp s, df_udhi = tp_udhi s, df_sri = tp_sri s, df_mms = tp_mms s, df_mti = tp_mti s\<rparr>"
  let ?rest = "[of_nat (the (tp_pid s)), of_nat (the (tp_dcs s))] @ scts @ [of_nat (the (tp_udl s))] @ ud"
  from address_roundtrip [OF assms(1) s(2), of U ?rest] obtain ab a' where
    ab: "Address_to_bytes L a = (Inr ab, a')" "Address_from_bytes U L (InBytes (ab @ ?rest)) = Inr (a, ?rest)" by blast
  from sms_deliver_law [OF assms(1), of ?f "ab @ ?rest"] s obtain b where
    b: "deliver_flags_build L ?f = Inr [b]" "deliver_flags_parse L (b # ab @ ?rest) = Inr ?f" by auto
  have "DELIVER_to_bytes L s = (Inr (b # ab @ ?rest), s\<lparr>tp_oa := Some a'\<rparr>)"
    using b(1) ab(1) s n' by (simp add: DELIVER_to_bytes_def bindS_def out_extend_def)
  moreover have "byte_at ?rest 0 = Inr (the (tp_pid s))" "byte_at ?rest 1 = Inr (the (tp_dcs s))"
    "byte_at ?rest 9 = Inr (the (tp_udl s))" "slice 2 9 ?rest = scts" "drop 10 ?rest = ud"
    using n' s(4) by (simp_all add: byte_at_def nthR_def nth_append slice_def)
  then have "DELIVER_from_bytes U L (InBytes (b # ab @ ?rest)) = Inr s"
    using b(2) ab(2) s n' by (simp add: DELIVER_from_bytes_def in_bytes_def)
  ultimately show ?thesis by blast
qed

lemma submit_roundtrip:
  assumes "sms_laws L" "submit_ok s"
  shows "\<exists>bs s'. SUBMIT_to_bytes L s = (Inr bs, s') \<and> SUBMIT_from_bytes U L (InBytes bs) = Inr s"
proof -
  from assms(2) obtain a f ud where s: "tp_da s = Some a" "address_ok a" "tp_vpf s = Some f" "f \<in> set vpf_names"
    "tp_ud s = Some ud" "tp_mti s = 1" "if f = ''none'' then tp_vp s = None
         else \<exists>b. tp_vp s = Some b \<and> length b = (if f = ''relative'' then 1 else 7)"
    and n: "small (tp_pid s)" "small (tp_dcs s)" "small (tp_udl s)" "small (tp_mr s)"
    by (auto simp: submit_ok_def)
  note n' = n [THEN small_append]
  let ?f = "\<lparr>sf_srr = tp_srr s, sf_udhi = tp_udhi s, sf_rp = tp_rp s, sf_vpf = f, sf_rd = tp_rd s, sf_mti = tp_mti s\<rparr>"
  let ?vp = "case tp_vp s of None \<Rightarrow> [] | Some b \<Rightarrow> b"
  let ?rest = "[of_nat (the (tp_pid s)), of_nat (the (tp_dcs s))] @ ?vp @ [of_nat (the (tp_udl s))] @ ud"
  from address_roundtrip [OF assms(1) s(2), of U ?rest] obtain ab a' where
    ab: "Address_to_bytes L a = (Inr ab, a')" "Address_from_bytes U L (InBytes (ab @ ?rest)) = Inr (a, ?rest)" by blast
  let ?mr = "of_nat (the (tp_mr s)) :: byte"
  from sms_submit_law [OF assms(1), of ?f "?mr # ab @ ?rest"] s obtain b where
    b: "submit_flags_build L ?f = Inr [b]" "submit_flags_parse L (b # ?mr # ab @ ?rest) = Inr ?f" by auto
  have vp: "(if tp_vpf s \<noteq> Some ''none'' then out_extend (tp_vp s) else Inr []) = Inr ?vp"
    "validity_period f ?rest = Inr (tp_vp s, length ?vp)"
  proof -
    consider "f = ''none''" | "f = ''relative''" | "f = ''enhanced''" | "f = ''absolute''"
      using s(4) by (auto simp: vpf_names_def)
    then have "(if f \<noteq> ''none'' then out_extend (tp_vp s) else Inr []) = Inr ?vp \<and>
        validity_period f ?rest = Inr (tp_vp s, length ?vp)"
      using s(7) by cases (auto simp: out_extend_def validity_period_def slice_def)
    then show "(if tp_vpf s \<noteq> Some ''none'' then out_extend (tp_vp s) else Inr []) = Inr ?vp"
      "validity_period f ?rest = Inr (tp_vp s, length ?vp)"
      using s(3) by simp_all
  qed
  have enc: "SUBMIT_to_bytes L s = (Inr (b # ?mr # ab @ ?rest), s\<lparr>tp_da := Some a'\<rparr>)"
    using b(1) ab(1) s n' vp(1) by (simp add: SUBMIT_to_bytes_def bindS_def out_extend_def)
  have "byte_at ?rest 0 = Inr (the (tp_pid s))" "byte_at ?rest 1 = Inr (the (tp_dcs s))"
    "byte_at ?rest (2 + length ?vp) = Inr (the (tp_udl s))" "drop (3 + length ?vp) ?rest = ud"
    using n' by (simp_all add: byte_at_def nthR_def nth_append numeral_3_eq_3)
  moreover have "byte_at (b # ?mr # ab @ ?rest) 1 = Inr (the (tp_mr s))"
    using n'(4) by (simp add: byte_at_def nthR_def)
  ultimately have "SUBMIT_from_bytes U L (InBytes (b # ?mr # ab @ ?rest)) = Inr s"
    using b(2) ab(2) s n' vp(2) by (simp add: SUBMIT_from_bytes_def in_bytes_def)
  with enc show ?thesis by blast
qed

section \<open>A concrete library\<close>

definition name_idx :: "string list \<Rightarrow> string \<Rightarrow> nat" where
  "name_idx names t = length (takeWhile (\<lambda>x. x \<noteq> t) names)"

lemma name_idx_nth: "t \<in> set names \<Longrightarrow> names ! name_idx names t = t \<and> name_idx names t < length names"
  by (induction names) (auto simp: name_idx_def)

abbreviation ton_names :: "string list" where
  "ton_names \<equiv> map snd smpp_map_ton"

abbreviation npi_names :: "string list" where
  "npi_names \<equiv> map snd smpp_map_npi"

definition demo_addr_build :: "nat \<Rightarrow> string \<Rightarrow> string \<Rightarrow> string \<Rightarrow> bytes result" where
  "demo_addr_build n t p ds =
     Inr ([of_nat n, of_nat (name_idx ton_names t), of_nat (name_idx npi_names p)] @ map (\<lambda>c. of_nat (of_char c)) ds)"

fun demo_addr_parse :: "bytes \<Rightarrow> addr_struct result" where
  "demo_addr_parse (n # t # p # ds) =
     (let l = unat n + unat n mod 2 in
      Inr \<lparr>as_addr_len = unat n, as_ton = ton_names ! unat t, as_npi = npi_names ! unat p,
           as_digits = map (\<lambda>x. char_of (unat x)) (take l ds), as_tell = 3 + l\<rparr>)"
| "demo_addr_parse _ = Inl ValueError"

definition demo_deliver_build :: "deliver_flags \<Rightarrow> bytes result" where
  "demo_deliver_build f = Inr [of_nat (of_bool (df_rp f) + 2 * of_bool (df_udhi f) + 4 * of_bool (df_sri f) +
     8 * of_bool (df_mms f) + 16 * df_mti f)]"

definition demo_deliver_parse :: "bytes \<Rightarrow> deliver_flags result" where
  "demo_deliver_parse b =
     (let n = unat (hd b) in Inr \<lparr>df_rp = odd n, df_udhi = odd (n div 2), df_sri = odd (n div 4), df_mms = odd (n div 8),
        df_mti = n div 16\<rparr>)"

definition demo_submit_build :: "submit_flags \<Rightarrow> bytes result" where
  "demo_submit_build f = Inr [of_nat (of_bool (sf_srr f) + 2 * of_bool (sf_udhi f) + 4 * of_bool (sf_rp f) +
     8 * of_bool (sf_rd f) + 16 * sf_mti f + 64 * name_idx vpf_names (sf_vpf f))]"

definition demo_submit_parse :: "bytes \<Rightarrow> submit_flags result" where
  "demo_submit_parse b =
     (let n = unat (hd b) in Inr \<lparr>sf_srr = odd n, sf_udhi = odd (n div 2), sf_rp = odd (n div 4),
        sf_vpf = vpf_names ! (n div 64), sf_rd = odd (n div 8), sf_mti = n div 16 mod 4\<rparr>)"

definition demo_sms_lib :: sms_lib where
  "demo_sms_lib = \<lparr>udh_parse = (\<lambda>b. Inr ([], b)), udh_build = (\<lambda>_. Inr [0]), addr_parse = demo_addr_parse,
     addr_build = demo_addr_build, deliver_flags_parse = demo_deliver_parse, deliver_flags_build = demo_deliver_build,
     submit_flags_parse = demo_submit_parse, submit_flags_build = demo_submit_build\<rparr>"

lemma demo_addr_law:
  assumes "n < 256" "t \<in> set ton_names" "p \<in> set npi_names" "length ds = n + n mod 2"
  shows "\<exists>bs. demo_addr_build n t p ds = Inr bs \<and> demo_addr_parse (bs @ rest) =
    Inr \<lparr>as_addr_len = n, as_ton = t, as_npi = p, as_digits = ds, as_tell = length bs\<rparr>"
proof -
  have i: "unat (of_nat (name_idx ton_names t) :: byte) = name_idx ton_names t"
    "unat (of_nat (name_idx npi_names p) :: byte) = name_idx npi_names p" "unat (of_nat n :: byte) = n"
    using name_idx_nth [OF assms(2)] name_idx_nth [OF assms(3)] assms(1)
    by (auto simp: unat_of_nat smpp_map_ton_def smpp_map_npi_def)
  have c: "char_of (unat (of_nat (of_char c) :: byte)) = c" for c
    by (simp add: unat_of_nat of_char_mod_256)
  show ?thesis
    using name_idx_nth [OF assms(2)] name_idx_nth [OF assms(3)] assms(4) i
    by (simp add: demo_addr_build_def comp_def c Let_def)
qed

lemma flag_bits:
  assumes "a < 2" "b < 2" "c < 2" "d < 2" "m < 4" "n = a + 2 * b + 4 * c + 8 * d + 16 * m + 64 * (i :: nat)"
  shows "n mod 2 = a" "n div 2 mod 2 = b" "n div 4 mod 2 = c" "n div 8 mod 2 = d" "n div 16 mod 4 = m" "n div 64 = i"
proof -
  have h: "(x + 2 * y) div 2 = y" "(x + 2 * y) mod 2 = x" if "x < 2" for x y :: nat using that by simp_all
  have e: "n = a + 2 * (b + 2 * (c + 2 * (d + 2 * (m + 4 * i))))" using assms(6) by simp
  have 1: "n div 2 = b + 2 * (c + 2 * (d + 2 * (m + 4 * i)))" "n mod 2 = a" unfolding e by (rule h [OF assms(1)])+
  have 2: "n div 2 div 2 = c + 2 * (d + 2 * (m + 4 * i))" "n div 2 mod 2 = b" unfolding 1 by (rule h [OF assms(2)])+
  have 3: "n div 2 div 2 div 2 = d + 2 * (m + 4 * i)" "n div 2 div 2 mod 2 = c" unfolding 2 by (rule h [OF assms(3)])+
  have 4: "n div 2 div 2 div 2 div 2 = m + 4 * i" "n div 2 div 2 div 2 mod 2 = d" unfolding 3 by (rule h [OF assms(4)])+
  have 5: "n div 4 = n div 2 div 2" "n div 8 = n div 2 div 2 div 2" "n div 16 = n div 2 div 2 div 2 div 2"
    "n div 64 = n div 2 div 2 div 2 div 2 div 4"
    by (simp_all flip: div_mult2_eq)
  show "n mod 2 = a" "n div 2 mod 2 = b" by (rule 1(2)) (rule 2(2))
  show "n div 4 mod 2 = c" "n div 8 mod 2 = d" unfolding 5 by (rule 3(2)) (rule 4(2))
  show "n div 16 mod 4 = m" "n div 64 = i" unfolding 5 4(1) using assms(5) by simp_all
qed

lemma unat_small: "n < 256 \<Longrightarrow> unat (of_nat n :: byte) = n"
  by (simp add: unat_of_nat)

lemma demo_deliver_law:
  assumes "df_mti f < 4"
  shows "\<exists>b. demo_deliver_build f = Inr [b] \<and> demo_deliver_parse (b # rest) = Inr f"
proof -
  define n where "n = of_bool (df_rp f) + 2 * of_bool (df_udhi f) + 4 * of_bool (df_sri f) + 8 * of_bool (df_mms f) +
    16 * df_mti f + 64 * (0 :: nat)"
  note bits = flag_bits [OF _ _ _ _ assms n_def]
  have "n < 64" using bits(6) by (simp add: div_eq_0_iff)
  moreover have "n div 16 = df_mti f" using bits(5) \<open>n < 64\<close> by simp
  ultimately have "demo_deliver_parse (of_nat n # rest) = Inr f"
    using unat_small [of n] bits(1-4) by (simp add: demo_deliver_parse_def Let_def odd_iff_mod_2_eq_one)
  then show ?thesis by (simp add: demo_deliver_build_def n_def)
qed

lemma demo_submit_law:
  assumes "sf_mti f < 4" "sf_vpf f \<in> set vpf_names"
  shows "\<exists>b. demo_submit_build f = Inr [b] \<and> demo_submit_parse (b # rest) = Inr f"
proof -
  define n where "n = of_bool (sf_srr f) + 2 * of_bool (sf_udhi f) + 4 * of_bool (sf_rp f) + 8 * of_bool (sf_rd f) +
     16 * sf_mti f + 64 * name_idx vpf_names (sf_vpf f)"
  have i: "name_idx vpf_names (sf_vpf f) < 4" "vpf_names ! name_idx vpf_names (sf_vpf f) = sf_vpf f"
    using name_idx_nth [OF assms(2)] by (simp_all add: vpf_names_def)
  note bits = flag_bits [OF _ _ _ _ assms(1) n_def]
  have "n div 64 < 4" using bits(6) i(1) by simp
  then have "n < 256" by simp
  then have "demo_submit_parse (of_nat n # rest) = Inr f"
    using unat_small [of n] bits i(2) by (simp add: demo_submit_parse_def Let_def odd_iff_mod_2_eq_one)
  then show ?thesis by (simp add: demo_submit_build_def n_def)
qed

lemma demo_sms_laws: "sms_laws demo_sms_lib"
  unfolding sms_laws_def demo_sms_lib_def
  using demo_addr_law demo_deliver_law demo_submit_law by (simp add: list.set_map)

section \<open>Properties\<close>


definition demo_address :: address where
  "demo_address = \<lparr>addr_digits = ''12345'', addr_ton = ''international'', addr_npi = ''isdn_e164''\<rparr>"

lemma demo_address_ok: "address_ok demo_address"
  by (simp add: address_ok_def demo_address_def is_bcd_def smpp_map_ton_def smpp_map_npi_def)

definition demo_deliver :: sms_deliver where
  "demo_deliver = \<lparr>tp_mti = 0, tp_rp = False, tp_udhi = True, tp_pid = Some 0x7F, tp_dcs = Some 0xF6, tp_udl = Some 3,
     tp_ud = Some [2, 0x71, 0], tp_lp = False, tp_mms = False, tp_oa = Some demo_address, tp_scts = Some scts_const, tp_sri = False\<rparr>"

definition demo_submit :: sms_submit where
  "demo_submit = \<lparr>tp_mti = 1, tp_rp = False, tp_udhi = True, tp_pid = Some 0x7F, tp_dcs = Some 0xF6, tp_udl = Some 3,
     tp_ud = Some [2, 0x71, 0], tp_rd = True, tp_vpf = Some ''relative'', tp_srr = False, tp_mr = Some 1,
     tp_da = Some demo_address, tp_vp = Some [0xA7]\<rparr>"


text \<open>Encoding an address changes it: with an odd number of digits the filler is added to the object itself, so
  a second encoding gives a number that is one digit longer and ends in f.\<close>

theorem address_encoded_twice:
  assumes "sms_laws L" "address_ok a" "odd (length (addr_digits a))" "length (addr_digits a) < 255"
  shows "\<exists>bs1 bs2 a'. Address_to_bytes L a = (Inr bs1, a') \<and> Address_to_bytes L a' = (Inr bs2, a') \<and>
    Address_from_bytes U L (InBytes bs1) = Inr (a, []) \<and>
    Address_from_bytes U L (InBytes bs2) = Inr (a\<lparr>addr_digits := addr_digits a @ ''f''\<rparr>, [])"
proof -
  let ?a = "a\<lparr>addr_digits := addr_digits a @ ''f''\<rparr>"
  have ok: "address_ok ?a" using assms(2,4) by (simp add: address_ok_def is_bcd_def)
  from address_roundtrip [OF assms(1,2), of U "[]"] obtain bs1 a1 where
    1: "Address_to_bytes L a = (Inr bs1, a1)" "Address_from_bytes U L (InBytes bs1) = Inr (a, [])" by auto
  from address_roundtrip [OF assms(1) ok, of U "[]"] obtain bs2 a2 where
    2: "Address_to_bytes L ?a = (Inr bs2, a2)" "Address_from_bytes U L (InBytes bs2) = Inr (?a, [])" by auto
  have "a1 = ?a" using 1(1) assms(3) by (simp add: Address_to_bytes_def)
  moreover have "a2 = ?a" using 2(1) assms(3) by (simp add: Address_to_bytes_def Let_def)
  ultimately show ?thesis using 1 2 by blast
qed

text \<open>The flag to replace a message does not survive SMPP: it is read into \<open>tp_rd\<close> and written from
  \<open>tp_rp\<close>. And a message that came from SMPP has no format of the validity period, so it cannot
  be encoded.\<close>

theorem smpp_submit_not_preserved:
  assumes "SUBMIT_from_smpp pdu = Inr s"
  shows "(case SUBMIT_to_smpp s of Inl e \<Rightarrow> True | Inr out \<Rightarrow> sub_replace out = ''DO_NOT_REPLACE'') \<and>
    fst (SUBMIT_to_bytes L s) = Inl GenericException"
  using assms
  by (auto simp: SUBMIT_from_smpp_def SUBMIT_from_smpp_submit_def SUBMIT_to_smpp_def SUBMIT_to_bytes_def
      split: if_splits sum.splits option.splits prod.splits)

end
