(* ===== verification/Ota.thy ===== *)
theory Ota
  imports Sms_Tpdu
begin

text \<open>
  Secured packets over SMS, \<^verbatim>\<open>pysim/pySim/ota.py\<close>: key sets, the cipher and checksum classes,
  and the SMS dialect with its encoder and decoder of commands and its decoder of responses. The block
  ciphers and the CMAC of package Cryptodome and the layouts of package construct (command header,
  response packet, compact response) are parameters; \<open>zlib.crc32\<close> is part of Python's library and is
  defined here. The dictionary of security parameters (SPI) is a record of its fields.
\<close>

unbundle bit_operations_syntax

section \<open>Library\<close>

datatype ota_cipher = CipherDES | CipherDES3 | CipherAES

record spi =
  spi_counter :: string
  spi_ciphering :: bool
  spi_rc_cc_ds :: string
  spi_por_in_submit :: bool
  spi_por_shall_be_ciphered :: bool
  spi_por_rc_cc_ds :: string
  spi_por :: string

record ota_hdr =
  oh_chl :: nat
  oh_spi :: spi
  oh_kic :: "nat \<times> string"
  oh_kid :: "nat \<times> string"
  oh_tar :: bytes

record sms_response =
  sr_rpl :: nat
  sr_rhl :: nat
  sr_tar :: bytes
  sr_cntr :: bytes
  sr_pcntr :: nat
  sr_response_status :: string
  sr_cc_rc :: bytes
  sr_secured_data :: bytes

record compact_resp =
  cr_number_of_commands :: nat
  cr_last_status_word :: string
  cr_last_response_data :: string

record ota_lib =
  cbc_encrypt :: "ota_cipher \<Rightarrow> bytes \<Rightarrow> bytes \<Rightarrow> bytes \<Rightarrow> bytes result"
  cbc_decrypt :: "ota_cipher \<Rightarrow> bytes \<Rightarrow> bytes \<Rightarrow> bytes \<Rightarrow> bytes result"
  cmac8 :: "bytes \<Rightarrow> bytes \<Rightarrow> bytes result"
  hdr_build :: "ota_hdr \<Rightarrow> bytes result"
  hdr_parse :: "bytes \<Rightarrow> ota_hdr result"
  resp_parse :: "bytes \<Rightarrow> sms_response result"
  compact_parse :: "bytes \<Rightarrow> compact_resp result"

text \<open>\<open>zlib.crc32\<close>: the reflected polynomial EDB88320, bit by bit.\<close>

fun crc32_bits :: "nat \<Rightarrow> 32 word \<Rightarrow> 32 word" where
  "crc32_bits 0 c = c"
| "crc32_bits (Suc n) c =
     crc32_bits n (if bit c 0 then drop_bit 1 c XOR 0xEDB88320 else drop_bit 1 c)"

definition crc32 :: "bytes \<Rightarrow> 32 word" where
  "crc32 bs = foldl (\<lambda>c b. crc32_bits 8 (c XOR ucast b)) 0xFFFFFFFF bs XOR 0xFFFFFFFF"

section \<open>Key sets and algorithms\<close>

record ota_keyset =
  algo_crypt :: string
  kic_idx :: nat
  kic :: bytes
  algo_auth :: string
  kid_idx :: nat
  kid :: bytes
  cntr :: nat

definition OtaKeyset_init :: "string \<Rightarrow> nat \<Rightarrow> bytes \<Rightarrow> string \<Rightarrow> nat \<Rightarrow> bytes \<Rightarrow> nat \<Rightarrow> ota_keyset" where
  "OtaKeyset_init ac ki k aa di d c =
     \<lparr>algo_crypt = ac, kic_idx = ki, kic = k, algo_auth = aa, kid_idx = di, kid = d, cntr = c\<rparr>"

text \<open>The subclass whose \<open>enum_name\<close> is that of the key set, and its block size. The checksum of
  AES is a CMAC and needs no padding.\<close>

definition crypt_from_keyset :: "ota_keyset \<Rightarrow> ota_cipher result" where
  "crypt_from_keyset k =
     (if algo_crypt k = ''single_des'' then Inr CipherDES
      else if algo_crypt k = ''triple_des_cbc2'' then Inr CipherDES3
      else if algo_crypt k = ''aes_cbc'' then Inr CipherAES
      else Inl ValueError)"

definition auth_from_keyset :: "ota_keyset \<Rightarrow> ota_cipher result" where
  "auth_from_keyset k =
     (if algo_auth k = ''single_des'' then Inr CipherDES
      else if algo_auth k = ''triple_des_cbc2'' then Inr CipherDES3
      else if algo_auth k = ''aes_cmac'' then Inr CipherAES
      else Inl ValueError)"

fun crypt_blocksize :: "ota_cipher \<Rightarrow> nat" where
  "crypt_blocksize CipherDES = 8"
| "crypt_blocksize CipherDES3 = 8"
| "crypt_blocksize CipherAES = 16"

fun auth_blocksize :: "ota_cipher \<Rightarrow> nat" where
  "auth_blocksize CipherDES = 8"
| "auth_blocksize CipherDES3 = 8"
| "auth_blocksize CipherAES = 1"

definition iv_of :: "ota_cipher \<Rightarrow> bytes" where
  "iv_of c = replicate (crypt_blocksize c) 0"

definition ota_get_padding :: "nat \<Rightarrow> nat \<Rightarrow> bytes" where
  "ota_get_padding in_len multiple =
     (if in_len mod multiple = 0 then [] else replicate (multiple - in_len mod multiple) 0)"

definition ota_pad_to_multiple :: "bytes \<Rightarrow> nat \<Rightarrow> bytes" where
  "ota_pad_to_multiple indat multiple = indat @ ota_get_padding (length indat) multiple"

definition ota_encrypt :: "ota_lib \<Rightarrow> ota_keyset \<Rightarrow> bytes \<Rightarrow> bytes result" where
  "ota_encrypt L k data =
     bindR (crypt_from_keyset k) (\<lambda>c.
       cbc_encrypt L c (kic k) (iv_of c) (ota_pad_to_multiple data (crypt_blocksize c)))"

definition ota_decrypt :: "ota_lib \<Rightarrow> ota_keyset \<Rightarrow> bytes \<Rightarrow> bytes result" where
  "ota_decrypt L k data = bindR (crypt_from_keyset k) (\<lambda>c. cbc_decrypt L c (kic k) (iv_of c) data)"

definition ota_sign :: "ota_lib \<Rightarrow> ota_keyset \<Rightarrow> bytes \<Rightarrow> bytes result" where
  "ota_sign L k data =
     bindR (auth_from_keyset k) (\<lambda>c.
       let padded = ota_pad_to_multiple data (auth_blocksize c)
       in bindR (if c = CipherAES then cmac8 L (kid k) padded else cbc_encrypt L c (kid k) (iv_of c) padded) (\<lambda>ciph.
            Inr (last_n 8 ciph)))"

definition check_sig :: "ota_lib \<Rightarrow> ota_keyset \<Rightarrow> bytes \<Rightarrow> bytes \<Rightarrow> unit result" where
  "check_sig L k data cc_received =
     bindR (ota_sign L k data) (\<lambda>cc. if cc_received \<noteq> cc then Inl OtaCheckError else Inr ())"

section \<open>The SMS dialect\<close>

definition compute_sig_len :: "spi \<Rightarrow> nat result" where
  "compute_sig_len s =
     (if spi_rc_cc_ds s = ''no_rc_cc_ds'' then Inr 0
      else if spi_rc_cc_ds s = ''rc'' then Inr 4
      else if spi_rc_cc_ds s = ''cc'' then Inr 8
      else Inl ValueError)"

text \<open>The checksum over head, counter and data with their length in front, as it is put between
  counter and data.\<close>

definition cmd_checksum :: "ota_lib \<Rightarrow> ota_keyset \<Rightarrow> spi \<Rightarrow> bytes \<Rightarrow> bytes result" where
  "cmd_checksum L k s envelope_data =
     (if spi_rc_cc_ds s = ''cc'' then ota_sign L k envelope_data
      else if spi_rc_cc_ds s = ''rc'' then Inr (to_bytes_raw 4 (unat (crc32 envelope_data)))
      else if spi_rc_cc_ds s = ''no_rc_cc_ds'' then Inr []
      else Inl ValueError)"

definition encode_cmd :: "ota_lib \<Rightarrow> ota_keyset \<Rightarrow> bytes \<Rightarrow> spi \<Rightarrow> bytes \<Rightarrow> bytes result" where
  "encode_cmd L k tar s apdu0 =
     bindR (compute_sig_len s) (\<lambda>len_sig.
     bindR (if spi_ciphering s
            then bindR (crypt_from_keyset k) (\<lambda>c.
              Inr (ota_get_padding (6 + len_sig + length apdu0) (crypt_blocksize c)))
            else Inr []) (\<lambda>padding.
     let apdu = apdu0 @ padding in
     bindR (hdr_build L \<lparr>oh_chl = 13 + len_sig, oh_spi = s, oh_kic = (kic_idx k, algo_crypt k),
         oh_kid = (kid_idx k, algo_auth k), oh_tar = tar\<rparr>) (\<lambda>part_head.
     bindR (to_bytes_be 5 (cntr k)) (\<lambda>cntr_b.
     bindR (to_bytes_be 1 (length padding)) (\<lambda>pad_b.
     let part_cnt = cntr_b @ pad_b; envelope_data = part_head @ part_cnt @ apdu in
     bindR (to_bytes_be 2 (length envelope_data + len_sig)) (\<lambda>cpl_b.
     bindR (cmd_checksum L k s (cpl_b @ envelope_data)) (\<lambda>sig.
     let signed_data = part_cnt @ sig @ apdu in
     bindR (if spi_ciphering s
            then bindR (ota_encrypt L k signed_data) (\<lambda>ciph.
                 bindR (to_bytes_be 2 (length (part_head @ ciph))) (\<lambda>cpl2.
                   Inr (cpl2 @ part_head @ ciph)))
            else Inr (part_head @ signed_data)) (\<lambda>out.
       if length out > 140 then Inl ValueError else Inr out))))))))"

text \<open>\<open>xs[:i]\<close> for an index that may be negative.\<close>

definition slice_to :: "int \<Rightarrow> 'a list \<Rightarrow> 'a list" where
  "slice_to i xs = (if i \<ge> 0 then take (nat i) xs else take (nat (int (length xs) + i)) xs)"

definition decode_cmd :: "ota_lib \<Rightarrow> ota_keyset \<Rightarrow> bytes \<Rightarrow> (bytes \<times> spi \<times> bytes) result" where
  "decode_cmd L k encoded =
     (let cpl = from_bytes_be (take 2 encoded); part_head = slice 2 10 encoded; ciph = drop 10 encoded in
      bindR (ota_decrypt L k ciph) (\<lambda>envelope_data0.
      bindR (hdr_parse L part_head) (\<lambda>hdr_dec.
      let part_cnt = take 6 envelope_data0;
          pad_cnt = from_bytes_be (drop 5 part_cnt);
          envelope_data = drop 6 envelope_data0;
          s = oh_spi hdr_dec in
      bindR (if spi_rc_cc_ds s = ''cc'' then
               bindR (to_bytes_be 2 cpl) (\<lambda>cpl_b.
               bindR (check_sig L k (cpl_b @ part_head @ part_cnt @ drop 8 envelope_data) (take 8 envelope_data)) (\<lambda>_.
                 Inr (drop 8 envelope_data)))
             else if spi_rc_cc_ds s = ''rc'' then Inl NotImplementedError
             else if spi_rc_cc_ds s = ''no_rc_cc_ds'' then Inr envelope_data
             else Inl ValueError) (\<lambda>apdu.
        Inr (oh_tar hdr_dec, s, slice_to (int (length apdu) - int pad_cnt) apdu)))))"

definition decode_resp ::
  "osmo_utils \<Rightarrow> sms_lib \<Rightarrow> ota_lib \<Rightarrow> ota_keyset \<Rightarrow> spi \<Rightarrow> bytes_or_hex \<Rightarrow>
   (sms_response \<times> compact_resp option) result" where
  "decode_resp U S L k s inp =
     bindR (in_bytes U inp) (\<lambda>data.
     bindR (nthR data 0) (\<lambda>b0.
     if b0 \<noteq> 0x02 then Inl ValueError else
     bindR (UDH_from_bytes U S (InBytes data)) (\<lambda>(ies, remainder0).
     if \<not> has_ie ies 0x71 then Inl ValueError else
     bindR (resp_parse L remainder0) (\<lambda>res0.
     bindR (if spi_por_shall_be_ciphered s
            then bindR (ota_decrypt L k (drop 6 remainder0)) (\<lambda>deciph.
                 let temp_data = take 6 remainder0 @ deciph in
                 bindR (resp_parse L temp_data) (\<lambda>res.
                   Inr (if sr_pcntr res \<noteq> 0
                        then res\<lparr>sr_secured_data := but_last_n (sr_pcntr res) (sr_secured_data res)\<rparr> else res,
                        temp_data)))
            else Inr (res0, remainder0)) (\<lambda>(res, remainder).
     bindR (if spi_por_rc_cc_ds s = ''no_rc_cc_ds''
            then (if sr_rhl res \<noteq> 10 then Inl OtaCheckError else Inr ())
            else if spi_por_rc_cc_ds s = ''cc''
            then check_sig L k (take 3 data @ take 13 remainder @ drop (3 + sr_rhl res) remainder) (sr_cc_rc res)
            else Inl OtaCheckError) (\<lambda>_.
     bindR (if sr_response_status res = ''por_ok'' \<and> sr_secured_data res \<noteq> []
            then bindR (compact_parse L (sr_secured_data res)) (\<lambda>c. Inr (Some c)) else Inr None) (\<lambda>dec.
       Inr (res, dec))))))))"

section \<open>Laws of the library\<close>

text \<open>A key that the cipher accepts: encryption of whole blocks keeps the length and is inverted by
  decryption.\<close>

definition cipher_works :: "ota_lib \<Rightarrow> ota_cipher \<Rightarrow> bytes \<Rightarrow> bool" where
  "cipher_works L c key \<longleftrightarrow> (\<forall>p. crypt_blocksize c dvd length p \<longrightarrow>
     (\<exists>q. cbc_encrypt L c key (iv_of c) p = Inr q \<and> length q = length p \<and> cbc_decrypt L c key (iv_of c) q = Inr p))"

definition auth_works :: "ota_lib \<Rightarrow> ota_keyset \<Rightarrow> bool" where
  "auth_works L k \<longleftrightarrow> (\<exists>c. auth_from_keyset k = Inr c \<and>
     (if c = CipherAES then \<forall>m. \<exists>d. cmac8 L (kid k) m = Inr d \<and> length d = 8 else cipher_works L c (kid k)))"

text \<open>A header that the layout can represent (numbers that fit, names of the enumerations).\<close>

definition hdr_codes :: "ota_lib \<Rightarrow> ota_hdr \<Rightarrow> bool" where
  "hdr_codes L h \<longleftrightarrow> (\<exists>b. hdr_build L h = Inr b \<and> length b = 8 \<and> hdr_parse L b = Inr h)"

section \<open>Lemmas\<close>

lemma ota_padding_aligned:
  assumes "0 < m"
  shows "(n + length (ota_get_padding n m)) mod m = 0" "length (ota_get_padding n m) < m"
proof -
  have l: "length (ota_get_padding n m) = (if n mod m = 0 then 0 else m - n mod m)" by (simp add: ota_get_padding_def)
  have "n mod m < m" using assms by simp
  have "n + (m - n mod m) = (n div m) * m + m" if "n mod m \<noteq> 0"
    using \<open>n mod m < m\<close> div_mult_mod_eq [of n m] by linarith
  then show "(n + length (ota_get_padding n m)) mod m = 0" using l by (cases "n mod m = 0") simp_all
  show "length (ota_get_padding n m) < m" using l assms by auto
qed

lemma ota_pad_aligned: "length d mod m = 0 \<Longrightarrow> ota_pad_to_multiple d m = d"
  by (simp add: ota_pad_to_multiple_def ota_get_padding_def)

lemma crypt_blocksize_pos [simp]: "0 < crypt_blocksize c" "crypt_blocksize c \<le> 16"
  by (cases c; simp)+

lemma sign_total:
  assumes "auth_works L k" "data \<noteq> []"
  shows "\<exists>sig. ota_sign L k data = Inr sig \<and> length sig = 8"
proof -
  from assms(1) obtain c where c: "auth_from_keyset k = Inr c"
    "if c = CipherAES then \<forall>m. \<exists>d. cmac8 L (kid k) m = Inr d \<and> length d = 8 else cipher_works L c (kid k)"
    by (auto simp: auth_works_def)
  let ?p = "ota_pad_to_multiple data (auth_blocksize c)"
  show ?thesis
  proof (cases "c = CipherAES")
    case True
    with c(2) obtain d where "cmac8 L (kid k) ?p = Inr d" "length d = 8" by auto
    with c(1) True show ?thesis by (simp add: ota_sign_def last_n_def)
  next
    case False
    then have b: "auth_blocksize c = 8" "crypt_blocksize c = 8" by (cases c; simp)+
    have "length ?p mod 8 = 0" using ota_padding_aligned(1) [of 8 "length data"] b by (simp add: ota_pad_to_multiple_def)
    moreover have "length ?p \<noteq> 0" using assms(2) by (simp add: ota_pad_to_multiple_def)
    ultimately have "8 \<le> length ?p" by (metis mod_less not_less)
    moreover from c(2) False b \<open>length ?p mod 8 = 0\<close> obtain q where
      "cbc_encrypt L c (kid k) (iv_of c) ?p = Inr q" "length q = length ?p"
      unfolding cipher_works_def by (metis mod_0_imp_dvd)
    ultimately show ?thesis using c(1) False by (simp add: ota_sign_def last_n_def)
  qed
qed

lemma decrypt_encrypt:
  assumes "crypt_from_keyset k = Inr c" "cipher_works L c (kic k)" "length d mod crypt_blocksize c = 0"
  shows "\<exists>q. ota_encrypt L k d = Inr q \<and> length q = length d \<and> ota_decrypt L k q = Inr d"
  using assms by (simp add: ota_encrypt_def ota_decrypt_def ota_pad_aligned cipher_works_def mod_0_imp_dvd)

text \<open>The parts of an encoded command and how the decoder sees them.\<close>

lemma decode_parts:
  assumes "length head = 8" "length cnt = 6" "cpl < 65536"
    and "ota_decrypt L k ciph = Inr (cnt @ sig @ apdu @ padding)" "hdr_parse L head = Inr h"
    and "from_bytes_be (drop 5 cnt) = length padding"
    and "(spi_rc_cc_ds (oh_spi h) = ''cc'' \<and> length sig = 8 \<and>
        ota_sign L k (to_bytes_raw 2 cpl @ head @ cnt @ apdu @ padding) = Inr sig) \<or>
      (spi_rc_cc_ds (oh_spi h) = ''no_rc_cc_ds'' \<and> sig = [])"
  shows "decode_cmd L k (to_bytes_raw 2 cpl @ head @ ciph) = Inr (oh_tar h, oh_spi h, apdu)"
proof -
  have len: "length (to_bytes_raw 2 cpl) = 2" by simp
  have cpl: "from_bytes_be (to_bytes_raw 2 cpl) = cpl" using assms(3) by (intro from_to_bytes_raw) simp
  have 1: "take 2 (to_bytes_raw 2 cpl @ head @ ciph) = to_bytes_raw 2 cpl"
    "slice 2 10 (to_bytes_raw 2 cpl @ head @ ciph) = head" "drop 10 (to_bytes_raw 2 cpl @ head @ ciph) = ciph"
    using len assms(1) by (simp_all add: slice_def del: length_to_bytes_raw)
  have 2: "take 6 (cnt @ x) = cnt" "drop 6 (cnt @ x) = x" for x using assms(2) by simp_all
  have 3: "slice_to (int (length (apdu @ padding)) - int (length padding)) (apdu @ padding) = apdu"
    by (simp add: slice_to_def)
  have 4: "to_bytes_be 2 cpl = Inr (to_bytes_raw 2 cpl)" using assms(3) by simp
  from assms(7) show ?thesis
  proof
    assume a: "spi_rc_cc_ds (oh_spi h) = ''cc'' \<and> length sig = 8 \<and>
        ota_sign L k (to_bytes_raw 2 cpl @ head @ cnt @ apdu @ padding) = Inr sig"
    then have "take 8 (sig @ x) = sig" "drop 8 (sig @ x) = x" for x by simp_all
    with a show ?thesis
      unfolding decode_cmd_def 1 cpl assms(4,5) Let_def bindR_simps 2 assms(6) 4 check_sig_def
      using 3 by simp
  next
    assume "spi_rc_cc_ds (oh_spi h) = ''no_rc_cc_ds'' \<and> sig = []"
    then show ?thesis
      unfolding decode_cmd_def 1 cpl assms(4,5) Let_def bindR_simps 2 assms(6) using 3 by simp
  qed
qed

definition cmd_header :: "ota_keyset \<Rightarrow> bytes \<Rightarrow> spi \<Rightarrow> ota_hdr" where
  "cmd_header k tar s = \<lparr>oh_chl = 13 + (if spi_rc_cc_ds s = ''cc'' then 8 else 0), oh_spi = s,
     oh_kic = (kic_idx k, algo_crypt k), oh_kid = (kid_idx k, algo_auth k), oh_tar = tar\<rparr>"

text \<open>The length of an enciphered command: lengths and header (10), counters (6), checksum, data and padding.\<close>

definition cmd_length :: "ota_cipher \<Rightarrow> spi \<Rightarrow> nat \<Rightarrow> nat" where
  "cmd_length c s n =
     (let body = 6 + (if spi_rc_cc_ds s = ''cc'' then 8 else 0) + n
      in 10 + body + length (ota_get_padding body (crypt_blocksize c)))"

lemma encode_cmd_ciphered:
  assumes "compute_sig_len s = Inr sl" "crypt_from_keyset k = Inr c" "spi_ciphering s"
    and "ota_get_padding (6 + sl + length apdu) (crypt_blocksize c) = pad"
    and "hdr_build L \<lparr>oh_chl = 13 + sl, oh_spi = s, oh_kic = (kic_idx k, algo_crypt k),
         oh_kid = (kid_idx k, algo_auth k), oh_tar = tar\<rparr> = Inr head"
    and "to_bytes_be 5 (cntr k) = Inr cb" "to_bytes_be 1 (length pad) = Inr pb"
    and "to_bytes_be 2 (length (head @ (cb @ pb) @ (apdu @ pad)) + sl) = Inr lb"
    and "cmd_checksum L k s (lb @ head @ (cb @ pb) @ (apdu @ pad)) = Inr sig"
    and "ota_encrypt L k ((cb @ pb) @ sig @ (apdu @ pad)) = Inr ciph"
    and "to_bytes_be 2 (length (head @ ciph)) = Inr lb2"
  shows "encode_cmd L k tar s apdu =
    (if length (lb2 @ head @ ciph) > 140 then Inl ValueError else Inr (lb2 @ head @ ciph))"
  unfolding encode_cmd_def assms(1) bindR_simps Let_def assms(2) if_P [OF assms(3)] assms(4-11) ..

lemma encode_decode_cmd:
  assumes k: "crypt_from_keyset k = Inr c" "cipher_works L c (kic k)" "auth_works L k" "cntr k < 256 ^ 5"
    and h: "hdr_codes L (cmd_header k tar s)"
    and s: "spi_ciphering s" "spi_rc_cc_ds s \<in> {''cc'', ''no_rc_cc_ds''}"
    and n: "cmd_length c s (length apdu) < 65536"
  shows "\<exists>enc. length enc = cmd_length c s (length apdu) \<and> decode_cmd L k enc = Inr (tar, s, apdu) \<and>
    encode_cmd L k tar s apdu = (if length enc > 140 then Inl ValueError else Inr enc)"
proof -
  let ?sl = "if spi_rc_cc_ds s = ''cc'' then 8 else 0 :: nat"
  let ?body = "6 + ?sl + length apdu"
  let ?pad = "ota_get_padding ?body (crypt_blocksize c)"
  have sl: "compute_sig_len s = Inr ?sl" using s(2) by (auto simp: compute_sig_len_def)
  from h obtain head where head: "hdr_build L (cmd_header k tar s) = Inr head" "length head = 8"
    "hdr_parse L head = Inr (cmd_header k tar s)" by (auto simp: hdr_codes_def)
  have pad: "length ?pad < 16" "(?body + length ?pad) mod crypt_blocksize c = 0"
    by (rule order_less_le_trans [OF ota_padding_aligned(2) [OF crypt_blocksize_pos(1)] crypt_blocksize_pos(2)])
      (rule ota_padding_aligned(1) [OF crypt_blocksize_pos(1)])
  let ?cnt = "to_bytes_raw 5 (cntr k) @ to_bytes_raw 1 (length ?pad)"
  let ?cpl = "8 + ?body + length ?pad"
  have cpl: "?cpl < 65536" "?cpl + 2 = cmd_length c s (length apdu)" using n by (simp_all add: cmd_length_def Let_def)
  let ?data = "to_bytes_raw 2 ?cpl @ head @ ?cnt @ apdu @ ?pad"
  obtain sig where sig: "cmd_checksum L k s ?data = Inr sig" "length sig = ?sl"
    and sig': "(spi_rc_cc_ds s = ''cc'' \<and> length sig = 8 \<and> ota_sign L k ?data = Inr sig) \<or> (spi_rc_cc_ds s = ''no_rc_cc_ds'' \<and> sig = [])"
  proof (cases "spi_rc_cc_ds s = ''cc''")
    case True
    from sign_total [OF k(3), of ?data] head(2) obtain sig where "ota_sign L k ?data = Inr sig" "length sig = 8" by force
    with True that show ?thesis by (simp add: cmd_checksum_def)
  next
    case False
    with s(2) that [of "[]"] show ?thesis by (simp add: cmd_checksum_def)
  qed
  let ?plain = "?cnt @ sig @ apdu @ ?pad"
  have "length ?plain mod crypt_blocksize c = 0" using pad(2) sig(2) by (simp add: algebra_simps)
  from decrypt_encrypt [OF k(1,2) this] obtain ciph where
    ciph: "ota_encrypt L k ?plain = Inr ciph" "length ciph = length ?plain" "ota_decrypt L k ciph = Inr ?plain" by blast
  have len: "length (head @ ciph) = ?cpl" using head(2) ciph(2) sig(2) by simp
  let ?enc = "to_bytes_raw 2 ?cpl @ head @ ciph"
  have "from_bytes_be (drop 5 ?cnt) = length ?pad"
    using pad(1) from_to_bytes_raw [of "length ?pad" 1] by simp
  from decode_parts [OF head(2) _ cpl(1) ciph(3) head(3) this] sig'
  have dec: "decode_cmd L k ?enc = Inr (tar, s, apdu)" by (simp add: cmd_header_def)
  have "encode_cmd L k tar s apdu = (if length ?enc > 140 then Inl ValueError else Inr ?enc)"
  proof -
    have l1: "length (head @ ?cnt @ (apdu @ ?pad)) + ?sl = ?cpl" using head(2) by simp
    have hb: "hdr_build L \<lparr>oh_chl = 13 + ?sl, oh_spi = s, oh_kic = (kic_idx k, algo_crypt k),
         oh_kid = (kid_idx k, algo_auth k), oh_tar = tar\<rparr> = Inr head" using head(1) by (simp add: cmd_header_def)
    have b: "to_bytes_be 5 (cntr k) = Inr (to_bytes_raw 5 (cntr k))"
      "to_bytes_be 1 (length ?pad) = Inr (to_bytes_raw 1 (length ?pad))"
      "to_bytes_be 2 (length (head @ ?cnt @ (apdu @ ?pad)) + ?sl) = Inr (to_bytes_raw 2 ?cpl)"
      "to_bytes_be 2 (length (head @ ciph)) = Inr (to_bytes_raw 2 ?cpl)"
      unfolding l1 len to_bytes_be_eq_Inr using cpl(1) k(4) pad(1) by simp_all
    show ?thesis by (rule encode_cmd_ciphered [OF sl k(1) s(1) refl hb b(1-3) sig(1) ciph(1) b(4)])
  qed
  moreover have "length ?enc = cmd_length c s (length apdu)" using len cpl(2) by simp
  ultimately show ?thesis using dec by blast
qed

section \<open>A concrete library\<close>

definition demo_spi :: spi where
  "demo_spi = \<lparr>spi_counter = ''no_counter'', spi_ciphering = True, spi_rc_cc_ds = ''cc'', spi_por_in_submit = False,
     spi_por_shall_be_ciphered = True, spi_por_rc_cc_ds = ''cc'', spi_por = ''por_required''\<rparr>"

definition demo_keyset :: ota_keyset where
  "demo_keyset = OtaKeyset_init ''aes_cbc'' 1 (replicate 16 7) ''aes_cmac'' 1 (replicate 16 9) 0"

definition demo_ota :: ota_lib where
  "demo_ota = \<lparr>cbc_encrypt = (\<lambda>c key iv p. Inr (map (\<lambda>b. b + hd key) p)),
     cbc_decrypt = (\<lambda>c key iv p. Inr (map (\<lambda>b. b - hd key) p)),
     cmac8 = (\<lambda>key m. Inr (take 8 (rev m @ key))),
     hdr_build = (\<lambda>h. Inr (of_nat (oh_chl h) # 0 # 0 # 0 # 0 # oh_tar h)),
     hdr_parse = (\<lambda>b. Inr \<lparr>oh_chl = unat (hd b), oh_spi = demo_spi, oh_kic = (1, ''aes_cbc''), oh_kid = (1, ''aes_cmac''),
       oh_tar = drop 5 b\<rparr>),
     resp_parse = (\<lambda>b. Inl ValueError), compact_parse = (\<lambda>b. Inl ValueError)\<rparr>"

lemma demo_ota_works:
  "crypt_from_keyset demo_keyset = Inr CipherAES" "cipher_works demo_ota CipherAES (kic demo_keyset)"
  "auth_works demo_ota demo_keyset" "hdr_codes demo_ota (cmd_header demo_keyset [0xB0, 0, 0x10] demo_spi)"
proof -
  show "crypt_from_keyset demo_keyset = Inr CipherAES"
    by (simp add: demo_keyset_def OtaKeyset_init_def crypt_from_keyset_def)
  show "cipher_works demo_ota CipherAES (kic demo_keyset)" by (simp add: cipher_works_def demo_ota_def comp_def)
  have "auth_from_keyset demo_keyset = Inr CipherAES" "length (kid demo_keyset) = 16"
    by (simp_all add: demo_keyset_def OtaKeyset_init_def auth_from_keyset_def)
  then show "auth_works demo_ota demo_keyset" by (auto simp: auth_works_def demo_ota_def)
  show "hdr_codes demo_ota (cmd_header demo_keyset [0xB0, 0, 0x10] demo_spi)"
    by (simp add: hdr_codes_def cmd_header_def demo_ota_def demo_spi_def demo_keyset_def OtaKeyset_init_def)
qed

section \<open>Properties\<close>

text \<open>C31: Secured commands reach the card. With a key set whose keys the algorithms accept, an enciphered command with
  or without cryptographic checksum is encoded exactly if it fits into one short message of 140 bytes;
  then decoding it with the same key set verifies the checksum and returns the application, the
  security parameters and the very bytes of the command, for every length of the padding.\<close>

theorem ota_command_roundtrip:
  assumes "crypt_from_keyset k = Inr c" "cipher_works L c (kic k)" "auth_works L k" "cntr k < 256 ^ 5"
    and "hdr_codes L (cmd_header k tar s)" "spi_ciphering s" "spi_rc_cc_ds s \<in> {''cc'', ''no_rc_cc_ds''}"
    and "cmd_length c s (length apdu) < 65536"
  shows "if cmd_length c s (length apdu) \<le> 140
    then \<exists>enc. encode_cmd L k tar s apdu = Inr enc \<and> length enc = cmd_length c s (length apdu) \<and>
      decode_cmd L k enc = Inr (tar, s, apdu)
    else encode_cmd L k tar s apdu = Inl ValueError"
  using encode_decode_cmd [OF assms] by auto

theorem ota_command_roundtrip_witness:
  "\<exists>enc. encode_cmd demo_ota demo_keyset [0xB0, 0, 0x10] demo_spi [0x80, 0xE6, 0x02, 0x00] = Inr enc \<and> length enc = 42 \<and>
     decode_cmd demo_ota demo_keyset enc = Inr ([0xB0, 0, 0x10], demo_spi, [0x80, 0xE6, 0x02, 0x00])"
proof -
  have l: "cmd_length CipherAES demo_spi (length [0x80 :: byte, 0xE6, 0x02, 0x00]) = 42"
    by (simp add: cmd_length_def demo_spi_def ota_get_padding_def)
  have "cntr demo_keyset < 256 ^ 5" by (simp add: demo_keyset_def OtaKeyset_init_def)
  moreover have "spi_ciphering demo_spi" "spi_rc_cc_ds demo_spi \<in> {''cc'', ''no_rc_cc_ds''}" by (simp_all add: demo_spi_def)
  ultimately show ?thesis
    using ota_command_roundtrip [OF demo_ota_works(1-3) _ demo_ota_works(4), of "[0x80, 0xE6, 0x02, 0x00]"] l by simp
qed

text \<open>The response as it is checked: as received, or with the part after the application deciphered.\<close>

definition resp_plain :: "ota_lib \<Rightarrow> ota_keyset \<Rightarrow> spi \<Rightarrow> bytes \<Rightarrow> bytes result" where
  "resp_plain L k s received =
     (if spi_por_shall_be_ciphered s
      then bindR (ota_decrypt L k (drop 6 received)) (\<lambda>deciph. Inr (take 6 received @ deciph)) else Inr received)"

lemma decode_cmd_Inr:
  assumes "decode_cmd L k encoded = Inr (tar, s, apdu)"
  shows "\<exists>plain. ota_decrypt L k (drop 10 encoded) = Inr plain \<and>
    (if spi_rc_cc_ds s = ''cc''
     then ota_sign L k (to_bytes_raw 2 (from_bytes_be (take 2 encoded)) @ slice 2 10 encoded @ take 6 plain @ drop 14 plain) =
       Inr (slice 6 14 plain)
     else spi_rc_cc_ds s = ''no_rc_cc_ds'')"
proof -
  from assms obtain plain h where p: "ota_decrypt L k (drop 10 encoded) = Inr plain"
    and h: "hdr_parse L (slice 2 10 encoded) = Inr h"
    unfolding decode_cmd_def Let_def by (auto simp: bindR_eq_Inr)
  note d = assms [unfolded decode_cmd_def Let_def p h bindR_simps]
  from d have s: "s = oh_spi h" by (auto simp: bindR_eq_Inr)
  have cut: "drop 8 (drop 6 plain) = drop 14 plain" "take 8 (drop 6 plain) = slice 6 14 plain"
    by (simp_all add: slice_def take_drop)
  show ?thesis
  proof (cases "spi_rc_cc_ds (oh_spi h) = ''cc''")
    case True
    from d [unfolded if_P [OF True] check_sig_def cut] p True s show ?thesis
      by (auto simp: bindR_eq_Inr to_bytes_be_eq_Inr split: if_splits)
  next
    case False
    with d s p show ?thesis by (auto simp: bindR_eq_Inr split: if_splits)
  qed
qed

lemma decode_resp_Inr:
  assumes "decode_resp U S L k s (InBytes data) = Inr (res, dec)"
  shows "\<exists>ies received plain. UDH_from_bytes U S (InBytes data) = Inr (ies, received) \<and> has_ie ies 0x71 \<and>
    resp_plain L k s received = Inr plain \<and>
    (if spi_por_rc_cc_ds s = ''cc''
     then ota_sign L k (take 3 data @ take 13 plain @ drop (3 + sr_rhl res) plain) = Inr (sr_cc_rc res)
     else spi_por_rc_cc_ds s = ''no_rc_cc_ds'' \<and> sr_rhl res = 10)"
proof -
  from assms obtain ies received where u: "UDH_from_bytes U S (InBytes data) = Inr (ies, received)"
    unfolding decode_resp_def in_bytes_def by (auto simp: bindR_eq_Inr split: if_splits)
  from assms u have ie: "has_ie ies 0x71"
    unfolding decode_resp_def in_bytes_def by (auto simp: bindR_eq_Inr split: if_splits)
  show ?thesis
  proof (cases "spi_por_shall_be_ciphered s")
    case True
    with assms u ie obtain deciph where "ota_decrypt L k (drop 6 received) = Inr deciph"
      unfolding decode_resp_def in_bytes_def by (auto simp: bindR_eq_Inr Let_def split: if_splits)
    with assms u ie True show ?thesis
      unfolding decode_resp_def in_bytes_def resp_plain_def check_sig_def
      by (auto simp: bindR_eq_Inr Let_def split: if_splits)
  next
    case False
    with assms u ie show ?thesis
      unfolding decode_resp_def in_bytes_def resp_plain_def check_sig_def
      by (auto simp: bindR_eq_Inr split: if_splits)
  qed
qed

text \<open>C32: Nothing unchecked is accepted. If a command or a response that must carry a cryptographic checksum is
  decoded, the checksum it carries is the one of the key set over its length, header, counters and
  data, deciphered where they must be ciphered; a response that must not carry one has a header of exactly
  10 bytes. No other kind of checksum is ever accepted.\<close>

theorem ota_decoding_checked:
  "(case decode_cmd L k encoded of
      Inl e \<Rightarrow> True
    | Inr (tar, s, apdu) \<Rightarrow> \<exists>plain. ota_decrypt L k (drop 10 encoded) = Inr plain \<and>
        (if spi_rc_cc_ds s = ''cc''
         then ota_sign L k (to_bytes_raw 2 (from_bytes_be (take 2 encoded)) @ slice 2 10 encoded @ take 6 plain @ drop 14 plain) =
           Inr (slice 6 14 plain)
         else spi_rc_cc_ds s = ''no_rc_cc_ds'')) \<and>
   (case decode_resp U S L k s (InBytes data) of
      Inl e \<Rightarrow> True
    | Inr (res, dec) \<Rightarrow> \<exists>ies received plain. UDH_from_bytes U S (InBytes data) = Inr (ies, received) \<and> has_ie ies 0x71 \<and>
        resp_plain L k s received = Inr plain \<and>
        (if spi_por_rc_cc_ds s = ''cc''
         then ota_sign L k (take 3 data @ take 13 plain @ drop (3 + sr_rhl res) plain) = Inr (sr_cc_rc res)
         else spi_por_rc_cc_ds s = ''no_rc_cc_ds'' \<and> sr_rhl res = 10))"
proof (rule conjI, goal_cases)
  case 1
  show ?case
  proof (cases "decode_cmd L k encoded")
    case (Inr r)
    obtain tar s' apdu where r: "r = (tar, s', apdu)" by (cases r)
    from decode_cmd_Inr [OF Inr [unfolded r]] show ?thesis unfolding Inr r sum.case prod.case .
  qed simp
next
  case 2
  show ?case
  proof (cases "decode_resp U S L k s (InBytes data)")
    case (Inr r)
    obtain res dec where r: "r = (res, dec)" by (cases r)
    from decode_resp_Inr [OF Inr [unfolded r]] show ?thesis unfolding Inr r sum.case prod.case .
  qed simp
qed

end
