(* ===== verification/Sim_Numbers.thy ===== *)
theory Sim_Numbers
  imports Py_Std Rsp_Asn1
begin

text \<open>
  The number formats of \<^verbatim>\<open>pysim/pySim/utils.py\<close> (lines 53-527): IMSI, ICCID with its Luhn digit,
  PLMN and access technologies, PIN-ADM, status word patterns and the expansion of hexadecimal
  strings. The helpers of package pyosmocom (\<open>swap_nibbles\<close>, \<open>rpad\<close>, \<open>half_round_up\<close>,
  \<open>h2i\<close>, \<open>h2b\<close>) are parameters. Strings are lists of characters with code points below 256.
\<close>

unbundle bit_operations_syntax

section \<open>Python's numerals\<close>

text \<open>\<open>int(s, base)\<close>: surrounding white space, a sign, the prefix \<open>0x\<close> of base 16 and single underscores
  between digits are accepted.\<close>

definition digit_val :: "char \<Rightarrow> nat option" where
  "digit_val c =
     (let n = (of_char c :: nat) in
      if 48 \<le> n \<and> n \<le> 57 then Some (n - 48)
      else if 97 \<le> n \<and> n \<le> 122 then Some (n - 87)
      else if 65 \<le> n \<and> n \<le> 90 then Some (n - 55)
      else None)"

fun int_digits :: "nat \<Rightarrow> bool \<Rightarrow> nat \<Rightarrow> string \<Rightarrow> nat result" where
  "int_digits b digit_before acc [] = (if digit_before then Inr acc else Inl ValueError)"
| "int_digits b digit_before acc (c # cs) =
     (if c = CHR ''_'' then (if digit_before then int_digits b False acc cs else Inl ValueError)
      else case digit_val c of
        None \<Rightarrow> Inl ValueError
      | Some d \<Rightarrow> if d < b then int_digits b True (b * acc + d) cs else Inl ValueError)"

definition skip_prefix :: "nat \<Rightarrow> string \<Rightarrow> string" where
  "skip_prefix b s =
     (case s of
        z # x # r \<Rightarrow>
          if b = 16 \<and> z = CHR ''0'' \<and> (x = CHR ''x'' \<or> x = CHR ''X'')
          then (case r of u # r' \<Rightarrow> if u = CHR ''_'' then r' else r | [] \<Rightarrow> r) else s
      | _ \<Rightarrow> s)"

definition py_int :: "nat \<Rightarrow> string \<Rightarrow> int result" where
  "py_int b s =
     (let t = str_strip s;
          neg = (t \<noteq> [] \<and> hd t = CHR ''-'');
          u = (if t \<noteq> [] \<and> (hd t = CHR ''-'' \<or> hd t = CHR ''+'') then tl t else t)
      in bindR (int_digits b False 0 (skip_prefix b u)) (\<lambda>n. Inr (if neg then - int n else int n)))"

text \<open>\<open>'%x' % n\<close> and \<open>'%02x' % n\<close>.\<close>

definition hex_char :: "nat \<Rightarrow> char" where
  "hex_char d = (if d < 10 then char_of (48 + d) else char_of (87 + d))"

fun hex_str :: "nat \<Rightarrow> string" where
  "hex_str n = (if n < 16 then [hex_char n] else hex_str (n div 16) @ [hex_char (n mod 16)])"

declare hex_str.simps [simp del]

definition hex2_str :: "nat \<Rightarrow> string" where
  "hex2_str n = (if n < 16 then CHR ''0'' # hex_str n else hex_str n)"

text \<open>\<open>s.rstrip(c)\<close> and \<open>s.strip(c)\<close> with one character.\<close>

definition rstrip_char :: "char \<Rightarrow> string \<Rightarrow> string" where
  "rstrip_char c s = rev (dropWhile (\<lambda>x. x = c) (rev s))"

definition strip_char :: "char \<Rightarrow> string \<Rightarrow> string" where
  "strip_char c s = rstrip_char c (dropWhile (\<lambda>x. x = c) s)"

section \<open>Helpers of pyosmocom\<close>

record sim_utils = osmo_utils +
  rpad :: "string \<Rightarrow> nat \<Rightarrow> string"
  half_round_up :: "nat \<Rightarrow> nat"
  h2i :: "string \<Rightarrow> nat list result"

fun swap_pairs :: "string \<Rightarrow> string" where
  "swap_pairs (x # y # r) = y # x # swap_pairs r"
| "swap_pairs r = []"

fun hex_pairs :: "string \<Rightarrow> nat list" where
  "hex_pairs (x # y # r) = (16 * the (digit_val x) + the (digit_val y)) # hex_pairs r"
| "hex_pairs r = []"

definition is_hex :: "char \<Rightarrow> bool" where
  "is_hex c \<longleftrightarrow> (case digit_val c of Some d \<Rightarrow> d < 16 | None \<Rightarrow> False)"

text \<open>Their documented behaviour: pairs of characters are swapped, \<open>rpad\<close> fills with \<open>f\<close> on the right, and
  \<open>h2i\<close> reads two digits per number.\<close>

definition nibble_laws :: "sim_utils \<Rightarrow> bool" where
  "nibble_laws U \<longleftrightarrow>
     (\<forall>s. even (length s) \<longrightarrow> swap_nibbles U s = swap_pairs s) \<and>
     (\<forall>s n. rpad U s n = s @ replicate (n - length s) (CHR ''f'')) \<and>
     (\<forall>n. half_round_up U n = (n + 1) div 2) \<and>
     (\<forall>s. even (length s) \<longrightarrow> list_all is_hex s \<longrightarrow> h2i U s = Inr (hex_pairs s))"

section \<open>IMSI and ICCID\<close>

definition enc_imsi :: "sim_utils \<Rightarrow> string \<Rightarrow> string" where
  "enc_imsi U imsi =
     (let l = half_round_up U (length imsi + 1); oe = length imsi mod 2
      in hex2_str l @ swap_nibbles U (hex_str (8 * oe + 1) @ rpad U imsi 15))"

definition dec_imsi :: "sim_utils \<Rightarrow> string \<Rightarrow> string option result" where
  "dec_imsi U ef =
     (if length ef < 4 then Inr None
      else bindR (py_int 16 (take 2 ef)) (\<lambda>l0.
        let l1 = l0 * 2 - 1; swapped = rstrip_char (CHR ''f'') (swap_nibbles U (drop 2 ef)) in
        if length swapped < 1 then Inr None
        else bindR (py_int 10 [hd swapped]) (\<lambda>d.
          let oe = drop_bit 3 d AND 1; l = (if oe = 0 then l1 - 1 else l1)
          in if l \<noteq> int (length swapped) - 1 then Inr None else Inr (Some (tl swapped)))))"

definition dec_iccid :: "sim_utils \<Rightarrow> string \<Rightarrow> string" where
  "dec_iccid U ef = strip_char (CHR ''f'') (swap_nibbles U ef)"

definition enc_iccid :: "sim_utils \<Rightarrow> string \<Rightarrow> string" where
  "enc_iccid U iccid = swap_nibbles U (rpad U iccid 20)"

text \<open>\<open>xs[::-2]\<close> is every second element of the reversed list, \<open>xs[-2::-2]\<close> the others.\<close>

fun stride2 :: "'a list \<Rightarrow> 'a list" where
  "stride2 (x # y # r) = x # stride2 r"
| "stride2 r = r"

definition calculate_luhn :: "string \<Rightarrow> nat result" where
  "calculate_luhn cc =
     bindR (mapR (\<lambda>c. py_int 10 [c]) cc) (\<lambda>num0.
     let num = map nat num0;
         check_digit = 10 - sum_list (stride2 (tl (rev num)) @
           map (\<lambda>d. (d * 2) div 10 + (d * 2) mod 10) (stride2 (rev num))) mod 10
     in Inr (if check_digit = 10 then 0 else check_digit))"

definition verify_luhn :: "string \<Rightarrow> unit result" where
  "verify_luhn digits =
     bindR (calculate_luhn (butlast digits)) (\<lambda>cd.
       if digits = [] then Inl IndexError
       else if nat_str cd \<noteq> [last digits] then Inl ValueError else Inr ())"

definition sanitize_iccid :: "string \<Rightarrow> string result" where
  "sanitize_iccid iccid0 =
     (if length iccid0 < 18 then Inl ValueError
      else if length iccid0 > 20 then Inl ValueError
      else
        bindR (if length iccid0 = 18 then bindR (calculate_luhn iccid0) (\<lambda>cd. Inr (iccid0 @ nat_str cd)) else Inr iccid0)
          (\<lambda>iccid1.
        bindR (if length iccid1 = 20 then verify_luhn iccid1 else Inr ()) (\<lambda>_.
        if length iccid1 = 19
        then catchR (bindR (verify_luhn iccid1) (\<lambda>_. Inr iccid1))
          (\<lambda>e. if e = ValueError then bindR (calculate_luhn iccid1) (\<lambda>cd. Inr (iccid1 @ nat_str cd)) else Inl e)
        else Inr iccid1)))"

section \<open>PLMN and access technologies\<close>

definition enc_plmn :: "string \<Rightarrow> string \<Rightarrow> string" where
  "enc_plmn mcc0 mnc0 =
     (let mcc1 = str_strip mcc0; mnc1 = str_strip mnc0;
          mnc = (if length mnc1 = 0 then ''FFF'' else if length mnc1 = 1 then ''0'' @ mnc1 @ ''F''
                 else if length mnc1 = 2 then mnc1 @ ''F'' else mnc1);
          mcc = (if length mcc1 = 0 then ''FFF'' else if length mcc1 = 1 then ''00'' @ mcc1
                 else if length mcc1 = 2 then ''0'' @ mcc1 else mcc1)
      in [mcc ! 1, mcc ! 0, mnc ! 2, mcc ! 2, mnc ! 1, mnc ! 0])"

definition dec_mcc_from_plmn_str :: "string \<Rightarrow> string result" where
  "dec_mcc_from_plmn_str plmn =
     bindR (nthR plmn 1) (\<lambda>dgt1. bindR (nthR plmn 0) (\<lambda>dgt2. bindR (nthR plmn 3) (\<lambda>dgt3.
       Inr (strip_char (CHR ''F'') (str_upper [dgt1, dgt2, dgt3])))))"

definition dec_mnc_from_plmn_str :: "string \<Rightarrow> string result" where
  "dec_mnc_from_plmn_str plmn =
     bindR (nthR plmn 5) (\<lambda>dgt1. bindR (nthR plmn 4) (\<lambda>dgt2. bindR (nthR plmn 2) (\<lambda>dgt3.
       Inr (strip_char (CHR ''F'') (str_upper [dgt1, dgt2, dgt3])))))"

definition dec_plmn :: "string \<Rightarrow> (string \<times> string) result" where
  "dec_plmn threehexbytes =
     bindR (dec_mcc_from_plmn_str threehexbytes) (\<lambda>mcc.
     bindR (dec_mnc_from_plmn_str threehexbytes) (\<lambda>mnc. Inr (mcc, mnc)))"

definition derive_mcc :: "nat \<Rightarrow> nat \<Rightarrow> nat \<Rightarrow> nat" where
  "derive_mcc dgt1 dgt2 dgt3 =
     (if dgt1 \<noteq> 0x0f then dgt1 * 100 else 0) + (if dgt2 \<noteq> 0x0f then dgt2 * 10 else 0) +
     (if dgt3 \<noteq> 0x0f then dgt3 else 0)"

definition derive_mnc :: "nat \<Rightarrow> nat \<Rightarrow> nat \<Rightarrow> nat" where
  "derive_mnc dgt1 dgt2 dgt3 =
     (if dgt3 \<noteq> 0x0f then derive_mcc dgt1 dgt2 dgt3
      else (if dgt1 \<noteq> 0x0f then dgt1 * 10 else 0) + (if dgt2 \<noteq> 0x0f then dgt2 else 0))"

definition dec_mcc_from_plmn :: "sim_utils \<Rightarrow> string \<Rightarrow> nat result" where
  "dec_mcc_from_plmn U plmn =
     bindR (h2i U plmn) (\<lambda>ia.
     bindR (nthR ia 0) (\<lambda>a. bindR (nthR ia 1) (\<lambda>b.
     let dgt1 = a AND 0x0F; dgt2 = drop_bit 4 (a AND 0xF0); dgt3 = b AND 0x0F
     in if dgt3 = 0xF \<and> dgt2 = 0xF \<and> dgt1 = 0xF then Inr 0xFFF
        else Inr (derive_mcc dgt1 dgt2 dgt3))))"

definition dec_mnc_from_plmn :: "sim_utils \<Rightarrow> string \<Rightarrow> nat result" where
  "dec_mnc_from_plmn U plmn =
     bindR (h2i U plmn) (\<lambda>ia.
     bindR (nthR ia 2) (\<lambda>c. bindR (nthR ia 1) (\<lambda>b.
     let dgt1 = c AND 0x0F; dgt2 = drop_bit 4 (c AND 0xF0); dgt3 = drop_bit 4 (b AND 0xF0)
     in if dgt3 = 0xF \<and> dgt2 = 0xF \<and> dgt1 = 0xF then Inr 0xFFF
        else Inr (derive_mnc dgt1 dgt2 dgt3))))"

definition mcc_from_imsi :: "string option \<Rightarrow> string option" where
  "mcc_from_imsi imsi =
     (case imsi of None \<Rightarrow> None | Some i \<Rightarrow> if length i > 3 then Some (take 3 i) else None)"

definition mnc_from_imsi :: "string option \<Rightarrow> bool \<Rightarrow> string option" where
  "mnc_from_imsi imsi long =
     (case imsi of None \<Rightarrow> None
      | Some i \<Rightarrow> if length i > 3 then Some (if long then slice 3 6 i else slice 3 5 i) else None)"

text \<open>\<open>sorted\<close> of a set of strings: by code points, a prefix first.\<close>

fun str_le :: "string \<Rightarrow> string \<Rightarrow> bool" where
  "str_le [] t = True"
| "str_le (a # s) [] = False"
| "str_le (a # s) (b # t) = (if a = b then str_le s t else (of_char a :: nat) < of_char b)"

fun insert_str :: "string \<Rightarrow> string list \<Rightarrow> string list" where
  "insert_str s [] = [s]"
| "insert_str s (t # ts) = (if str_le s t then s # t # ts else t # insert_str s ts)"

definition sorted_set :: "string list \<Rightarrow> string list" where
  "sorted_set l = foldr insert_str (remdups l) []"

definition act_list :: "(nat \<times> string) list" where
  "act_list = [(15, ''UTRAN''), (11, ''NG-RAN''), (6, ''GSM COMPACT''), (5, ''cdma2000 HRPD''), (4, ''cdma2000 1xRTT'')]"

definition act_selection :: "nat \<Rightarrow> string list" where
  "act_selection u16t =
     (let eutran_bits = u16t AND 0x7000; gsm_bits = u16t AND 0x008C in
      map snd (filter (\<lambda>a. bit u16t (fst a)) act_list) @
      (if eutran_bits = 0x4000 \<or> eutran_bits = 0x7000 then [''E-UTRAN WB-S1'', ''E-UTRAN NB-S1'']
       else if eutran_bits = 0x5000 then [''E-UTRAN NB-S1'']
       else if eutran_bits = 0x6000 then [''E-UTRAN WB-S1''] else []) @
      (if gsm_bits = 0x0080 \<or> gsm_bits = 0x008C then [''GSM'', ''EC-GSM-IoT'']
       else if gsm_bits = 0x0084 then [''GSM'']
       else if gsm_bits = 0x0086 then [''EC-GSM-IoT''] else []))"

definition dec_act :: "sim_utils \<Rightarrow> string \<Rightarrow> string list result" where
  "dec_act U twohexbytes =
     bindR (h2i U twohexbytes) (\<lambda>ia. bindR (nthR ia 0) (\<lambda>a. bindR (nthR ia 1) (\<lambda>b.
       Inr (sorted_set (act_selection (push_bit 8 a OR b))))))"

record xplmn =
  xp_mcc :: string
  xp_mnc :: string
  xp_act :: "string list"

definition dec_xplmn_w_act :: "sim_utils \<Rightarrow> string \<Rightarrow> xplmn result" where
  "dec_xplmn_w_act U fivehexbytes =
     (let plmn_str = take 6 fivehexbytes; act_str = slice 6 10 fivehexbytes in
      bindR (dec_mcc_from_plmn_str plmn_str) (\<lambda>mcc.
      bindR (dec_mnc_from_plmn_str plmn_str) (\<lambda>mnc.
      bindR (dec_act U act_str) (\<lambda>act. Inr \<lparr>xp_mcc = mcc, xp_mnc = mnc, xp_act = act\<rparr>))))"

definition dec_xplmn :: "string \<Rightarrow> xplmn result" where
  "dec_xplmn threehexbytes =
     (let plmn_str = take 6 threehexbytes in
      bindR (dec_mcc_from_plmn_str plmn_str) (\<lambda>mcc.
      bindR (dec_mnc_from_plmn_str plmn_str) (\<lambda>mnc. Inr \<lparr>xp_mcc = mcc, xp_mnc = mnc, xp_act = []\<rparr>)))"

section \<open>PIN-ADM, status words, expansion of hexadecimal strings\<close>

definition sanitize_pin_adm :: "sim_utils \<Rightarrow> string option \<Rightarrow> string option \<Rightarrow> string option result" where
  "sanitize_pin_adm U pin_adm pin_adm_hex =
     bindR (case pin_adm of
              None \<Rightarrow> Inr None
            | Some p \<Rightarrow> if length p \<le> 8 then Inr (Some (rpad U (concat (map (\<lambda>x. hex2_str (of_char x)) p)) 16))
                else Inl ValueError) (\<lambda>pin.
     case pin_adm_hex of
       None \<Rightarrow> Inr pin
     | Some h \<Rightarrow> if length h = 16 then bindR (h2b U h) (\<lambda>_. Inr (Some h)) else Inl ValueError)"

definition sw_match :: "string \<Rightarrow> string \<Rightarrow> bool result" where
  "sw_match sw pattern =
     bindR (mapR (\<lambda>i. bindR (nthR pattern i) (\<lambda>p.
       if p = CHR ''?'' then Inr (CHR ''?'') else if p = CHR ''x'' then Inr (CHR ''x'')
       else nthR (str_lower sw) i)) [0, 1, 2, 3]) (\<lambda>sw_masked. Inr (sw_masked = pattern))"

text \<open>\<open>s.count(p)\<close>, \<open>s.index(p)\<close> and \<open>s.replace(p, r)\<close>: occurrences from the left that do not overlap.\<close>

function (sequential) str_parts :: "string \<Rightarrow> string \<Rightarrow> string \<Rightarrow> string list" where
  "str_parts p acc [] = [acc]"
| "str_parts p acc (c # cs) =
     (if p \<noteq> [] \<and> starts_with p (c # cs) then acc # str_parts p [] (drop (length p) (c # cs))
      else str_parts p (acc @ [c]) cs)"
  by pat_completeness auto
termination by (relation "measure (\<lambda>(p, acc, s). length s)") (auto simp: starts_with_iff)

declare str_parts.simps [simp del]

definition str_count :: "string \<Rightarrow> string \<Rightarrow> nat" where
  "str_count p s = length (str_parts p [] s) - 1"

definition str_index :: "string \<Rightarrow> string \<Rightarrow> nat" where
  "str_index p s = length (hd (str_parts p [] s))"

definition str_replace :: "string \<Rightarrow> string \<Rightarrow> string \<Rightarrow> string" where
  "str_replace p r s = join_with r (str_parts p [] s)"

definition expand_hex :: "string \<Rightarrow> nat \<Rightarrow> string result" where
  "expand_hex hexstring len =
     (if str_count ''.'' hexstring = 1 then
        let pos = str_index ''.'' hexstring in
        bindR (if pos > 0 then nthR hexstring (pos - 1) else nthR hexstring (pos + 1)) (\<lambda>filler.
        let missing = int (len * 2) - (int (length hexstring) - 1) in
        if missing \<le> 0 then Inr hexstring
        else Inr (str_replace ''.'' (replicate (nat missing) filler) hexstring))
      else if str_count ''..'' hexstring = 1 then
        if length hexstring mod 2 \<noteq> 0 then Inr hexstring else
        let pos = str_index ''..'' hexstring in
        if pos mod 2 \<noteq> 0 then Inr hexstring else
        let filler = (if pos > 1 then slice (pos - 2) pos hexstring else slice (pos + 2) (pos + 4) hexstring);
            missing = int (len * 2) - (int (length hexstring) - 2) in
        if missing \<le> 0 then Inr hexstring
        else Inr (str_replace ''..'' (concat (replicate (nat (missing div 2)) filler)) hexstring)
      else Inr hexstring)"

section \<open>Lemmas\<close>

lemma digit_val_digit: "is_digit c \<Longrightarrow> digit_val c = Some (of_char c - 48) \<and> (of_char c :: nat) - 48 < 10"
  by (auto simp: is_digit_def digit_val_def)

lemma is_digit_not: "is_digit c \<Longrightarrow> \<not> py_space c \<and> c \<noteq> CHR ''-'' \<and> c \<noteq> CHR ''+'' \<and> c \<noteq> CHR ''_'' \<and> c \<noteq> CHR ''f'' \<and> c \<noteq> CHR ''F''"
  by (auto simp: is_digit_def py_space_def Let_def)

lemma py_int_digit [simp]: "is_digit c \<Longrightarrow> py_int 10 [c] = Inr (int (of_char c - 48))"
  using is_digit_not [of c] digit_val_digit [of c]
  by (auto simp: py_int_def str_strip_def skip_prefix_def Let_def)

definition digits_of :: "string \<Rightarrow> nat list" where
  "digits_of s = map (\<lambda>c. of_char c - 48) s"

lemma digits_parsed: "list_all is_digit s \<Longrightarrow> mapR (\<lambda>c. py_int 10 [c]) s = Inr (map int (digits_of s))"
  by (induction s) (simp_all add: digits_of_def)

text \<open>The Luhn sum of ISO/IEC 7812-1: from the right, every second digit is doubled and its digits added.\<close>

fun luhn_total :: "bool \<Rightarrow> nat list \<Rightarrow> nat" where
  "luhn_total dbl [] = 0"
| "luhn_total dbl (d # ds) = (if dbl then (d * 2) div 10 + (d * 2) mod 10 else d) + luhn_total (\<not> dbl) ds"

definition luhn_valid :: "string \<Rightarrow> bool" where
  "luhn_valid s \<longleftrightarrow> s \<noteq> [] \<and> list_all is_digit s \<and> luhn_total False (rev (digits_of s)) mod 10 = 0"

lemma luhn_total_stride:
  "sum_list (stride2 (tl r)) + sum_list (map (\<lambda>d. (d * 2) div 10 + (d * 2) mod 10) (stride2 r)) = luhn_total True r"
proof (induction r rule: stride2.induct)
  case (1 x y r)
  then show ?case by (cases r) auto
qed simp_all

lemma calculate_luhn_eq:
  assumes "list_all is_digit s"
  shows "calculate_luhn s = Inr ((10 - luhn_total True (rev (digits_of s)) mod 10) mod 10)"
  using luhn_total_stride [of "rev (digits_of s)"]
  by (auto simp: calculate_luhn_def digits_parsed [OF assms] Let_def comp_def)

lemma nat_str_digit: "d < 10 \<Longrightarrow> nat_str d = [digit_char d]"
  by (subst nat_str.simps) simp

lemma luhn_digit_tab:
  "\<forall>r < 10. \<forall>c < 10. ((10 - r) mod 10 = c) = ((c + r) mod (10 :: nat) = 0)"
  "\<forall>d < 10. \<forall>e < 10. ((d * 2) div 10 + (d * 2) mod 10) mod 10 = ((e * 2) div 10 + (e * 2) mod 10) mod (10 :: nat) \<longrightarrow> d = e"
  by code_simp+

lemma luhn_digit_iff: "c < 10 \<Longrightarrow> (10 - t mod 10) mod 10 = c \<longleftrightarrow> (c + t) mod (10 :: nat) = 0"
  using luhn_digit_tab(1) [rule_format, of "t mod 10" c] by (simp add: mod_add_right_eq)

lemma verify_luhn_iff:
  assumes "list_all is_digit (s @ [c])"
  shows "verify_luhn (s @ [c]) = (if luhn_valid (s @ [c]) then Inr () else Inl ValueError)"
proof -
  let ?t = "luhn_total True (rev (digits_of s))" and ?c = "(of_char c :: nat) - 48"
  have c: "?c < 10" "48 \<le> (of_char c :: nat)" using assms by (auto simp: is_digit_def)
  have "nat_str ((10 - ?t mod 10) mod 10) = [c] \<longleftrightarrow> (10 - ?t mod 10) mod 10 = ?c"
    using c by (auto simp: nat_str_digit digit_char_def)
  also have "\<dots> \<longleftrightarrow> (?c + ?t) mod 10 = 0" by (rule luhn_digit_iff [OF c(1)])
  finally show ?thesis
    using assms by (auto simp: verify_luhn_def calculate_luhn_eq luhn_valid_def digits_of_def)
qed

lemma luhn_completes:
  assumes "list_all is_digit s" "calculate_luhn s = Inr d"
  shows "luhn_valid (s @ nat_str d)" "length (nat_str d) = 1" "list_all is_digit (nat_str d)"
proof -
  let ?t = "luhn_total True (rev (digits_of s))"
  have d: "d = (10 - ?t mod 10) mod 10" "d < 10" using assms by (simp_all add: calculate_luhn_eq)
  then show "length (nat_str d) = 1" "list_all is_digit (nat_str d)" by (simp_all add: nat_str_digit)
  have "(d + ?t) mod 10 = 0" using luhn_digit_iff [OF d(2), of ?t] d(1) by simp
  with d(2) assms(1) show "luhn_valid (s @ nat_str d)" by (simp add: nat_str_digit luhn_valid_def digits_of_def)
qed

lemma mod_add_cancel: "(a + t) mod 10 = (b + t) mod (10 :: nat) \<Longrightarrow> a mod 10 = b mod 10"
  by (auto simp: nat_mod_eq_iff)

lemma luhn_total_update:
  assumes "i < length ds" "ds ! i < 10" "e < 10" "luhn_total dbl (ds[i := e]) mod 10 = luhn_total dbl ds mod 10"
  shows "e = ds ! i"
  using assms
proof (induction ds arbitrary: i dbl)
  case (Cons d ds)
  show ?case
  proof (cases i)
    case 0
    let ?w = "\<lambda>d. if dbl then (d * 2) div 10 + (d * 2) mod 10 else (d :: nat)"
    from Cons.prems 0 have "(?w e + luhn_total (\<not> dbl) ds) mod 10 = (?w d + luhn_total (\<not> dbl) ds) mod 10" by simp
    then have w: "?w e mod 10 = ?w d mod 10" by (rule mod_add_cancel)
    show ?thesis
    proof (cases dbl)
      case True
      then show ?thesis using luhn_digit_tab(2) [rule_format, of e d] w Cons.prems 0 by simp
    next
      case False
      then show ?thesis using w Cons.prems 0 by simp
    qed
  next
    case (Suc j)
    have "luhn_total (\<not> dbl) (ds[j := e]) mod 10 = luhn_total (\<not> dbl) ds mod 10"
      using Cons.prems(4) unfolding Suc list_update_code luhn_total.simps
      by (intro mod_add_cancel [of "luhn_total (\<not> dbl) (ds[j := e])" "if dbl then d * 2 div 10 + d * 2 mod 10 else d"])
        (simp only: add.commute)
    with Cons Suc show ?thesis by simp
  qed
qed simp

lemma luhn_detects:
  assumes "luhn_valid t" "i < length t" "is_digit c" "c \<noteq> t ! i"
  shows "verify_luhn (t[i := c]) = Inl ValueError"
proof -
  let ?j = "length t - Suc i"
  have word: "length (digits_of t) = length t" "?j < length t" using assms(2) by (simp_all add: digits_of_def)
  have t: "is_digit (t ! i)" using assms(1,2) by (simp add: luhn_valid_def list_all_length)
  have "rev (digits_of (t[i := c])) = (rev (digits_of t))[?j := of_char c - 48]"
    using assms(2) by (simp add: digits_of_def map_update rev_update)
  moreover have "rev (digits_of t) ! ?j = of_char (t ! i) - 48" using assms(2) by (simp add: digits_of_def rev_nth)
  moreover have "(of_char c :: nat) - 48 \<noteq> of_char (t ! i) - 48"
  proof
    assume "(of_char c :: nat) - 48 = of_char (t ! i) - 48"
    then have "(of_char c :: nat) = of_char (t ! i)" using assms(3) t unfolding is_digit_def by linarith
    with assms(4) show False by simp
  qed
  ultimately have "luhn_total False (rev (digits_of (t[i := c]))) mod 10 \<noteq> luhn_total False (rev (digits_of t)) mod 10"
    using luhn_total_update [of ?j "rev (digits_of t)" "of_char c - 48" False] word
      digit_val_digit [OF t] digit_val_digit [OF assms(3)] by fastforce
  then have "\<not> luhn_valid (t[i := c])" using assms(1) by (simp add: luhn_valid_def)
  moreover have "list_all is_digit (t[i := c])"
    using assms(1-3) by (simp add: luhn_valid_def list_all_length nth_list_update)
  moreover have "t[i := c] \<noteq> []" using assms(2) by auto
  ultimately show ?thesis using verify_luhn_iff [of "butlast (t[i := c])" "last (t[i := c])"] unfolding append_butlast_last_id [OF \<open>t[i := c] \<noteq> []\<close>] by simp
qed

lemma swap_swap: "even (length s) \<Longrightarrow> swap_pairs (swap_pairs s) = s" "even (length s) \<Longrightarrow> length (swap_pairs s) = length s"
  by (induction s rule: swap_pairs.induct) simp_all

lemma py_int_hex2: "l < 16 \<Longrightarrow> py_int 16 (hex2_str l) = Inr (int l) \<and> length (hex2_str l) = 2"
proof -
  have "list_all (\<lambda>l. py_int 16 (hex2_str l) = Inr (int l) \<and> length (hex2_str l) = 2) [0..<16]" by code_simp
  then show "l < 16 \<Longrightarrow> ?thesis" by (simp add: list_all_iff)
qed

lemma rstrip_fill: "list_all is_digit s \<Longrightarrow> rstrip_char (CHR ''f'') (s @ replicate n (CHR ''f'')) = s"
proof -
  assume s: "list_all is_digit s"
  have "dropWhile (\<lambda>x. x = CHR ''f'') (replicate n (CHR ''f'') @ r) = dropWhile (\<lambda>x. x = CHR ''f'') r" for r
    by (induction n) simp_all
  moreover have "dropWhile (\<lambda>x. x = CHR ''f'') (rev s) = rev s"
    using s is_digit_not [of "last s"] by (cases "s = []") (simp_all add: dropWhile_eq_self_iff hd_rev list_all_iff)
  ultimately show ?thesis by (simp add: rstrip_char_def)
qed

lemma imsi_roundtrip:
  assumes U: "nibble_laws U" and s: "list_all is_digit s" "length s \<le> 15"
  shows "dec_imsi U (enc_imsi U s) = Inr (Some s)"
proof -
  let ?l = "(length s + 2) div 2" and ?o = "hex_char (8 * (length s mod 2) + 1)"
  let ?p = "?o # s @ replicate (15 - length s) (CHR ''f'')"
  have "hex_str (8 * (length s mod 2) + 1) = [?o]" by (subst hex_str.simps) simp
  then have e: "enc_imsi U s = hex2_str ?l @ swap_pairs ?p"
    using U s(2) by (simp add: enc_imsi_def nibble_laws_def Let_def)
  have l: "py_int 16 (hex2_str ?l) = Inr (int ?l)" "length (hex2_str ?l) = 2" using py_int_hex2 [of ?l] s(2) by simp_all
  have len: "length ?p = 16" using s(2) by simp
  have o: "is_digit ?o" "(of_char ?o :: nat) - 48 = 8 * (length s mod 2) + 1"
    by (cases "even (length s)"; simp add: hex_char_def is_digit_def odd_iff_mod_2_eq_one)+
  have sw: "swap_nibbles U (swap_pairs ?p) = ?p" "length (swap_pairs ?p) = 16"
    using U len swap_swap [of ?p] by (simp_all add: nibble_laws_def)
  have st: "rstrip_char (CHR ''f'') ?p = ?o # s" using rstrip_fill [of "?o # s" "15 - length s"] s o(1) by simp
  have par: "drop_bit 3 (int (8 * (length s mod 2) + 1)) AND 1 = int (length s mod 2)"
    by (cases "even (length s)") (simp_all add: odd_iff_mod_2_eq_one)
  have "int ((n + 2) div 2) * 2 - 1 - (if n mod 2 = 0 then 1 else 0) = int n" for n :: nat by presburger
  from this [of "length s"] have "if length s mod 2 = 0 then int ?l * 2 - 1 - 1 = int (length s) else int ?l * 2 - 1 = int (length s)" by (auto split: if_splits)
  then show ?thesis
    using l sw st o par unfolding dec_imsi_def e by (auto simp: Let_def split: if_splits)
qed

lemma iccid_roundtrip:
  assumes U: "nibble_laws U" and s: "list_all is_digit s" "length s \<le> 20"
  shows "dec_iccid U (enc_iccid U s) = s"
proof -
  let ?p = "s @ replicate (20 - length s) (CHR ''f'')"
  have "even (length ?p)" using s(2) by simp
  then have "swap_nibbles U (enc_iccid U s) = ?p"
    using U swap_swap [of ?p] by (simp add: enc_iccid_def nibble_laws_def)
  moreover have "strip_char (CHR ''f'') ?p = s"
  proof (cases s)
    case Nil
    then show ?thesis by (simp add: strip_char_def rstrip_char_def dropWhile_replicate)
  next
    case (Cons c r)
    then have "c \<noteq> CHR ''f''" using s(1) is_digit_not [of c] by simp
    then show ?thesis using rstrip_fill [OF s(1)] Cons by (simp add: strip_char_def)
  qed
  ultimately show ?thesis by (simp add: dec_iccid_def)
qed

lemma strip_digits: "list_all is_digit s \<Longrightarrow> str_strip s = s"
proof -
  assume s: "list_all is_digit s"
  have "dropWhile py_space t = t" if "set t \<subseteq> set s" for t
    using that s is_digit_not by (cases t) (auto simp: list_all_iff)
  then show "str_strip s = s" by (simp add: str_strip_def)
qed

lemma digit_upper: "is_digit c \<Longrightarrow> upper_char c = c"
  by (auto simp: is_digit_def upper_char_def)

lemma plmn_str_roundtrip:
  assumes "list_all is_digit mcc" "length mcc = 3" "list_all is_digit mnc" "length mnc = 2 \<or> length mnc = 3"
  shows "dec_plmn (enc_plmn mcc mnc) = Inr (mcc, mnc)"
proof -
  obtain a b c where mcc: "mcc = [a, b, c]" using assms(2) by (auto simp: numeral_3_eq_3 length_Suc_conv)
  have F: "CHR ''F'' \<noteq> x" "x \<noteq> CHR ''F''" "upper_char x = x" if "is_digit x" for x
    using is_digit_not [OF that] digit_upper [OF that] by auto
  have U: "upper_char CHR ''F'' = CHR ''F''" by code_simp
  from assms(4) obtain d e f where "mnc = [d, e] \<or> mnc = [d, e, f]"
    by (auto simp: numeral_2_eq_2 numeral_3_eq_3 length_Suc_conv)
  then show ?thesis
    using assms(1,3) F U unfolding mcc
    by (auto simp: enc_plmn_def strip_digits Let_def dec_plmn_def dec_mcc_from_plmn_str_def dec_mnc_from_plmn_str_def
        nthR_def strip_char_def rstrip_char_def)
qed

lemma nibble_ops:
  "y < 16 \<Longrightarrow> (16 * x + y) AND 0x0F = (y :: nat)"
  "x < 16 \<Longrightarrow> y < 16 \<Longrightarrow> drop_bit 4 ((16 * x + y) AND 0xF0) = (x :: nat)"
proof -
  have m: "n AND 15 = n mod 16" for n :: nat
    using take_bit_eq_mask [of 4 n] by (simp add: mask_eq_exp_minus_1 take_bit_eq_mod)
  show "y < 16 \<Longrightarrow> (16 * x + y) AND 0x0F = y" by (simp add: m)
  have "drop_bit 4 (n AND 0xF0) = (n div 16) mod 16" for n :: nat
    by (simp add: drop_bit_and m) (simp add: drop_bit_eq_div)
  then show "x < 16 \<Longrightarrow> y < 16 \<Longrightarrow> drop_bit 4 ((16 * x + y) AND 0xF0) = x" by simp
qed

lemma digits_value_hex: "is_digit c \<Longrightarrow> is_hex c \<and> the (digit_val c) = of_char c - 48 \<and> of_char c - 48 \<noteq> (15 :: nat) \<and> of_char c - 48 < (16 :: nat)"
  using digit_val_digit [of c] by (auto simp: is_hex_def)

lemma plmn_nibbles:
  assumes U: "nibble_laws U" and h: "list_all is_hex [b, a, f, c, e, d]"
    and v: "v = (\<lambda>x. the (digit_val x))"
  shows "dec_mcc_from_plmn U [b, a, f, c, e, d] =
      Inr (if v c = 15 \<and> v b = 15 \<and> v a = 15 then 0xFFF else derive_mcc (v a) (v b) (v c))"
    "dec_mnc_from_plmn U [b, a, f, c, e, d] =
      Inr (if v f = 15 \<and> v e = 15 \<and> v d = 15 then 0xFFF else derive_mnc (v d) (v e) (v f))"
proof -
  have "h2i U [b, a, f, c, e, d] = Inr [16 * v b + v a, 16 * v f + v c, 16 * v e + v d]"
    using U h by (simp add: nibble_laws_def v)
  moreover have "v x < 16" if "x \<in> {b, a, f, c, e, d}" for x
    using h that by (auto simp: v is_hex_def split: option.splits)
  ultimately show "dec_mcc_from_plmn U [b, a, f, c, e, d] =
      Inr (if v c = 15 \<and> v b = 15 \<and> v a = 15 then 0xFFF else derive_mcc (v a) (v b) (v c))"
    "dec_mnc_from_plmn U [b, a, f, c, e, d] =
      Inr (if v f = 15 \<and> v e = 15 \<and> v d = 15 then 0xFFF else derive_mnc (v d) (v e) (v f))"
    by (simp_all add: dec_mcc_from_plmn_def dec_mnc_from_plmn_def nthR_def Let_def nibble_ops del: drop_bit_and)
qed

lemma plmn_int_roundtrip:
  assumes U: "nibble_laws U"
    and "list_all is_digit mcc" "length mcc = 3" "list_all is_digit mnc" "length mnc = 2 \<or> length mnc = 3"
  shows "dec_mcc_from_plmn U (enc_plmn mcc mnc) = Inr (digits_value mcc) \<and>
    dec_mnc_from_plmn U (enc_plmn mcc mnc) = Inr (digits_value mnc)"
proof -
  obtain a b c where mcc: "mcc = [a, b, c]" using assms(3) by (auto simp: numeral_3_eq_3 length_Suc_conv)
  have F: "is_hex CHR ''F''" "the (digit_val CHR ''F'') = 15" by code_simp+
  have D: "is_hex x" "the (digit_val x) = of_char x - 48" "of_char x - 48 \<noteq> (15 :: nat)" if "is_digit x" for x
    using digits_value_hex [OF that] by blast+
  from assms(5) obtain d e f where "mnc = [d, e] \<or> mnc = [d, e, f]"
    by (auto simp: numeral_2_eq_2 numeral_3_eq_3 length_Suc_conv)
  then show ?thesis
  proof
    assume m: "mnc = [d, e]"
    have "enc_plmn mcc mnc = [b, a, CHR ''F'', c, e, d]"
      using assms(2,4) unfolding mcc m by (simp add: enc_plmn_def strip_digits)
    then show ?thesis using assms(2,4) D F plmn_nibbles [OF U _ refl, of b a "CHR ''F''" c e d] unfolding mcc m
      by (simp add: derive_mcc_def derive_mnc_def)
  next
    assume m: "mnc = [d, e, f]"
    have "enc_plmn mcc mnc = [b, a, f, c, e, d]"
      using assms(2,4) unfolding mcc m by (simp add: enc_plmn_def strip_digits)
    then show ?thesis using assms(2,4) D F plmn_nibbles [OF U _ refl, of b a f c e d] unfolding mcc m
      by (simp add: derive_mcc_def derive_mnc_def)
  qed
qed

lemma verify_luhn_digits:
  "list_all is_digit s \<Longrightarrow> s \<noteq> [] \<Longrightarrow> verify_luhn s = (if luhn_valid s then Inr () else Inl ValueError)"
  using verify_luhn_iff [of "butlast s" "last s"] by simp

lemma sanitize_iccid_cases:
  assumes s: "list_all is_digit s"
  shows "sanitize_iccid s =
    (if length s < 18 \<or> 20 < length s \<or> (length s = 20 \<and> \<not> luhn_valid s) then Inl ValueError
     else if length s \<noteq> 18 \<and> luhn_valid s then Inr s
     else bindR (calculate_luhn s) (\<lambda>cd. Inr (s @ nat_str cd)))"
proof -
  obtain d where d: "calculate_luhn s = Inr d" using calculate_luhn_eq [OF s] by simp
  note L = luhn_completes [OF s d]
  have v: "verify_luhn s = (if luhn_valid s then Inr () else Inl ValueError)" if "0 < length s" using verify_luhn_digits [OF s] that by simp
  have v': "verify_luhn (s @ nat_str d) = Inr ()" using verify_luhn_digits [of "s @ nat_str d"] L s by simp
  consider "length s < 18 \<or> 20 < length s" | "length s = 18" | "length s = 19" | "length s = 20" by linarith
  then show ?thesis
    by cases (use d v v' L in \<open>auto simp: sanitize_iccid_def\<close>)
qed

lemma length_hex2: "n < 256 \<Longrightarrow> length (hex2_str n) = 2"
proof -
  assume n: "n < 256"
  have "hex_str m = [hex_char m]" if "m < 16" for m using that by (subst hex_str.simps) simp
  moreover have "hex_str n = hex_str (n div 16) @ [hex_char (n mod 16)]" if "\<not> n < 16" using that by (subst hex_str.simps) simp
  ultimately show ?thesis using n by (simp add: hex2_str_def less_mult_imp_div_less)
qed

lemma str_parts_skip: "c \<notin> set p \<Longrightarrow> str_parts (c # q) acc (p @ r) = str_parts (c # q) (acc @ p) r"
  by (induction p arbitrary: acc) (auto simp: str_parts.simps starts_with_def)

lemma str_parts_none: "c \<notin> set s \<Longrightarrow> str_parts (c # q) acc s = [acc @ s]"
  using str_parts_skip [of c s q acc "[]"] by (simp add: str_parts.simps)

lemma str_parts_hit: "str_parts (c # q) acc (c # q @ r) = acc # str_parts (c # q) [] r"
  by (simp add: str_parts.simps(2) starts_with_def)

lemma str_parts_one: "c \<notin> set p \<Longrightarrow> c \<notin> set s \<Longrightarrow> str_parts (c # q) [] (p @ c # q @ s) = [p, s]"
  by (simp add: str_parts_skip str_parts_hit str_parts_none)

lemma expand_hex_none:
  assumes "CHR ''.'' \<notin> set s"
  shows "expand_hex s n = Inr s"
  using str_parts_none [OF assms, of "[]" "[]"] str_parts_none [OF assms, of "''.''" "[]"]
  by (simp add: expand_hex_def str_count_def)

lemma expand_hex_digit:
  assumes "CHR ''.'' \<notin> set p" "CHR ''.'' \<notin> set s" "p \<noteq> [] \<or> s \<noteq> []"
  shows "expand_hex (p @ ''.'' @ s) n =
    Inr (if length p + length s < 2 * n
      then p @ replicate (2 * n - (length p + length s)) (if p = [] then hd s else last p) @ s else p @ ''.'' @ s)"
proof -
  have parts: "str_parts ''.'' [] (p @ ''.'' @ s) = [p, s]" using str_parts_one [OF assms(1,2), of "[]"] by simp
  have f: "(if 0 < length p then nthR (p @ ''.'' @ s) (length p - 1) else nthR (p @ ''.'' @ s) (length p + 1)) =
    Inr (if p = [] then hd s else last p)"
    using assms(3) by (auto simp: nthR_def nth_append last_conv_nth hd_conv_nth)
  have m: "int (n * 2) - (int (length (p @ ''.'' @ s)) - 1) = int (2 * n) - int (length p + length s)" by simp
  show ?thesis
    unfolding expand_hex_def str_count_def str_index_def str_replace_def parts Let_def list.sel m
    using f by (auto simp: nat_diff_distrib')
qed

lemma expand_hex_byte:
  assumes "CHR ''.'' \<notin> set p" "CHR ''.'' \<notin> set s" "even (length p)" "even (length s)" "p \<noteq> []"
  shows "expand_hex (p @ ''..'' @ s) n =
    Inr (if length p + length s < 2 * n
      then p @ concat (replicate (n - (length p + length s) div 2) (last_n 2 p)) @ s else p @ ''..'' @ s)"
proof -
  have parts: "str_parts ''..'' [] (p @ ''..'' @ s) = [p, s]" using str_parts_one [OF assms(1,2), of "''.''"] by simp
  have dot: "str_parts ''.'' [] (p @ ''..'' @ s) = [p, [], s]"
    using str_parts_skip [OF assms(1), of "[]" "[]" "''..'' @ s"] str_parts_hit [of "CHR ''.''" "[]"] str_parts_none [OF assms(2), of "[]"]
    by simp
  have l: "1 < length p" using assms(3,5) by (cases p; cases "tl p") auto
  have f: "slice (length p - 2) (length p) (p @ ''..'' @ s) = last_n 2 p" using l by (simp add: slice_def last_n_def)
  define k where "k = (length p + length s) div 2"
  have k: "length p + length s = 2 * k" using assms(3,4) by (simp add: k_def)
  have m: "int (n * 2) - (int (length (p @ ''..'' @ s)) - 2) = 2 * (int n - int k)" using k by simp
  show ?thesis
    unfolding expand_hex_def str_count_def str_index_def str_replace_def parts dot Let_def list.sel m f k k_def [symmetric]
    using l assms(3,4) f k by (auto simp: nat_diff_distrib')
qed

lemma sw_match_four:
  assumes "length sw = 4" "length pattern = 4"
  shows "sw_match sw pattern = Inr (\<forall>i < 4. pattern ! i \<in> {CHR ''?'', CHR ''x''} \<or> pattern ! i = lower_char (sw ! i))"
proof -
  obtain a b c d where sw: "sw = [a, b, c, d]" using assms(1) by (auto simp: eval_nat_numeral length_Suc_conv)
  obtain p q r s where pat: "pattern = [p, q, r, s]" using assms(2) by (auto simp: eval_nat_numeral length_Suc_conv)
  have four: "(\<forall>i < 4. P i) \<longleftrightarrow> P 0 \<and> P 1 \<and> P 2 \<and> P (3 :: nat)" for P
    by (auto simp: eval_nat_numeral less_Suc_eq)
  show ?thesis unfolding four sw pat by (auto simp: sw_match_def nthR_def)
qed

section \<open>A concrete library\<close>

definition demo_sim :: sim_utils where
  "demo_sim = \<lparr>h2b = (\<lambda>s. if list_all is_hex s \<and> even (length s) then Inr (map of_nat (hex_pairs s)) else Inl ValueError),
     b2h = (\<lambda>bs. concat (map (\<lambda>b. hex2_str (unat b)) bs)), swap_nibbles = swap_pairs,
     rpad = (\<lambda>s n. s @ replicate (n - length s) (CHR ''f'')), half_round_up = (\<lambda>n. (n + 1) div 2),
     h2i = (\<lambda>s. if list_all is_hex s \<and> even (length s) then Inr (hex_pairs s) else Inl ValueError)\<rparr>"

lemma demo_sim_laws: "nibble_laws demo_sim"
  by (simp add: nibble_laws_def demo_sim_def)

section \<open>Properties\<close>

text \<open>C33: ICCIDs always carry a correct check digit. A string of digits is rejected exactly if it has fewer
  than 18 or more than 20 digits, or 20 digits with a wrong Luhn digit; otherwise the result is the input,
  with a Luhn digit appended if it had none. The result is valid, is not changed when it is
  sanitised again, and a change of any single digit of it is detected.\<close>

theorem iccid_check_digit:
  assumes "list_all is_digit s"
  shows "case sanitize_iccid s of
      Inl e \<Rightarrow> e = ValueError \<and> (length s < 18 \<or> 20 < length s \<or> (length s = 20 \<and> \<not> luhn_valid s))
    | Inr t \<Rightarrow> luhn_valid t \<and> length t \<in> {19, 20} \<and> (t = s \<or> (\<exists>c. t = s @ [c])) \<and> sanitize_iccid t = Inr t \<and>
        (\<forall>i c. i < length t \<longrightarrow> is_digit c \<longrightarrow> c \<noteq> t ! i \<longrightarrow> verify_luhn (t[i := c]) = Inl ValueError)"
proof (cases "sanitize_iccid s")
  case (Inl e)
  then show ?thesis using sanitize_iccid_cases [OF assms] calculate_luhn_eq [OF assms] by (auto split: if_splits)
next
  case (Inr t)
  obtain d where d: "calculate_luhn s = Inr d" using calculate_luhn_eq [OF assms] by simp
  note L = luhn_completes [OF assms d]
  from Inr have t: "luhn_valid t \<and> (length t = 19 \<or> length t = 20) \<and> (t = s \<or> t = s @ nat_str d)"
    using sanitize_iccid_cases [OF assms] d L by (auto split: if_splits)
  then have "sanitize_iccid t = Inr t" using sanitize_iccid_cases [of t] by (auto simp: luhn_valid_def)
  with t L(2) Inr luhn_detects [of t] show ?thesis by (auto simp: length_Suc_conv)
qed

theorem iccid_check_digit_witness:
  "sanitize_iccid ''898821100000053008'' = Inr ''8988211000000530082'' \<and> luhn_valid ''8988211000000530082'' \<and>
   verify_luhn ''8988211000000530092'' = Inl ValueError"
proof -
  have d: "list_all is_digit ''898821100000053008''" by code_simp
  have "luhn_total True (rev (digits_of ''898821100000053008'')) = 48" by (simp add: digits_of_def)
  then have "calculate_luhn ''898821100000053008'' = Inr 2" by (simp only: calculate_luhn_eq [OF d]) simp
  moreover have "nat_str 2 = ''2''" by code_simp
  ultimately have s: "sanitize_iccid ''898821100000053008'' = Inr ''8988211000000530082''"
    by (simp add: sanitize_iccid_cases [OF d])
  have "''8988211000000530082''[17 := CHR ''9''] = ''8988211000000530092''" by code_simp
  moreover have "is_digit (CHR ''9'')" by code_simp
  ultimately show ?thesis using iccid_check_digit [OF d] s
    by (auto dest!: spec [of _ 17] spec [of _ "CHR ''9''"])
qed

text \<open>C34: Subscriber and network numbers survive their encoding on the card: an IMSI of at most 15
  digits, an ICCID of at most 20 digits, and a network of a three-digit country code and a network code of two or
  three digits, decoded as text and as numbers.\<close>

theorem card_numbers_roundtrip:
  assumes "nibble_laws U" "list_all is_digit imsi" "length imsi \<le> 15" "list_all is_digit iccid" "length iccid \<le> 20"
    and "list_all is_digit mcc" "length mcc = 3" "list_all is_digit mnc" "length mnc = 2 \<or> length mnc = 3"
  shows "dec_imsi U (enc_imsi U imsi) = Inr (Some imsi) \<and> dec_iccid U (enc_iccid U iccid) = iccid \<and>
    dec_plmn (enc_plmn mcc mnc) = Inr (mcc, mnc) \<and>
    dec_mcc_from_plmn U (enc_plmn mcc mnc) = Inr (digits_value mcc) \<and>
    dec_mnc_from_plmn U (enc_plmn mcc mnc) = Inr (digits_value mnc)"
  using assms by (simp add: imsi_roundtrip iccid_roundtrip plmn_str_roundtrip plmn_int_roundtrip del: digits_value.simps)

theorem card_numbers_roundtrip_witness:
  "enc_imsi demo_sim ''262011234567890'' = ''082926102143658709'' \<and>
   dec_imsi demo_sim (enc_imsi demo_sim ''262011234567890'') = Inr (Some ''262011234567890'') \<and>
   dec_iccid demo_sim (enc_iccid demo_sim ''8988211000000530082'') = ''8988211000000530082'' \<and>
   dec_plmn (enc_plmn ''262'' ''01'') = Inr (''262'', ''01'')"
proof -
  have "list_all is_digit ''262011234567890''" "list_all is_digit ''8988211000000530082''"
    "list_all is_digit ''262''" "list_all is_digit ''01''" by code_simp+
  moreover have "enc_imsi demo_sim ''262011234567890'' = ''082926102143658709''" by code_simp
  ultimately show ?thesis
    using card_numbers_roundtrip [OF demo_sim_laws, of "''262011234567890''" "''8988211000000530082''" "''262''" "''01''"]
    by simp
qed

text \<open>A hexadecimal string with a gap is filled to exactly the wanted number of bytes: without a dot it is
  unchanged, a single dot is replaced by repetitions of the digit before it (after it at the
  beginning), two dots between whole bytes by repetitions of the byte before them; a string that is already long enough
  is returned as it is.\<close>

theorem expand_hex_fills:
  assumes "CHR ''.'' \<notin> set p" "CHR ''.'' \<notin> set s"
  shows "expand_hex (p @ s) n = Inr (p @ s)"
    "p @ s \<noteq> [] \<Longrightarrow> length p + length s < 2 * n \<Longrightarrow>
      \<exists>t. expand_hex (p @ ''.'' @ s) n = Inr t \<and> length t = 2 * n \<and>
        t = p @ replicate (2 * n - (length p + length s)) (if p = [] then hd s else last p) @ s"
    "p \<noteq> [] \<Longrightarrow> even (length p) \<Longrightarrow> even (length s) \<Longrightarrow> length p + length s < 2 * n \<Longrightarrow>
      \<exists>t. expand_hex (p @ ''..'' @ s) n = Inr t \<and> length t = 2 * n \<and>
        t = p @ concat (replicate (n - (length p + length s) div 2) (last_n 2 p)) @ s"
    "p @ s \<noteq> [] \<Longrightarrow> \<not> length p + length s < 2 * n \<Longrightarrow> expand_hex (p @ ''.'' @ s) n = Inr (p @ ''.'' @ s)"
proof -
  show "expand_hex (p @ s) n = Inr (p @ s)" using assms by (simp add: expand_hex_none)
  show "\<exists>t. expand_hex (p @ ''.'' @ s) n = Inr t \<and> length t = 2 * n \<and>
        t = p @ replicate (2 * n - (length p + length s)) (if p = [] then hd s else last p) @ s"
    if "p @ s \<noteq> []" "length p + length s < 2 * n"
    using expand_hex_digit [OF assms, of n] that by auto
  show "\<exists>t. expand_hex (p @ ''..'' @ s) n = Inr t \<and> length t = 2 * n \<and>
        t = p @ concat (replicate (n - (length p + length s) div 2) (last_n 2 p)) @ s"
    if a: "p \<noteq> []" "even (length p)" "even (length s)" "length p + length s < 2 * n"
  proof -
    have "length (last_n 2 p) = 2" using a(1,2) by (cases p; cases "tl p") (auto simp: last_n_def)
    then have "length (concat (replicate k (last_n 2 p))) = 2 * k" for k by (induction k) simp_all
    then show ?thesis using expand_hex_byte [OF assms a(2,3,1), of n] a by (auto elim!: evenE)
  qed
  show "expand_hex (p @ ''.'' @ s) n = Inr (p @ ''.'' @ s)" if "p @ s \<noteq> []" "\<not> length p + length s < 2 * n"
    using expand_hex_digit [OF assms, of n] that by auto
qed

theorem expand_hex_fills_witness:
  "expand_hex ''00..ff'' 4 = Inr ''000000ff'' \<and> expand_hex ''1.2'' 2 = Inr ''1112''"
proof -
  have "replicate (4 - (length ''00'' + length ''ff'') div 2) (last_n 2 ''00'') = [''00'', ''00'']"
    "replicate (2 * 2 - (length ''1'' + length ''2'')) (if ''1'' = [] then hd ''2'' else last ''1'') = ''11''" by code_simp+
  then show ?thesis
    using expand_hex_fills(3) [of "''00''" "''ff''" 4] expand_hex_fills(2) [of "''1''" "''2''" 2] by simp
qed

text \<open>The documentation promises the unchanged string where expansion is not possible; a lone gap raises or disappears.\<close>

theorem expand_hex_lone_gap:
  "expand_hex ''.'' n = Inl IndexError" "expand_hex ''..'' (Suc n) = Inr []"
proof -
  have "str_parts ''.'' [] ''.'' = [[], []]" "str_parts ''.'' [] ''..'' = [[], [], []]" "str_parts ''..'' [] ''..'' = [[], []]"
    by (simp_all add: str_parts.simps starts_with_def)
  then show "expand_hex ''.'' n = Inl IndexError" "expand_hex ''..'' (Suc n) = Inr []"
    by (simp_all add: expand_hex_def str_count_def str_index_def str_replace_def slice_def nthR_def concat_replicate_trivial)
qed

text \<open>The value for EC-GSM-IoT alone is compared under a mask that it does not fit, so it is never reported without GSM.\<close>

theorem ec_gsm_iot_never_alone:
  "''EC-GSM-IoT'' \<in> set (act_selection u) \<longrightarrow> ''GSM'' \<in> set (act_selection u)"
  "act_selection 0x0088 = []"
proof -
  have "u AND 0x8C \<noteq> 0x86"
  proof
    assume "u AND 0x8C = 0x86"
    then have "bit (u AND 0x8C) 1 = bit (0x86 :: nat) 1" by simp
    then show False by (simp add: bit_and_iff)
  qed
  then have iot: "''EC-GSM-IoT'' \<in> set (act_selection u) \<longrightarrow> u AND 0x8C = 0x80 \<or> u AND 0x8C = 0x8C"
    unfolding act_selection_def Let_def act_list_def by (simp split: if_split)
  show "''EC-GSM-IoT'' \<in> set (act_selection u) \<longrightarrow> ''GSM'' \<in> set (act_selection u)"
  proof
    assume "''EC-GSM-IoT'' \<in> set (act_selection u)"
    then have "u AND 0x8C = 0x80 \<or> u AND 0x8C = 0x8C" using iot by blast
    then show "''GSM'' \<in> set (act_selection u)" unfolding act_selection_def Let_def by (simp only: if_P set_append) simp
  qed
  show "act_selection 0x0088 = []" by (simp add: act_selection_def act_list_def)
qed

text \<open>An administrative PIN is given to the card as 16 hexadecimal digits in either form.\<close>

theorem pin_adm_length:
  assumes "nibble_laws U" "sanitize_pin_adm U pin_adm pin_adm_hex = Inr (Some p)"
  shows "length p = 16"
proof -
  have "length (concat (map (\<lambda>x. hex2_str (of_char x)) q)) = 2 * length q" for q
    by (induction q) (simp_all add: length_hex2)
  with assms show ?thesis by (auto simp: sanitize_pin_adm_def nibble_laws_def split: option.splits if_splits)
qed

end
