(* ===== verification/Sim_Apdu.thy ===== *)
theory Sim_Apdu
  imports Sim_Numbers
begin

text \<open>
  Command APDUs, answers to reset and command sets of \<^verbatim>\<open>pysim/pySim/utils.py\<close> (lines 543-714 and
  1044-1111): the parser of the four cases of ISO/IEC 7816-3, the decomposition of an ATR into its
  fields, and the tables of instructions by code and class.
\<close>

unbundle bit_operations_syntax

section \<open>Command APDUs\<close>

definition parse_command_apdu :: "bytes \<Rightarrow> (nat \<times> nat \<times> nat \<times> bytes) result" where
  "parse_command_apdu apdu =
     (if length apdu = 4 then Inr (1, 0, 0, [])
      else if length apdu = 5 then
        let le0 = unat (apdu ! 4); le = (if le0 = 0 then 256 else le0) in Inr (2, 0, le, [])
      else if length apdu > 5 then
        let lc0 = unat (apdu ! 4); lc = (if lc0 = 0 then 256 else lc0); data = slice 5 (lc + 5) apdu in
        if length apdu = 5 + lc then Inr (3, lc, 0, data)
        else if length apdu = 5 + lc + 1 then
          let le0 = unat (apdu ! (5 + lc)); le = (if le0 = 0 then 256 else le0) in Inr (4, lc, le, data)
        else Inl ValueError
      else Inl ValueError)"

text \<open>The standard's command: header, length and data if there are data, expected length if not 0; a length
  of 256 is written as 0.\<close>

definition iso_apdu :: "bytes \<Rightarrow> bytes \<Rightarrow> nat \<Rightarrow> bytes" where
  "iso_apdu h d le = h @ (if d = [] then [] else of_nat (length d) # d) @ (if le = 0 then [] else [of_nat le])"

definition iso_case :: "bytes \<Rightarrow> nat \<Rightarrow> nat" where
  "iso_case d le = (if d = [] then (if le = 0 then 1 else 2) else (if le = 0 then 3 else 4))"

lemma length_byte: "n \<le> 256 \<Longrightarrow> 0 < n \<Longrightarrow> (if unat (of_nat n :: byte) = 0 then 256 else unat (of_nat n :: byte)) = n"
  by (cases "n = 256") (auto simp: unat_of_nat)

lemma byte_length: "(of_nat (if unat b = 0 then 256 else unat b) :: byte) = b"
proof (cases "unat b = 0")
  case True
  then have "b = 0" by (simp add: unat_eq_0)
  then show ?thesis by simp
qed simp

lemma parse_iso_apdu:
  assumes "length h = 4" "length d \<le> 256" "le \<le> 256"
  shows "parse_command_apdu (iso_apdu h d le) = Inr (iso_case d le, length d, le, d)"
proof -
  have h: "(h @ x # r) ! 4 = x" "drop 5 (h @ x # r) = r" for x r using assms(1) by (simp_all add: nth_append)
  show ?thesis
  proof (cases "d = []")
    case True
    then show ?thesis using assms h(1) length_byte [of le]
      by (auto simp: iso_apdu_def iso_case_def parse_command_apdu_def Let_def)
  next
    case False
    then have d: "0 < length d" by simp
    let ?a = "iso_apdu h d le"
    have a: "?a ! 4 = of_nat (length d)" "drop 5 ?a = d @ (if le = 0 then [] else [of_nat le])"
      "length ?a = 5 + length d + (if le = 0 then 0 else 1)"
      using False h assms(1) by (simp_all add: iso_apdu_def)
    have s: "slice 5 (length d + 5) ?a = d" using a(2) by (simp add: slice_def)
    have le: "?a ! (5 + length d) = of_nat le" if "le \<noteq> 0"
      using a(2,3) that nth_drop [of 5 ?a "length d"] by (simp add: nth_append)
    show ?thesis
      using False assms a(1,3) s le length_byte [OF assms(2) d] length_byte [of le]
      by (auto simp: parse_command_apdu_def iso_case_def Let_def)
  qed
qed

lemma iso_apdu_parsed:
  assumes "parse_command_apdu a = Inr (c, lc, le, d)"
  shows "a = iso_apdu (take 4 a) d le \<and> 4 \<le> length a \<and> length d = lc \<and> lc \<le> 256 \<and> le \<le> 256 \<and> c = iso_case d le"
proof -
  have b: "unat (x :: byte) \<le> 256" for x using unat_byte_lt [of x] by linarith
  have split: "a = take 4 a @ a ! 4 # drop 5 a" if "4 < length a" using id_take_nth_drop [OF that] by simp
  consider (c1) "length a = 4" | (c2) "length a = 5" | (c34) "length a > 5"
    using assms by (auto simp: parse_command_apdu_def split: if_splits)
  then show ?thesis
  proof cases
    case c1
    with assms show ?thesis by (auto simp: parse_command_apdu_def iso_apdu_def iso_case_def)
  next
    case c2
    with assms b split show ?thesis using byte_length [of "a ! 4"]
      by (auto simp: parse_command_apdu_def iso_apdu_def iso_case_def Let_def)
  next
    case c34
    define n where "n = (if unat (a ! 4) = 0 then 256 else unat (a ! 4))"
    have n: "of_nat n = a ! 4" "0 < n" "n \<le> 256" using byte_length [of "a ! 4"] b by (auto simp: n_def)
    from assms c34 have p: "if length a = 5 + n then c = 3 \<and> lc = n \<and> le = 0 \<and> d = slice 5 (n + 5) a
      else length a = 5 + n + 1 \<and> c = 4 \<and> lc = n \<and> d = slice 5 (n + 5) a \<and>
        le = (if unat (a ! (5 + n)) = 0 then 256 else unat (a ! (5 + n)))"
      unfolding parse_command_apdu_def Let_def n_def [symmetric] by (auto split: if_splits)
    show ?thesis
    proof (cases "length a = 5 + n")
      case True
      with p have d: "d = drop 5 a" "length d = n" by (simp_all add: slice_def)
      with True p n c34 split show ?thesis by (auto simp: iso_apdu_def iso_case_def)
    next
      case False
      then have l: "length a = 5 + n + 1" using p by simp
      have "drop 5 a = take n (drop 5 a) @ [a ! (5 + n)]"
        using id_take_nth_drop [of n "drop 5 a"] l by simp
      moreover have d: "d = take n (drop 5 a)" "length d = n" using False p l by (simp_all add: slice_def)
      ultimately show ?thesis using False p n c34 split byte_length [of "a ! (5 + n)"] b
        by (auto simp: iso_apdu_def iso_case_def)
    qed
  qed
qed

text \<open>C35: The parser accepts exactly the commands of the standard and returns their case, lengths and data.\<close>

theorem parse_command_apdu_exact:
  "parse_command_apdu a = Inr (c, lc, le, d) \<longleftrightarrow>
     (\<exists>h. length h = 4 \<and> a = iso_apdu h d le) \<and> length d \<le> 256 \<and> le \<le> 256 \<and> lc = length d \<and> c = iso_case d le"
proof
  assume "parse_command_apdu a = Inr (c, lc, le, d)"
  from iso_apdu_parsed [OF this]
  show "(\<exists>h. length h = 4 \<and> a = iso_apdu h d le) \<and> length d \<le> 256 \<and> le \<le> 256 \<and> lc = length d \<and> c = iso_case d le"
    by (intro conjI exI [of _ "take 4 a"]) auto
next
  assume "(\<exists>h. length h = 4 \<and> a = iso_apdu h d le) \<and> length d \<le> 256 \<and> le \<le> 256 \<and> lc = length d \<and> c = iso_case d le"
  then show "parse_command_apdu a = Inr (c, lc, le, d)" using parse_iso_apdu by auto
qed

section \<open>Answer to reset\<close>

fun atr_pairs :: "string \<Rightarrow> string list result" where
  "atr_pairs (x # y # r) = bindR (atr_pairs r) (\<lambda>l. Inr ([x, y] # l))"
| "atr_pairs [x] = Inl ValueError"
| "atr_pairs [] = Inr []"

definition normalizeATR :: "string \<Rightarrow> int list result" where
  "normalizeATR atr0 =
     bindR (atr_pairs (filter (\<lambda>c. c \<noteq> CHR '' '') (filter (\<lambda>c. c \<noteq> CHR '':'') atr0))) (\<lambda>res.
       mapR (py_int 16) res)"

record atr_iface =
  TA :: "nat \<rightharpoonup> int"
  TB :: "nat \<rightharpoonup> int"
  TC :: "nat \<rightharpoonup> int"
  TD :: "nat \<rightharpoonup> int"
  tck_expected :: bool

definition atr_next :: "int list \<Rightarrow> int \<Rightarrow> int \<Rightarrow> nat \<Rightarrow> (nat \<times> int option) result" where
  "atr_next atr_txt mask_bits TDi pointer =
     (if (TDi OR mask_bits) = 0xFF
      then bindR (nthR atr_txt (pointer + 1)) (\<lambda>v. Inr (pointer + 1, Some v)) else Inr (pointer, None))"

definition put_opt :: "nat \<Rightarrow> int option \<Rightarrow> (nat \<rightharpoonup> int) \<Rightarrow> (nat \<rightharpoonup> int)" where
  "put_opt pn v m = (case v of None \<Rightarrow> m | Some x \<Rightarrow> m(pn \<mapsto> x))"

definition atr_round :: "int list \<Rightarrow> nat \<Rightarrow> nat \<Rightarrow> int \<Rightarrow> atr_iface \<Rightarrow> (nat \<times> int option \<times> atr_iface) result" where
  "atr_round atr_txt pointer pn TDi st =
     bindR (atr_next atr_txt 0xEF TDi pointer) (\<lambda>(p1, ta).
     bindR (atr_next atr_txt 0xDF TDi p1) (\<lambda>(p2, tb).
     bindR (atr_next atr_txt 0xBF TDi p2) (\<lambda>(p3, tc).
     bindR (atr_next atr_txt 0x7F TDi p3) (\<lambda>(p4, td).
       Inr (p4, td, st\<lparr>TA := put_opt pn ta (TA st), TB := put_opt pn tb (TB st), TC := put_opt pn tc (TC st),
         TD := put_opt pn td (TD st),
         tck_expected := (tck_expected st \<or> (case td of None \<Rightarrow> False | Some v \<Rightarrow> v AND 0x0F \<noteq> 0))\<rparr>)))))"

lemma atr_next_pointer: "atr_next xs m d p = Inr (q, v) \<Longrightarrow> (v = None \<and> q = p) \<or> (\<exists>x. v = Some x \<and> q = Suc p \<and> Suc p < length xs \<and> x = xs ! Suc p)"
  by (auto simp: atr_next_def nthR_def split: if_splits)

lemma atr_round_pointer:
  "atr_round xs p pn d st = Inr (q, Some v, st') \<Longrightarrow> p < q \<and> q < length xs"
  unfolding atr_round_def by (auto dest!: atr_next_pointer)

function (sequential) atr_loop :: "int list \<Rightarrow> nat \<Rightarrow> nat \<Rightarrow> int \<Rightarrow> atr_iface \<Rightarrow> (nat \<times> nat \<times> atr_iface) result" where
  "atr_loop atr_txt pointer pn TDi st =
     (if \<not> pointer < length atr_txt then Inr (pointer, pn, st)
      else case atr_round atr_txt pointer pn TDi st of
        Inl e \<Rightarrow> Inl e
      | Inr (p, None, st') \<Rightarrow> Inr (p, pn, st')
      | Inr (p, Some v, st') \<Rightarrow> atr_loop atr_txt p (pn + 1) v st')"
  by pat_completeness auto
termination by (relation "measure (\<lambda>(xs, p, pn, d, st). length xs - p)") (auto dest!: atr_round_pointer)

declare atr_loop.simps [simp del]

record atr = atr_iface +
  atr_list :: "int list"
  TS :: int
  T0 :: int
  hbn :: int
  hb :: "int list"
  TCK :: "int option"
  atr_extra :: "int list option"
  atr_warning :: "string option"

definition atr_truncated :: "nat \<Rightarrow> string" where
  "atr_truncated missing = ''ATR is truncated: '' @ nat_str missing @ '' byte'' @ (if missing > 1 then ''s are missing'' else '' is missing'')"

definition atr_assemble :: "int list \<Rightarrow> nat \<Rightarrow> atr_iface \<Rightarrow> int \<Rightarrow> int \<Rightarrow> atr" where
  "atr_assemble atr_txt pointer st ts t0 =
     (let hb_length = nat (t0 AND 15);
          hbv = slice (pointer + 1) (pointer + 1 + hb_length) atr_txt;
          last0 = pointer + 1 + hb_length;
          tck = (if tck_expected st then Some (if last0 < length atr_txt then atr_txt ! last0 else -1) else None);
          last1 = (if tck_expected st then last0 + 1 else last0)
      in atr_iface.extend st
          \<lparr>atr_list = atr_txt, TS = ts, T0 = t0, hbn = t0 AND 0xF, hb = hbv, TCK = tck,
           atr_extra = (if length atr_txt > last1 then Some (drop last1 atr_txt) else None),
           atr_warning = (if length hbv < hb_length then Some (atr_truncated (hb_length - length hbv)) else None)\<rparr>)"

definition no_iface :: atr_iface where
  "no_iface = \<lparr>TA = Map.empty, TB = Map.empty, TC = Map.empty, TD = Map.empty, tck_expected = False\<rparr>"

definition decomposeATR :: "string \<Rightarrow> atr result" where
  "decomposeATR atr_txt0 =
     bindR (normalizeATR atr_txt0) (\<lambda>atr_txt.
     bindR (nthR atr_txt 0) (\<lambda>ts.
     bindR (nthR atr_txt 1) (\<lambda>t0.
     bindR (atr_loop atr_txt 1 1 t0 no_iface) (\<lambda>(pointer, pn, st).
       Inr (atr_assemble atr_txt pointer st ts t0)))))"

text \<open>The interface bytes of one round in the order in which they are sent, and of consecutive rounds.\<close>

definition opt_list :: "'a option \<Rightarrow> 'a list" where
  "opt_list v = (case v of None \<Rightarrow> [] | Some x \<Rightarrow> [x])"

definition round_bytes :: "('a) atr_iface_scheme \<Rightarrow> nat \<Rightarrow> int list" where
  "round_bytes st pn = opt_list (TA st pn) @ opt_list (TB st pn) @ opt_list (TC st pn) @ opt_list (TD st pn)"

definition rounds_bytes :: "('a) atr_iface_scheme \<Rightarrow> nat \<Rightarrow> nat \<Rightarrow> int list" where
  "rounds_bytes st a b = concat (map (round_bytes st) [a..<b])"

lemma slice_join: "a \<le> b \<Longrightarrow> b \<le> c \<Longrightarrow> slice a b xs @ slice b c xs = slice a c xs"
proof -
  assume "a \<le> b" "b \<le> c"
  then have "c - a = (b - a) + (c - b)" "a + (b - a) = b" by simp_all
  then show ?thesis by (simp only: slice_def take_add drop_drop add.commute)
qed

lemma slice_drop: "a \<le> b \<Longrightarrow> slice a b xs @ drop b xs = drop a xs"
proof -
  assume "a \<le> b"
  then have "drop b xs = drop (b - a) (drop a xs)" by simp
  then show ?thesis by (simp only: slice_def append_take_drop_id)
qed

lemma atr_next_slice:
  "atr_next xs m d p = Inr (q, v) \<Longrightarrow>
     p \<le> q \<and> (p < length xs \<longrightarrow> q < length xs) \<and> slice (Suc p) (Suc q) xs = opt_list v"
  by (drule atr_next_pointer) (auto simp: slice_def opt_list_def take_Suc_conv_app_nth hd_drop_conv_nth take_Suc)

lemma atr_round_slice:
  assumes "atr_round xs p pn d st = Inr (q, td, st')" "p < length xs"
    and "TA st pn = None" "TB st pn = None" "TC st pn = None" "TD st pn = None"
  shows "p \<le> q \<and> q < length xs \<and> slice (Suc p) (Suc q) xs = round_bytes st' pn \<and>
    (\<forall>k. k \<noteq> pn \<longrightarrow> TA st' k = TA st k \<and> TB st' k = TB st k \<and> TC st' k = TC st k \<and> TD st' k = TD st k)"
proof -
  from assms(1) obtain p1 ta p2 tb p3 tc where
    n: "atr_next xs 0xEF d p = Inr (p1, ta)" "atr_next xs 0xDF d p1 = Inr (p2, tb)" "atr_next xs 0xBF d p2 = Inr (p3, tc)"
      "atr_next xs 0x7F d p3 = Inr (q, td)" and st': "TA st' = put_opt pn ta (TA st)" "TB st' = put_opt pn tb (TB st)"
      "TC st' = put_opt pn tc (TC st)" "TD st' = put_opt pn td (TD st)"
    unfolding atr_round_def by auto
  note s = n [THEN atr_next_slice]
  have "slice (Suc p) (Suc q) xs = opt_list ta @ opt_list tb @ opt_list tc @ opt_list td"
    using s slice_join [of "Suc p" "Suc p1" "Suc q" xs] slice_join [of "Suc p1" "Suc p2" "Suc q" xs]
      slice_join [of "Suc p2" "Suc p3" "Suc q" xs] by (metis Suc_le_mono order_trans)
  moreover have "put_opt pn v m pn = v" if "m pn = None" for v m using that by (cases v) (simp_all add: put_opt_def)
  ultimately show ?thesis using s assms(2-6)
    by (auto simp: round_bytes_def st' put_opt_def split: option.splits)
qed

lemma atr_loop_slice:
  assumes "atr_loop xs p pn d st = Inr (q, n, st')" "p < length xs"
    and "\<forall>k \<ge> pn. TA st k = None \<and> TB st k = None \<and> TC st k = None \<and> TD st k = None"
  shows "p \<le> q \<and> q < length xs \<and> pn \<le> n \<and> slice (Suc p) (Suc q) xs = rounds_bytes st' pn (Suc n) \<and>
    (\<forall>k < pn. TA st' k = TA st k \<and> TB st' k = TB st k \<and> TC st' k = TC st k \<and> TD st' k = TD st k)"
  using assms
proof (induction xs p pn d st rule: atr_loop.induct)
  case (1 xs p pn d st)
  then obtain r td st1 where r: "atr_round xs p pn d st = Inr (r, td, st1)"
    by (auto simp: atr_loop.simps [of xs p] split: sum.splits option.splits)
  note R = atr_round_slice [OF r "1.prems"(2)] "1.prems"(3)
  show ?case
  proof (cases td)
    case None
    then have "q = r" "n = pn" "st' = st1" using "1.prems"(1,2) r by (simp_all add: atr_loop.simps [of xs p])
    then show ?thesis using R by (simp add: rounds_bytes_def)
  next
    case (Some v)
    then have l: "atr_loop xs r (pn + 1) v st1 = Inr (q, n, st')" using "1.prems"(1,2) r by (simp add: atr_loop.simps [of xs p])
    have IH: "r \<le> q \<and> q < length xs \<and> pn + 1 \<le> n \<and> slice (Suc r) (Suc q) xs = rounds_bytes st' (pn + 1) (Suc n) \<and>
      (\<forall>k < pn + 1. TA st' k = TA st1 k \<and> TB st' k = TB st1 k \<and> TC st' k = TC st1 k \<and> TD st' k = TD st1 k)"
      using "1.IH" [of "(r, Some v, st1)" r "(Some v, st1)" "Some v" st1 v] r l R "1.prems"(2) Some by auto
    have "round_bytes st' pn = round_bytes st1 pn" using IH by (simp add: round_bytes_def)
    then have "rounds_bytes st' pn (Suc n) = round_bytes st1 pn @ rounds_bytes st' (pn + 1) (Suc n)"
      using IH by (simp add: rounds_bytes_def upt_conv_Cons)
    then show ?thesis using IH R slice_join [of "Suc p" "Suc r" "Suc q" xs] by auto
  qed
qed

text \<open>C36: Decomposing an answer to reset loses nothing. If the text is decomposed, its bytes are the initial character, the
  format byte, the interface bytes of all rounds in order, the historical bytes, the check byte if a protocol other
  than T=0 was offered and the card sent one, and the extra bytes; without a warning there are
  as many historical bytes as the format byte says. The loop always ends.\<close>

theorem atr_reassembled:
  assumes "decomposeATR txt = Inr a"
  shows "normalizeATR txt = Inr (atr_list a) \<and> hbn a = T0 a AND 15 \<and>
    (\<exists>n tck. atr_list a = [TS a, T0 a] @ rounds_bytes a 1 (Suc n) @ hb a @ tck @ concat (opt_list (atr_extra a)) \<and>
      (if tck_expected a then TCK a = Some (if tck = [] then -1 else hd tck) \<and> length tck \<le> 1 else TCK a = None \<and> tck = [])) \<and>
    (atr_warning a = None \<longrightarrow> int (length (hb a)) = hbn a)"
proof -
  from assms obtain xs ts t0 q n st where xs: "normalizeATR txt = Inr xs" "nthR xs 0 = Inr ts" "nthR xs 1 = Inr t0"
    and l: "atr_loop xs 1 1 t0 no_iface = Inr (q, n, st)" and a0: "a = atr_assemble xs q st ts t0"
    unfolding decomposeATR_def bindR_eq_Inr by auto
  define h where "h = nat (t0 AND 15)"
  define k where "k = (if tck_expected st then q + 1 + h + 1 else q + 1 + h)"
  have len: "1 < length xs" "ts = xs ! 0" "t0 = xs ! 1" using xs(2,3) by (auto simp: nthR_def split: if_splits)
  have a: "a = atr_iface.extend st \<lparr>atr_list = xs, TS = ts, T0 = t0, hbn = t0 AND 15,
      hb = slice (q + 1) (q + 1 + h) xs,
      TCK = (if tck_expected st then Some (if q + 1 + h < length xs then xs ! (q + 1 + h) else -1) else None),
      atr_extra = (if length xs > k then Some (drop k xs) else None),
      atr_warning = (if length (slice (q + 1) (q + 1 + h) xs) < h
        then Some (atr_truncated (h - length (slice (q + 1) (q + 1 + h) xs))) else None)\<rparr>"
    unfolding a0 atr_assemble_def Let_def h_def [symmetric] k_def [symmetric] ..
  have none: "\<forall>k \<ge> 1. TA no_iface k = None \<and> TB no_iface k = None \<and> TC no_iface k = None \<and> TD no_iface k = None"
    by (simp add: no_iface_def)
  note L = atr_loop_slice [OF l len(1) none]
  let ?tck = "slice (q + 1 + h) k xs"
  have "TA a = TA st" "TB a = TB st" "TC a = TC st" "TD a = TD st" by (simp_all add: a atr_iface.defs)
  then have rb: "round_bytes a = round_bytes st" by (simp add: fun_eq_iff round_bytes_def)
  have r: "rounds_bytes a 1 (Suc n) = slice 2 (Suc q) xs"
    using L by (simp add: rounds_bytes_def rb numeral_2_eq_2)
  have two: "[ts, t0] @ drop 2 xs = xs" using len by (cases xs; cases "tl xs") auto
  have d: "slice 2 (Suc q) xs @ drop (Suc q) xs = drop 2 xs" using L slice_drop [of 2 "Suc q" xs] by simp
  have e: "slice (q + 1) (q + 1 + h) xs @ drop (q + 1 + h) xs = drop (Suc q) xs" using slice_drop [of "Suc q" "q + 1 + h" xs] by simp
  have f: "?tck @ drop k xs = drop (q + 1 + h) xs" using slice_drop [of "q + 1 + h" k xs] by (simp add: k_def)
  have eq: "xs = [ts, t0] @ rounds_bytes a 1 (Suc n) @ slice (q + 1) (q + 1 + h) xs @ ?tck @ drop k xs"
    unfolding r f e d two ..
  have tck: "?tck = (if tck_expected st \<and> q + 1 + h < length xs then [xs ! (q + 1 + h)] else [])"
    by (auto simp: k_def slice_def take_Suc_conv_app_nth hd_drop_conv_nth take_Suc)
  have fields: "atr_list a = xs" "TS a = ts" "T0 a = t0" "hb a = slice (q + 1) (q + 1 + h) xs" by (simp_all add: a atr_iface.defs)
  have ex: "concat (opt_list (atr_extra a)) = drop k xs" by (simp add: a atr_iface.defs opt_list_def)
  have hbl: "t0 AND 15 = int h" by (simp add: h_def)
  show ?thesis
  proof (intro conjI exI [of _ n] exI [of _ ?tck])
    show "normalizeATR txt = Inr (atr_list a)" "hbn a = T0 a AND 15" using xs by (simp_all add: a atr_iface.defs)
    show "atr_list a = [TS a, T0 a] @ rounds_bytes a 1 (Suc n) @ hb a @ ?tck @ concat (opt_list (atr_extra a))"
      unfolding fields ex using eq .
    show "if tck_expected a then TCK a = Some (if ?tck = [] then -1 else hd ?tck) \<and> length ?tck \<le> 1 else TCK a = None \<and> ?tck = []"
      unfolding tck by (simp add: a atr_iface.defs)
    show "atr_warning a = None \<longrightarrow> int (length (hb a)) = hbn a"
      using hbl by (auto simp: a atr_iface.defs slice_def)
  qed
qed

theorem atr_reassembled_witness:
  "\<exists>a. decomposeATR ''3B A7 00 40 18 80 65 A2 08 01 01 52'' = Inr a \<and> int (length (hb a)) = hbn a"
proof -
  obtain a where a: "decomposeATR ''3B A7 00 40 18 80 65 A2 08 01 01 52'' = Inr a" and w: "atr_warning a = None"
  proof -
    have "(case decomposeATR ''3B A7 00 40 18 80 65 A2 08 01 01 52'' of Inl e \<Rightarrow> False | Inr a \<Rightarrow> atr_warning a = None)" by code_simp
    then show ?thesis using that by (auto split: sum.splits)
  qed
  from atr_reassembled [OF a] w a show ?thesis by blast
qed

section \<open>Command sets\<close>

record card_command =
  cc_name :: string
  cc_ins :: int
  cc_cla_list :: "string list"

definition CardCommand_init :: "string \<Rightarrow> int \<Rightarrow> string list option \<Rightarrow> card_command" where
  "CardCommand_init name ins cla_list =
     \<lparr>cc_name = name, cc_ins = ins, cc_cla_list = map str_lower (case cla_list of None \<Rightarrow> [] | Some l \<Rightarrow> l)\<rparr>"

datatype cla_arg = ClaStr string | ClaInt nat

definition cla_text :: "cla_arg \<Rightarrow> string" where
  "cla_text cla = (case cla of ClaStr s \<Rightarrow> str_lower s | ClaInt n \<Rightarrow> str_lower ((if n < 10 then ''0'' else []) @ nat_str n))"

fun match_cla_loop :: "string \<Rightarrow> string list \<Rightarrow> bool result" where
  "match_cla_loop cla [] = Inr False"
| "match_cla_loop cla (cla_match # rest) =
     bindR (mapR (\<lambda>i. bindR (nthR cla_match i) (\<lambda>m. if m = CHR ''x'' then Inr (CHR ''x'') else nthR cla i)) [0, 1]) (\<lambda>cla_masked.
       if cla_masked = cla_match then Inr True else match_cla_loop cla rest)"

definition match_cla :: "card_command \<Rightarrow> cla_arg \<Rightarrow> bool result" where
  "match_cla c cla = match_cla_loop (cla_text cla) (cc_cla_list c)"

record card_command_set =
  cs_name :: string
  cs_cmds :: "(int \<times> card_command) list"

definition CardCommandSet_init :: "string \<Rightarrow> card_command list \<Rightarrow> card_command_set" where
  "CardCommandSet_init name cmds = \<lparr>cs_name = name, cs_cmds = foldl (\<lambda>d c. dict_set (cc_ins c) c d) [] cmds\<rparr>"

definition cs_getitem :: "card_command_set \<Rightarrow> int \<Rightarrow> card_command result" where
  "cs_getitem s idx = (case map_of (cs_cmds s) idx of None \<Rightarrow> Inl KeyError | Some c \<Rightarrow> Inr c)"

datatype cs_operand = AddCommand card_command | AddSet card_command_set | AddOther

text \<open>The operator changes the set in place and returns nothing.\<close>

definition cs_add :: "cs_operand \<Rightarrow> (card_command_set, unit) comp" where
  "cs_add other s =
     (case other of
        AddCommand c \<Rightarrow>
          if cc_ins c \<in> fst ` set (cs_cmds s) then (Inl ValueError, s)
          else (Inr (), s\<lparr>cs_cmds := dict_set (cc_ins c) c (cs_cmds s)\<rparr>)
      | AddSet o2 \<Rightarrow> (Inr (), s\<lparr>cs_cmds := foldl (\<lambda>d kv. dict_set (fst kv) (snd kv) d) (cs_cmds s) (cs_cmds o2)\<rparr>)
      | AddOther \<Rightarrow> (Inl ValueError, s))"

definition cla_given :: "cla_arg option \<Rightarrow> bool" where
  "cla_given cla = (case cla of None \<Rightarrow> False | Some (ClaStr s) \<Rightarrow> s \<noteq> [] | Some (ClaInt n) \<Rightarrow> n \<noteq> 0)"

definition cs_lookup :: "card_command_set \<Rightarrow> int \<Rightarrow> cla_arg option \<Rightarrow> card_command option result" where
  "cs_lookup s ins cla =
     (case map_of (cs_cmds s) ins of
        None \<Rightarrow> Inr None
      | Some cmd \<Rightarrow>
          if cla_given cla
          then bindR (match_cla cmd (the cla)) (\<lambda>m. Inr (if m then Some cmd else None)) else Inr (Some cmd))"

text \<open>An instruction is added once and is then found, all others stay as they were; a second one of the same code is refused.\<close>

lemma cs_add_lookup:
  assumes "cs_add (AddCommand c) s = (Inr (), s')"
  shows "cs_lookup s (cc_ins c) None = Inr None \<and>
    cs_lookup s' i None = (if i = cc_ins c then Inr (Some c) else cs_lookup s i None) \<and>
    (cc_ins c' = cc_ins c \<longrightarrow> cs_add (AddCommand c') s' = (Inl ValueError, s'))"
proof -
  from assms have s': "s' = s\<lparr>cs_cmds := dict_set (cc_ins c) c (cs_cmds s)\<rparr>" "cc_ins c \<notin> fst ` set (cs_cmds s)"
    by (auto simp: cs_add_def split: if_splits)
  then have "map_of (cs_cmds s) (cc_ins c) = None" by (simp add: map_of_eq_None_iff)
  with s' show ?thesis by (simp add: cs_add_def cs_lookup_def cla_given_def)
qed

text \<open>Numbers are written in decimal, so a class given as a number does not match its own hexadecimal pattern.\<close>

theorem cla_number_decimal:
  "match_cla (CardCommand_init n i (Some [''80''])) (ClaInt 0x80) = Inr False \<and>
   match_cla (CardCommand_init n i (Some [''80''])) (ClaInt 80) = Inr True"
  by code_simp

end
