(* ===== verification/Gp_Scp.thy ===== *)
theory Gp_Scp
  imports Sim_Apdu
begin

text \<open>
  The GlobalPlatform secure channel protocols SCP02 and SCP03 of
  \<^verbatim>\<open>pysim/pySim/global_platform/scp.py\<close>, with the key set of
  \<^verbatim>\<open>global_platform/__init__.py\<close>: derivation of session keys, mutual authentication, protection
  of commands and of responses. A channel object is a record; its methods change the chaining value and the block
  counter. Ciphers and CMAC of package Cryptodome, the length fields of pyosmocom and the construct layouts of
  the INITIALIZE UPDATE response are parameters.
\<close>

unbundle bit_operations_syntax

section \<open>Library\<close>

record iur02 =
  iur2_key_ver :: nat
  iur2_seq_counter :: nat
  iur2_card_challenge :: bytes
  iur2_card_cryptogram :: bytes

record iur03 =
  iur3_key_ver :: nat
  iur3_i_param :: nat
  iur3_card_challenge :: bytes
  iur3_card_cryptogram :: bytes

record scp_lib =
  des_ecb_enc :: "bytes \<Rightarrow> bytes \<Rightarrow> bytes result"
  des_ecb_dec :: "bytes \<Rightarrow> bytes \<Rightarrow> bytes result"
  des3_ecb_enc :: "bytes \<Rightarrow> bytes \<Rightarrow> bytes result"
  des3_cbc_enc :: "bytes \<Rightarrow> bytes \<Rightarrow> bytes \<Rightarrow> bytes result"
  des3_cbc_dec :: "bytes \<Rightarrow> bytes \<Rightarrow> bytes \<Rightarrow> bytes result"
  aes_enc :: "bytes \<Rightarrow> bytes \<Rightarrow> bytes \<Rightarrow> bytes result"
  aes_dec :: "bytes \<Rightarrow> bytes \<Rightarrow> bytes \<Rightarrow> bytes result"
  aes_cmac :: "bytes \<Rightarrow> bytes \<Rightarrow> bytes result"
  strxor :: "bytes \<Rightarrow> bytes \<Rightarrow> bytes result"
  tlv_len_encode :: "nat \<Rightarrow> bytes"
  tlv_len_parse :: "bytes \<Rightarrow> (nat \<times> bytes) result"
  iur02_parse :: "bytes \<Rightarrow> iur02 result"
  iur03_parse :: "nat \<Rightarrow> bytes \<Rightarrow> iur03 result"

text \<open>\<open>bytes([n])\<close>, and an attribute that may not have been assigned yet.\<close>

definition to_byte :: "nat \<Rightarrow> byte result" where
  "to_byte n = (if n < 256 then Inr (of_nat n) else Inl ValueError)"

definition attr :: "'a option \<Rightarrow> 'a result" where
  "attr v = (case v of None \<Rightarrow> Inl AttributeError | Some x \<Rightarrow> Inr x)"

definition modifyS :: "('s \<Rightarrow> 's) \<Rightarrow> ('s, unit) comp" where
  "modifyS f s = (Inr (), f s)"

definition getS :: "('s \<Rightarrow> 'a result) \<Rightarrow> ('s, 'a) comp" where
  "getS f s = (f s, s)"

fun foldR :: "('s \<Rightarrow> 'a \<Rightarrow> 's result) \<Rightarrow> 's \<Rightarrow> 'a list \<Rightarrow> 's result" where
  "foldR f s [] = Inr s"
| "foldR f s (x # xs) = bindR (f s x) (\<lambda>s'. foldR f s' xs)"

section \<open>Keys and padding\<close>

record gp_keyset =
  gk_kvn :: nat
  gk_enc :: bytes
  gk_mac :: bytes
  gk_dek :: bytes

definition GpCardKeyset_init :: "nat \<Rightarrow> bytes \<Rightarrow> bytes \<Rightarrow> bytes \<Rightarrow> gp_keyset result" where
  "GpCardKeyset_init kvn enc mac dek =
     assertR (kvn < 256) (assertR (length enc = length mac \<and> length mac = length dek)
       (Inr \<lparr>gk_kvn = kvn, gk_enc = enc, gk_mac = mac, gk_dek = dek\<rparr>))"

definition GpCardKeyset_from_single_key :: "nat \<Rightarrow> bytes \<Rightarrow> gp_keyset result" where
  "GpCardKeyset_from_single_key kvn base_key = GpCardKeyset_init kvn base_key base_key base_key"

definition scp02_key_derivation :: "scp_lib \<Rightarrow> bytes \<Rightarrow> nat \<Rightarrow> bytes \<Rightarrow> bytes result" where
  "scp02_key_derivation L const counter base_key =
     assertR (length const = 2) (assertR (counter \<le> 65535) (assertR (length base_key = 16)
       (bindR (to_bytes_be 2 counter) (\<lambda>c.
         des3_cbc_enc L base_key (replicate 8 0) (const @ c @ replicate 12 0)))))"

definition pad80 :: "bytes \<Rightarrow> nat \<Rightarrow> bytes" where
  "pad80 s BS = s @ [0x80] @ replicate (BS - 1 - length s mod BS) 0"

definition unpad80 :: "bytes \<Rightarrow> bytes result" where
  "unpad80 padded =
     (let stripped = rstrip_zero padded in
      if stripped = [] then Inl IndexError
      else assertR (last stripped = 0x80) (Inr (butlast stripped)))"

section \<open>SCP02 session keys\<close>

record scp02_keys =
  k2_icv :: "bytes option"
  k2_counter :: nat
  k2_c_mac :: bytes
  k2_r_mac :: bytes
  k2_enc :: bytes
  k2_data_enc :: bytes
  k2_icv_encrypt :: bool

definition Scp02SessionKeys_init :: "scp_lib \<Rightarrow> nat \<Rightarrow> gp_keyset \<Rightarrow> bool \<Rightarrow> scp02_keys result" where
  "Scp02SessionKeys_init L counter card_keys icv_encrypt =
     bindR (scp02_key_derivation L [0x01, 0x01] counter (gk_mac card_keys)) (\<lambda>c_mac.
     bindR (scp02_key_derivation L [0x01, 0x02] counter (gk_mac card_keys)) (\<lambda>r_mac.
     bindR (scp02_key_derivation L [0x01, 0x82] counter (gk_enc card_keys)) (\<lambda>enc.
     bindR (scp02_key_derivation L [0x01, 0x81] counter (gk_dek card_keys)) (\<lambda>data_enc.
       Inr \<lparr>k2_icv = None, k2_counter = counter, k2_c_mac = c_mac, k2_r_mac = r_mac, k2_enc = enc,
         k2_data_enc = data_enc, k2_icv_encrypt = icv_encrypt\<rparr>))))"

definition mac_blocks :: "scp_lib \<Rightarrow> (bytes \<Rightarrow> bytes result) \<Rightarrow> bytes \<Rightarrow> bytes \<Rightarrow> bytes result" where
  "mac_blocks L encr icv padded =
     foldR (\<lambda>h i. bindR (strxor L h (slice (8 * i) (8 * (i + 1)) padded)) encr) icv [0..<length padded div 8]"

definition calc_mac_1des :: "scp_lib \<Rightarrow> bytes \<Rightarrow> bool \<Rightarrow> (scp02_keys, bytes) comp" where
  "calc_mac_1des L data reset_icv k =
     (let e = des_ecb_enc L (take 8 (k2_c_mac k)); d = des_ecb_dec L (drop 8 (k2_c_mac k)) in
      case (bindR (if reset_icv then Inr (replicate 8 0) else (case k2_icv k of None \<Rightarrow> Inl TypeError | Some v \<Rightarrow> Inr v)) (\<lambda>icv.
            bindR (mac_blocks L e icv (pad80 data 8)) (\<lambda>h1.
            bindR (d h1) (\<lambda>h2.
            bindR (e h2) (\<lambda>h.
            bindR (if k2_icv_encrypt k then e h else Inr h) (\<lambda>next. Inr (h, next))))))) of
        Inl err \<Rightarrow> (Inl err, k)
      | Inr (h, next) \<Rightarrow> (Inr h, k\<lparr>k2_icv := Some next\<rparr>))"

definition calc_mac_3des :: "scp_lib \<Rightarrow> scp02_keys \<Rightarrow> bytes \<Rightarrow> bytes result" where
  "calc_mac_3des L k data = mac_blocks L (des3_ecb_enc L (k2_enc k)) (replicate 8 0) (pad80 data 8)"

section \<open>The common part of the protocols\<close>

record scp =
  sc_lchan_nr :: nat
  sc_card_keys :: gp_keyset
  sc_mac_on_unmodified :: bool
  sc_security_level :: nat
  sc_host_challenge :: "bytes option"
  sc_card_challenge :: "bytes option"
  sc_host_cryptogram :: "bytes option"
  sc_card_cryptogram :: "bytes option"

definition kvn_permitted :: "(nat \<times> nat) list \<Rightarrow> nat \<Rightarrow> bool" where
  "kvn_permitted ranges kvn \<longleftrightarrow> kvn = 0 \<or> list_ex (\<lambda>(a, b). a \<le> kvn \<and> kvn \<le> b) ranges"

definition SCP_init :: "(nat \<times> nat) list \<Rightarrow> gp_keyset \<Rightarrow> nat \<Rightarrow> scp result" where
  "SCP_init ranges card_keys lchan_nr =
     (if \<not> kvn_permitted ranges (gk_kvn card_keys) then Inl ValueError
      else Inr \<lparr>sc_lchan_nr = lchan_nr, sc_card_keys = card_keys, sc_mac_on_unmodified = False, sc_security_level = 0,
        sc_host_challenge = None, sc_card_challenge = None, sc_host_cryptogram = None, sc_card_cryptogram = None\<rparr>)"

definition do_cmac :: "('a) scp_scheme \<Rightarrow> bool" where
  "do_cmac s \<longleftrightarrow> sc_security_level s AND 0x01 \<noteq> 0"

definition do_rmac :: "('a) scp_scheme \<Rightarrow> bool" where
  "do_rmac s \<longleftrightarrow> sc_security_level s AND 0x10 \<noteq> 0"

definition do_cenc :: "('a) scp_scheme \<Rightarrow> bool" where
  "do_cenc s \<longleftrightarrow> sc_security_level s AND 0x02 \<noteq> 0"

definition do_renc :: "('a) scp_scheme \<Rightarrow> bool" where
  "do_renc s \<longleftrightarrow> sc_security_level s AND 0x20 \<noteq> 0"

definition scp_cla :: "('a) scp_scheme \<Rightarrow> bool \<Rightarrow> bool \<Rightarrow> nat" where
  "scp_cla s sm b8 =
     (let ret = (if b8 then 0x80 else 0x00); ret' = (if sm then ret OR 0x04 else ret) in ret' + sc_lchan_nr s)"

definition INS_INIT_UPDATE :: byte where "INS_INIT_UPDATE = 0x50"
definition INS_EXT_AUTH :: byte where "INS_EXT_AUTH = 0x82"

section \<open>SCP02\<close>

record scp02 = scp +
  s2_sk :: "scp02_keys option"

definition kvn_ranges_02 :: "(nat \<times> nat) list" where
  "kvn_ranges_02 = [(0x01, 0x01), (0x20, 0x2f), (0x70, 0x70)]"

definition SCP02_init :: "gp_keyset \<Rightarrow> nat \<Rightarrow> scp02 result" where
  "SCP02_init card_keys lchan_nr =
     bindR (SCP_init kvn_ranges_02 card_keys lchan_nr) (\<lambda>s. Inr (scp.extend s \<lparr>s2_sk = None\<rparr>))"

definition dek_encrypt_02 :: "scp_lib \<Rightarrow> scp02 \<Rightarrow> bytes \<Rightarrow> bytes result" where
  "dek_encrypt_02 L s plaintext = des_ecb_enc L (take 8 (gk_dek (sc_card_keys s))) plaintext"

definition dek_decrypt_02 :: "scp_lib \<Rightarrow> scp02 \<Rightarrow> bytes \<Rightarrow> bytes result" where
  "dek_decrypt_02 L s ciphertext = des_ecb_dec L (take 8 (gk_dek (sc_card_keys s))) ciphertext"

text \<open>The session keys as the state of a computation on the channel object.\<close>

definition with_sk_02 :: "(scp02_keys, 'a) comp \<Rightarrow> (scp02, 'a) comp" where
  "with_sk_02 m s =
     (case s2_sk s of
        None \<Rightarrow> (Inl AttributeError, s)
      | Some k \<Rightarrow> (case m k of (r, k') \<Rightarrow> (r, s\<lparr>s2_sk := Some k'\<rparr>)))"

definition compute_cryptograms_02 :: "scp_lib \<Rightarrow> bytes \<Rightarrow> bytes \<Rightarrow> (scp02, unit) comp" where
  "compute_cryptograms_02 L card_challenge host_challenge =
     bindS (with_sk_02 (\<lambda>k. (bindR (to_bytes_be 2 (k2_counter k)) (\<lambda>c. calc_mac_3des L k (c @ card_challenge @ host_challenge)), k)))
       (\<lambda>host_cryptogram.
     bindS (modifyS (\<lambda>s. s\<lparr>sc_host_cryptogram := Some host_cryptogram\<rparr>)) (\<lambda>_.
     bindS (getS (\<lambda>s. attr (sc_host_challenge s))) (\<lambda>hc.
     bindS (with_sk_02 (\<lambda>k. (bindR (to_bytes_be 2 (k2_counter k)) (\<lambda>c. calc_mac_3des L k (hc @ c @ card_challenge)), k)))
       (\<lambda>card_cryptogram.
     modifyS (\<lambda>s. s\<lparr>sc_card_cryptogram := Some card_cryptogram\<rparr>)))))"

definition gen_init_update_apdu_02 :: "bytes \<Rightarrow> (scp02, bytes) comp" where
  "gen_init_update_apdu_02 host_challenge s =
     (let s' = s\<lparr>sc_host_challenge := Some host_challenge\<rparr> in
      (bindR (to_byte (scp_cla s' False True)) (\<lambda>cla. bindR (to_byte (gk_kvn (sc_card_keys s'))) (\<lambda>kvn.
        Inr ([cla, INS_INIT_UPDATE, kvn, 0, 8] @ host_challenge @ [0]))), s'))"

definition parse_init_update_resp_02 :: "scp_lib \<Rightarrow> bytes \<Rightarrow> (scp02, unit) comp" where
  "parse_init_update_resp_02 L resp_bin =
     bindS (liftS (iur02_parse L resp_bin)) (\<lambda>resp.
     bindS (modifyS (\<lambda>s. s\<lparr>sc_card_challenge := Some (iur2_card_challenge resp)\<rparr>)) (\<lambda>_.
     bindS (getS (\<lambda>s. Scp02SessionKeys_init L (iur2_seq_counter resp) (sc_card_keys s) True)) (\<lambda>sk.
     bindS (modifyS (\<lambda>s. s\<lparr>s2_sk := Some sk\<rparr>)) (\<lambda>_.
     bindS (getS (\<lambda>s. attr (sc_host_challenge s))) (\<lambda>hc.
     bindS (compute_cryptograms_02 L (iur2_card_challenge resp) hc) (\<lambda>_.
     getS (\<lambda>s. if sc_card_cryptogram s \<noteq> Some (iur2_card_cryptogram resp) then Inl ValueError else Inr ())))))))"

definition gen_ext_auth_apdu_02 :: "scp_lib \<Rightarrow> nat \<Rightarrow> (scp02, bytes) comp" where
  "gen_ext_auth_apdu_02 L security_level s =
     (if security_level AND 0xf0 \<noteq> 0 then (Inl NotImplementedError, s)
      else
        let s1 = s\<lparr>sc_security_level := security_level\<rparr> in
        bindS (liftS (bindR (to_byte (scp_cla s1 (\<not> sc_mac_on_unmodified s1) True)) (\<lambda>cla.
            bindR (to_byte security_level) (\<lambda>level.
            bindR (attr (sc_host_cryptogram s1)) (\<lambda>hc.
              Inr ([cla, INS_EXT_AUTH, level, 0, if sc_mac_on_unmodified s1 then 8 else 16] @ hc))))))
          (\<lambda>input. bindS (with_sk_02 (calc_mac_1des L input True)) (\<lambda>mac.
          liftS (bindR (to_byte (scp_cla s1 True True)) (\<lambda>cla. bindR (to_byte security_level) (\<lambda>level.
            bindR (attr (sc_host_cryptogram s1)) (\<lambda>hc. Inr ([cla, INS_EXT_AUTH, level, 0, 16] @ hc @ mac))))))) s1)"

definition wrap_inner_02 :: "scp_lib \<Rightarrow> bytes \<Rightarrow> (scp02, bytes) comp" where
  "wrap_inner_02 L apdu s =
     (if \<not> do_cmac s then (Inr apdu, s)
      else bindS (liftS (parse_command_apdu apdu)) (\<lambda>(case_nr, lc0, le0, data).
        if \<not> (lc0 \<le> 256 \<and> le0 \<le> 256) then raiseS AssertionError else
        let lc = lc0 mod 256; cla = unat (apdu ! 0); b8 = cla AND 0x80 \<noteq> 0 in
        if (cla AND 0x03 \<noteq> 0 \<or> cla AND 0x04 \<noteq> 0) \<and> cla \<noteq> scp_cla s False b8 then raiseS AssertionError else
        let mlc = (if sc_mac_on_unmodified s then lc else lc + 8);
            clac = (if sc_mac_on_unmodified s then cla else cla OR 0x04) in
        bindS (liftS (bindR (to_byte clac) (\<lambda>c. bindR (to_byte mlc) (\<lambda>m. Inr ([c] @ slice 1 4 apdu @ [m] @ data))))) (\<lambda>input.
        bindS (with_sk_02 (calc_mac_1des L input False)) (\<lambda>mac.
        bindS (if do_cenc s
               then with_sk_02 (\<lambda>k. (bindR (des3_cbc_enc L (k2_enc k) (replicate 8 0) (pad80 data 8)) (\<lambda>e. Inr (e, length e)), k))
               else retS (data, lc)) (\<lambda>(data', lc').
        liftS (bindR (to_byte (scp_cla s True b8)) (\<lambda>c. bindR (to_byte (lc' + 8)) (\<lambda>l.
          Inr ([c] @ slice 1 4 apdu @ [l] @ data' @ mac @ (if case_nr = 4 \<or> case_nr = 2 then [0] else []))))))))) s)"

definition wrap_cmd_apdu_02 :: "scp_lib \<Rightarrow> bytes \<Rightarrow> (scp02, bytes) comp" where
  "wrap_cmd_apdu_02 L apdu s =
     (case nthR apdu 0 of
        Inl e \<Rightarrow> (Inl e, s)
      | Inr cla \<Rightarrow> if unat cla AND 0x80 \<noteq> 0 then wrap_inner_02 L apdu s else (Inr apdu, s))"

definition unwrap_rsp_apdu_02 :: "bytes \<Rightarrow> bytes \<Rightarrow> scp02 \<Rightarrow> bytes result \<times> scp02" where
  "unwrap_rsp_apdu_02 sw rsp_apdu s = (Inr rsp_apdu, s)"

section \<open>SCP03 session keys\<close>

text \<open>The loop of the key derivation: the counter is one byte, and the loop ends when enough bytes are derived.\<close>

function (sequential) kdf_loop :: "scp_lib \<Rightarrow> bytes \<Rightarrow> bytes \<Rightarrow> bytes \<Rightarrow> bytes \<Rightarrow> nat \<Rightarrow> nat \<Rightarrow> bytes \<Rightarrow> bytes result" where
  "kdf_loop L base_key label l_bytes context output_len i dk =
     (if length dk < output_len \<and> i < 0x10000 then
        bindR (to_byte i) (\<lambda>ib.
        bindR (aes_cmac L base_key (label @ [0] @ l_bytes @ [ib] @ context)) (\<lambda>d.
        if i + 1 > 0xffff then Inl ValueError
        else kdf_loop L base_key label l_bytes context output_len (i + 1) (dk @ d)))
      else Inr (take output_len dk))"
  by pat_completeness auto
termination by (relation "measure (\<lambda>(L, k, lb, l, c, n, i, dk). 0x10000 - i)") auto

declare kdf_loop.simps [simp del]

definition scp03_key_derivation :: "scp_lib \<Rightarrow> bytes \<Rightarrow> bytes \<Rightarrow> bytes \<Rightarrow> nat option \<Rightarrow> bytes result" where
  "scp03_key_derivation L const context base_key l0 =
     (let l = (case l0 of None \<Rightarrow> length base_key * 8 | Some n \<Rightarrow> n); output_len = l div 8 in
      assertR (length const = 1)
        (if 0 < output_len
         then bindR (to_bytes_be 2 l) (\<lambda>lb. kdf_loop L base_key (replicate 11 0 @ const) lb context output_len 1 [])
         else Inr []))"

record scp03_keys =
  k3_enc :: bytes
  k3_mac :: bytes
  k3_rmac :: bytes
  k3_chaining :: bytes
  k3_block_nr :: nat

definition Scp03SessionKeys_init :: "scp_lib \<Rightarrow> gp_keyset \<Rightarrow> bytes \<Rightarrow> bytes \<Rightarrow> scp03_keys result" where
  "Scp03SessionKeys_init L card_keys host_challenge card_challenge =
     (let context = host_challenge @ card_challenge in
      bindR (scp03_key_derivation L [0x04] context (gk_enc card_keys) None) (\<lambda>s_enc.
      bindR (scp03_key_derivation L [0x06] context (gk_mac card_keys) None) (\<lambda>s_mac.
      bindR (scp03_key_derivation L [0x07] context (gk_mac card_keys) None) (\<lambda>s_rmac.
        Inr \<lparr>k3_enc = s_enc, k3_mac = s_mac, k3_rmac = s_rmac, k3_chaining = replicate 16 0, k3_block_nr = 0\<rparr>))))"

definition calc_cmac :: "scp_lib \<Rightarrow> bytes \<Rightarrow> (scp03_keys, bytes) comp" where
  "calc_cmac L apdu k =
     (case aes_cmac L (k3_mac k) (k3_chaining k @ apdu) of
        Inl e \<Rightarrow> (Inl e, k)
      | Inr v \<Rightarrow> (Inr v, k\<lparr>k3_chaining := v\<rparr>))"

definition calc_rmac :: "scp_lib \<Rightarrow> scp03_keys \<Rightarrow> bytes \<Rightarrow> bytes result" where
  "calc_rmac L k rdata_and_sw = aes_cmac L (k3_rmac k) (k3_chaining k @ rdata_and_sw)"

definition get_icv_03 :: "scp_lib \<Rightarrow> bool \<Rightarrow> (scp03_keys, bytes) comp" where
  "get_icv_03 L is_response k0 =
     (let k = (if is_response then k0 else k0\<lparr>k3_block_nr := k3_block_nr k0 + 1\<rparr>) in
      (bindR (to_bytes_be 16 (k3_block_nr k)) (\<lambda>d0.
         let data = (if is_response then 0x80 # drop 1 d0 else d0)
         in aes_enc L (k3_enc k) (replicate 16 0) data), k))"

definition encrypt_03 :: "scp_lib \<Rightarrow> bytes \<Rightarrow> bool \<Rightarrow> (scp03_keys, bytes) comp" where
  "encrypt_03 L data is_response =
     bindS (get_icv_03 L is_response) (\<lambda>icv k. (aes_enc L (k3_enc k) icv data, k))"

definition decrypt_03 :: "scp_lib \<Rightarrow> bytes \<Rightarrow> bool \<Rightarrow> (scp03_keys, bytes) comp" where
  "decrypt_03 L data is_response =
     bindS (get_icv_03 L is_response) (\<lambda>icv k. (aes_dec L (k3_enc k) icv data, k))"

section \<open>SCP03\<close>

record scp03 = scp +
  s3_s_mode :: nat
  s3_sk :: "scp03_keys option"
  s3_i_param :: "nat option"

definition SCP03_init :: "gp_keyset \<Rightarrow> nat \<Rightarrow> nat \<Rightarrow> scp03 result" where
  "SCP03_init card_keys lchan_nr s_mode =
     bindR (SCP_init [(0x30, 0x3f)] card_keys lchan_nr) (\<lambda>s.
       Inr (scp.extend s \<lparr>s3_s_mode = s_mode, s3_sk = None, s3_i_param = None\<rparr>))"

definition dek_encrypt_03 :: "scp_lib \<Rightarrow> scp03 \<Rightarrow> bytes \<Rightarrow> bytes result" where
  "dek_encrypt_03 L s plaintext = aes_enc L (gk_dek (sc_card_keys s)) (replicate 16 0) plaintext"

definition dek_decrypt_03 :: "scp_lib \<Rightarrow> scp03 \<Rightarrow> bytes \<Rightarrow> bytes result" where
  "dek_decrypt_03 L s ciphertext = aes_dec L (gk_dek (sc_card_keys s)) (replicate 16 0) ciphertext"

text \<open>The two methods of the base class, over the cipher of the subclass and its block size.\<close>

definition encrypt_key :: "scp_lib \<Rightarrow> nat \<Rightarrow> (bytes \<Rightarrow> bytes result) \<Rightarrow> bytes \<Rightarrow> bytes result" where
  "encrypt_key L blocksize dek_encrypt key =
     (let num_pad = length key mod blocksize in
      if num_pad \<noteq> 0
      then bindR (dek_encrypt (key @ replicate num_pad 0)) (\<lambda>c. Inr (tlv_len_encode L (length key) @ c))
      else dek_encrypt key)"

definition decrypt_key :: "scp_lib \<Rightarrow> nat \<Rightarrow> (bytes \<Rightarrow> bytes result) \<Rightarrow> bytes \<Rightarrow> bytes result" where
  "decrypt_key L blocksize dek_decrypt encrypted_key =
     (if length encrypted_key mod blocksize \<noteq> 0
      then bindR (dek_decrypt encrypted_key) (\<lambda>decrypted.
           bindR (tlv_len_parse L decrypted) (\<lambda>(key_len, remainder). Inr (take key_len remainder)))
      else dek_decrypt encrypted_key)"

definition compute_cryptograms_03 :: "scp_lib \<Rightarrow> (scp03, unit) comp" where
  "compute_cryptograms_03 L =
     bindS (getS (\<lambda>s. bindR (attr (sc_host_challenge s)) (\<lambda>h. bindR (attr (sc_card_challenge s)) (\<lambda>c. Inr (h @ c))))) (\<lambda>context.
     bindS (getS (\<lambda>s. bindR (attr (s3_sk s)) (\<lambda>k. scp03_key_derivation L [0x00] context (k3_mac k) (Some (s3_s_mode s * 8)))))
       (\<lambda>card_cryptogram.
     bindS (modifyS (\<lambda>s. s\<lparr>sc_card_cryptogram := Some card_cryptogram\<rparr>)) (\<lambda>_.
     bindS (getS (\<lambda>s. bindR (attr (s3_sk s)) (\<lambda>k. scp03_key_derivation L [0x01] context (k3_mac k) (Some (s3_s_mode s * 8)))))
       (\<lambda>host_cryptogram.
     modifyS (\<lambda>s. s\<lparr>sc_host_cryptogram := Some host_cryptogram\<rparr>)))))"

definition gen_init_update_apdu_03 :: "bytes option \<Rightarrow> (scp03, bytes) comp" where
  "gen_init_update_apdu_03 hc0 s =
     (let host_challenge = (case hc0 of None \<Rightarrow> replicate (s3_s_mode s) 0 | Some h \<Rightarrow> h) in
      if length host_challenge \<noteq> s3_s_mode s then (Inl ValueError, s)
      else
        let s' = s\<lparr>sc_host_challenge := Some host_challenge\<rparr> in
        (bindR (to_byte (scp_cla s' False True)) (\<lambda>cla. bindR (to_byte (gk_kvn (sc_card_keys s'))) (\<lambda>kvn.
         bindR (to_byte (length host_challenge)) (\<lambda>l.
          Inr ([cla, INS_INIT_UPDATE, kvn, 0, l] @ host_challenge @ [0])))), s'))"

definition parse_init_update_resp_03 :: "scp_lib \<Rightarrow> bytes \<Rightarrow> (scp03, unit) comp" where
  "parse_init_update_resp_03 L resp_bin =
     bindS (liftS (if length resp_bin \<notin> {10+3+8+8, 10+3+16+16, 10+3+8+8+3, 10+3+16+16+3} then Inl ValueError else Inr ())) (\<lambda>_.
     bindS (getS (\<lambda>s. iur03_parse L (s3_s_mode s) resp_bin)) (\<lambda>resp.
     bindS (modifyS (\<lambda>s. s\<lparr>sc_card_challenge := Some (iur3_card_challenge resp), s3_i_param := Some (iur3_i_param resp)\<rparr>)) (\<lambda>_.
     bindS (getS (\<lambda>s. bindR (attr (sc_host_challenge s)) (\<lambda>h. Scp03SessionKeys_init L (sc_card_keys s) h (iur3_card_challenge resp)))) (\<lambda>sk.
     bindS (modifyS (\<lambda>s. s\<lparr>s3_sk := Some sk\<rparr>)) (\<lambda>_.
     bindS (compute_cryptograms_03 L) (\<lambda>_.
     getS (\<lambda>s. if sc_card_cryptogram s \<noteq> Some (iur3_card_cryptogram resp) then Inl ValueError else Inr ())))))))"

definition with_sk_03 :: "(scp03_keys, 'a) comp \<Rightarrow> (scp03, 'a) comp" where
  "with_sk_03 m s =
     (case s3_sk s of
        None \<Rightarrow> (Inl AttributeError, s)
      | Some k \<Rightarrow> (case m k of (r, k') \<Rightarrow> (r, s\<lparr>s3_sk := Some k'\<rparr>)))"

definition wrap_inner_03 :: "scp_lib \<Rightarrow> bytes \<Rightarrow> bool \<Rightarrow> (scp03, bytes) comp" where
  "wrap_inner_03 L apdu skip_cenc s =
     (if \<not> do_cmac s then (Inr apdu, s)
      else if length apdu < 4 then (Inl IndexError, s)
      else bindS (liftS (parse_command_apdu apdu)) (\<lambda>(case_nr, lc0, le0, cmd_data).
        if \<not> (lc0 \<le> 256 \<and> le0 \<le> 256) then raiseS AssertionError else
        bindS (if do_cenc s \<and> \<not> skip_cenc
               then (if case_nr \<le> 2
                     then bindS (with_sk_03 (\<lambda>k. (Inr (), k\<lparr>k3_block_nr := k3_block_nr k + 1\<rparr>))) (\<lambda>_. retS (cmd_data, lc0 mod 256))
                     else let padded_data = pad80 cmd_data 16; lc = length padded_data in
                       if lc \<ge> 256 then raiseS ValueError
                       else bindS (with_sk_03 (encrypt_03 L padded_data False)) (\<lambda>e. retS (e, lc)))
               else retS (cmd_data, lc0 mod 256)) (\<lambda>(data', lc).
        let mlc = lc + s3_s_mode s in
        if mlc \<ge> 256 then raiseS ValueError
        else
          let apdu1 = [(apdu ! 0 AND 0xF0) OR 0x04, apdu ! 1, apdu ! 2, apdu ! 3, of_nat mlc] @ data' in
          bindS (with_sk_03 (calc_cmac L apdu1)) (\<lambda>cmac.
            retS (apdu1 @ take (s3_s_mode s) cmac @ (if case_nr = 4 \<or> case_nr = 2 then [0] else []))))) s)"

definition wrap_cmd_apdu_03 :: "scp_lib \<Rightarrow> bytes \<Rightarrow> bool \<Rightarrow> (scp03, bytes) comp" where
  "wrap_cmd_apdu_03 L apdu skip_cenc s =
     (case nthR apdu 0 of
        Inl e \<Rightarrow> (Inl e, s)
      | Inr cla \<Rightarrow> if unat cla AND 0x80 \<noteq> 0 then wrap_inner_03 L apdu skip_cenc s else (Inr apdu, s))"

definition gen_ext_auth_apdu_03 :: "scp_lib \<Rightarrow> nat \<Rightarrow> (scp03, bytes) comp" where
  "gen_ext_auth_apdu_03 L security_level s =
     (let s1 = s\<lparr>sc_security_level := security_level\<rparr> in
      bindS (liftS (bindR (to_byte (scp_cla s1 False True)) (\<lambda>cla. bindR (to_byte security_level) (\<lambda>level.
          bindR (to_byte (s3_s_mode s1)) (\<lambda>l. bindR (attr (sc_host_cryptogram s1)) (\<lambda>hc.
            Inr ([cla, INS_EXT_AUTH, level, 0, l] @ hc)))))))
        (\<lambda>apdu. wrap_cmd_apdu_03 L apdu True) s1)"

definition unwrap_rsp_apdu_03 :: "scp_lib \<Rightarrow> bytes \<Rightarrow> bytes \<Rightarrow> (scp03, bytes) comp" where
  "unwrap_rsp_apdu_03 L sw rsp_apdu s =
     (if \<not> do_rmac s then (assertR (\<not> do_renc s) (Inr rsp_apdu), s)
      else bindS (liftS (if sw = [0x90, 0x00] then Inr True else bindR (nthR sw 0) (\<lambda>b. Inr (b \<in> {0x62, 0x63})))) (\<lambda>protected.
        if \<not> protected then retS rsp_apdu
        else
          let response_data = but_last_n (s3_s_mode s) rsp_apdu; rmac = last_n (s3_s_mode s) rsp_apdu in
          bindS (with_sk_03 (\<lambda>k. (calc_rmac L k (response_data @ sw), k))) (\<lambda>rmac_exp.
          if rmac \<noteq> take (s3_s_mode s) rmac_exp then raiseS ValueError
          else if do_renc s
          then bindS (with_sk_03 (decrypt_03 L response_data True)) (\<lambda>decrypted. liftS (unpad80 decrypted))
          else retS response_data)) s)"

end
