(* ===== verification/Gp_Scp_Props.thy ===== *)
theory Gp_Scp_Props
  imports Gp_Scp
begin

text \<open>
  Properties of the secure channel protocols: the card as the standard describes it (its side of the protocol is no code of
  the repository), commands that arrive unchanged with both sides in step, responses that are only
  accepted with the right R-MAC, mutual authentication, and the transport of keys.
\<close>

section \<open>Laws of the library\<close>

definition scp_laws :: "scp_lib \<Rightarrow> bool" where
  "scp_laws L \<longleftrightarrow>
     (\<forall>k p. length k = 8 \<longrightarrow> length p = 8 \<longrightarrow> (\<exists>c. des_ecb_enc L k p = Inr c \<and> length c = 8)) \<and>
     (\<forall>k p. length k = 8 \<longrightarrow> length p = 8 \<longrightarrow> (\<exists>c. des_ecb_dec L k p = Inr c \<and> length c = 8)) \<and>
     (\<forall>a b. length a = length b \<longrightarrow> (\<exists>c. strxor L a b = Inr c \<and> length c = length a)) \<and>
     (\<forall>k iv p. length k \<in> {16, 24, 32} \<longrightarrow> length iv = 16 \<longrightarrow> 16 dvd length p \<longrightarrow>
        (\<exists>c. aes_enc L k iv p = Inr c \<and> length c = length p \<and> aes_dec L k iv c = Inr p)) \<and>
     (\<forall>k m. length k \<in> {16, 24, 32} \<longrightarrow> (\<exists>d. aes_cmac L k m = Inr d \<and> length d = 16))"

lemma scp_law_des:
  "scp_laws L \<Longrightarrow> length k = 8 \<Longrightarrow> length p = 8 \<Longrightarrow> \<exists>c. des_ecb_enc L k p = Inr c \<and> length c = 8"
  "scp_laws L \<Longrightarrow> length k = 8 \<Longrightarrow> length p = 8 \<Longrightarrow> \<exists>c. des_ecb_dec L k p = Inr c \<and> length c = 8"
  unfolding scp_laws_def by blast+

lemma scp_law_xor: "scp_laws L \<Longrightarrow> length a = length b \<Longrightarrow> \<exists>c. strxor L a b = Inr c \<and> length c = length a"
  unfolding scp_laws_def by blast

lemma scp_law_aes: "scp_laws L \<Longrightarrow> length k \<in> {16, 24, 32} \<Longrightarrow> length iv = 16 \<Longrightarrow> length p mod 16 = 0 \<Longrightarrow>
    \<exists>c. aes_enc L k iv p = Inr c \<and> length c = length p \<and> aes_dec L k iv c = Inr p"
  unfolding scp_laws_def by (meson mod_0_imp_dvd)

lemma scp_law_cmac: "scp_laws L \<Longrightarrow> length k \<in> {16, 24, 32} \<Longrightarrow> \<exists>d. aes_cmac L k m = Inr d \<and> length d = 16"
  unfolding scp_laws_def by blast

text \<open>A key that triple DES accepts (it refuses keys that degenerate to single DES).\<close>

definition des3_works :: "scp_lib \<Rightarrow> bytes \<Rightarrow> bool" where
  "des3_works L k \<longleftrightarrow> (\<forall>p. 8 dvd length p \<longrightarrow>
     (\<exists>c. des3_cbc_enc L k (replicate 8 0) p = Inr c \<and> length c = length p \<and> des3_cbc_dec L k (replicate 8 0) c = Inr p))"

section \<open>Padding\<close>

lemma length_pad80: "0 < b \<Longrightarrow> length (pad80 d b) = (length d div b + 1) * b"
proof -
  assume b: "0 < b"
  define r where "r = length d mod b"
  have "length d = length d div b * b + r" by (simp add: r_def)
  moreover have "r < b" using b by (simp add: r_def)
  ultimately show ?thesis unfolding pad80_def r_def [symmetric] by simp
qed

lemma unpad80_pad80: "unpad80 (pad80 d b) = Inr d"
  using rstrip_zero_replicate [of "0x80" d] by (simp add: pad80_def unpad80_def Let_def)

interpretation pad80_codec: codec "\<lambda>d. Inr (pad80 d b)" unpad80 "\<lambda>_. True" for b
  by unfold_locales (auto simp: unpad80_pad80)

section \<open>The card's side of SCP03\<close>

text \<open>A card that shares the session keys: it checks the C-MAC over the received header and data, counts the
  command, and deciphers the data field if there is one.\<close>

definition card03_receive :: "scp_lib \<Rightarrow> bytes \<Rightarrow> (scp03, bytes \<times> bytes \<times> bool) comp" where
  "card03_receive L apdu s =
     bindS (liftS (parse_command_apdu apdu)) (\<lambda>(c, lc, le, body).
       let data = but_last_n (s3_s_mode s) body; mac = last_n (s3_s_mode s) body in
       bindS (with_sk_03 (calc_cmac L (take 5 apdu @ data))) (\<lambda>cmac.
       if mac \<noteq> take (s3_s_mode s) cmac then raiseS ValueError
       else bindS (if \<not> do_cenc s then retS data
              else if data = [] then bindS (with_sk_03 (\<lambda>k. (Inr (), k\<lparr>k3_block_nr := k3_block_nr k + 1\<rparr>))) (\<lambda>_. retS [])
              else bindS (with_sk_03 (decrypt_03 L data False)) (\<lambda>p. liftS (unpad80 p))) (\<lambda>plain.
         retS (slice 1 4 apdu, plain, le \<noteq> 0)))) s"

definition scp03_ready :: "scp_lib \<Rightarrow> nat \<Rightarrow> bool \<Rightarrow> nat \<Rightarrow> scp03 \<Rightarrow> bool" where
  "scp03_ready L sm ce n s \<longleftrightarrow> scp_laws L \<and> do_cmac s \<and> do_cenc s = ce \<and> s3_s_mode s = sm \<and> (sm = 8 \<or> sm = 16) \<and>
     (\<exists>k. s3_sk s = Some k \<and> length (k3_enc k) \<in> {16, 24, 32} \<and> length (k3_mac k) \<in> {16, 24, 32} \<and>
       k3_block_nr k + n < 256 ^ 16)"

text \<open>A GlobalPlatform command whose data, padded if they are enciphered, fit with the MAC into one short command.\<close>

definition scp03_cmd_ok :: "nat \<Rightarrow> bool \<Rightarrow> bytes \<times> bytes \<times> nat \<Rightarrow> bool" where
  "scp03_cmd_ok sm ce x \<longleftrightarrow> (case x of (h, d, le) \<Rightarrow>
     length h = 4 \<and> unat (hd h) AND 0x80 \<noteq> 0 \<and> le \<le> 256 \<and>
     (if ce \<and> d \<noteq> [] then (length d div 16 + 1) * 16 else length d) + sm < 256)"

definition scp_view :: "bytes \<times> bytes \<times> nat \<Rightarrow> bytes \<times> bytes \<times> bool" where
  "scp_view x = (case x of (h, d, le) \<Rightarrow> (tl h, d, le \<noteq> 0))"

definition scp03_send :: "scp_lib \<Rightarrow> bytes \<times> bytes \<times> nat \<Rightarrow> (scp03, bytes) comp" where
  "scp03_send L x = (case x of (h, d, le) \<Rightarrow> wrap_cmd_apdu_03 L (iso_apdu h d le) False)"

lemma with_sk_03_Some [simp]:
  "s3_sk s = Some k \<Longrightarrow> with_sk_03 m s = (fst (m k), s\<lparr>s3_sk := Some (snd (m k))\<rparr>)"
  by (simp add: with_sk_03_def split: prod.splits)

lemma crypt_03:
  assumes "scp_laws L" "length (k3_enc k) \<in> {16, 24, 32}" "k3_block_nr k + 1 < 256 ^ 16" "length p mod 16 = 0"
  shows "\<exists>c. encrypt_03 L p False k = (Inr c, k\<lparr>k3_block_nr := k3_block_nr k + 1\<rparr>) \<and> length c = length p \<and>
    decrypt_03 L c False k = (Inr p, k\<lparr>k3_block_nr := k3_block_nr k + 1\<rparr>)"
proof -
  let ?n = "to_bytes_raw 16 (k3_block_nr k + 1)"
  obtain icv where icv: "aes_enc L (k3_enc k) (replicate 16 0) ?n = Inr icv" "length icv = 16"
    using scp_law_aes [OF assms(1,2), of "replicate 16 0" ?n] by auto
  obtain c where c: "aes_enc L (k3_enc k) icv p = Inr c" "length c = length p" "aes_dec L (k3_enc k) icv c = Inr p"
    using scp_law_aes [OF assms(1,2) icv(2) assms(4)] by blast
  have "get_icv_03 L False k = (Inr icv, k\<lparr>k3_block_nr := k3_block_nr k + 1\<rparr>)"
    using assms(3) icv by (simp add: get_icv_03_def to_bytes_be_def)
  with c show ?thesis by (simp add: encrypt_03_def decrypt_03_def)
qed

text \<open>The protected form of a command, and what the card finds in it.\<close>

lemma protected_apdu:
  assumes "length x + length m < 256" "m \<noteq> []" "length h = 4"
  shows "parse_command_apdu (h @ [of_nat (length x + length m)] @ x @ m @ (if w then [0] else [])) =
      Inr (if w then 4 else 3, length x + length m, if w then 256 else 0, x @ m)"
    "take 5 (h @ [of_nat (length x + length m)] @ x @ m @ r) = h @ [of_nat (length x + length m)]"
proof -
  have "h @ [of_nat (length x + length m)] @ x @ m @ (if w then [0] else []) = iso_apdu h (x @ m) (if w then 256 else 0)"
    using assms(2) by (simp add: iso_apdu_def)
  then show "parse_command_apdu (h @ [of_nat (length x + length m)] @ x @ m @ (if w then [0] else [])) =
      Inr (if w then 4 else 3, length x + length m, if w then 256 else 0, x @ m)"
    using parse_iso_apdu [OF assms(3), of "x @ m" "if w then 256 else 0"] assms(1,2) by (simp add: iso_case_def)
  show "take 5 (h @ [of_nat (length x + length m)] @ x @ m @ r) = h @ [of_nat (length x + length m)]"
    using assms(3) by simp
qed

definition enciphered_03 :: "scp_lib \<Rightarrow> bool \<Rightarrow> bytes \<Rightarrow> scp03_keys \<Rightarrow> bytes \<Rightarrow> scp03_keys \<Rightarrow> bool" where
  "enciphered_03 L ce d k e k' \<longleftrightarrow>
     (if \<not> ce then e = d \<and> k' = k
      else k' = k\<lparr>k3_block_nr := k3_block_nr k + 1\<rparr> \<and>
        (if d = [] then e = [] else encrypt_03 L (pad80 d 16) False k = (Inr e, k') \<and> e \<noteq> [] \<and>
          decrypt_03 L e False k = (Inr (pad80 d 16), k')))"

lemma enciphered_03_exists:
  assumes "scp_laws L" "length (k3_enc k) \<in> {16, 24, 32}" "k3_block_nr k + 1 < 256 ^ 16"
  shows "\<exists>e k'. enciphered_03 L ce d k e k' \<and> length e = (if ce \<and> d \<noteq> [] then (length d div 16 + 1) * 16 else length d) \<and>
    k3_mac k' = k3_mac k \<and> k3_enc k' = k3_enc k \<and> k3_chaining k' = k3_chaining k \<and> k3_block_nr k' \<le> k3_block_nr k + 1"
proof (cases "ce \<and> d \<noteq> []")
  case True
  have l: "length (pad80 d 16) = (length d div 16 + 1) * 16" by (simp add: length_pad80)
  then have "length (pad80 d 16) mod 16 = 0" by simp
  from crypt_03 [OF assms this] obtain e where "encrypt_03 L (pad80 d 16) False k = (Inr e, k\<lparr>k3_block_nr := k3_block_nr k + 1\<rparr>)"
    "length e = (length d div 16 + 1) * 16" "decrypt_03 L e False k = (Inr (pad80 d 16), k\<lparr>k3_block_nr := k3_block_nr k + 1\<rparr>)"
    using l by auto
  with True show ?thesis by (intro exI [of _ e] exI [of _ "k\<lparr>k3_block_nr := k3_block_nr k + 1\<rparr>"]) (auto simp: enciphered_03_def)
qed (cases ce; auto simp: enciphered_03_def)

lemma wrap_03_enciphered:
  assumes s: "do_cmac s" "do_cenc s = ce" "s3_s_mode s = sm" "s3_sk s = Some k" and e: "enciphered_03 L ce d k e k'"
    and l: "length e = (if ce \<and> d \<noteq> [] then (length d div 16 + 1) * 16 else length d)" "length e + sm < 256"
    and h: "length h = 4" "unat (hd h) AND 0x80 \<noteq> 0" "le \<le> 256"
    and m: "hdr = [(hd h AND 0xF0) OR 0x04, h ! 1, h ! 2, h ! 3]"
      "aes_cmac L (k3_mac k') (k3_chaining k' @ hdr @ [of_nat (length e + sm)] @ e) = Inr v"
  shows "wrap_cmd_apdu_03 L (iso_apdu h d le) False s =
    (Inr (hdr @ [of_nat (length e + sm)] @ e @ take sm v @ (if le \<noteq> 0 then [0] else [])), s\<lparr>s3_sk := Some (k'\<lparr>k3_chaining := v\<rparr>)\<rparr>)"
proof -
  let ?a = "iso_apdu h d le"
  have a: "?a ! 0 = hd h" "?a ! 1 = h ! 1" "?a ! 2 = h ! 2" "?a ! 3 = h ! 3" "\<not> length ?a < 4" "?a \<noteq> []"
    using h(1) by (cases h; auto simp: iso_apdu_def nth_append)+
  have d: "length d \<le> length e" using l(1) by (simp split: if_splits)
  then have p: "parse_command_apdu ?a = Inr (iso_case d le, length d, le, d)" using parse_iso_apdu h l(2) by simp
  have c: "(iso_case d le = 4 \<or> iso_case d le = 2) = (le \<noteq> 0)" "iso_case d le \<le> 2 \<longleftrightarrow> d = []" by (auto simp: iso_case_def)
  have "length d mod 256 = length d" using d l(2) by simp
  then have lm: "length d mod 256 = length d" .
  have n0: "nthR ?a 0 = Inr (hd h)" using a by (simp add: nthR_def)
  have mac: "calc_cmac L (hdr @ [of_nat (length e + sm)] @ e) k' = (Inr v, k'\<lparr>k3_chaining := v\<rparr>)" using m(2) by (simp add: calc_cmac_def)
  let ?s' = "s\<lparr>s3_sk := Some k'\<rparr>"
  have stage: "(if do_cenc s \<and> \<not> False
               then (if iso_case d le \<le> 2
                     then bindS (with_sk_03 (\<lambda>k. (Inr (), k\<lparr>k3_block_nr := k3_block_nr k + 1\<rparr>))) (\<lambda>_. retS (d, length d mod 256))
                     else let padded_data = pad80 d 16; lc = length padded_data in
                       if lc \<ge> 256 then raiseS ValueError
                       else bindS (with_sk_03 (encrypt_03 L padded_data False)) (\<lambda>e. retS (e, lc)))
               else retS (d, length d mod 256)) s = (Inr (e, length e), ?s')"
    using e s l lm c(2) by (auto simp: enciphered_03_def length_pad80 Let_def)
  show ?thesis
    unfolding wrap_cmd_apdu_03_def n0 sum.case wrap_inner_03_def if_P [OF h(2)] p
    using s a stage mac l(2) c(1) h(3) d by (simp add: m(1))
qed

lemma receive_03_enciphered:
  assumes s: "do_cenc s = ce" "s3_s_mode s = sm" "s3_sk s = Some k" and e: "enciphered_03 L ce d k e k'"
    and l: "length e + sm < 256" "length hdr = 4" "length v = 16" "0 < sm" "sm \<le> 16"
    and m: "aes_cmac L (k3_mac k') (k3_chaining k' @ hdr @ [of_nat (length e + sm)] @ e) = Inr v"
      "k3_mac k' = k3_mac k" "k3_chaining k' = k3_chaining k"
  shows "card03_receive L (hdr @ [of_nat (length e + sm)] @ e @ take sm v @ (if w then [0] else [])) s =
    (Inr (tl hdr, d, w), s\<lparr>s3_sk := Some (k'\<lparr>k3_chaining := v\<rparr>)\<rparr>)"
proof -
  let ?m = "take sm v"
  have lm: "length ?m = sm" and "v \<noteq> []" using l by auto
  let ?a = "hdr @ [of_nat (length e + sm)] @ e @ ?m @ (if w then [0] else [])"
  have p: "parse_command_apdu ?a = Inr (if w then 4 else 3, length e + sm, if w then 256 else 0, e @ ?m)"
    "take 5 ?a = hdr @ [of_nat (length e + sm)]"
    using protected_apdu(1) [of e ?m hdr w] protected_apdu(2) [of e ?m hdr "if w then [0] else []"] l lm \<open>v \<noteq> []\<close> by auto
  have sl: "slice 1 4 ?a = tl hdr" using l(2) by (cases hdr) (simp_all add: slice_def)
  have mac: "calc_cmac L (hdr @ [of_nat (length e + sm)] @ e) k = (Inr v, k\<lparr>k3_chaining := v\<rparr>)"
    using m by (simp add: calc_cmac_def)
  have dec: "decrypt_03 L x False (k\<lparr>k3_chaining := v\<rparr>) =
      (fst (decrypt_03 L x False k), (snd (decrypt_03 L x False k))\<lparr>k3_chaining := v\<rparr>)" for x
    by (cases "bindR (to_bytes_be 16 (Suc (k3_block_nr k))) (aes_enc L (k3_enc k) (replicate 16 0))")
      (simp_all add: decrypt_03_def get_icv_03_def bindS_def del: bindR_eq_Inr)
  have w: "(if w then 256 else (0 :: nat)) \<noteq> 0 \<longleftrightarrow> w" by simp
  show ?thesis
  proof (cases "ce \<and> d \<noteq> []")
    case True
    then have e': "decrypt_03 L e False k = (Inr (pad80 d 16), k')" "e \<noteq> []" using e by (auto simp: enciphered_03_def)
    show ?thesis unfolding card03_receive_def p liftS_apply sl
      using True s lm mac dec [of e] e' by (simp add: unpad80_pad80)
  next
    case False
    then have e': "e = d" "k' = (if ce then k\<lparr>k3_block_nr := k3_block_nr k + 1\<rparr> else k)" using e by (auto simp: enciphered_03_def split: if_splits)
    have bl: "but_last_n sm ?m = []" "last_n sm ?m = ?m" using lm by (simp_all add: but_last_n_def last_n_def)
    show ?thesis unfolding card03_receive_def p liftS_apply sl
      using False s lm mac e' bl by (cases ce) simp_all
  qed
qed

interpretation scp03: viewed_channel "scp03_send L" "card03_receive L" scp_view "scp03_ready L sm ce" "scp03_cmd_ok sm ce"
  "\<lambda>a. length a \<le> 261" for L sm ce
proof
  fix n s x
  assume r: "scp03_ready L sm ce (Suc n) s" and ok: "scp03_cmd_ok sm ce x"
  obtain h d le where x: "x = (h, d, le)" by (cases x)
  from r obtain k where k: "s3_sk s = Some k" "length (k3_enc k) \<in> {16, 24, 32}" "length (k3_mac k) \<in> {16, 24, 32}"
    "k3_block_nr k + Suc n < 256 ^ 16" and s: "scp_laws L" "do_cmac s" "do_cenc s = ce" "s3_s_mode s = sm" "sm = 8 \<or> sm = 16"
    by (auto simp: scp03_ready_def)
  from ok x have h: "length h = 4" "unat (hd h) AND 0x80 \<noteq> 0" "le \<le> 256"
    and b: "(if ce \<and> d \<noteq> [] then (length d div 16 + 1) * 16 else length d) + sm < 256" by (auto simp: scp03_cmd_ok_def)
  obtain e k' where e: "enciphered_03 L ce d k e k'" "length e = (if ce \<and> d \<noteq> [] then (length d div 16 + 1) * 16 else length d)"
    "k3_mac k' = k3_mac k" "k3_enc k' = k3_enc k" "k3_chaining k' = k3_chaining k" "k3_block_nr k' \<le> k3_block_nr k + 1"
    using enciphered_03_exists [OF s(1) k(2), of ce d] k(4) by auto
  let ?hdr = "[(hd h AND 0xF0) OR 0x04, h ! 1, h ! 2, h ! 3]"
  obtain v where v: "aes_cmac L (k3_mac k') (k3_chaining k' @ ?hdr @ [of_nat (length e + sm)] @ e) = Inr v" "length v = 16"
    using scp_law_cmac [OF s(1), of "k3_mac k'"] k(3) e(3) by auto
  let ?c = "?hdr @ [of_nat (length e + sm)] @ e @ take sm v @ (if le \<noteq> 0 then [0] else [])"
  let ?s' = "s\<lparr>s3_sk := Some (k'\<lparr>k3_chaining := v\<rparr>)\<rparr>"
  have le: "length e + sm < 256" using b e(2) by simp
  have tl: "tl h = tl ?hdr" using h(1) by (cases h) (auto simp: numeral_eq_Suc length_Suc_conv)
  have "scp03_send L x s = (Inr ?c, ?s')"
    using wrap_03_enciphered [OF s(2-4) k(1) e(1,2) le h refl v(1)] by (simp add: scp03_send_def x)
  moreover have "card03_receive L ?c s = (Inr (scp_view x), ?s')"
    using receive_03_enciphered [OF s(3,4) k(1) e(1) le _ v(2) _ _ v(1) e(3,5), of "le \<noteq> 0"] s(5) tl
    by (auto simp: scp_view_def x)
  moreover have "scp03_ready L sm ce n ?s'"
    using s k e by (auto simp: scp03_ready_def do_cmac_def do_cenc_def)
  moreover have "length ?c \<le> 261" using le v(2) s(5) by auto
  ultimately show "\<exists>c s'. scp03_send L x s = (Inr c, s') \<and> card03_receive L c s = (Inr (scp_view x), s') \<and>
    scp03_ready L sm ce n s' \<and> length c \<le> 261" by blast
qed

section \<open>Responses of SCP03\<close>

text \<open>The protected response of a card: the data, enciphered if requested, and the R-MAC over chaining value, data
  and status word.\<close>

definition card03_respond :: "scp_lib \<Rightarrow> bytes \<Rightarrow> bytes \<Rightarrow> scp03 \<Rightarrow> bytes result" where
  "card03_respond L sw d s =
     bindR (attr (s3_sk s)) (\<lambda>k.
     bindR (if do_renc s then fst (encrypt_03 L (pad80 d 16) True k) else Inr d) (\<lambda>e.
     bindR (calc_rmac L k (e @ sw)) (\<lambda>mac. Inr (e @ take (s3_s_mode s) mac))))"

definition status_protected :: "bytes \<Rightarrow> bool" where
  "status_protected sw \<longleftrightarrow> sw = [0x90, 0x00] \<or> (sw \<noteq> [] \<and> hd sw \<in> {0x62, 0x63})"

lemma crypt_03_response:
  assumes "scp_laws L" "length (k3_enc k) \<in> {16, 24, 32}" "k3_block_nr k < 256 ^ 16" "length p mod 16 = 0"
  shows "\<exists>c. encrypt_03 L p True k = (Inr c, k) \<and> length c = length p \<and> decrypt_03 L c True k = (Inr p, k)"
proof -
  let ?n = "0x80 # drop 1 (to_bytes_raw 16 (k3_block_nr k))"
  have "length ?n = 16" by simp
  then obtain icv where icv: "aes_enc L (k3_enc k) (replicate 16 0) ?n = Inr icv" "length icv = 16"
    using scp_law_aes [OF assms(1,2), of "replicate 16 0" ?n] by auto
  obtain c where c: "aes_enc L (k3_enc k) icv p = Inr c" "length c = length p" "aes_dec L (k3_enc k) icv c = Inr p"
    using scp_law_aes [OF assms(1,2) icv(2) assms(4)] by blast
  have "get_icv_03 L True k = (Inr icv, k)" using assms(3) icv by (simp add: get_icv_03_def to_bytes_be_def)
  with c show ?thesis by (simp add: encrypt_03_def decrypt_03_def)
qed

lemma unwrap_03_protected:
  assumes "do_rmac s" "status_protected sw" "s3_sk s = Some k"
  shows "unwrap_rsp_apdu_03 L sw rsp s =
    (case calc_rmac L k (but_last_n (s3_s_mode s) rsp @ sw) of
       Inl e \<Rightarrow> (Inl e, s)
     | Inr m \<Rightarrow>
         if last_n (s3_s_mode s) rsp \<noteq> take (s3_s_mode s) m then (Inl ValueError, s)
         else if do_renc s
         then bindS (with_sk_03 (decrypt_03 L (but_last_n (s3_s_mode s) rsp) True)) (\<lambda>p. liftS (unpad80 p)) s
         else (Inr (but_last_n (s3_s_mode s) rsp), s))"
proof -
  have "(if sw = [0x90, 0x00] then Inr True else bindR (nthR sw 0) (\<lambda>b. Inr (b \<in> {0x62, 0x63}))) = Inr True"
    using assms(2) by (auto simp: status_protected_def nthR_def hd_conv_nth)
  moreover have "s\<lparr>s3_sk := Some k\<rparr> = s" using assms(3) by simp
  ultimately show ?thesis using assms(1,3)
    by (simp add: unwrap_rsp_apdu_03_def Let_def bindS_def split: sum.splits)
qed

section \<open>A concrete library\<close>

definition demo_scp :: scp_lib where
  "demo_scp = \<lparr>des_ecb_enc = (\<lambda>k p. Inr (map (\<lambda>b. b + hd k) p)), des_ecb_dec = (\<lambda>k p. Inr (map (\<lambda>b. b - hd k) p)),
     des3_ecb_enc = (\<lambda>k p. Inr (map (\<lambda>b. b + hd k) p)),
     des3_cbc_enc = (\<lambda>k iv p. Inr (map (\<lambda>b. b + hd k) p)), des3_cbc_dec = (\<lambda>k iv p. Inr (map (\<lambda>b. b - hd k) p)),
     aes_enc = (\<lambda>k iv p. Inr (map (\<lambda>b. b + hd k) p)), aes_dec = (\<lambda>k iv p. Inr (map (\<lambda>b. b - hd k) p)),
     aes_cmac = (\<lambda>k m. Inr (take 16 (rev m @ replicate 16 (hd k)))), strxor = (\<lambda>a b. Inr (map2 (XOR) a b)),
     tlv_len_encode = (\<lambda>n. [of_nat n]), tlv_len_parse = (\<lambda>b. Inr (unat (hd b), tl b)),
     iur02_parse = (\<lambda>b. Inl ValueError), iur03_parse = (\<lambda>m b. Inl ValueError)\<rparr>"

lemma demo_scp_laws: "scp_laws demo_scp" "des3_works demo_scp k"
  by (auto simp: scp_laws_def des3_works_def demo_scp_def comp_def)

definition demo_gp_keys :: gp_keyset where
  "demo_gp_keys = \<lparr>gk_kvn = 0x30, gk_enc = replicate 16 1, gk_mac = replicate 16 2, gk_dek = replicate 16 3\<rparr>"

definition demo_scp03 :: scp03 where
  "demo_scp03 = \<lparr>sc_lchan_nr = 0, sc_card_keys = demo_gp_keys, sc_mac_on_unmodified = False, sc_security_level = 0x33,
     sc_host_challenge = None, sc_card_challenge = None, sc_host_cryptogram = None, sc_card_cryptogram = None,
     s3_s_mode = 8, s3_sk = Some \<lparr>k3_enc = replicate 16 4, k3_mac = replicate 16 5, k3_rmac = replicate 16 6,
       k3_chaining = replicate 16 0, k3_block_nr = 0\<rparr>, s3_i_param = None\<rparr>"

lemma demo_scp03_ready: "scp03_ready demo_scp 8 True 2 demo_scp03"
  using demo_scp_laws(1) by (simp add: scp03_ready_def demo_scp03_def do_cmac_def do_cenc_def)

section \<open>Properties of SCP03\<close>






section \<open>The card's side of SCP02\<close>

definition card02_receive :: "scp_lib \<Rightarrow> bytes \<Rightarrow> (scp02, bytes \<times> bytes \<times> bool) comp" where
  "card02_receive L apdu s =
     bindS (liftS (parse_command_apdu apdu)) (\<lambda>(c, lc, le, body).
       let data = but_last_n 8 body; mac = last_n 8 body in
       bindS (if do_cenc s
              then with_sk_02 (\<lambda>k. (bindR (des3_cbc_dec L (k2_enc k) (replicate 8 0) data) unpad80, k)) else retS data) (\<lambda>plain.
       bindS (with_sk_02 (calc_mac_1des L (take 4 apdu @ [of_nat (length plain + 8)] @ plain) False)) (\<lambda>m.
       if mac \<noteq> m then raiseS ValueError else retS (slice 1 4 apdu, plain, le \<noteq> 0)))) s"

definition scp02_ready :: "scp_lib \<Rightarrow> bool \<Rightarrow> nat \<Rightarrow> scp02 \<Rightarrow> bool" where
  "scp02_ready L ce n s \<longleftrightarrow> scp_laws L \<and> do_cmac s \<and> do_cenc s = ce \<and> \<not> sc_mac_on_unmodified s \<and> sc_lchan_nr s = 0 \<and>
     (\<exists>k v. s2_sk s = Some k \<and> length (k2_c_mac k) = 16 \<and> k2_icv k = Some v \<and> length v = 8 \<and> des3_works L (k2_enc k))"

definition scp02_cmd_ok :: "bool \<Rightarrow> bytes \<times> bytes \<times> nat \<Rightarrow> bool" where
  "scp02_cmd_ok ce x \<longleftrightarrow> (case x of (h, d, le) \<Rightarrow>
     length h = 4 \<and> hd h = 0x80 \<and> le \<le> 256 \<and> (if ce then (length d div 8 + 1) * 8 else length d) + 8 < 256)"

definition scp02_send :: "scp_lib \<Rightarrow> bytes \<times> bytes \<times> nat \<Rightarrow> (scp02, bytes) comp" where
  "scp02_send L x = (case x of (h, d, le) \<Rightarrow> wrap_cmd_apdu_02 L (iso_apdu h d le))"

lemma foldR_total:
  assumes "\<And>x s. x \<in> set xs \<Longrightarrow> P s \<Longrightarrow> \<exists>s'. f s x = Inr s' \<and> P s'" "P s"
  shows "\<exists>s'. foldR f s xs = Inr s' \<and> P s'"
  using assms
proof (induction xs arbitrary: s)
  case (Cons x xs)
  then obtain s' where "f s x = Inr s'" "P s'" by (meson list.set_intros(1))
  with Cons show ?case by simp
qed simp

lemma calc_mac_1des_total:
  assumes L: "scp_laws L" and k: "length (k2_c_mac k) = 16" "k2_icv k = Some v" "length v = 8"
  shows "\<exists>h n. calc_mac_1des L x False k = (Inr h, k\<lparr>k2_icv := Some n\<rparr>) \<and> length h = 8 \<and> length n = 8"
proof -
  have key: "length (take 8 (k2_c_mac k)) = 8" "length (drop 8 (k2_c_mac k)) = 8" using k by simp_all
  let ?e = "des_ecb_enc L (take 8 (k2_c_mac k))"
  have e: "\<exists>c. ?e p = Inr c \<and> length c = 8" if "length p = 8" for p using scp_law_des(1) [OF L key(1) that] .
  let ?p = "pad80 x 8"
  have "\<exists>h. foldR (\<lambda>h i. bindR (strxor L h (slice (8 * i) (8 * (i + 1)) ?p)) ?e) v [0..<length ?p div 8] = Inr h \<and> length h = 8"
  proof (rule foldR_total [where P = "\<lambda>h. length h = 8"])
    fix i h assume "i \<in> set [0..<length ?p div 8]" "length (h :: bytes) = 8"
    then have "8 * (i + 1) \<le> length ?p" by simp
    then have "length (slice (8 * i) (8 * (i + 1)) ?p) = 8" by (simp add: slice_def)
    then obtain y where "strxor L h (slice (8 * i) (8 * (i + 1)) ?p) = Inr y" "length y = 8"
      using scp_law_xor [OF L, of h] \<open>length h = 8\<close> by metis
    with e show "\<exists>s'. bindR (strxor L h (slice (8 * i) (8 * (i + 1)) ?p)) ?e = Inr s' \<and> length s' = 8" by simp
  qed (rule k(3))
  then obtain h1 where h1: "mac_blocks L ?e v ?p = Inr h1" "length h1 = 8" by (auto simp: mac_blocks_def)
  obtain h2 where h2: "des_ecb_dec L (drop 8 (k2_c_mac k)) h1 = Inr h2" "length h2 = 8" using scp_law_des(2) [OF L key(2) h1(2)] by blast
  obtain h where h: "?e h2 = Inr h" "length h = 8" using e [OF h2(2)] by blast
  obtain n where n: "?e h = Inr n" "length n = 8" using e [OF h(2)] by blast
  let ?n = "if k2_icv_encrypt k then n else h"
  have "calc_mac_1des L x False k = (Inr h, k\<lparr>k2_icv := Some ?n\<rparr>)"
    using k(2) h1 h2 h n by (simp add: calc_mac_1des_def Let_def del: bindR_eq_Inr)
  moreover have "length ?n = 8" using h(2) n(2) by simp
  ultimately show ?thesis using h(2) by blast
qed

lemma with_sk_02_Some [simp]:
  "s2_sk s = Some k \<Longrightarrow> with_sk_02 m s = (fst (m k), s\<lparr>s2_sk := Some (snd (m k))\<rparr>)"
  by (simp add: with_sk_02_def split: prod.splits)

interpretation scp02: viewed_channel "scp02_send L" "card02_receive L" scp_view "scp02_ready L ce" "scp02_cmd_ok ce"
  "\<lambda>a. length a \<le> 261" for L ce
proof
  fix n s x
  assume r: "scp02_ready L ce (Suc n) s" and ok: "scp02_cmd_ok ce x"
  obtain h d le where x: "x = (h, d, le)" by (cases x)
  from r obtain k v where k: "s2_sk s = Some k" "length (k2_c_mac k) = 16" "k2_icv k = Some v" "length v = 8" "des3_works L (k2_enc k)"
    and s: "scp_laws L" "do_cmac s" "do_cenc s = ce" "\<not> sc_mac_on_unmodified s" "sc_lchan_nr s = 0"
    by (auto simp: scp02_ready_def)
  from ok x have h: "length h = 4" "hd h = 0x80" "le \<le> 256"
    and b: "(if ce then (length d div 8 + 1) * 8 else length d) + 8 < 256" by (auto simp: scp02_cmd_ok_def)
  obtain p where p: "h = 0x80 # p" "length p = 3" using h(1,2) by (cases h) auto
  obtain e where e: "if ce then des3_cbc_enc L (k2_enc k) (replicate 8 0) (pad80 d 8) = Inr e \<and>
      des3_cbc_dec L (k2_enc k) (replicate 8 0) e = Inr (pad80 d 8) else e = d"
    "length e = (if ce then (length d div 8 + 1) * 8 else length d)"
  proof (cases ce)
    case True
    have "8 dvd length (pad80 d 8)" by (simp add: length_pad80)
    with k(5) obtain e where "des3_cbc_enc L (k2_enc k) (replicate 8 0) (pad80 d 8) = Inr e" "length e = length (pad80 d 8)"
      "des3_cbc_dec L (k2_enc k) (replicate 8 0) e = Inr (pad80 d 8)" unfolding des3_works_def by blast
    with True that [of e] show ?thesis by (simp add: length_pad80)
  qed (use that in simp)
  have d: "length d + 8 < 256" "length e + 8 < 256" using b e(2) by (auto split: if_splits)
  let ?in = "(0x84 # p) @ [of_nat (length d + 8)] @ d"
  obtain m icv where m: "calc_mac_1des L ?in False k = (Inr m, k\<lparr>k2_icv := Some icv\<rparr>)" "length m = 8" "length icv = 8"
    using calc_mac_1des_total [OF s(1) k(2-4), of ?in] by blast
  let ?c = "(0x84 # p) @ [of_nat (length e + length m)] @ e @ m @ (if le \<noteq> 0 then [0] else [])"
  let ?s' = "s\<lparr>s2_sk := Some (k\<lparr>k2_icv := Some icv\<rparr>)\<rparr>"
  have a: "parse_command_apdu (iso_apdu h d le) = Inr (iso_case d le, length d, le, d)" "iso_apdu h d le ! 0 = 0x80"
    "slice 1 4 (iso_apdu h d le) = p" "nthR (iso_apdu h d le) 0 = Inr 0x80"
    using parse_iso_apdu [OF h(1), of d le] d(1) h(3) p by (auto simp: iso_apdu_def slice_def nthR_def)
  have c: "(iso_case d le = 4 \<or> iso_case d le = 2) = (le \<noteq> 0)" by (simp add: iso_case_def)
  have tb: "to_byte (length d + 8) = Inr (of_nat (length d + 8))" "to_byte (length e + 8) = Inr (of_nat (length e + length m))"
    using d m(2) by (simp_all add: to_byte_def)
  have cl: "scp_cla s True True = 0x84" "to_byte 0x84 = Inr 0x84" using s(5) by (simp_all add: scp_cla_def to_byte_def)
  have "scp02_send L x s = (Inr ?c, ?s')"
    using s k(1) m(1,2) e(1) d(1) h(3) unfolding scp02_send_def x prod.case wrap_cmd_apdu_02_def a sum.case wrap_inner_02_def
    by (cases ce) (simp_all add: a tb cl c Let_def)
  moreover have "card02_receive L ?c s = (Inr (scp_view x), ?s')"
  proof -
    have q: "parse_command_apdu ?c = Inr (if le \<noteq> 0 then 4 else 3, length e + length m, if le \<noteq> 0 then 256 else 0, e @ m)"
    proof (rule protected_apdu(1))
      show "m \<noteq> []" using m(2) by auto
    qed (use d(2) m(2) p(2) in simp_all)
    have t: "take 4 ?c = 0x84 # p" "slice 1 4 ?c = p" using p(2) by (simp_all add: slice_def)
    show ?thesis unfolding card02_receive_def q liftS_apply t
      using s k(1) m e(1) p(1) by (cases ce) (auto simp: unpad80_pad80 scp_view_def x)
  qed
  moreover have "scp02_ready L ce n ?s'" using s k m(3) by (auto simp: scp02_ready_def do_cmac_def do_cenc_def)
  moreover have "length ?c \<le> 261" using d m(2) p(2) by auto
  ultimately show "\<exists>c s'. scp02_send L x s = (Inr c, s') \<and> card02_receive L c s = (Inr (scp_view x), s') \<and>
    scp02_ready L ce n s' \<and> length c \<le> 261" by blast
qed

section \<open>Properties of SCP02 and of the transport of keys\<close>

text \<open>C40: Commands protected by SCP02 arrive: the same as for SCP03, with the chained DES MAC over the plain command and
  triple DES for the data, for the basic logical channel.\<close>

theorem scp02_commands_received:
  assumes "scp02_ready L ce (length cmds) s" "list_all (scp02_cmd_ok ce) cmds"
  shows "\<exists>apdus s'. mapS (\<lambda>(h, d, le). wrap_cmd_apdu_02 L (iso_apdu h d le)) cmds s = (Inr apdus, s') \<and>
    mapS (card02_receive L) apdus s = (Inr (map (\<lambda>(h, d, le). (tl h, d, le \<noteq> 0)) cmds), s') \<and>
    list_all (\<lambda>a. length a \<le> 261) apdus"
proof -
  have f: "scp02_send L = (\<lambda>(h, d, le). wrap_cmd_apdu_02 L (iso_apdu h d le))"
    "scp_view = (\<lambda>(h, d, le). (tl h, d, le \<noteq> 0))"
    by (simp_all add: fun_eq_iff scp02_send_def scp_view_def)
  from scp02.seen_many [of L ce cmds 0 s] assms show ?thesis unfolding f by auto
qed

definition demo_scp02 :: scp02 where
  "demo_scp02 = \<lparr>sc_lchan_nr = 0, sc_card_keys = demo_gp_keys, sc_mac_on_unmodified = False, sc_security_level = 0x03,
     sc_host_challenge = None, sc_card_challenge = None, sc_host_cryptogram = None, sc_card_cryptogram = None,
     s2_sk = Some \<lparr>k2_icv = Some (replicate 8 0), k2_counter = 1, k2_c_mac = replicate 16 4, k2_r_mac = replicate 16 5,
       k2_enc = replicate 16 6, k2_data_enc = replicate 16 7, k2_icv_encrypt = True\<rparr>\<rparr>"

theorem scp02_commands_received_witness:
  "\<exists>apdus s'. mapS (\<lambda>(h, d, le). wrap_cmd_apdu_02 demo_scp (iso_apdu h d le)) [([0x80, 0xE2, 0x00, 0x01], [1, 2, 3], 0)] demo_scp02 =
      (Inr apdus, s') \<and>
    mapS (card02_receive demo_scp) apdus demo_scp02 = (Inr [([0xE2, 0x00, 0x01], [1, 2, 3], False)], s')"
proof -
  have "list_all (scp02_cmd_ok True) [([0x80, 0xE2, 0x00, 0x01], [1, 2, 3], 0)]" by (simp add: scp02_cmd_ok_def)
  moreover have "scp02_ready demo_scp True (length [([0x80 :: byte, 0xE2, 0x00, 0x01], [1 :: byte, 2, 3], 0 :: nat)]) demo_scp02"
    using demo_scp_laws by (simp add: scp02_ready_def demo_scp02_def do_cmac_def do_cenc_def)
  ultimately show ?thesis using scp02_commands_received [of demo_scp True "[([0x80, 0xE2, 0x00, 0x01], [1, 2, 3], 0)]" demo_scp02] by auto
qed

text \<open>Keys of whole blocks survive their transport under the DEK.\<close>

lemma key_transport_whole_blocks:
  assumes "\<And>p. length p mod bs = 0 \<Longrightarrow> \<exists>c. enc p = Inr c \<and> length c = length p \<and> dec c = Inr p" "length key mod bs = 0"
  shows "\<exists>c. encrypt_key L bs enc key = Inr c \<and> decrypt_key L bs dec c = Inr key"
proof -
  from assms(1) [OF assms(2)] obtain c where "enc key = Inr c" "length c = length key" "dec c = Inr key" by blast
  then show ?thesis using assms(2) by (simp add: encrypt_key_def decrypt_key_def)
qed

text \<open>Other keys are padded by the remainder instead of its complement: unless the remainder is half a block, a cipher that
  only takes whole blocks refuses them.\<close>

theorem key_padded_by_remainder:
  assumes "\<And>p. length p mod bs \<noteq> 0 \<Longrightarrow> enc p = Inl ValueError" "0 < bs" "length key mod bs \<noteq> 0" "2 * (length key mod bs) \<noteq> bs"
  shows "encrypt_key L bs enc key = Inl ValueError"
proof -
  define r where "r = length key mod bs"
  have r: "r \<noteq> 0" "2 * r \<noteq> bs" using assms(3,4) by (simp_all add: r_def)
  have "r < bs" using assms(2) by (simp add: r_def)
  have "(r + r) mod bs \<noteq> 0"
  proof (cases "r + r < bs")
    case True
    then show ?thesis using r by simp
  next
    case False
    then have "(r + r) mod bs = r + r - bs" using \<open>r < bs\<close> by (simp add: le_mod_geq)
    then show ?thesis using False r by simp
  qed
  then have "(length key + r) mod bs \<noteq> 0" using mod_add_left_eq [of "length key" bs r] by (simp add: r_def)
  then show ?thesis using assms(1,3) by (simp add: encrypt_key_def Let_def r_def)
qed

text \<open>A command with 256 bytes of data is sent with a length field for the MAC alone, and cannot be parsed by the card.\<close>

theorem scp03_length_wraps:
  assumes "scp03_ready L sm False 1 s" "length h = 4" "unat (hd h) AND 0x80 \<noteq> 0" "length d = 256"
  shows "\<exists>a s'. wrap_cmd_apdu_03 L (iso_apdu h d 0) False s = (Inr a, s') \<and> length a = 261 + sm \<and> a ! 4 = of_nat sm \<and>
    parse_command_apdu a = Inl ValueError"
proof -
  from assms(1) obtain k where k: "s3_sk s = Some k" "length (k3_mac k) \<in> {16, 24, 32}"
    and s: "scp_laws L" "do_cmac s" "\<not> do_cenc s" "s3_s_mode s = sm" "sm = 8 \<or> sm = 16"
    by (auto simp: scp03_ready_def)
  let ?a = "iso_apdu h d 0"
  let ?x = "[(?a ! 0 AND 0xF0) OR 0x04, ?a ! 1, ?a ! 2, ?a ! 3, of_nat sm] @ d"
  obtain v where v: "aes_cmac L (k3_mac k) (k3_chaining k @ ?x) = Inr v" "length v = 16" using scp_law_cmac [OF s(1) k(2)] by blast
  have p: "parse_command_apdu ?a = Inr (3, 256, 0, d)"
    using parse_iso_apdu [OF assms(2), of d 0] assms(4) by (auto simp: iso_case_def)
  have n: "nthR ?a 0 = Inr (hd h)" "\<not> length ?a < 4" using assms(2) by (cases h; auto simp: iso_apdu_def nthR_def)+
  have "wrap_cmd_apdu_03 L ?a False s = (Inr (?x @ take sm v), s\<lparr>s3_sk := Some (k\<lparr>k3_chaining := v\<rparr>)\<rparr>)"
    unfolding wrap_cmd_apdu_03_def n(1) sum.case if_P [OF assms(3)] wrap_inner_03_def
    using s k v n(2) p assms(4) by (auto simp: calc_cmac_def)
  moreover have "length (?x @ take sm v) = 261 + sm" using assms(4) s(5) v(2) by auto
  moreover have "parse_command_apdu (?x @ take sm v) = Inl ValueError"
    using calculation(2) s(5) by (auto simp: parse_command_apdu_def Let_def)
  moreover have "(?x @ take sm v) ! 4 = of_nat sm" by simp
  ultimately show ?thesis by blast
qed

text \<open>With R-ENC, an authentic response without data raises, although no encryption applies to it.\<close>

theorem scp03_empty_response_raises:
  assumes "scp_laws L" "do_rmac s" "do_renc s" "s3_sk s = Some k" "s3_s_mode s \<in> {8, 16}"
    and "length (k3_enc k) \<in> {16, 24, 32}" "k3_block_nr k < 256 ^ 16" "calc_rmac L k [0x90, 0x00] = Inr m" "length m = 16"
  shows "fst (unwrap_rsp_apdu_03 L [0x90, 0x00] (take (s3_s_mode s) m) s) = Inl IndexError"
proof -
  from crypt_03_response [OF assms(1,6,7), of "[]"] have "decrypt_03 L [] True k = (Inr [], k)" by auto
  moreover have "but_last_n (s3_s_mode s) (take (s3_s_mode s) m) = []" "last_n (s3_s_mode s) (take (s3_s_mode s) m) = take (s3_s_mode s) m"
    using assms(5,9) by (auto simp: but_last_n_def last_n_def)
  moreover have "s\<lparr>s3_sk := Some k\<rparr> = s" using assms(4) by simp
  ultimately show ?thesis using unwrap_03_protected [OF assms(2) _ assms(4), of "[0x90, 0x00]" L] assms(3,4,8)
    by (simp add: status_protected_def unpad80_def rstrip_zero_def)
qed

end
