(* ===== verification/Spec2Isabelle.thy ===== *)
theory Spec2Isabelle
  imports Es8p Saip_Keys Saip_Validation Smdpp_Notify Lpa_Props Process_Manager Ota Gp_Scp_Props
begin

text \<open>
  A verification library for \<^emph>\<open>virtual-rsp\<close>, a complete remote SIM provisioning system: an SM-DP+ server
  (\<^verbatim>\<open>src/pysim/osmo-smdpp.py\<close>) on top of the eSIM library of pySim
  (\<^verbatim>\<open>src/pysim/pySim/esim\<close>), a profile database and service wrappers for a virtual eUICC
  (\<^verbatim>\<open>src/gui/services\<close>, \<^verbatim>\<open>src/mno/services\<close>), and the short message and OTA layers of
  pySim. The model is a shallow embedding: methods are functions on records, exceptions are values of
  the sum type \<open>py_error + 'a\<close>, code that changes an object and may raise half way is a
  state-and-error computation (type \<open>comp\<close> of the prelude), which keeps the changes made before the
  exception.

  \<^bold>\<open>Shared theories.\<close>
  \<^item> \<open>Vrsp_Prelude\<close>: bytes as 8-bit words, Python slices, \<open>int.to_bytes\<close> and \<open>int.from_bytes\<close>, exceptions, the two
    monads and their rules.
  \<^item> \<open>Py_Std\<close>: dynamic values, ASCII text functions, decimal and hexadecimal numerals, base64, JSON.
  \<^item> \<open>Ext_Libs\<close>: one record of functions per third-party package (pyosmocom, cryptography, Cryptodome,
    asn1tools), with the documented behaviour the code relies on as a predicate. Theorems that need it have it as a hypothesis,
    and their witnesses instantiate the record by concrete functions.

  \<^bold>\<open>eSIM library.\<close>
  \<^item> \<open>Esim_Codes\<close> (\<^verbatim>\<open>esim/__init__.py\<close>): profile management operations and activation codes; round
    trips.
  \<^item> \<open>Bsp\<close> (\<^verbatim>\<open>esim/bsp.py\<close>): the protection protocol. State: block number and MAC chaining value;
    the segments written by one end are read by the other and leave both in the same state.
  \<^item> \<open>X509_Cert\<close> (\<^verbatim>\<open>esim/x509_cert.py\<close>): certificate sets, the chain loop (equivalent to an inductive
    chain of verified signatures), TR-03111 signatures.
  \<^item> \<open>Rsp_Asn1\<close>, \<open>Rsp_Session\<close> (\<^verbatim>\<open>esim/rsp.py\<close>): decoded messages, session state with its pickling, the
    two session stores as a refinement of a map (locale \<open>session_map\<close>), the signed sections of messages.
  \<^item> \<open>Es8p\<close> (\<^verbatim>\<open>esim/es8p.py\<close>): unprotected, protected and bound profile packages. The eUICC's decoder
    returns the bytes the server's encoder was given, through the key agreement and BSP.
  \<^item> \<open>Saip_Oid\<close>, \<open>Saip_Pes\<close>, \<open>Saip_Keys\<close>, \<open>Saip_Validation\<close> (\<^verbatim>\<open>esim/saip\<close>): template OIDs,
    profile element sequences with their indexes and numbering, an object store because elements are shared,
    keys, PIN and PUK, parsing and printing of profile files, the constraint checkers against a declarative
    statement of the rules.

  \<^bold>\<open>SM-DP+ server\<close> (\<^verbatim>\<open>osmo-smdpp.py\<close>).
  \<^item> \<open>Smdpp_Util\<close>: the repaired OID decoder, headers, EUM certificate variants and EID ranges.
  \<^item> \<open>Smdpp_History\<close>: the download history and its JSON file, which a failing write leaves cut off.
  \<^item> \<open>Smdpp_Server\<close>: the server state and the five ES9+ functions, each with its whole sequence of checks and
    changes. \<open>Smdpp_Safety\<close>: what success of each implies, and the invariant of all states reachable by requests
    (an inductive step relation). \<open>Smdpp_Props\<close>: the properties with witnesses on the environment
    of \<open>Smdpp_Demo\<close>.
  \<^item> \<open>Smdpp_Http\<close>, \<open>Smdpp_Notify\<close>: construction, dispatch, error responses, the operator's endpoints, and the
    properties of notifications, paths and statistics.

  \<^bold>\<open>Services of the virtual eUICC.\<close>
  \<^item> \<open>Profile_Store\<close>, \<open>Profile_Store_Props\<close> (\<^verbatim>\<open>gui/services/profile_store.py\<close>): the JSON database. Its
    operations refine the abstract machine of SGP.22 (a list of profiles, at most one enabled), failures
    of the file system leave it unchanged, and two interleaved writers lose an update.
  \<^item> \<open>Lpa_Services\<close>, \<open>Lpa_Props\<close> (\<^verbatim>\<open>gui/services/lpa_service.py\<close>, \<^verbatim>\<open>mno/services/lpa_command.py\<close>): the
    commands over lpac and the database; the contract of the database is the locale \<open>profile_database\<close>, interpreted on
    the model of the JSON file.
  \<^item> \<open>Process_Manager\<close> (\<^verbatim>\<open>gui/services/process_manager.py\<close>): starting and stopping the backend processes over
    arbitrary outcomes of the operating system.

  \<^bold>\<open>Short messages and OTA.\<close>
  \<^item> \<open>Sms_Tpdu\<close> (\<^verbatim>\<open>pySim/sms.py\<close>): user data headers, addresses, SMS-DELIVER and SMS-SUBMIT and their SMPP
    forms. \<open>Ota\<close> (\<^verbatim>\<open>pySim/ota.py\<close>): secured command and response packets.

  \<^bold>\<open>Bounds and loops.\<close> Every loop of the source is a structural recursion or a \<open>function\<close> with a termination proof; the
  only counters are the source's own (the maximal chain length of \<open>verify_cert_chain\<close>, the polls of
  \<open>stop_process\<close>). Numbers that the source puts into fixed numbers of bytes raise \<open>OverflowError\<close> in the model where
  Python does.

  \<^bold>\<open>Not modelled.\<close> The declarative tables of card files (\<^verbatim>\<open>ts_31_102.py\<close>, \<^verbatim>\<open>ts_51_011.py\<close>,
  \<^verbatim>\<open>cat.py\<close> and others) are data for the construct package, which is not part of the repository; the
  readers and shells are input and output; the windows of the graphical front ends are Qt code; the C programs
  (lpac, v-euicc) are other languages. The file objects of SAIP elements, the personalisation of profiles and the card file
  system of pySim remain to be modelled.
\<close>

end
